(* ===== verification/Prelude.thy ===== *)
theory Prelude
  imports "HOL-Library.Word" "HOL-Library.State_Monad"
begin

text \<open>
  Shared vocabulary of the development: the fixed-width integers of the C++ and Verilog
  sources, the Verilog part-select, replication and concatenation operators, the C++
  counting loop, and the generic lemmas about words, lists and the state monad that the
  component theories use.
\<close>

unbundle bit_operations_syntax

section \<open>Integer types\<close>

type_synonym u8 = "8 word"
type_synonym u16 = "16 word"
type_synonym u32 = "32 word"
type_synonym u64 = "64 word"

section \<open>Lemma collections\<close>

named_theorems rtl_simps \<open>unfolding rules of combinational and sequential RTL blocks\<close>
named_theorems tb_wp \<open>symbolic execution rules of the test bench monad\<close>
named_theorems tb_data \<open>definitions of enumerators and test tables\<close>

section \<open>Verilog operators\<close>

text \<open>Part select \<open>x[hi:lo]\<close>, read at the width of the context.\<close>

definition vbits :: "nat \<Rightarrow> nat \<Rightarrow> 'a::len word \<Rightarrow> 'b::len word" where
  "vbits hi lo x = ucast (take_bit (Suc hi - lo) (drop_bit lo x))"

text \<open>Replication \<open>{n{b}}\<close> of one bit, at the width of the context.\<close>

definition vrep :: "bool \<Rightarrow> 'a::len word" where
  "vrep b = (if b then - 1 else 0)"

text \<open>A one-bit wire used as a number.\<close>

definition vbool :: "bool \<Rightarrow> 'a::len word" where
  "vbool b = (if b then 1 else 0)"

text \<open>Assignment to a part select: \<open>x[hi:lo] <= v\<close>.\<close>

definition vput :: "nat \<Rightarrow> nat \<Rightarrow> 'b::len word \<Rightarrow> 'a::len word \<Rightarrow> 'a word" where
  "vput hi lo v x =
     (x AND NOT (push_bit lo (mask (Suc hi - lo)))) OR push_bit lo (ucast (take_bit (Suc hi - lo) v))"

lemma bit_vput [bit_simps]:
  "bit (vput hi lo (v::'b::len word) (x::'a::len word)) n
     \<longleftrightarrow> n < LENGTH('a) \<and> (if lo \<le> n \<and> n < lo + (Suc hi - lo) then bit v (n - lo) else bit x n)"
  by (auto simp: vput_def bit_simps less_diff_conv2)

lemma bit_vbits [bit_simps]:
  "bit (vbits hi lo (x::'a::len word) :: 'b::len word) n
     \<longleftrightarrow> n < LENGTH('b) \<and> n < Suc hi - lo \<and> bit x (lo + n)"
  by (auto simp: vbits_def bit_simps dest: bit_imp_le_length)

lemma bit_vrep [bit_simps]:
  "bit (vrep b :: 'a::len word) n \<longleftrightarrow> n < LENGTH('a) \<and> b"
  by (auto simp: vrep_def bit_simps)

lemma bit_vbool [bit_simps]:
  "bit (vbool b :: 'a::len word) n \<longleftrightarrow> n = 0 \<and> b"
  by (auto simp: vbool_def bit_simps)

lemma vbool_simps [simp]: "vbool True = 1" "vbool False = 0"
  by (simp_all add: vbool_def)

lemma vrep_simps [simp]: "vrep True = - 1" "vrep False = 0"
  by (simp_all add: vrep_def)

section \<open>Words\<close>

text \<open>Quantification over the bit positions of a word, written out.\<close>

lemma all_less_Suc_conv: "(\<forall>n < Suc m. P n) \<longleftrightarrow> P m \<and> (\<forall>n < m. P n)"
  by (auto simp: less_Suc_eq)

lemma all_less_numeral:
  "(\<forall>n < numeral k. P n) \<longleftrightarrow> P (pred_numeral k) \<and> (\<forall>n < pred_numeral k. P n)"
  unfolding numeral_eq_Suc by (rule all_less_Suc_conv)

lemma word_eq_iff_bits:
  "(x :: 'a::len word) = y \<longleftrightarrow> (\<forall>n < LENGTH('a). bit x n \<longleftrightarrow> bit y n)"
  by (auto intro: bit_word_eqI)

lemma ucast_up_eq_iff:
  assumes "LENGTH('a) \<le> LENGTH('b)"
  shows "(ucast (x :: 'a::len word) :: 'b::len word) = ucast y \<longleftrightarrow> x = y"
proof
  assume eq: "(ucast x :: 'b word) = ucast y"
  show "x = y"
  proof (rule bit_word_eqI)
    fix n assume n: "n < LENGTH('a)"
    from eq have "bit (ucast x :: 'b word) n = bit (ucast y :: 'b word) n" by simp
    with n assms show "bit x n = bit y n" by (simp add: bit_ucast_iff)
  qed
qed simp

lemma ucast_u32_u64_eq [simp]: "(ucast (x :: u32) :: u64) = ucast y \<longleftrightarrow> x = y"
  by (rule ucast_up_eq_iff) simp

lemma unat_ucast_up:
  assumes "LENGTH('a) \<le> LENGTH('b)"
  shows "unat (ucast (x :: 'a::len word) :: 'b::len word) = unat x"
proof -
  have "unat x < 2 ^ LENGTH('b)"
    using unsigned_less [of x] assms by (metis order_less_le_trans one_le_numeral power_increasing)
  then show ?thesis by (simp add: unsigned_ucast_eq unsigned_take_bit_eq take_bit_nat_eq_self)
qed

lemma bit_beyond [simp]: "LENGTH('a) \<le> n \<Longrightarrow> bit (x :: 'a::len word) n = False"
  using bit_imp_le_length by fastforce

lemma word2_exhaust: "z \<noteq> 1 \<Longrightarrow> z \<noteq> 2 \<Longrightarrow> z \<noteq> 3 \<Longrightarrow> z = (0 :: 2 word)"
proof -
  have "unat z < 4" using unsigned_less [of z] by simp
  then show "z \<noteq> 1 \<Longrightarrow> z \<noteq> 2 \<Longrightarrow> z \<noteq> 3 \<Longrightarrow> z = 0" by (simp add: word_unat_eq_iff)
qed

lemma word3_exhaust:
  obtains "f3 = 0" | "f3 = 1" | "f3 = 2" | "f3 = 3" | "f3 = 4" | "f3 = 5" | "f3 = 6" | "f3 = (7 :: 3 word)"
proof -
  have "unat f3 < 8" using unsigned_less [of f3] by simp
  then have "unat f3 \<in> {0, 1, 2, 3, 4, 5, 6, 7}" by auto
  then show ?thesis using that by (auto simp: word_unat_eq_iff)
qed

lemma ucast_ucast_up:
  "LENGTH('a) \<le> LENGTH('b) \<Longrightarrow> (ucast (ucast (x :: 'a::len word) :: 'b::len word) :: 'c::len word) = ucast x"
  using bit_imp_le_length [of x] by (intro bit_word_eqI) (auto simp: bit_simps intro: order.strict_trans2)

lemma ucast_ucast_le:
  assumes "unat (x :: 'a::len word) < 2 ^ LENGTH('b)"
  shows "ucast (ucast x :: 'b::len word) = x"
proof -
  have "take_bit LENGTH('b) (unat x) = unat x"
    using assms by (simp add: take_bit_nat_eq_self)
  then have "take_bit LENGTH('b) x = x"
    by (metis unsigned_take_bit_eq word_unat_eq_iff)
  then have "bit (take_bit LENGTH('b) x) n = bit x n" for n by simp
  then have "bit x n \<Longrightarrow> n < LENGTH('b)" for n unfolding bit_take_bit_iff by blast
  then show ?thesis by (auto intro!: bit_word_eqI simp: bit_simps)
qed

section \<open>Counters read in halves\<close>

text \<open>
  A 64-bit counter read in two halves, the high one \<open>e\<close> steps after the low one: the value of the
  first read, unless a carry into the high half came between.
\<close>

lemma word_split_32:
  fixes s :: u64
  shows "s = push_bit 32 (drop_bit 32 s) + take_bit 32 s"
proof -
  have "s = push_bit 32 (drop_bit 32 s) OR take_bit 32 s"
    by (rule bit_word_eqI) (auto simp: bit_simps)
  also have "\<dots> = push_bit 32 (drop_bit 32 s) + take_bit 32 s"
    by (rule disjunctive_add [symmetric]) (auto simp: bit_simps)
  finally show ?thesis .
qed

lemma carry_32:
  fixes n e :: nat
  assumes lt: "n < 2 ^ 64" and e: "e \<le> 2 ^ 32" and ne: "n div 2 ^ 32 \<noteq> ((n + e) mod 2 ^ 64) div 2 ^ 32"
  shows "((n + e) mod 2 ^ 64) div 2 ^ 32 = (n div 2 ^ 32 + 1) mod 2 ^ 32"
proof -
  define q where "q = n div 2 ^ 32"
  have mod: "k mod 2 ^ 32 < 2 ^ 32" for k :: nat by simp
  define h where "h = (n + e) div 2 ^ 32"
  have q: "q * 2 ^ 32 \<le> n" "n < q * 2 ^ 32 + 2 ^ 32"
    unfolding q_def using div_mult_mod_eq [of n "2 ^ 32"] mod [of n] by linarith+
  have h: "h * 2 ^ 32 \<le> n + e" "n + e < h * 2 ^ 32 + 2 ^ 32"
    unfolding h_def using div_mult_mod_eq [of "n + e" "2 ^ 32"] mod [of "n + e"] by linarith+
  show ?thesis
  proof (cases "n + e < 2 ^ 64")
    case True
    then have "q \<noteq> h" using ne by (simp add: q_def h_def)
    then have "h = q + 1" "q + 1 < 2 ^ 32" using q h e True by simp_all
    then show ?thesis using True unfolding q_def h_def by simp
  next
    case False
    then have "(n + e) mod 2 ^ 64 = n + e - 2 ^ 64" using lt e by (simp add: le_mod_geq)
    then have "((n + e) mod 2 ^ 64) div 2 ^ 32 = 0" using lt e by simp
    moreover have "q = 2 ^ 32 - 1" using q lt e False by simp
    ultimately show ?thesis unfolding q_def by simp
  qed
qed

lemma torn_read:
  fixes s e :: u64
  assumes e: "e \<le> 2 ^ 32"
  shows "push_bit 32 (ucast (vbits 63 32 (s + e) :: u32)) OR ucast (vbits 31 0 s :: u32)
    = (if drop_bit 32 s = drop_bit 32 (s + e) then s else s + 2 ^ 32)"
proof -
  let ?hi = "drop_bit 32 (s + e)"
  have "push_bit 32 (ucast (vbits 63 32 (s + e) :: u32)) OR ucast (vbits 31 0 s :: u32)
      = push_bit 32 ?hi OR take_bit 32 s"
    by (rule bit_word_eqI) (auto simp: bit_simps)
  also have "\<dots> = push_bit 32 ?hi + take_bit 32 s"
    by (rule disjunctive_add [symmetric]) (auto simp: bit_simps)
  finally have r: "push_bit 32 (ucast (vbits 63 32 (s + e) :: u32)) OR ucast (vbits 31 0 s :: u32)
      = push_bit 32 ?hi + take_bit 32 s" .
  have "push_bit 32 ?hi = push_bit 32 (drop_bit 32 s) + 2 ^ 32" if "drop_bit 32 s \<noteq> ?hi"
  proof -
    have u: "unat (drop_bit 32 x) = unat x div 2 ^ 32" for x :: u64
      unfolding unat_drop_bit_eq by (rule drop_bit_eq_div)
    have s3: "unat (s + e) = (unat s + unat e) mod 2 ^ 64"
      by (simp add: unat_word_ariths)
    have lt: "unat s < 2 ^ 64" using unsigned_less [of s] by simp
    have "unat s div 2 ^ 32 \<noteq> unat (s + e) div 2 ^ 32"
      using that by (metis u word_unat_eq_iff)
    then have "unat (s + e) div 2 ^ 32 = (unat s div 2 ^ 32 + 1) mod 2 ^ 32"
      unfolding s3 using e by (intro carry_32 [OF lt]) (simp_all add: word_le_nat_alt)
    then have hi: "unat ?hi = (unat (drop_bit 32 s) + 1) mod 2 ^ 32"
      by (simp only: u)
    have p: "unat (push_bit 32 x) = (unat x * 2 ^ 32) mod 2 ^ 64" for x :: u64
      unfolding push_bit_eq_mult unat_word_ariths by simp
    have N: "((H + 1) mod N * N) mod (N * N) = (H * N + N) mod (N * N)" for H N :: nat
      by (metis add_mult_distrib mod_mod_trivial mult_1 mult_mod_left)
    have sq: "(2 :: nat) ^ 64 = 2 ^ 32 * 2 ^ 32" by simp
    have "unat (push_bit 32 ?hi) = (unat (drop_bit 32 s) * 2 ^ 32 + 2 ^ 32) mod 2 ^ 64"
      unfolding p hi sq by (rule N)
    also have "\<dots> = unat (push_bit 32 (drop_bit 32 s) + 2 ^ 32)"
      unfolding unat_word_ariths(1) p by (simp add: mod_simps)
    finally show ?thesis by (simp only: word_unat_eq_iff)
  qed
  then show ?thesis
    unfolding r using word_split_32 [of s] by (auto simp: algebra_simps)
qed

section \<open>Counting loops\<close>

text \<open>
  \<open>for (int i = lo; i < hi; i++) body\<close>: the loop variable is passed to the body, the
  local variables the body assigns are the accumulator.
\<close>

primrec for_n :: "nat \<Rightarrow> int \<Rightarrow> (int \<Rightarrow> 'a \<Rightarrow> ('s, 'a) state) \<Rightarrow> 'a \<Rightarrow> ('s, 'a) state" where
  "for_n 0 i body a = State_Monad.return a"
| "for_n (Suc n) i body a = do { a' \<leftarrow> body i a; for_n n (i + 1) body a' }"

definition for_range :: "int \<Rightarrow> int \<Rightarrow> (int \<Rightarrow> 'a \<Rightarrow> ('s, 'a) state) \<Rightarrow> 'a \<Rightarrow> ('s, 'a) state" where
  "for_range lo hi body a = for_n (nat (hi - lo)) lo body a"

text \<open>
  \<open>for (int i = 0; i < n && b; i++) body\<close>, where the body does not use \<open>i\<close>.
\<close>

primrec loop_n :: "nat \<Rightarrow> ('a \<Rightarrow> bool) \<Rightarrow> ('a \<Rightarrow> ('s, 'a) state) \<Rightarrow> 'a \<Rightarrow> ('s, 'a) state" where
  "loop_n 0 b body a = State_Monad.return a"
| "loop_n (Suc n) b body a =
     (if b a then do { a' \<leftarrow> body a; loop_n n b body a' } else State_Monad.return a)"

text \<open>A straight-line sequence of similar calls.\<close>

primrec each :: "('x \<Rightarrow> ('s, unit) state) \<Rightarrow> 'x list \<Rightarrow> ('s, unit) state" where
  "each f [] = State_Monad.return ()"
| "each f (x # xs) = do { f x; each f xs }"

end
