(* ===== verification/Mt19937.thy ===== *)
theory Mt19937
  imports Prelude
begin

text \<open>
  The pieces of the C++ standard library the test benches draw on: the generator
  \<open>std::mt19937\<close> (held by \<open>Tb\<close> as \<open>rng\<close>, seeded with \<open>rng.seed(seed)\<close>, and by
  \<open>tb_imem.cpp\<close> as \<open>gen\<close>), and \<open>strtoul\<close> with base 0, which reads the numbers of
  \<open>+seed=\<close> and \<open>+tohost=\<close>.
\<close>

section \<open>std::mt19937\<close>

text \<open>
  The state is the last 624 words of the recurrence, oldest first. One call advances the
  recurrence by one word and tempers it; generating words one at a time gives the outputs
  that an implementation refilling all 624 words at once gives.
\<close>

record mt19937 =
  mt_x :: "u32 list"

primrec mt_seed_from :: "nat \<Rightarrow> u32 \<Rightarrow> u32 \<Rightarrow> u32 list" where
  "mt_seed_from 0 i x = []"
| "mt_seed_from (Suc n) i x =
     x # mt_seed_from n (i + 1) (1812433253 * (x XOR drop_bit 30 x) + (i + 1))"

definition mt_seed :: "u32 \<Rightarrow> mt19937" where
  "mt_seed s = \<lparr>mt_x = mt_seed_from 624 0 s\<rparr>"

definition mt_twist :: "u32 list \<Rightarrow> u32" where
  "mt_twist xs =
     (let y = (xs ! 0 AND 0x80000000) OR (xs ! 1 AND 0x7FFFFFFF)
      in xs ! 397 XOR drop_bit 1 y XOR (if bit y 0 then 0x9908B0DF else 0))"

definition mt_temper :: "u32 \<Rightarrow> u32" where
  "mt_temper x0 =
     (let x1 = x0 XOR (drop_bit 11 x0 AND 0xFFFFFFFF);
          x2 = x1 XOR (push_bit 7 x1 AND 0x9D2C5680);
          x3 = x2 XOR (push_bit 15 x2 AND 0xEFC60000)
      in x3 XOR drop_bit 18 x3)"

definition mt_next :: "mt19937 \<Rightarrow> u32 \<times> mt19937" where
  "mt_next g = (let x = mt_twist (mt_x g) in (mt_temper x, g\<lparr>mt_x := tl (mt_x g) @ [x]\<rparr>))"

definition mt_wf :: "mt19937 \<Rightarrow> bool" where
  "mt_wf g \<longleftrightarrow> length (mt_x g) = 624"

lemma length_mt_seed_from [simp]: "length (mt_seed_from n i x) = n"
  by (induction n arbitrary: i x) auto

lemma mt_wf_seed [simp]: "mt_wf (mt_seed s)"
  by (simp add: mt_wf_def mt_seed_def)

lemma mt_wf_next [simp]: "mt_wf g \<Longrightarrow> mt_wf (snd (mt_next g))"
  by (simp add: mt_wf_def mt_next_def Let_def)

section \<open>strtoul with base 0\<close>

definition digit_val :: "char \<Rightarrow> int option" where
  "digit_val c =
     (let n = (of_char c :: int) in
      if 48 \<le> n \<and> n \<le> 57 then Some (n - 48)
      else if 97 \<le> n \<and> n \<le> 122 then Some (n - 97 + 10)
      else if 65 \<le> n \<and> n \<le> 90 then Some (n - 65 + 10)
      else None)"

definition is_digit_in :: "int \<Rightarrow> char \<Rightarrow> bool" where
  "is_digit_in b c = (case digit_val c of None \<Rightarrow> False | Some v \<Rightarrow> v < b)"

fun digits_val :: "int \<Rightarrow> int \<Rightarrow> string \<Rightarrow> int" where
  "digits_val b acc [] = acc"
| "digits_val b acc (c # cs) =
     (case digit_val c of
        None \<Rightarrow> acc
      | Some v \<Rightarrow> if v < b then digits_val b (b * acc + v) cs else acc)"

definition is_space :: "char \<Rightarrow> bool" where
  "is_space c = (let n = (of_char c :: int) in n = 32 \<or> (9 \<le> n \<and> n \<le> 13))"

definition strtoul_unsigned :: "string \<Rightarrow> int" where
  "strtoul_unsigned s =
     (case s of
        c # d # e # cs \<Rightarrow>
          if c = CHR ''0'' \<and> (d = CHR ''x'' \<or> d = CHR ''X'') \<and> is_digit_in 16 e
          then digits_val 16 0 (e # cs)
          else if c = CHR ''0'' then digits_val 8 0 s
          else digits_val 10 0 s
      | c # cs \<Rightarrow> if c = CHR ''0'' then digits_val 8 0 s else digits_val 10 0 s
      | [] \<Rightarrow> 0)"

text \<open>A value above \<open>ULONG_MAX\<close> saturates; a minus sign negates in \<open>unsigned long\<close>.\<close>

definition strtoul0 :: "string \<Rightarrow> u64" where
  "strtoul0 s =
     (let s' = dropWhile is_space s;
          clip = (\<lambda>n. if n < 2 ^ 64 then (of_int n :: u64) else - 1);
          neg = (\<lambda>n. if n < 2 ^ 64 then (- of_int n :: u64) else - 1)
      in case s' of
           c # cs \<Rightarrow> if c = CHR ''-'' then neg (strtoul_unsigned cs)
                    else if c = CHR ''+'' then clip (strtoul_unsigned cs)
                    else clip (strtoul_unsigned s')
         | [] \<Rightarrow> 0)"

end
