(* ===== verification/Tb_Common.thy ===== *)
theory Tb_Common
  imports Mt19937
begin

text \<open>
  The shared test harness \<open>sim/verilator/tb_common.h\<close>: the global pass/fail counters, the
  reporting of failures, and the class template \<open>Tb\<close> that owns the device under test, the
  clock, the waveform and the random generator. Every method is a state-monad operation on
  the record of the harness state. The second half is the logic used to reason about test
  benches: exact symbolic execution rules (\<open>wp\<close>), a triple that says that no check fails
  (\<open>tb_ok\<close>), and the two interfaces a Verilated model offers to the harness as locales.
\<close>

section \<open>State\<close>

text \<open>What the harness prints, one constructor per \<open>printf\<close> of the header.\<close>

datatype tb_line =
    SectionLine string
  | FailLine string string nat string u64 u64  \<comment> \<open>section, file, line, expression, got, want\<close>
  | BannerLine string u32
  | SummaryLine int int
  | TextLine string "u64 list"  \<comment> \<open>a \<open>printf\<close> of a single bench: format and arguments\<close>

text \<open>
  The harness state besides the device and the two counters: the number of reported
  failures, the section label, the output (newest first), the waveform (the times dumped,
  newest first), the time and half period in picoseconds, the generator and its seed.
\<close>

record tb_aux =
  tb_reported :: int
  tb_section :: string
  tb_out :: "tb_line list"
  tb_tfp :: "u64 list"
  tb_t :: u64
  tb_half :: u64
  tb_rng :: mt19937
  tb_seed :: u32

text \<open>
  The state a bench runs on. A bench with local objects that its lambdas capture by
  reference extends the record with them.
\<close>

record 'd tb =
  tb_dut :: 'd
  tb_checks :: int
  tb_fails :: int
  tb_rest :: tb_aux

definition TB_MAX_REPORT :: int where
  "TB_MAX_REPORT = 25"

section \<open>Access to the device\<close>

text \<open>Assignment to input ports, and reading a port or an output.\<close>

definition poke :: "('d \<Rightarrow> 'd) \<Rightarrow> (('d, 'm) tb_scheme, unit) state" where
  "poke g = State (\<lambda>s. ((), s\<lparr>tb_dut := g (tb_dut s)\<rparr>))"

definition peek :: "('d \<Rightarrow> 'a) \<Rightarrow> (('d, 'm) tb_scheme, 'a) state" where
  "peek g = State (\<lambda>s. (g (tb_dut s), s))"

definition tb_upd :: "(tb_aux \<Rightarrow> tb_aux) \<Rightarrow> (('d, 'm) tb_scheme, unit) state" where
  "tb_upd g = State (\<lambda>s. ((), s\<lparr>tb_rest := g (tb_rest s)\<rparr>))"

text \<open>Access to the local objects of a bench.\<close>

definition tb_locals :: "('m \<Rightarrow> 'a) \<Rightarrow> (('d, 'm) tb_scheme, 'a) state" where
  "tb_locals g = State (\<lambda>s. (g (tb.more s), s))"

definition tb_set_locals :: "('m \<Rightarrow> 'm) \<Rightarrow> (('d, 'm) tb_scheme, unit) state" where
  "tb_set_locals g = State (\<lambda>s. ((), tb.more_update g s))"

section \<open>Sections and checks\<close>

definition begin_aux :: "string \<Rightarrow> tb_aux \<Rightarrow> tb_aux" where
  "begin_aux name h = h\<lparr>tb_section := name, tb_out := SectionLine name # tb_out h\<rparr>"

definition tb_begin :: "string \<Rightarrow> (('d, 'm) tb_scheme, unit) state" where
  "tb_begin name = tb_upd (begin_aux name)"

definition report_aux :: "string \<Rightarrow> nat \<Rightarrow> string \<Rightarrow> u64 \<Rightarrow> u64 \<Rightarrow> tb_aux \<Rightarrow> tb_aux" where
  "report_aux file line expr got want h =
     (let h' = h\<lparr>tb_reported := tb_reported h + 1\<rparr>
      in if tb_reported h < TB_MAX_REPORT
         then h'\<lparr>tb_out := FailLine (tb_section h) file line expr got want # tb_out h'\<rparr>
         else h')"

definition tb_check ::
  "string \<Rightarrow> nat \<Rightarrow> string \<Rightarrow> u64 \<Rightarrow> u64 \<Rightarrow> (('d, 'm) tb_scheme, unit) state" where
  "tb_check file line expr got want =
     State (\<lambda>s.
       let s1 = s\<lparr>tb_checks := tb_checks s + 1\<rparr>
       in if got = want then ((), s1)
          else ((), s1\<lparr>tb_fails := tb_fails s1 + 1,
                        tb_rest := report_aux file line expr got want (tb_rest s1)\<rparr>))"

section \<open>The class template Tb\<close>

definition dump_aux :: "tb_aux \<Rightarrow> tb_aux" where
  "dump_aux h = h\<lparr>tb_tfp := tb_t h # tb_tfp h\<rparr>"

definition advance_aux :: "u64 \<Rightarrow> tb_aux \<Rightarrow> tb_aux" where
  "advance_aux ps h = h\<lparr>tb_t := tb_t h + ps\<rparr>"

definition half_aux :: "tb_aux \<Rightarrow> tb_aux" where
  "half_aux h = h\<lparr>tb_t := tb_t h + tb_half h\<rparr>"

definition tb_dump :: "(('d, 'm) tb_scheme, unit) state" where
  "tb_dump = tb_upd dump_aux"

text \<open>\<open>ev\<close> is the \<open>eval()\<close> method of the Verilated class \<open>DUT\<close>.\<close>

definition tb_settle_ps :: "('d \<Rightarrow> 'd) \<Rightarrow> u64 \<Rightarrow> (('d, 'm) tb_scheme, unit) state" where
  "tb_settle_ps ev ps = do {
     poke ev; tb_dump; tb_upd (advance_aux ps); poke ev; tb_dump }"

definition tb_settle :: "('d \<Rightarrow> 'd) \<Rightarrow> (('d, 'm) tb_scheme, unit) state" where
  "tb_settle ev = tb_settle_ps ev 1000"

text \<open>The clock of a Verilated class, and the value of it that the last \<open>eval\<close> saw.\<close>

record vclk =
  v_clk :: bool
  v_clk_prev :: bool

definition tb_tick ::
  "('p vclk_scheme \<Rightarrow> 'p vclk_scheme) \<Rightarrow> (('p vclk_scheme, 'm) tb_scheme, unit) state" where
  "tb_tick ev = do {
     poke ev; tb_dump;
     tb_upd half_aux;
     poke (\<lambda>d. d\<lparr>v_clk := True\<rparr>); poke ev; tb_dump;
     tb_upd half_aux;
     poke (\<lambda>d. d\<lparr>v_clk := False\<rparr>); poke ev; tb_dump }"

definition tb_rnd :: "(('d, 'm) tb_scheme, u32) state" where
  "tb_rnd = State (\<lambda>s.
     let (x, g) = mt_next (tb_rng (tb_rest s))
     in (x, s\<lparr>tb_rest := (tb_rest s)\<lparr>tb_rng := g\<rparr>\<rparr>))"

definition rnd_scale :: "u32 \<Rightarrow> u32 \<Rightarrow> u32 \<Rightarrow> u32" where
  "rnd_scale lo hi x = lo + x mod (hi - lo + 1)"

definition tb_rnd_in :: "u32 \<Rightarrow> u32 \<Rightarrow> (('d, 'm) tb_scheme, u32) state" where
  "tb_rnd_in lo hi = do { x \<leftarrow> tb_rnd; State_Monad.return (rnd_scale lo hi x) }"

definition finish_aux :: "int \<Rightarrow> int \<Rightarrow> tb_aux \<Rightarrow> tb_aux" where
  "finish_aux k f h =
     (let h1 = dump_aux (half_aux h) in h1\<lparr>tb_out := SummaryLine k f # tb_out h1\<rparr>)"

definition tb_finish :: "(('d, 'm) tb_scheme, int) state" where
  "tb_finish = State (\<lambda>s.
     (if tb_fails s \<noteq> 0 then 1 else 0,
      s\<lparr>tb_rest := finish_aux (tb_checks s) (tb_fails s) (tb_rest s)\<rparr>))"

text \<open>
  The constructor: \<open>+seed=\<close> arguments (the last one wins) set the seed, the generator is
  seeded and the banner printed. The globals have their initial values.
\<close>

definition seed_arg :: "string \<Rightarrow> u32 \<Rightarrow> u32" where
  "seed_arg arg seed =
     (if take 6 arg = ''+seed='' then ucast (strtoul0 (drop 6 arg)) else seed)"

definition argv_seed :: "string list \<Rightarrow> u32" where
  "argv_seed argv = fold seed_arg (tl argv) 1"

definition tb_new_aux :: "string \<Rightarrow> string list \<Rightarrow> tb_aux" where
  "tb_new_aux name argv =
     \<lparr>tb_reported = 0, tb_section = ''init'', tb_out = [BannerLine name (argv_seed argv)],
      tb_tfp = [], tb_t = 0, tb_half = 5000,
      tb_rng = mt_seed (argv_seed argv), tb_seed = argv_seed argv\<rparr>"

definition tb_new :: "string \<Rightarrow> string list \<Rightarrow> 'd \<Rightarrow> 'd tb" where
  "tb_new name argv d =
     \<lparr>tb_dut = d, tb_checks = 0, tb_fails = 0, tb_rest = tb_new_aux name argv\<rparr>"

section \<open>Symbolic execution\<close>

text \<open>
  \<open>wp c Q d k f h m\<close>: running \<open>c\<close> with device \<open>d\<close>, \<open>k\<close> checks done, \<open>f\<close> failures, rest of the
  harness \<open>h\<close> and local objects \<open>m\<close> ends in a result and state that satisfy \<open>Q\<close>. The rules
  below are equations, and the congruence rule keeps the simplifier out of the program that
  is still to run, so that \<open>simp\<close> executes a bench from its first statement on.
\<close>

definition wp ::
  "(('d, 'm) tb_scheme, 'a) state \<Rightarrow> ('a \<Rightarrow> ('d, 'm) tb_scheme \<Rightarrow> bool) \<Rightarrow>
   'd \<Rightarrow> int \<Rightarrow> int \<Rightarrow> tb_aux \<Rightarrow> 'm \<Rightarrow> bool" where
  "wp c Q d k f h m =
     (case run_state c \<lparr>tb_dut = d, tb_checks = k, tb_fails = f, tb_rest = h, \<dots> = m\<rparr> of
        (x, s') \<Rightarrow> Q x s')"

lemma wp_cong:
  "d = d' \<Longrightarrow> k = k' \<Longrightarrow> wp c Q d k f h m = wp c Q d' k' f h m"
  by simp

lemma tb_eta [simp]:
  "\<lparr>tb_dut = tb_dut s, tb_checks = tb_checks s, tb_fails = tb_fails s,
    tb_rest = tb_rest s, \<dots> = tb.more s\<rparr> = s"
  by simp

lemma run_state_wp:
  "wp c Q (tb_dut s) (tb_checks s) (tb_fails s) (tb_rest s) (tb.more s)
     \<longleftrightarrow> Q (fst (run_state c s)) (snd (run_state c s))"
  by (simp add: wp_def split: prod.splits)

lemma wp_bind: "wp (State_Monad.bind c F) Q d k f h m =
    wp c (\<lambda>x s. wp (F x) Q (tb_dut s) (tb_checks s) (tb_fails s) (tb_rest s) (tb.more s)) d k f h m"
  by (simp add: wp_def split: prod.splits)

lemma wp_bare: "wp c Q d k f h m = wp (State_Monad.bind c State_Monad.return) Q d k f h m"
  by simp

lemma wp_return [tb_wp]:
  "wp (State_Monad.return x) Q d k f h m =
     Q x \<lparr>tb_dut = d, tb_checks = k, tb_fails = f, tb_rest = h, \<dots> = m\<rparr>"
  by (simp add: wp_def)

lemma wp_return_bind [tb_wp]:
  "wp (State_Monad.bind (State_Monad.return x) F) Q d k f h m = wp (F x) Q d k f h m"
  by (simp add: wp_def)

lemma wp_assoc [tb_wp]:
  "wp (State_Monad.bind (State_Monad.bind c F) G) Q d k f h m =
     wp (State_Monad.bind c (\<lambda>x. State_Monad.bind (F x) G)) Q d k f h m"
  by simp

lemma wp_if_bind [tb_wp]:
  "wp (State_Monad.bind (if b then c1 else c2) F) Q d k f h m =
     (if b then wp (State_Monad.bind c1 F) Q d k f h m else wp (State_Monad.bind c2 F) Q d k f h m)"
  by simp

lemma wp_poke [tb_wp]:
  "wp (poke g) R d k f h m =
     R () \<lparr>tb_dut = g d, tb_checks = k, tb_fails = f, tb_rest = h, \<dots> = m\<rparr>"
  "wp (State_Monad.bind (poke g) F) Q d k f h m = wp (F ()) Q (g d) k f h m"
  by (simp_all add: wp_def poke_def)

lemma wp_peek [tb_wp]:
  "wp (peek g) R d k f h m =
     R (g d) \<lparr>tb_dut = d, tb_checks = k, tb_fails = f, tb_rest = h, \<dots> = m\<rparr>"
  "wp (State_Monad.bind (peek g) F) Q d k f h m = wp (F (g d)) Q d k f h m"
  by (simp_all add: wp_def peek_def)

lemma wp_locals [tb_wp]:
  "wp (tb_locals g) R d k f h m =
     R (g m) \<lparr>tb_dut = d, tb_checks = k, tb_fails = f, tb_rest = h, \<dots> = m\<rparr>"
  "wp (State_Monad.bind (tb_locals g) F) Q d k f h m = wp (F (g m)) Q d k f h m"
  by (simp_all add: wp_def tb_locals_def)

lemma wp_set_locals [tb_wp]:
  "wp (tb_set_locals g) R d k f h m =
     R () \<lparr>tb_dut = d, tb_checks = k, tb_fails = f, tb_rest = h, \<dots> = g m\<rparr>"
  "wp (State_Monad.bind (tb_set_locals g) F) Q d k f h m = wp (F ()) Q d k f h (g m)"
  by (simp_all add: wp_def tb_set_locals_def)

lemma wp_upd [tb_wp]:
  "wp (tb_upd g) R d k f h m =
     R () \<lparr>tb_dut = d, tb_checks = k, tb_fails = f, tb_rest = g h, \<dots> = m\<rparr>"
  "wp (State_Monad.bind (tb_upd g) F) Q d k f h m = wp (F ()) Q d k f (g h) m"
  by (simp_all add: wp_def tb_upd_def)

lemma wp_begin [tb_wp]:
  "wp (tb_begin n) R d k f h m =
     R () \<lparr>tb_dut = d, tb_checks = k, tb_fails = f, tb_rest = begin_aux n h, \<dots> = m\<rparr>"
  "wp (State_Monad.bind (tb_begin n) F) Q d k f h m = wp (F ()) Q d k f (begin_aux n h) m"
  by (simp_all add: tb_begin_def wp_upd)

text \<open>A check that holds only counts; one that fails is counted and reported.\<close>

lemma wp_check:
  "wp (tb_check file l e g w) R d k f h m =
     (if g = w
      then R () \<lparr>tb_dut = d, tb_checks = k + 1, tb_fails = f, tb_rest = h, \<dots> = m\<rparr>
      else R () \<lparr>tb_dut = d, tb_checks = k + 1, tb_fails = f + 1,
                 tb_rest = report_aux file l e g w h, \<dots> = m\<rparr>)"
  "wp (State_Monad.bind (tb_check file l e g w) F) Q d k f h m =
     (if g = w then wp (F ()) Q d (k + 1) f h m
      else wp (F ()) Q d (k + 1) (f + 1) (report_aux file l e g w h) m)"
  by (simp_all add: wp_def tb_check_def)

lemma wp_check_pass:
  "g = w \<Longrightarrow> wp (F ()) Q d (k + 1) f h m \<Longrightarrow>
   wp (State_Monad.bind (tb_check file l e g w) F) Q d k f h m"
  by (simp add: wp_check)

lemma wp_settle_ps [tb_wp]:
  "wp (State_Monad.bind (tb_settle_ps ev ps) F) Q d k f h m =
     wp (F ()) Q (ev (ev d)) k f (dump_aux (advance_aux ps (dump_aux h))) m"
  by (simp add: tb_settle_ps_def tb_dump_def wp_poke wp_upd)

lemma wp_rnd [tb_wp]:
  "wp (State_Monad.bind tb_rnd F) Q d k f h m =
     wp (F (fst (mt_next (tb_rng h)))) Q d k f (h\<lparr>tb_rng := snd (mt_next (tb_rng h))\<rparr>) m"
  by (simp add: wp_def tb_rnd_def Let_def split: prod.splits)

lemma wp_rnd_in [tb_wp]:
  "wp (State_Monad.bind (tb_rnd_in lo hi) F) Q d k f h m =
     wp (F (rnd_scale lo hi (fst (mt_next (tb_rng h))))) Q d k f
        (h\<lparr>tb_rng := snd (mt_next (tb_rng h))\<rparr>) m"
  by (simp add: tb_rnd_in_def wp_rnd wp_return_bind)

lemma wp_for_range [tb_wp]:
  "wp (State_Monad.bind (for_range lo hi body a) F) Q d k f h m =
     (if lo < hi
      then wp (State_Monad.bind (body lo a) (\<lambda>a'. State_Monad.bind (for_range (lo + 1) hi body a') F))
             Q d k f h m
      else wp (F a) Q d k f h m)"
proof (cases "lo < hi")
  case True
  then have "nat (hi - lo) = Suc (nat (hi - (lo + 1)))" by linarith
  then show ?thesis using True by (simp add: for_range_def)
qed (simp add: for_range_def)

lemma wp_loop_n:
  "wp (State_Monad.bind (loop_n (Suc n) b body a) F) Q d k f h m =
     (if b a
      then wp (State_Monad.bind (body a) (\<lambda>a'. State_Monad.bind (loop_n n b body a') F)) Q d k f h m
      else wp (F a) Q d k f h m)"
  by simp

lemma wp_finish [tb_wp]:
  "wp tb_finish Q d k f h m =
     Q (if f \<noteq> 0 then 1 else 0)
       \<lparr>tb_dut = d, tb_checks = k, tb_fails = f, tb_rest = finish_aux k f h, \<dots> = m\<rparr>"
  by (simp add: wp_def tb_finish_def)

section \<open>Benches whose checks all pass\<close>

text \<open>
  \<open>tb_ok P c Q\<close>: from any harness state whose device, check count and locals satisfy \<open>P\<close>,
  whatever its time, output and random generator, \<open>c\<close> records no failure and establishes
  \<open>Q\<close> of its result.
\<close>

definition tb_ok ::
  "('d \<Rightarrow> int \<Rightarrow> 'm \<Rightarrow> bool) \<Rightarrow> (('d, 'm) tb_scheme, 'a) state \<Rightarrow>
   ('a \<Rightarrow> 'd \<Rightarrow> int \<Rightarrow> 'm \<Rightarrow> bool) \<Rightarrow> bool" where
  "tb_ok P c Q \<longleftrightarrow>
     (\<forall>d k f h m. P d k m \<longrightarrow>
        wp c (\<lambda>x s. Q x (tb_dut s) (tb_checks s) (tb.more s) \<and> tb_fails s = f) d k f h m)"

lemma tb_okI:
  "(\<And>d k f h m. P d k m \<Longrightarrow>
      wp c (\<lambda>x s. Q x (tb_dut s) (tb_checks s) (tb.more s) \<and> tb_fails s = f) d k f h m)
   \<Longrightarrow> tb_ok P c Q"
  by (simp add: tb_ok_def)

lemma tb_okD:
  "tb_ok P c Q \<Longrightarrow> P d k m \<Longrightarrow>
     wp c (\<lambda>x s. Q x (tb_dut s) (tb_checks s) (tb.more s) \<and> tb_fails s = f) d k f h m"
  by (simp add: tb_ok_def)

lemma wp_mono:
  "wp c Q d k f h m \<Longrightarrow> (\<And>x s. Q x s \<Longrightarrow> Q' x s) \<Longrightarrow> wp c Q' d k f h m"
  by (auto simp: wp_def split: prod.splits)

text \<open>Continue a symbolic execution past a piece of the bench known to pass.\<close>

lemma wp_bind_ok:
  assumes c: "tb_ok P c R" and P: "P d k m"
    and F: "\<And>x d' k' h' m'. R x d' k' m' \<Longrightarrow> wp (F x) Q d' k' f h' m'"
  shows "wp (State_Monad.bind c F) Q d k f h m"
  unfolding wp_bind
proof (rule wp_mono [OF tb_okD [OF c P]])
  fix x and s :: "('a, 'b) tb_scheme"
  assume "R x (tb_dut s) (tb_checks s) (tb.more s) \<and> tb_fails s = f"
  then show "wp (F x) Q (tb_dut s) (tb_checks s) (tb_fails s) (tb_rest s) (tb.more s)"
    using F [of x "tb_dut s" "tb_checks s" "tb.more s" "tb_rest s"] by auto
qed

lemma tb_ok_bind:
  assumes "tb_ok P c R" and "\<And>x. tb_ok (R x) (F x) Q"
  shows "tb_ok P (State_Monad.bind c F) Q"
  by (rule tb_okI, rule wp_bind_ok [OF assms(1)], assumption, rule tb_okD [OF assms(2)])

lemma tb_ok_conseq:
  assumes "tb_ok P c Q" and "\<And>d k m. P' d k m \<Longrightarrow> P d k m"
    and "\<And>x d k m. Q x d k m \<Longrightarrow> Q' x d k m"
  shows "tb_ok P' c Q'"
  using assms by (force intro!: tb_okI intro: wp_mono dest: tb_okD)

lemma tb_ok_post: "tb_ok P c Q \<Longrightarrow> Q = Q' \<Longrightarrow> tb_ok P c Q'"
  by simp

lemma tb_ok_return: "(\<And>d k m. P d k m \<Longrightarrow> Q x d k m) \<Longrightarrow> tb_ok P (State_Monad.return x) Q"
  by (auto intro!: tb_okI simp: wp_return)

lemma tb_ok_rnd: "(\<And>x. tb_ok P (F x) Q) \<Longrightarrow> tb_ok P (State_Monad.bind tb_rnd F) Q"
  by (rule tb_okI) (auto simp: wp_rnd intro: tb_okD)

lemma tb_ok_rnd_in: "(\<And>x. tb_ok P (F (rnd_scale lo hi x)) Q) \<Longrightarrow> tb_ok P (State_Monad.bind (tb_rnd_in lo hi) F) Q"
  by (rule tb_okI) (auto simp: wp_rnd_in intro: tb_okD)

text \<open>
  Loops: an invariant indexed by the loop variable and the accumulator, and, for a sequence
  of calls, one indexed by the calls still to make.
\<close>

lemma tb_ok_for_n:
  assumes "\<And>j a. i \<le> j \<Longrightarrow> j < i + int n \<Longrightarrow> tb_ok (I j a) (body j a) (\<lambda>a'. I (j + 1) a')"
  shows "tb_ok (I i a) (for_n n i body a) (\<lambda>a'. I (i + int n) a')"
  using assms
proof (induction n arbitrary: i a)
  case 0
  then show ?case by (auto intro: tb_ok_return)
next
  case (Suc n)
  have "tb_ok (I i a) (body i a) (\<lambda>a'. I (i + 1) a')" by (rule Suc.prems) auto
  moreover have "tb_ok (I (i + 1) a') (for_n n (i + 1) body a') (\<lambda>a'. I (i + 1 + int n) a')" for a'
    by (rule Suc.IH, rule Suc.prems) auto
  ultimately show ?case by (auto intro: tb_ok_bind simp: algebra_simps)
qed

lemma tb_ok_for:
  assumes "lo \<le> hi"
    and "\<And>j a. lo \<le> j \<Longrightarrow> j < hi \<Longrightarrow> tb_ok (I j a) (body j a) (\<lambda>a'. I (j + 1) a')"
  shows "tb_ok (I lo a) (for_range lo hi body a) (\<lambda>a'. I hi a')"
  using tb_ok_for_n [of lo "nat (hi - lo)" I body a] assms by (simp add: for_range_def)

lemma tb_ok_each:
  assumes "\<And>x k. x \<in> set xs \<Longrightarrow> tb_ok (I k) (g x) (\<lambda>_. I (k + n))"
  shows "tb_ok (I k) (each g xs) (\<lambda>_. I (k + n * int (length xs)))"
  using assms
proof (induction xs arbitrary: k)
  case Nil
  then show ?case by (auto intro: tb_ok_return)
next
  case (Cons x xs)
  have "tb_ok (I k) (g x) (\<lambda>_. I (k + n))" by (rule Cons.prems) simp
  moreover have "tb_ok (I (k + n)) (each g xs) (\<lambda>_. I (k + n + n * int (length xs)))"
    by (rule Cons.IH, rule Cons.prems) simp
  ultimately show ?case by (auto intro: tb_ok_bind simp: algebra_simps)
qed

text \<open>
  \<open>tb_pass I c n\<close>: \<open>c\<close> performs exactly \<open>n\<close> checks, all of them pass, and it keeps the
  invariant \<open>I\<close> of device and locals.
\<close>

definition tb_pass ::
  "('d \<Rightarrow> 'm \<Rightarrow> bool) \<Rightarrow> (('d, 'm) tb_scheme, 'a) state \<Rightarrow> int \<Rightarrow> bool" where
  "tb_pass I c n \<longleftrightarrow>
     (\<forall>k. tb_ok (\<lambda>d k' m. I d m \<and> k' = k) c (\<lambda>_ d k' m. I d m \<and> k' = k + n))"

named_theorems tb_pass_intros \<open>structural rules for \<open>tb_pass\<close>\<close>

lemma tb_passI:
  "(\<And>d k f h m. I d m \<Longrightarrow>
     wp c (\<lambda>x s. I (tb_dut s) (tb.more s) \<and> tb_checks s = k + n \<and> tb_fails s = f) d k f h m)
   \<Longrightarrow> tb_pass I c n"
  unfolding tb_pass_def by (intro allI tb_okI) (auto elim: wp_mono)

lemma tb_passD: "tb_pass I c n \<Longrightarrow> tb_ok (\<lambda>d k' m. I d m \<and> k' = k) c (\<lambda>_ d k' m. I d m \<and> k' = k + n)"
  by (simp add: tb_pass_def)

lemma tb_pass_bind [tb_pass_intros]:
  assumes "tb_pass I c a" and "\<And>x. tb_pass I (F x) b"
  shows "tb_pass I (State_Monad.bind c F) (a + b)"
  unfolding tb_pass_def
proof
  fix k
  have "tb_ok (\<lambda>d k' m. I d m \<and> k' = k + a) (F x) (\<lambda>_ d k' m. I d m \<and> k' = k + (a + b))" for x
    using tb_passD [OF assms(2), of "k + a"] by (simp add: add.assoc)
  with tb_passD [OF assms(1)]
  show "tb_ok (\<lambda>d k' m. I d m \<and> k' = k) (State_Monad.bind c F) (\<lambda>_ d k' m. I d m \<and> k' = k + (a + b))"
    by (rule tb_ok_bind)
qed

lemma tb_pass_return [tb_pass_intros]: "tb_pass I (State_Monad.return x) 0"
  by (rule tb_passI) (simp add: wp_return)

lemma tb_pass_begin [tb_pass_intros]: "tb_pass I (tb_begin n) 0"
  by (rule tb_passI) (simp add: wp_begin)

lemma tb_pass_check: "g = w \<Longrightarrow> tb_pass I (tb_check file l e g w) 1"
  by (rule tb_passI) (simp add: wp_check)

lemma tb_pass_each [tb_pass_intros]:
  assumes "\<And>x. x \<in> set xs \<Longrightarrow> tb_pass I (g x) n"
  shows "tb_pass I (each g xs) (n * int (length xs))"
  unfolding tb_pass_def
  using tb_ok_each [of xs "\<lambda>k d k' m. I d m \<and> k' = k" g n] assms by (simp add: tb_pass_def)

lemma tb_pass_for [tb_pass_intros]:
  assumes "\<And>i a. lo \<le> i \<Longrightarrow> i < hi \<Longrightarrow> tb_pass I (body i a) n" and "lo \<le> hi"
  shows "tb_pass I (for_range lo hi body a) (n * (hi - lo))"
  unfolding tb_pass_def
proof
  fix k
  have "tb_ok (\<lambda>d k' m. I d m \<and> k' = k + n * (i - lo)) (body i a)
          (\<lambda>_ d k' m. I d m \<and> k' = k + n * (i + 1 - lo))" if "lo \<le> i" "i < hi" for i a
    using tb_passD [OF assms(1) [OF that], of "k + n * (i - lo)"]
    by (simp add: algebra_simps)
  from tb_ok_for [where I = "\<lambda>i a d k' m. I d m \<and> k' = k + n * (i - lo)", OF assms(2) this]
  show "tb_ok (\<lambda>d k' m. I d m \<and> k' = k) (for_range lo hi body a)
          (\<lambda>_ d k' m. I d m \<and> k' = k + n * (hi - lo))"
    by simp
qed

text \<open>The result of a draw is arbitrary, but of the form the scaling gives it.\<close>

lemma tb_pass_rnd_bind:
  assumes "\<And>x. tb_pass I (F x) n"
  shows "tb_pass I (State_Monad.bind tb_rnd F) n"
proof (rule tb_passI)
  fix d k f h m
  assume "I d m"
  then show "wp (State_Monad.bind tb_rnd F)
      (\<lambda>x s. I (tb_dut s) (tb.more s) \<and> tb_checks s = k + n \<and> tb_fails s = f) d k f h m"
    using tb_okD [OF tb_passD [OF assms], of d m k] by (auto simp: wp_rnd elim!: wp_mono)
qed

lemma tb_pass_rnd_in_bind:
  assumes "\<And>x. tb_pass I (F (rnd_scale lo hi x)) n"
  shows "tb_pass I (State_Monad.bind (tb_rnd_in lo hi) F) n"
  unfolding tb_rnd_in_def State_Monad.bind_assoc
  by (rule tb_pass_rnd_bind) (simp add: assms)

lemma tb_pass_if: "(b \<Longrightarrow> tb_pass I c n) \<Longrightarrow> (\<not> b \<Longrightarrow> tb_pass I c' n) \<Longrightarrow> tb_pass I (if b then c else c') n"
  by simp

lemma tb_pass_let: "tb_pass I (c e) n \<Longrightarrow> tb_pass I (Let e c) n"
  by simp

lemmas tb_pass_program = tb_pass_rnd_bind tb_pass_rnd_in_bind tb_pass_if tb_pass_let

lemma tb_pass_eq: "tb_pass I c n \<Longrightarrow> n = n' \<Longrightarrow> tb_pass I c n'"
  by simp

text \<open>From a bench that passes to the exit code and the check count of a run.\<close>

definition tb_run :: "(('d tb), unit) state \<Rightarrow> string \<Rightarrow> string list \<Rightarrow> 'd \<Rightarrow> int \<times> 'd tb" where
  "tb_run c name argv d = run_state (do { c; tb_finish }) (tb_new name argv d)"

text \<open>The same for a bench with local objects, \<open>l\<close> being their initial values.\<close>

definition tb_run_with ::
  "'m \<Rightarrow> (('d, 'm) tb_scheme, unit) state \<Rightarrow> string \<Rightarrow> string list \<Rightarrow> 'd \<Rightarrow> int \<times> ('d, 'm) tb_scheme" where
  "tb_run_with l c name argv d = run_state (do { c; tb_finish })
     \<lparr>tb_dut = d, tb_checks = 0, tb_fails = 0, tb_rest = tb_new_aux name argv, \<dots> = l\<rparr>"

definition run_passes :: "int \<times> ('d, 'm) tb_scheme \<Rightarrow> int \<Rightarrow> bool" where
  "run_passes r n \<longleftrightarrow> fst r = 0 \<and> tb_checks (snd r) = n \<and> tb_fails (snd r) = 0"

lemma tb_ok_run_if:
  assumes "tb_ok P c (\<lambda>_ d k m. C k)" and "P d0 0 ()"
  shows "fst (tb_run c name argv d0) = 0 \<and> tb_fails (snd (tb_run c name argv d0)) = 0
    \<and> C (tb_checks (snd (tb_run c name argv d0)))"
proof -
  let ?Q = "\<lambda>x s. x = 0 \<and> C (tb_checks s) \<and> tb_fails s = 0"
  have "wp (do { c; tb_finish }) ?Q d0 0 0 (tb_new_aux name argv) ()"
    by (rule wp_bind_ok [OF assms]) (simp add: wp_finish)
  then show ?thesis
    using run_state_wp [of "do { c; tb_finish }" ?Q "tb_new name argv d0"]
    by (simp add: tb_new_def tb_run_def)
qed

lemma tb_ok_run:
  assumes "tb_ok P c (\<lambda>_ d k m. k = n)" and "P d0 0 ()"
  shows "run_passes (tb_run c name argv d0) n"
  using tb_ok_run_if [OF assms] by (simp add: run_passes_def)

lemma tb_ok_run_with:
  assumes "tb_ok P c (\<lambda>_ d k m. k = n \<and> L m)" and "P d0 0 l"
  shows "run_passes (tb_run_with l c name argv d0) n \<and> L (tb.more (snd (tb_run_with l c name argv d0)))"
proof -
  let ?Q = "\<lambda>x s. x = 0 \<and> tb_checks s = n \<and> L (tb.more s) \<and> tb_fails s = 0"
  have "wp (do { c; tb_finish }) ?Q d0 0 0 (tb_new_aux name argv) l"
    by (rule wp_bind_ok [OF assms]) (simp add: wp_finish)
  then show ?thesis
    by (simp add: wp_def tb_run_with_def run_passes_def split: prod.splits)
qed

lemma tb_pass_run:
  assumes "tb_pass I c n" and "I d0 ()"
  shows "run_passes (tb_run c name argv d0) n"
  by (rule tb_ok_run [where P = "\<lambda>d k m. I d m \<and> k = 0"])
    (use tb_passD [OF assms(1), of 0] assms(2) in \<open>auto elim: tb_ok_conseq\<close>)

section \<open>What the harness relies on of a Verilated model\<close>

text \<open>
  \<open>eval()\<close> settles the model: calling it again without a change of inputs changes nothing.
  This is all \<open>settle()\<close> needs.
\<close>

definition settle_aux :: "tb_aux \<Rightarrow> tb_aux" where
  "settle_aux h = dump_aux (advance_aux 1000 (dump_aux h))"

definition tick_aux :: "tb_aux \<Rightarrow> tb_aux" where
  "tick_aux h = dump_aux (half_aux (dump_aux (half_aux (dump_aux h))))"

locale comb_dut =
  fixes ev :: "'d \<Rightarrow> 'd"
  assumes eval_idem: "ev (ev d) = ev d"
begin

lemma wp_settle:
  "wp (State_Monad.bind (tb_settle ev) F) Q d k f h m = wp (F ()) Q (ev d) k f (settle_aux h) m"
  by (simp add: tb_settle_def wp_settle_ps settle_aux_def eval_idem)

lemma settle_ok: "tb_ok (\<lambda>d. P (ev d)) (tb_settle ev) (\<lambda>_. P)"
proof (rule tb_okI)
  fix d k f h m
  assume "P (ev d) k m"
  then show "wp (tb_settle ev)
      (\<lambda>x s. P (tb_dut s) (tb_checks s) (tb.more s) \<and> tb_fails s = f) d k f h m"
    using wp_settle [of "\<lambda>x. State_Monad.return x" "\<lambda>x s. P (tb_dut s) (tb_checks s) (tb.more s)
        \<and> tb_fails s = f" d k f h m] by (simp add: wp_return)
qed

end

text \<open>
  A model with a clock: from a low clock, one \<open>tick()\<close> (settle, raise, settle, lower, settle)
  has the effect \<open>posedge\<close> of exactly one rising edge, and the clock is low again.
\<close>

locale clocked_dut = comb_dut ev
  for ev :: "'p vclk_scheme \<Rightarrow> 'p vclk_scheme" +
  fixes posedge :: "'p vclk_scheme \<Rightarrow> 'p vclk_scheme"
  assumes tick_edge:
    "\<not> v_clk d \<Longrightarrow> ev ((ev ((ev d)\<lparr>v_clk := True\<rparr>))\<lparr>v_clk := False\<rparr>) = posedge d"
  and posedge_low: "\<not> v_clk d \<Longrightarrow> \<not> v_clk (posedge d)"
begin

lemma wp_tick:
  assumes "\<not> v_clk d"
  shows "wp (State_Monad.bind (tb_tick ev) F) Q d k f h m
    = wp (F ()) Q (posedge d) k f (tick_aux h) m"
  using assms by (simp add: tb_tick_def tb_dump_def wp_poke wp_upd tick_aux_def tick_edge)

lemma tick_ok:
  "tb_ok (\<lambda>d k m. \<not> v_clk d \<and> P (posedge d) k m) (tb_tick ev) (\<lambda>_ d k m. \<not> v_clk d \<and> P d k m)"
proof (rule tb_okI)
  fix d k f h m
  assume "\<not> v_clk d \<and> P (posedge d) k m"
  then show "wp (tb_tick ev) (\<lambda>x s. (\<not> v_clk (tb_dut s) \<and> P (tb_dut s) (tb_checks s) (tb.more s))
        \<and> tb_fails s = f) d k f h m"
    using wp_tick [of d "\<lambda>x. State_Monad.return x" "\<lambda>x s. (\<not> v_clk (tb_dut s) \<and>
        P (tb_dut s) (tb_checks s) (tb.more s)) \<and> tb_fails s = f" k f h m]
    by (simp add: wp_return posedge_low)
qed

end

text \<open>
  How Verilator builds \<open>eval()\<close> from the RTL: if the clock rose since the last call, the
  \<open>always @(posedge clk)\<close> blocks (\<open>seq\<close>) update the registers from the inputs and the old
  registers; then the combinational logic (\<open>comb\<close>) recomputes every output.
\<close>

definition veval ::
  "('p vclk_scheme \<Rightarrow> 'p vclk_scheme) \<Rightarrow> ('p vclk_scheme \<Rightarrow> 'p vclk_scheme) \<Rightarrow>
   'p vclk_scheme \<Rightarrow> 'p vclk_scheme" where
  "veval seq comb d =
     comb ((if v_clk d \<and> \<not> v_clk_prev d then seq d else d)\<lparr>v_clk_prev := v_clk d\<rparr>)"

definition vposedge ::
  "('p vclk_scheme \<Rightarrow> 'p vclk_scheme) \<Rightarrow> ('p vclk_scheme \<Rightarrow> 'p vclk_scheme) \<Rightarrow>
   'p vclk_scheme \<Rightarrow> 'p vclk_scheme" where
  "vposedge seq comb d = comb ((seq d)\<lparr>v_clk := False, v_clk_prev := False\<rparr>)"

text \<open>
  The laws an RTL module's two functions obey: neither reads or writes the clock, outputs
  are a function of inputs and registers, and registers do not depend on stale outputs.
\<close>

locale verilated_module =
  fixes seq comb :: "'p vclk_scheme \<Rightarrow> 'p vclk_scheme"
  assumes comb_clk: "v_clk (comb d) = v_clk d" "v_clk_prev (comb d) = v_clk_prev d"
    and comb_upd: "comb (d\<lparr>v_clk := b\<rparr>) = (comb d)\<lparr>v_clk := b\<rparr>"
      "comb (d\<lparr>v_clk_prev := b\<rparr>) = (comb d)\<lparr>v_clk_prev := b\<rparr>"
    and comb_comb: "comb (comb d) = comb d"
    and seq_clk: "v_clk (seq d) = v_clk d"
    and seq_upd: "seq (d\<lparr>v_clk := b\<rparr>) = (seq d)\<lparr>v_clk := b\<rparr>"
      "seq (d\<lparr>v_clk_prev := b\<rparr>) = (seq d)\<lparr>v_clk_prev := b\<rparr>"
    and seq_comb: "comb (seq (comb d)) = comb (seq d)"

sublocale verilated_module \<subseteq> clocked_dut "veval seq comb" "vposedge seq comb"
proof unfold_locales
  fix d
  show "veval seq comb (veval seq comb d) = veval seq comb d"
    by (simp add: veval_def comb_clk comb_upd comb_comb seq_clk)
  show "veval seq comb ((veval seq comb ((veval seq comb d)\<lparr>v_clk := True\<rparr>))\<lparr>v_clk := False\<rparr>)
      = vposedge seq comb d" if "\<not> v_clk d"
    using that by (simp add: veval_def vposedge_def comb_clk comb_upd comb_comb seq_clk seq_upd seq_comb)
  show "\<not> v_clk (vposedge seq comb d)" if "\<not> v_clk d"
    by (simp add: vposedge_def comb_clk)
qed

text \<open>Settling before a tick changes nothing: the tick settles first.\<close>

context verilated_module
begin

lemma posedge_eval: "\<not> v_clk d \<Longrightarrow> vposedge seq comb (veval seq comb d) = vposedge seq comb d"
  by (simp add: veval_def vposedge_def comb_upd seq_upd seq_comb)

lemma eval_low: "\<not> v_clk d \<Longrightarrow> veval seq comb d = (comb d)\<lparr>v_clk_prev := False\<rparr>"
  by (simp add: veval_def comb_upd)

end

section \<open>Counting, and benches that may fail\<close>

text \<open>
  \<open>tb_counts c n p\<close>: from any state, \<open>c\<close> performs \<open>n\<close> checks of which \<open>p\<close> fail.
  \<open>tb_mono c\<close>: \<open>c\<close> never takes a failure back.
\<close>

definition tb_counts :: "(('d, 'm) tb_scheme, 'a) state \<Rightarrow> int \<Rightarrow> int \<Rightarrow> bool" where
  "tb_counts c n p \<longleftrightarrow>
     (\<forall>s. tb_checks (snd (run_state c s)) = tb_checks s + n
        \<and> tb_fails (snd (run_state c s)) = tb_fails s + p)"

definition tb_mono :: "(('d, 'm) tb_scheme, 'a) state \<Rightarrow> bool" where
  "tb_mono c \<longleftrightarrow> (\<forall>s. tb_fails s \<le> tb_fails (snd (run_state c s)))"

named_theorems tb_mono_intros \<open>structural rules for \<open>tb_mono\<close>\<close>

lemma tb_countsI:
  assumes "\<And>d k f h m. wp c (\<lambda>x s. tb_checks s = k + n \<and> tb_fails s = f + p) d k f h m"
  shows "tb_counts c n p"
  unfolding tb_counts_def
proof
  fix s
  show "tb_checks (snd (run_state c s)) = tb_checks s + n
      \<and> tb_fails (snd (run_state c s)) = tb_fails s + p"
    using run_state_wp [of c "\<lambda>x s'. tb_checks s' = tb_checks s + n \<and> tb_fails s' = tb_fails s + p" s]
      assms by simp
qed

lemma tb_counts_mono: "tb_counts c n p \<Longrightarrow> 0 \<le> p \<Longrightarrow> tb_mono c"
  by (simp add: tb_counts_def tb_mono_def)

lemma tb_counts_bind:
  assumes "tb_counts c n p" and "\<And>x. tb_counts (F x) n' p'"
  shows "tb_counts (State_Monad.bind c F) (n + n') (p + p')"
  using assms by (simp add: tb_counts_def split: prod.splits) (metis snd_conv add.assoc)

lemma tb_counts_return: "tb_counts (State_Monad.return x) 0 0"
  by (simp add: tb_counts_def)

lemma tb_counts_each:
  assumes "\<And>x. x \<in> set xs \<Longrightarrow> tb_counts (g x) (n x) (p x)"
  shows "tb_counts (each g xs) (sum_list (map n xs)) (sum_list (map p xs))"
  using assms
proof (induction xs)
  case Nil
  then show ?case by (simp add: tb_counts_return)
next
  case (Cons x xs)
  then show ?case by (simp add: tb_counts_bind)
qed

lemma tb_counts_poke [simp]: "tb_counts (poke g) 0 0"
  by (simp add: tb_counts_def poke_def)

lemma tb_counts_peek [simp]: "tb_counts (peek g) 0 0"
  by (simp add: tb_counts_def peek_def)

lemma tb_counts_upd [simp]: "tb_counts (tb_upd g) 0 0"
  by (simp add: tb_counts_def tb_upd_def)

lemma tb_counts_begin [simp]: "tb_counts (tb_begin n) 0 0"
  by (simp add: tb_begin_def)

lemma tb_counts_section:
  assumes "tb_counts c n p" and "tb_counts c' n' p'"
  shows "tb_counts (do { tb_begin s; c; c' }) (n + n') (p + p')"
  using tb_counts_bind [OF tb_counts_begin, of "\<lambda>_. State_Monad.bind c (\<lambda>_. c')"]
    tb_counts_bind [OF assms(1), of "\<lambda>_. c'"] assms(2) by simp

lemma tb_counts_check: "tb_counts (tb_check file l e g w) 1 (of_bool (g \<noteq> w))"
  by (simp add: tb_counts_def tb_check_def)

lemma tb_mono_bind [tb_mono_intros]:
  assumes "tb_mono c" and "\<And>x. tb_mono (F x)"
  shows "tb_mono (State_Monad.bind c F)"
  using assms by (simp add: tb_mono_def split: prod.splits) (metis order.trans snd_conv)

lemma tb_mono_for_n:
  "(\<And>i a. tb_mono (body i a)) \<Longrightarrow> tb_mono (for_n n i body a)"
proof (induction n arbitrary: i a)
  case 0
  show ?case by (simp add: tb_mono_def)
next
  case (Suc n)
  then show ?case by (simp add: tb_mono_bind)
qed

lemma tb_mono_prims [tb_mono_intros]:
  "tb_mono (State_Monad.return x)"
  "tb_mono (poke g)"
  "tb_mono (peek q)"
  "tb_mono (tb_upd u)"
  "tb_mono (tb_begin n)"
  "tb_mono (tb_check file l e got w)"
  "tb_mono tb_rnd"
  by (simp_all add: tb_mono_def poke_def peek_def tb_upd_def tb_begin_def tb_check_def tb_rnd_def
      Let_def split: prod.splits)

lemma tb_mono_rnd_in [tb_mono_intros]: "tb_mono (tb_rnd_in lo hi)"
  unfolding tb_rnd_in_def by (intro tb_mono_intros)

lemma tb_mono_settle [tb_mono_intros]: "tb_mono (tb_settle ev)"
  unfolding tb_settle_def tb_settle_ps_def tb_dump_def by (intro tb_mono_intros)

lemma tb_mono_tick [tb_mono_intros]: "tb_mono (tb_tick ev)"
  unfolding tb_tick_def tb_dump_def by (intro tb_mono_intros)

lemma tb_mono_for [tb_mono_intros]:
  "(\<And>i a. tb_mono (body i a)) \<Longrightarrow> tb_mono (for_range lo hi body a)"
  by (simp add: for_range_def tb_mono_for_n)

lemma tb_mono_each [tb_mono_intros]: "(\<And>x. tb_mono (g x)) \<Longrightarrow> tb_mono (each g xs)"
  by (induction xs) (auto intro: tb_mono_intros)

lemma tb_mono_if [tb_mono_intros]: "tb_mono c1 \<Longrightarrow> tb_mono c2 \<Longrightarrow> tb_mono (if b then c1 else c2)"
  by simp

lemma tb_mono_let [tb_mono_intros]: "(\<And>x. tb_mono (c x)) \<Longrightarrow> tb_mono (Let e c)"
  by simp

text \<open>A bench that has recorded a failure when a part of it ends, ends with exit code 1.\<close>

lemma tb_run_fails:
  assumes "tb_counts c n p" and "0 < p" and "tb_mono c'"
  shows "fst (tb_run (do { c; c' }) name argv d) = 1"
proof -
  let ?s = "tb_new name argv d"
  let ?s1 = "snd (run_state c ?s)"
  have "0 < tb_fails ?s1"
    using assms(1,2) by (simp add: tb_counts_def tb_new_def)
  then have "0 < tb_fails (snd (run_state c' ?s1))"
    using assms(3) unfolding tb_mono_def by (metis order_less_le_trans)
  then show ?thesis
    by (auto simp: tb_run_def tb_finish_def split: prod.splits)
qed

lemma tb_run_detects:
  assumes "wp c (\<lambda>_ s. 0 < tb_fails s) d 0 0 (tb_new_aux name argv) ()" and "tb_mono c'"
  shows "fst (tb_run (do { c; c' }) name argv d) = 1"
proof -
  let ?s1 = "snd (run_state c (tb_new name argv d))"
  have "0 < tb_fails ?s1"
    using assms(1) run_state_wp [of c "\<lambda>_ s. 0 < tb_fails s" "tb_new name argv d"] by (simp add: tb_new_def)
  then have "0 < tb_fails (snd (run_state c' ?s1))"
    using assms(2) unfolding tb_mono_def by (metis order_less_le_trans)
  then show ?thesis
    by (auto simp: tb_run_def tb_finish_def split: prod.splits)
qed

text \<open>Once a failure is recorded, it stays.\<close>

lemma wp_fails:
  assumes "tb_mono c" and "0 < f"
  shows "wp c (\<lambda>_ s. 0 < tb_fails s) d k f h m"
  using assms unfolding wp_def tb_mono_def
  by (auto split: prod.splits) (metis order_less_le_trans snd_conv tb.select_convs(3))

lemma tb_mono_loop_n [tb_mono_intros]:
  "(\<And>a. tb_mono (body a)) \<Longrightarrow> tb_mono (loop_n n b body a)"
  by (induction n arbitrary: a) (auto intro: tb_mono_intros)

lemma tb_run_wp:
  assumes "wp c (\<lambda>_ s. B (tb_checks s) (tb_fails s)) d 0 0 (tb_new_aux name argv) ()"
  shows "B (tb_checks (snd (tb_run c name argv d))) (tb_fails (snd (tb_run c name argv d)))"
    and "fst (tb_run c name argv d) = of_bool (tb_fails (snd (tb_run c name argv d)) \<noteq> 0)"
proof -
  let ?s1 = "snd (run_state c (tb_new name argv d))"
  have "B (tb_checks ?s1) (tb_fails ?s1)"
    using assms run_state_wp [of c "\<lambda>_ s. B (tb_checks s) (tb_fails s)" "tb_new name argv d"]
    by (simp add: tb_new_def)
  then show "B (tb_checks (snd (tb_run c name argv d))) (tb_fails (snd (tb_run c name argv d)))"
    and "fst (tb_run c name argv d) = of_bool (tb_fails (snd (tb_run c name argv d)) \<noteq> 0)"
    by (auto simp: tb_run_def tb_finish_def split: prod.splits)
qed

section \<open>Parts that draw no random numbers\<close>

definition tb_keeps_rng :: "(('d, 'm) tb_scheme, 'a) state \<Rightarrow> bool" where
  "tb_keeps_rng c \<longleftrightarrow> (\<forall>s. tb_rng (tb_rest (snd (run_state c s))) = tb_rng (tb_rest s))"

named_theorems tb_rng_intros \<open>structural rules for \<open>tb_keeps_rng\<close>\<close>

lemma tb_keeps_rng_bind [tb_rng_intros]:
  "tb_keeps_rng c \<Longrightarrow> (\<And>x. tb_keeps_rng (F x)) \<Longrightarrow> tb_keeps_rng (State_Monad.bind c F)"
  by (simp add: tb_keeps_rng_def split: prod.splits) (metis snd_conv)

lemma tb_keeps_rng_prims [tb_rng_intros]:
  "tb_keeps_rng (State_Monad.return x)"
  "tb_keeps_rng (poke g)"
  "tb_keeps_rng (peek q)"
  "tb_keeps_rng (tb_begin n)"
  "tb_keeps_rng (tb_check file l e got w)"
  "tb_keeps_rng tb_dump"
  "tb_keeps_rng (tb_upd (advance_aux ps))"
  "tb_keeps_rng (tb_upd half_aux)"
  by (simp_all add: tb_keeps_rng_def poke_def peek_def tb_upd_def tb_begin_def tb_check_def tb_dump_def
      begin_aux_def report_aux_def dump_aux_def advance_aux_def half_aux_def Let_def)

lemma tb_keeps_rng_tick [tb_rng_intros]: "tb_keeps_rng (tb_tick ev)"
  unfolding tb_tick_def by (intro tb_rng_intros)

lemma tb_keeps_rng_settle [tb_rng_intros]: "tb_keeps_rng (tb_settle ev)"
  unfolding tb_settle_def tb_settle_ps_def by (intro tb_rng_intros)

lemma tb_keeps_rng_loop_n [tb_rng_intros]:
  "(\<And>a. tb_keeps_rng (body a)) \<Longrightarrow> tb_keeps_rng (loop_n n b body a)"
  by (induction n arbitrary: a) (auto intro: tb_rng_intros)

lemma tb_keeps_rng_for [tb_rng_intros]:
  assumes "\<And>i a. tb_keeps_rng (body i a)"
  shows "tb_keeps_rng (for_range lo hi body a)"
proof -
  have "tb_keeps_rng (for_n n i body a)" for n i
    using assms by (induction n arbitrary: i a) (auto intro: tb_rng_intros)
  then show ?thesis by (simp add: for_range_def)
qed

lemma tb_keeps_rng_let [tb_rng_intros]: "(\<And>x. tb_keeps_rng (c x)) \<Longrightarrow> tb_keeps_rng (Let e c)"
  by simp

lemma wp_bind_rng:
  assumes c: "tb_ok P c R" and P: "P d k m" and rng: "tb_keeps_rng c"
    and F: "\<And>x d' k' h' m'. R x d' k' m' \<Longrightarrow> tb_rng h' = tb_rng h \<Longrightarrow> wp (F x) Q d' k' f h' m'"
  shows "wp (State_Monad.bind c F) Q d k f h m"
proof -
  obtain x s1 where run:
      "run_state c \<lparr>tb_dut = d, tb_checks = k, tb_fails = f, tb_rest = h, \<dots> = m\<rparr> = (x, s1)"
    by (meson surj_pair)
  have "R x (tb_dut s1) (tb_checks s1) (tb.more s1) \<and> tb_fails s1 = f"
    using tb_okD [OF c P, of f h] by (simp add: wp_def run)
  moreover have "tb_rng (tb_rest s1) = tb_rng h"
    using rng run unfolding tb_keeps_rng_def by (metis snd_conv tb.select_convs(4))
  ultimately have "wp (F x) Q (tb_dut s1) (tb_checks s1) (tb_fails s1) (tb_rest s1) (tb.more s1)"
    using F by simp
  then show ?thesis
    unfolding wp_bind unfolding wp_def [of c] run by simp
qed

section \<open>Benches made of directed vectors\<close>

text \<open>The shape of a bench's directed part: a title, then one call per vector, and so on.\<close>

primrec run_sections ::
  "('x \<Rightarrow> (('d, 'm) tb_scheme, unit) state) \<Rightarrow> (string \<times> 'x list) list \<Rightarrow>
   (('d, 'm) tb_scheme, unit) state" where
  "run_sections chk [] = State_Monad.return ()"
| "run_sections chk (sec # secs) =
     do { tb_begin (fst sec); each chk (snd sec); run_sections chk secs }"

definition section_vectors :: "(string \<times> 'x list) list \<Rightarrow> 'x list" where
  "section_vectors secs = concat (map snd secs)"

lemma tb_pass_sections:
  "(\<And>v. v \<in> set (section_vectors secs) \<Longrightarrow> tb_pass I (chk v) n) \<Longrightarrow>
   tb_pass I (run_sections chk secs) (n * int (length (section_vectors secs)))"
proof (induction secs)
  case Nil
  then show ?case by (simp add: section_vectors_def tb_pass_return)
next
  case (Cons sec secs)
  have "tb_pass I (each chk (snd sec)) (n * int (length (snd sec)))"
    by (rule tb_pass_each) (rule Cons.prems, simp add: section_vectors_def)
  moreover have "tb_pass I (run_sections chk secs) (n * int (length (section_vectors secs)))"
    by (rule Cons.IH, rule Cons.prems) (simp add: section_vectors_def)
  ultimately have "tb_pass I (run_sections chk (sec # secs))
      (0 + (n * int (length (snd sec)) + n * int (length (section_vectors secs))))"
    unfolding run_sections.simps by (intro tb_pass_bind tb_pass_begin)
  then show ?case by (simp add: section_vectors_def algebra_simps)
qed

lemma tb_counts_pass: "tb_counts c n 0 \<Longrightarrow> tb_pass (\<lambda>_ _. True) c n"
proof (rule tb_passI)
  fix d k f h and m :: 'b
  assume "tb_counts c n 0"
  then show "wp c (\<lambda>x s. True \<and> tb_checks s = k + n \<and> tb_fails s = f) d k f h m"
    using run_state_wp [of c "\<lambda>x s. tb_checks s = k + n \<and> tb_fails s = f"
        "\<lparr>tb_dut = d, tb_checks = k, tb_fails = f, tb_rest = h, \<dots> = m\<rparr>"]
    by (simp add: tb_counts_def)
qed

text \<open>
  A vector's call performs \<open>size v\<close> checks, of which \<open>failures v\<close> fail. Then the directed part
  performs and fails their sums, and one failing vector makes the whole bench exit with 1.
\<close>

locale vector_bench =
  fixes chk :: "'x \<Rightarrow> ('d tb, unit) state" and size failures :: "'x \<Rightarrow> int"
  assumes chk_counts: "tb_counts (chk v) (size v) (failures v)"
    and failures_nonneg: "0 \<le> failures v"
begin

lemma chk_mono: "tb_mono (chk v)"
  by (rule tb_counts_mono [OF chk_counts failures_nonneg])

lemma chk_pass: "failures v = 0 \<Longrightarrow> tb_pass (\<lambda>_ _. True) (chk v) (size v)"
  using chk_counts [of v] by (simp add: tb_counts_pass)

lemma sections_counts:
  "tb_counts (run_sections chk secs) (sum_list (map size (section_vectors secs)))
     (sum_list (map failures (section_vectors secs)))"
proof (induction secs)
  case Nil
  then show ?case by (simp add: section_vectors_def tb_counts_return)
next
  case (Cons sec secs)
  have "tb_counts (each chk (snd sec)) (sum_list (map size (snd sec))) (sum_list (map failures (snd sec)))"
    by (rule tb_counts_each) (rule chk_counts)
  from tb_counts_section [OF this Cons] show ?case
    by (simp add: section_vectors_def)
qed

lemma sections_pass:
  assumes "list_all (\<lambda>v. failures v = 0) (section_vectors secs)"
  shows "tb_pass (\<lambda>_ _. True) (run_sections chk secs) (sum_list (map size (section_vectors secs)))"
proof -
  have "map failures (section_vectors secs) = map (\<lambda>_. 0) (section_vectors secs)"
    using assms by (simp add: list_all_iff)
  then have "sum_list (map failures (section_vectors secs)) = 0"
    by (simp only: sum_list_0)
  then show ?thesis using sections_counts [of secs] by (intro tb_counts_pass) simp
qed

lemma rejects:
  assumes "v \<in> set (section_vectors secs)" and "failures v \<noteq> 0" and "tb_mono c'"
  shows "fst (tb_run (do { run_sections chk secs; c' }) name argv d) = 1"
proof (rule tb_run_fails [OF sections_counts _ assms(3)])
  have "0 < failures v" using failures_nonneg [of v] assms(2) by simp
  also have "failures v \<le> sum_list (map failures (section_vectors secs))"
    by (rule member_le_sum_list) (use assms(1) failures_nonneg in auto)
  finally show "0 < sum_list (map failures (section_vectors secs))" .
qed

end

text \<open>The common case: one check per vector, which fails exactly on the bad vectors.\<close>

locale directed_bench =
  fixes chk :: "'x \<Rightarrow> ('d tb, unit) state" and bad :: "'x \<Rightarrow> bool"
  assumes chk_counts: "tb_counts (chk v) 1 (of_bool (bad v))"

sublocale directed_bench \<subseteq> vec: vector_bench chk "\<lambda>_. 1" "\<lambda>v. of_bool (bad v)"
  by unfold_locales (simp_all add: chk_counts)

context directed_bench
begin

lemmas chk_mono = vec.chk_mono

lemma chk_pass: "\<not> bad v \<Longrightarrow> tb_pass (\<lambda>_ _. True) (chk v) 1"
  using vec.chk_pass [of v] by simp

lemma sections_pass:
  "list_all (\<lambda>v. \<not> bad v) (section_vectors secs) \<Longrightarrow>
   tb_pass (\<lambda>_ _. True) (run_sections chk secs) (int (length (section_vectors secs)))"
  using vec.sections_pass [of secs] by (simp add: sum_list_triv)

lemma rejects:
  assumes "v \<in> set (section_vectors secs)" and "bad v" and "tb_mono c'"
  shows "fst (tb_run (do { run_sections chk secs; c' }) name argv d) = 1"
  by (rule vec.rejects [OF assms(1) _ assms(3)]) (simp add: assms(2))

end

section \<open>Random numbers\<close>

lemma rnd_scale_range:
  assumes "lo \<le> hi" and "hi - lo \<noteq> - 1"
  shows "lo \<le> rnd_scale lo hi x \<and> rnd_scale lo hi x \<le> hi"
proof -
  let ?n = "hi - lo + 1"
  have sub: "unat (hi - lo) = unat hi - unat lo"
    using assms(1) by (simp add: unat_sub)
  have n: "unat ?n = unat hi - unat lo + 1"
  proof -
    have "?n \<noteq> 0" using assms(2) by (metis eq_neg_iff_add_eq_0)
    then have "unat ?n = Suc (unat (hi - lo))"
      by (simp add: add.commute [of _ 1] unatSuc)
    then show ?thesis using sub by simp
  qed
  have r: "unat (x mod ?n) < unat ?n"
    using n by (simp add: unat_mod)
  have le: "unat lo \<le> unat hi" using assms(1) by (simp add: word_le_nat_alt)
  have "unat lo + unat (x mod ?n) \<le> unat hi" using r n le by linarith
  then have "unat (rnd_scale lo hi x) = unat lo + unat (x mod ?n)"
  proof -
    have "unat hi < 2 ^ LENGTH(32)" by (rule unsigned_less)
    then show ?thesis
      using \<open>unat lo + unat (x mod ?n) \<le> unat hi\<close> by (simp add: rnd_scale_def unat_word_ariths)
  qed
  then show ?thesis
    using \<open>unat lo + unat (x mod ?n) \<le> unat hi\<close> by (simp add: word_le_nat_alt)
qed

lemma rnd_scale_0_less:
  assumes "n < - 1"
  shows "unat (rnd_scale 0 n x) \<le> unat n"
proof -
  have "n - 0 \<noteq> - 1" using assms by auto
  then show ?thesis using rnd_scale_range [of 0 n x] by (simp add: word_le_nat_alt)
qed

text \<open>Random register numbers and \<open>funct3\<close> fields fit their bit fields.\<close>

lemma rnd_5: "\<exists>y :: 5 word. rnd_scale 0 31 x = ucast y"
  by (rule exI [of _ "ucast (rnd_scale 0 31 x)"], rule ucast_ucast_le [symmetric])
    (use rnd_scale_0_less [of 31 x] in simp)

lemma rnd_3: "\<exists>y :: 3 word. rnd_scale 0 7 x = ucast y"
  by (rule exI [of _ "ucast (rnd_scale 0 7 x)"], rule ucast_ucast_le [symmetric])
    (use rnd_scale_0_less [of 7 x] in simp)

end
