(* ===== verification/Alu.thy ===== *)
theory Alu
  imports Tb_Common
begin

text \<open>
  The ALU: the RTL module \<open>rtl/core/alu.v\<close> with the opcode macros of
  \<open>rtl/include/rv32i_defs.vh\<close>, and its test bench \<open>sim/verilator/tb_alu.cpp\<close> with the C++
  reference model \<open>ref\<close>.
\<close>

section \<open>rv32i_defs.vh and alu.v\<close>

definition ALU_ADD :: "4 word" where [tb_data]: "ALU_ADD = 0b0000"
definition ALU_SLL :: "4 word" where [tb_data]: "ALU_SLL = 0b0001"
definition ALU_SLT :: "4 word" where [tb_data]: "ALU_SLT = 0b0010"
definition ALU_SLTU :: "4 word" where [tb_data]: "ALU_SLTU = 0b0011"
definition ALU_XOR :: "4 word" where [tb_data]: "ALU_XOR = 0b0100"
definition ALU_SRL :: "4 word" where [tb_data]: "ALU_SRL = 0b0101"
definition ALU_OR :: "4 word" where [tb_data]: "ALU_OR = 0b0110"
definition ALU_AND :: "4 word" where [tb_data]: "ALU_AND = 0b0111"
definition ALU_SUB :: "4 word" where [tb_data]: "ALU_SUB = 0b1000"
definition ALU_SRA :: "4 word" where [tb_data]: "ALU_SRA = 0b1101"

definition alu :: "u32 \<Rightarrow> u32 \<Rightarrow> 4 word \<Rightarrow> u32" where
  "alu a b alu_op =
     (let shamt = vbits 4 0 b :: 5 word in
      if alu_op = ALU_ADD then a + b
      else if alu_op = ALU_SUB then a - b
      else if alu_op = ALU_AND then a AND b
      else if alu_op = ALU_OR then a OR b
      else if alu_op = ALU_XOR then a XOR b
      else if alu_op = ALU_SLL then push_bit (unat shamt) a
      else if alu_op = ALU_SRL then drop_bit (unat shamt) a
      else if alu_op = ALU_SRA then signed_drop_bit (unat shamt) a
      else if alu_op = ALU_SLT then (if sint a < sint b then 1 else 0)
      else if alu_op = ALU_SLTU then (if a < b then 1 else 0)
      else 0)"

text \<open>The Verilated class \<open>Valu\<close>: its ports, and \<open>eval()\<close> for a module that computes \<open>f\<close>.\<close>

record Valu =
  alu_a :: u32
  alu_b :: u32
  alu_alu_op :: "4 word"
  alu_result :: u32

definition Valu_eval_of :: "(u32 \<Rightarrow> u32 \<Rightarrow> 4 word \<Rightarrow> u32) \<Rightarrow> Valu \<Rightarrow> Valu" where
  "Valu_eval_of f d = d\<lparr>alu_result := f (alu_a d) (alu_b d) (alu_alu_op d)\<rparr>"

definition Valu_eval :: "Valu \<Rightarrow> Valu" where
  "Valu_eval = Valu_eval_of alu"

lemma comb_dut_Valu_eval_of: "comb_dut (Valu_eval_of f)"
  by unfold_locales (simp add: Valu_eval_of_def)

interpretation alu_dut: comb_dut "Valu_eval_of f" for f
  by (rule comb_dut_Valu_eval_of)

section \<open>tb_alu.cpp: the reference model\<close>

definition tb_ALU_ADD :: u32 where [tb_data]: "tb_ALU_ADD = 0b0000"
definition tb_ALU_SLL :: u32 where [tb_data]: "tb_ALU_SLL = 0b0001"
definition tb_ALU_SLT :: u32 where [tb_data]: "tb_ALU_SLT = 0b0010"
definition tb_ALU_SLTU :: u32 where [tb_data]: "tb_ALU_SLTU = 0b0011"
definition tb_ALU_XOR :: u32 where [tb_data]: "tb_ALU_XOR = 0b0100"
definition tb_ALU_SRL :: u32 where [tb_data]: "tb_ALU_SRL = 0b0101"
definition tb_ALU_OR :: u32 where [tb_data]: "tb_ALU_OR = 0b0110"
definition tb_ALU_AND :: u32 where [tb_data]: "tb_ALU_AND = 0b0111"
definition tb_ALU_SUB :: u32 where [tb_data]: "tb_ALU_SUB = 0b1000"
definition tb_ALU_SRA :: u32 where [tb_data]: "tb_ALU_SRA = 0b1101"

definition alu_ref :: "u32 \<Rightarrow> u32 \<Rightarrow> u32 \<Rightarrow> u32" where
  "alu_ref op a b =
     (let sh = b AND 31 in
      if op = tb_ALU_ADD then a + b
      else if op = tb_ALU_SUB then a - b
      else if op = tb_ALU_AND then a AND b
      else if op = tb_ALU_OR then a OR b
      else if op = tb_ALU_XOR then a XOR b
      else if op = tb_ALU_SLL then push_bit (unat sh) a
      else if op = tb_ALU_SRL then drop_bit (unat sh) a
      else if op = tb_ALU_SRA then signed_drop_bit (unat sh) a
      else if op = tb_ALU_SLT then of_bool (sint a < sint b)
      else if op = tb_ALU_SLTU then of_bool (a < b)
      else 0)"

section \<open>tb_alu.cpp: the bench\<close>

text \<open>
  The lambda \<open>chk\<close>: apply inputs, settle, compare. The port \<open>alu_op\<close> is four bits wide.
\<close>

definition alu_chk :: "(Valu \<Rightarrow> Valu) \<Rightarrow> u32 \<times> u32 \<times> u32 \<times> u32 \<Rightarrow> (Valu tb, unit) state" where
  "alu_chk ev v = (case v of (op, a, b, want) \<Rightarrow> do {
     poke (\<lambda>d. d\<lparr>alu_a := a, alu_b := b, alu_alu_op := ucast op\<rparr>);
     tb_settle ev;
     r \<leftarrow> peek alu_result;
     tb_check ''tb_alu.cpp'' 42 ''d.result'' (ucast r) (ucast want) })"

text \<open>Sections 1 to 5: the calls of \<open>chk\<close>, in order.\<close>

definition alu_sec1 :: "(u32 \<times> u32 \<times> u32 \<times> u32) list" where [tb_data]:
  "alu_sec1 =
    [(tb_ALU_ADD, 5, 10, 15),
     (tb_ALU_ADD, 0xFFFFFFFF, 1, 0),
     (tb_ALU_SUB, 10, 5, 5),
     (tb_ALU_SUB, 0, 1, 0xFFFFFFFF)]"

definition alu_sec2 :: "(u32 \<times> u32 \<times> u32 \<times> u32) list" where [tb_data]:
  "alu_sec2 =
    [(tb_ALU_AND, 0xF0F0F0F0, 0xFF00FF00, 0xF000F000),
     (tb_ALU_OR, 0, 1, 1),
     (tb_ALU_OR, 1, 1, 1),
     (tb_ALU_OR, 1, 0, 1),
     (tb_ALU_OR, 0, 0, 0),
     (tb_ALU_XOR, 0, 1, 1),
     (tb_ALU_XOR, 0, 0, 0),
     (tb_ALU_XOR, 1, 0, 1),
     (tb_ALU_XOR, 1, 1, 0)]"

definition alu_sec3 :: "(u32 \<times> u32 \<times> u32 \<times> u32) list" where [tb_data]:
  "alu_sec3 =
    [(tb_ALU_SLL, 0x00000001, 4, 0x00000010),
     (tb_ALU_SRL, 0x80000000, 4, 0x08000000),
     (tb_ALU_SRA, 0x80000000, 4, 0xF8000000),
     (tb_ALU_SRA, 0xFFFFFFFF, 0xFFFFFFFF, 0xFFFFFFFF)]"

definition alu_sec4 :: "(u32 \<times> u32 \<times> u32 \<times> u32) list" where [tb_data]:
  "alu_sec4 =
    [(tb_ALU_SLL, 0x00000001, 32, 0x00000001),
     (tb_ALU_SLL, 0x00000001, 33, 0x00000002),
     (tb_ALU_SLL, 0x00000001, 31, 0x80000000),
     (tb_ALU_SRL, 0x80000000, 31, 0x00000001),
     (tb_ALU_SRA, 0x80000000, 63, 0xFFFFFFFF)]"

definition alu_sec5 :: "(u32 \<times> u32 \<times> u32 \<times> u32) list" where [tb_data]:
  "alu_sec5 =
    [(tb_ALU_SLT, 0xFFFFFFFF, 1, 1),
     (tb_ALU_SLTU, 0xFFFFFFFF, 1, 0),
     (tb_ALU_SLT, 5, 5, 0),
     (tb_ALU_SLTU, 5, 5, 0),
     (tb_ALU_SLT, 0x80000000, 0x7FFFFFFF, 1),
     (tb_ALU_SLTU, 0x80000000, 0x7FFFFFFF, 0)]"

text \<open>Section 6: random operands, a third of the time from a table of edge values.\<close>

definition alu_ops :: "u32 list" where
  "alu_ops = [tb_ALU_ADD, tb_ALU_SUB, tb_ALU_AND, tb_ALU_OR, tb_ALU_XOR,
              tb_ALU_SLL, tb_ALU_SRL, tb_ALU_SRA, tb_ALU_SLT, tb_ALU_SLTU]"

definition alu_edge :: "u32 list" where
  "alu_edge = [0, 1, 0x7FFFFFFF, 0x80000000, 0xFFFFFFFF, 0x0000FFFF, 32, 31]"

definition alu_random :: "(Valu \<Rightarrow> Valu) \<Rightarrow> int \<Rightarrow> unit \<Rightarrow> (Valu tb, unit) state" where
  "alu_random ev i u = do {
     j \<leftarrow> tb_rnd_in 0 9;
     let op = alu_ops ! unat j;
     a \<leftarrow> tb_rnd;
     b \<leftarrow> tb_rnd;
     z \<leftarrow> tb_rnd_in 0 2;
     if z = 0 then do {
       x \<leftarrow> tb_rnd_in 0 7;
       y \<leftarrow> tb_rnd_in 0 7;
       let a = alu_edge ! unat x;
       let b = alu_edge ! unat y;
       alu_chk ev (op, a, b, alu_ref op a b) }
     else alu_chk ev (op, a, b, alu_ref op a b) }"

definition alu_sections :: "(string \<times> (u32 \<times> u32 \<times> u32 \<times> u32) list) list" where
  "alu_sections =
    [(''1. add / sub'', alu_sec1),
     (''2. bitwise'', alu_sec2),
     (''3. shifts'', alu_sec3),
     (''4. shift amount masking'', alu_sec4),
     (''5. slt vs sltu'', alu_sec5)]"

definition alu_body :: "(Valu \<Rightarrow> Valu) \<Rightarrow> (Valu tb, unit) state" where
  "alu_body ev = do {
     run_sections (alu_chk ev) alu_sections;
     tb_begin ''6. random against reference model'';
     for_range 0 20000 (alu_random ev) () }"

definition alu_main :: "(Valu \<Rightarrow> Valu) \<Rightarrow> string list \<Rightarrow> Valu \<Rightarrow> int \<times> Valu tb" where
  "alu_main ev argv d = tb_run (alu_body ev) ''alu'' argv d"

section \<open>The reference model and the RTL\<close>

lemma tb_alu_opcodes:
  "tb_ALU_ADD = ucast ALU_ADD" "tb_ALU_SLL = ucast ALU_SLL" "tb_ALU_SLT = ucast ALU_SLT"
  "tb_ALU_SLTU = ucast ALU_SLTU" "tb_ALU_XOR = ucast ALU_XOR" "tb_ALU_SRL = ucast ALU_SRL"
  "tb_ALU_OR = ucast ALU_OR" "tb_ALU_AND = ucast ALU_AND" "tb_ALU_SUB = ucast ALU_SUB"
  "tb_ALU_SRA = ucast ALU_SRA"
  by (simp_all add: tb_data)

lemma ucast_op_eq_iff: "(ucast (x :: 4 word) :: u32) = ucast y \<longleftrightarrow> x = y"
  by (rule ucast_up_eq_iff) simp

lemma unat_shamt: "unat (vbits 4 0 b :: 5 word) = unat ((b :: u32) AND 31)"
proof -
  have "(ucast (vbits 4 0 b :: 5 word) :: u32) = b AND 31"
    by (rule bit_word_eqI) (auto simp: bit_simps bit_ucast_iff numeral_eq_Suc less_Suc_eq)
  moreover have "unat (ucast (vbits 4 0 b :: 5 word) :: u32) = unat (vbits 4 0 b :: 5 word)"
    by (rule unat_ucast_up) simp
  ultimately show ?thesis by simp
qed

lemma alu_ref_ucast: "alu_ref (ucast op) a b = alu a b op"
  by (simp add: alu_ref_def alu_def tb_alu_opcodes ucast_op_eq_iff unat_shamt of_bool_def Let_def)

section \<open>The bench on an arbitrary ALU\<close>

definition alu_bad :: "(u32 \<Rightarrow> u32 \<Rightarrow> 4 word \<Rightarrow> u32) \<Rightarrow> u32 \<times> u32 \<times> u32 \<times> u32 \<Rightarrow> bool" where
  "alu_bad f v = (case v of (op, a, b, want) \<Rightarrow> f a b (ucast op) \<noteq> want)"

lemma run_alu_chk:
  "wp (alu_chk (Valu_eval_of f) (op, a, b, want)) Q d k fl h m =
   (let r = f a b (ucast op);
        d' = d\<lparr>alu_a := a, alu_b := b, alu_alu_op := ucast op, alu_result := r\<rparr>
    in if r = want
       then Q () \<lparr>tb_dut = d', tb_checks = k + 1, tb_fails = fl, tb_rest = settle_aux h, \<dots> = m\<rparr>
       else Q () \<lparr>tb_dut = d', tb_checks = k + 1, tb_fails = fl + 1,
              tb_rest = report_aux ''tb_alu.cpp'' 42 ''d.result'' (ucast r) (ucast want)
                (settle_aux h), \<dots> = m\<rparr>)"
  by (simp add: alu_chk_def tb_wp wp_check alu_dut.wp_settle Valu_eval_of_def Let_def)

lemma alu_chk_counts: "tb_counts (alu_chk (Valu_eval_of f) v) 1 (of_bool (alu_bad f v))"
  by (cases v) (auto intro!: tb_countsI simp: run_alu_chk alu_bad_def Let_def)

interpretation alu_bench: directed_bench "alu_chk (Valu_eval_of f)" "alu_bad f" for f
  by unfold_locales (rule alu_chk_counts)

lemma alu_random_mono: "tb_mono (alu_random (Valu_eval_of f) i u)"
  unfolding alu_random_def by (intro tb_mono_intros alu_bench.chk_mono)

section \<open>The bench on the RTL\<close>

lemma alu_sections_good: "list_all (\<lambda>v. \<not> alu_bad alu v) (section_vectors alu_sections)"
  by (simp add: section_vectors_def alu_sections_def alu_bad_def alu_def tb_data vbits_def Let_def)

lemma alu_ops_4bit: "op \<in> set alu_ops \<Longrightarrow> ucast (ucast op :: 4 word) = op"
  by (auto simp: alu_ops_def tb_data)

lemma alu_random_pass: "tb_pass (\<lambda>_ _. True) (alu_random Valu_eval i u) 1"
proof (rule tb_passI)
  fix d h and m :: unit and k f :: int
  have good: "\<not> alu_bad alu (alu_ops ! unat (rnd_scale 0 9 x), a, b,
      alu_ref (alu_ops ! unat (rnd_scale 0 9 x)) a b)" for x a b
  proof -
    have "unat (rnd_scale 0 9 x) \<le> unat (9 :: u32)" by (rule rnd_scale_0_less) simp
    then have "alu_ops ! unat (rnd_scale 0 9 x) \<in> set alu_ops"
      by (intro nth_mem) (simp add: alu_ops_def)
    then show ?thesis by (simp add: alu_bad_def alu_ref_ucast [symmetric] alu_ops_4bit)
  qed
  show "wp (alu_random Valu_eval i u)
      (\<lambda>x s. True \<and> tb_checks s = k + 1 \<and> tb_fails s = f) d k f h m"
    using good by (simp add: alu_random_def Valu_eval_def tb_wp run_alu_chk alu_bad_def Let_def)
qed

lemma alu_body_pass: "tb_pass (\<lambda>_ _. True) (alu_body Valu_eval) 20028"
proof -
  have "tb_pass (\<lambda>_ _. True) (run_sections (alu_chk Valu_eval) alu_sections) 28"
    using alu_bench.sections_pass [OF alu_sections_good, folded Valu_eval_def]
    by (simp add: section_vectors_def alu_sections_def alu_sec1_def alu_sec2_def alu_sec3_def
        alu_sec4_def alu_sec5_def)
  then have "tb_pass (\<lambda>_ _. True) (alu_body Valu_eval) (28 + (0 + 1 * (20000 - 0)))"
    unfolding alu_body_def by (intro tb_pass_intros alu_random_pass) simp_all
  then show ?thesis by simp
qed

section \<open>Shifts as arithmetic\<close>

lemma shamt_mod_32: "unat (vbits 4 0 (b :: u32) :: 5 word) = unat b mod 32"
  by (simp add: vbits_def unsigned_ucast_eq unsigned_take_bit_eq take_bit_eq_mod unat_mod)

lemma uint_drop_bit_u32: "uint (drop_bit n (a :: u32)) = uint a div 2 ^ n"
  using uint_lt2p [of a] by (simp add: unsigned_drop_bit_eq drop_bit_eq_div [of n "uint a"] take_bit_int_eq_self)

lemma sint_signed_drop_bit_u32: "sint (signed_drop_bit n (a :: u32)) = sint a div 2 ^ n"
  by (simp add: sint_signed_drop_bit_eq drop_bit_eq_div)

section \<open>Properties\<close>

text \<open>
  C4. The RTL ALU computes, for every opcode (the ten of the ISA and the six unused ones) and
  every pair of operands, what the C++ reference model of the test bench computes.
\<close>

theorem alu_equals_reference: "alu a b op = alu_ref (ucast op) a b"
  by (simp add: alu_ref_ucast)

text \<open>
  C12. Read as integers, the ALU is the RV32I integer unit: addition and subtraction modulo
  \<open>2^32\<close>, shifts by the low five bits of \<open>b\<close> as multiplication and (floor) division by a
  power of two of the unsigned or signed value, signed and unsigned comparison.
\<close>

theorem alu_integer_semantics:
  "uint (alu a b ALU_ADD) = (uint a + uint b) mod 2 ^ 32
   \<and> uint (alu a b ALU_SUB) = (uint a - uint b) mod 2 ^ 32
   \<and> uint (alu a b ALU_SLL) = (uint a * 2 ^ (unat b mod 32)) mod 2 ^ 32
   \<and> uint (alu a b ALU_SRL) = uint a div 2 ^ (unat b mod 32)
   \<and> sint (alu a b ALU_SRA) = sint a div 2 ^ (unat b mod 32)
   \<and> alu a b ALU_SLT = of_bool (sint a < sint b)
   \<and> alu a b ALU_SLTU = of_bool (uint a < uint b)"
proof -
  have "uint (push_bit n a) = (uint a * 2 ^ n) mod 2 ^ 32" for n
    by (simp add: unsigned_push_bit_eq push_bit_eq_mult [of n "uint a"] take_bit_eq_mod)
  then show ?thesis
    by (simp add: alu_def tb_data Let_def shamt_mod_32 uint_word_ariths word_less_def
        uint_drop_bit_u32 sint_signed_drop_bit_u32)
qed

text \<open>
  C28. The test bench accepts the RTL: whatever the arguments (and so the random seed) and the
  initial values of the ports, all of its 20028 checks pass and it exits with code 0.
\<close>

theorem tb_alu_passes: "run_passes (alu_main Valu_eval argv d) 20028"
  unfolding alu_main_def by (rule tb_pass_run [OF alu_body_pass]) simp

text \<open>
  C34. The test bench rejects a wrong ALU: if the device computes any function that differs
  from the expected value on one of the 28 directed vectors, the bench exits with code 1.
\<close>

theorem tb_alu_rejects:
  assumes "v \<in> set (section_vectors alu_sections)" and "alu_bad f v"
  shows "fst (alu_main (Valu_eval_of f) argv d) = 1"
  unfolding alu_main_def alu_body_def
  by (rule alu_bench.rejects [OF assms]) (intro tb_mono_intros alu_random_mono)

theorem tb_alu_rejects_witness:
  "fst (alu_main (Valu_eval_of (\<lambda>a b op. if op = ALU_SRA then drop_bit (unat (vbits 4 0 b :: 5 word)) a
      else alu a b op)) [] \<lparr>alu_a = 0, alu_b = 0, alu_alu_op = 0, alu_result = 0\<rparr>) = 1"
  by (rule tb_alu_rejects [where v = "(tb_ALU_SRA, 0x80000000, 4, 0xF8000000)"])
    (simp_all add: section_vectors_def alu_sections_def alu_bad_def tb_data vbits_def)

end
