(* ===== verification/Branch_Cmp.thy ===== *)
theory Branch_Cmp
  imports Tb_Common
begin

text \<open>
  The branch comparator: the RTL module \<open>rtl/core/branch_cmp.v\<close> and its test bench
  \<open>sim/verilator/tb_branch_cmp.cpp\<close> with the C++ reference model \<open>ref\<close>.
\<close>

section \<open>branch_cmp.v\<close>

definition branch_cmp :: "u32 \<Rightarrow> u32 \<Rightarrow> 3 word \<Rightarrow> bool" where
  "branch_cmp a b funct3 =
     (if funct3 = 0b000 then a = b
      else if funct3 = 0b001 then a \<noteq> b
      else if funct3 = 0b100 then sint a < sint b
      else if funct3 = 0b101 then sint b \<le> sint a
      else if funct3 = 0b110 then a < b
      else if funct3 = 0b111 then b \<le> a
      else False)"

record Vbranch_cmp =
  br_a :: u32
  br_b :: u32
  br_funct3 :: "3 word"
  br_taken :: bool

definition Vbranch_cmp_eval_of :: "(u32 \<Rightarrow> u32 \<Rightarrow> 3 word \<Rightarrow> bool) \<Rightarrow> Vbranch_cmp \<Rightarrow> Vbranch_cmp" where
  "Vbranch_cmp_eval_of f d = d\<lparr>br_taken := f (br_a d) (br_b d) (br_funct3 d)\<rparr>"

definition Vbranch_cmp_eval :: "Vbranch_cmp \<Rightarrow> Vbranch_cmp" where
  "Vbranch_cmp_eval = Vbranch_cmp_eval_of branch_cmp"

interpretation branch_dut: comb_dut "Vbranch_cmp_eval_of f" for f
  by unfold_locales (simp add: Vbranch_cmp_eval_of_def)

section \<open>tb_branch_cmp.cpp\<close>

definition F3_BEQ :: u32 where [tb_data]: "F3_BEQ = 0b000"
definition F3_BNE :: u32 where [tb_data]: "F3_BNE = 0b001"
definition F3_BLT :: u32 where [tb_data]: "F3_BLT = 0b100"
definition F3_BGE :: u32 where [tb_data]: "F3_BGE = 0b101"
definition F3_BLTU :: u32 where [tb_data]: "F3_BLTU = 0b110"
definition F3_BGEU :: u32 where [tb_data]: "F3_BGEU = 0b111"

definition branch_ref :: "u32 \<Rightarrow> u32 \<Rightarrow> u32 \<Rightarrow> bool" where
  "branch_ref f3 a b =
     (if f3 = F3_BEQ then a = b
      else if f3 = F3_BNE then a \<noteq> b
      else if f3 = F3_BLT then sint a < sint b
      else if f3 = F3_BGE then sint b \<le> sint a
      else if f3 = F3_BLTU then a < b
      else if f3 = F3_BGEU then b \<le> a
      else False)"

definition branch_chk ::
  "(Vbranch_cmp \<Rightarrow> Vbranch_cmp) \<Rightarrow> u32 \<times> u32 \<times> u32 \<times> bool \<Rightarrow> (Vbranch_cmp tb, unit) state" where
  "branch_chk ev v = (case v of (f3, a, b, want) \<Rightarrow> do {
     poke (\<lambda>d. d\<lparr>br_funct3 := ucast f3, br_a := a, br_b := b\<rparr>);
     tb_settle ev;
     r \<leftarrow> peek br_taken;
     tb_check ''tb_branch_cmp.cpp'' 30 ''d.taken'' (vbool r) (if want then 1 else 0) })"

text \<open>Sections 1 to 8: the calls of \<open>chk\<close>, in order.\<close>

definition branch_sections :: "(string \<times> (u32 \<times> u32 \<times> u32 \<times> bool) list) list" where
  "branch_sections =
    [(''1. beq / bne'',
      [(F3_BEQ, 5, 5, True),
       (F3_BEQ, 5, 6, False),
       (F3_BEQ, 0xFFFFFFFF, 0xFFFFFFFF, True),
       (F3_BNE, 5, 5, False),
       (F3_BNE, 5, 6, True),
       (F3_BNE, 0, 0xFFFFFFFF, True)]),
     (''2. blt -- signed'',
      [(F3_BLT, 5, 10, True),
       (F3_BLT, 10, 5, False),
       (F3_BLT, 5, 5, False),
       (F3_BLT, 0xFFFFFFFF, 1, True),
       (F3_BLT, 1, 0xFFFFFFFF, False),
       (F3_BLT, 0xFFFFFFFE, 0xFFFFFFFF, True)]),
     (''3. bge -- signed, and it is >= not >'',
      [(F3_BGE, 10, 5, True),
       (F3_BGE, 5, 10, False),
       (F3_BGE, 5, 5, True),
       (F3_BGE, 1, 0xFFFFFFFF, True),
       (F3_BGE, 0xFFFFFFFF, 1, False)]),
     (''4. bltu -- unsigned'',
      [(F3_BLTU, 5, 10, True),
       (F3_BLTU, 10, 5, False),
       (F3_BLTU, 5, 5, False),
       (F3_BLTU, 0xFFFFFFFF, 1, False),
       (F3_BLTU, 1, 0xFFFFFFFF, True),
       (F3_BLTU, 0, 1, True)]),
     (''5. bgeu -- unsigned'',
      [(F3_BGEU, 10, 5, True),
       (F3_BGEU, 5, 10, False),
       (F3_BGEU, 5, 5, True),
       (F3_BGEU, 0xFFFFFFFF, 1, True),
       (F3_BGEU, 0, 0, True)]),
     (''6. the sign boundary -- signed and unsigned disagree'',
      [(F3_BLT, 0x80000000, 0x7FFFFFFF, True),
       (F3_BLTU, 0x80000000, 0x7FFFFFFF, False),
       (F3_BGE, 0x80000000, 0x7FFFFFFF, False),
       (F3_BGEU, 0x80000000, 0x7FFFFFFF, True),
       (F3_BLT, 0x7FFFFFFF, 0x80000000, False),
       (F3_BLTU, 0x7FFFFFFF, 0x80000000, True)]),
     (''7. zero as an operand -- beqz/bnez are built on this'',
      [(F3_BEQ, 0, 0, True),
       (F3_BNE, 0, 0, False),
       (F3_BLT, 0xFFFFFFFF, 0, True),
       (F3_BLTU, 0xFFFFFFFF, 0, False),
       (F3_BGE, 0, 0xFFFFFFFF, True)]),
     (''8. unused funct3 encodings never take'',
      [(0b010, 5, 5, False),
       (0b011, 5, 5, False),
       (0b010, 0, 0, False)])]"

text \<open>Section 9: random operands, biased towards the sign boundary and equality.\<close>

definition branch_edge :: "u32 list" where
  "branch_edge = [0, 1, 2, 0x7FFFFFFE, 0x7FFFFFFF, 0x80000000, 0x80000001, 0xFFFFFFFE, 0xFFFFFFFF]"

definition branch_f3s :: "u32 list" where
  "branch_f3s = [F3_BEQ, F3_BNE, F3_BLT, F3_BGE, F3_BLTU, F3_BGEU]"

definition branch_operands :: "u32 \<Rightarrow> u32 \<Rightarrow> (Vbranch_cmp tb, u32 \<times> u32) state" where
  "branch_operands a b = do {
     z \<leftarrow> tb_rnd_in 0 3;
     if z = 0 then do {
       x \<leftarrow> tb_rnd_in 0 8;
       y \<leftarrow> tb_rnd_in 0 8;
       State_Monad.return (branch_edge ! unat x, branch_edge ! unat y) }
     else if z = 1 then State_Monad.return (a, a)
     else if z = 2 then do {
       x \<leftarrow> tb_rnd_in 0 8;
       State_Monad.return (branch_edge ! unat x, b) }
     else State_Monad.return (a, b) }"

definition branch_random :: "(Vbranch_cmp \<Rightarrow> Vbranch_cmp) \<Rightarrow> int \<Rightarrow> unit \<Rightarrow> (Vbranch_cmp tb, unit) state" where
  "branch_random ev i u = do {
     j \<leftarrow> tb_rnd_in 0 5;
     let f3 = branch_f3s ! unat j;
     a \<leftarrow> tb_rnd;
     b \<leftarrow> tb_rnd;
     ab \<leftarrow> branch_operands a b;
     branch_chk ev (f3, fst ab, snd ab, branch_ref f3 (fst ab) (snd ab)) }"

definition branch_body :: "(Vbranch_cmp \<Rightarrow> Vbranch_cmp) \<Rightarrow> (Vbranch_cmp tb, unit) state" where
  "branch_body ev = do {
     run_sections (branch_chk ev) branch_sections;
     tb_begin ''9. random against the reference model'';
     for_range 0 20000 (branch_random ev) () }"

definition branch_main ::
  "(Vbranch_cmp \<Rightarrow> Vbranch_cmp) \<Rightarrow> string list \<Rightarrow> Vbranch_cmp \<Rightarrow> int \<times> Vbranch_cmp tb" where
  "branch_main ev argv d = tb_run (branch_body ev) ''branch_cmp'' argv d"

section \<open>The bench on an arbitrary comparator\<close>

definition branch_bad :: "(u32 \<Rightarrow> u32 \<Rightarrow> 3 word \<Rightarrow> bool) \<Rightarrow> u32 \<times> u32 \<times> u32 \<times> bool \<Rightarrow> bool" where
  "branch_bad f v = (case v of (f3, a, b, want) \<Rightarrow> f a b (ucast f3) \<noteq> want)"

lemma branch_chk_counts:
  "tb_counts (branch_chk (Vbranch_cmp_eval_of f) v) 1 (of_bool (branch_bad f v))"
  by (cases v) (auto intro!: tb_countsI simp: branch_chk_def tb_wp wp_check branch_dut.wp_settle
      Vbranch_cmp_eval_of_def branch_bad_def vbool_def)

interpretation branch_bench: directed_bench "branch_chk (Vbranch_cmp_eval_of f)" "branch_bad f" for f
  by unfold_locales (rule branch_chk_counts)

lemma branch_random_mono: "tb_mono (branch_random (Vbranch_cmp_eval_of f) i u)"
  unfolding branch_random_def branch_operands_def by (intro tb_mono_intros branch_bench.chk_mono)

section \<open>The bench on the RTL\<close>

lemma branch_ref_ucast: "branch_ref (ucast f3) a b = branch_cmp a b f3"
proof -
  have eq: "(ucast f3 :: u32) = ucast x \<longleftrightarrow> f3 = x" for x :: "3 word"
    by (rule ucast_up_eq_iff) simp
  have f3s: "F3_BEQ = ucast (0b000 :: 3 word)" "F3_BNE = ucast (0b001 :: 3 word)"
    "F3_BLT = ucast (0b100 :: 3 word)" "F3_BGE = ucast (0b101 :: 3 word)"
    "F3_BLTU = ucast (0b110 :: 3 word)" "F3_BGEU = ucast (0b111 :: 3 word)"
    by (simp_all add: tb_data)
  show ?thesis unfolding branch_ref_def branch_cmp_def f3s eq ..
qed

lemma branch_sections_good: "list_all (\<lambda>v. \<not> branch_bad branch_cmp v) (section_vectors branch_sections)"
  by (simp add: section_vectors_def branch_sections_def branch_bad_def branch_cmp_def tb_data)

lemma branch_f3s_3bit: "f3 \<in> set branch_f3s \<Longrightarrow> ucast (ucast f3 :: 3 word) = f3"
  by (auto simp: branch_f3s_def tb_data)

lemma branch_random_pass: "tb_pass (\<lambda>_ _. True) (branch_random Vbranch_cmp_eval i u) 1"
proof -
  have good: "\<not> branch_bad branch_cmp (branch_f3s ! unat (rnd_scale 0 5 x), a, b,
      branch_ref (branch_f3s ! unat (rnd_scale 0 5 x)) a b)" for x a b
  proof -
    have "unat (rnd_scale 0 5 x) \<le> unat (5 :: u32)" by (rule rnd_scale_0_less) simp
    then have "branch_f3s ! unat (rnd_scale 0 5 x) \<in> set branch_f3s"
      by (intro nth_mem) (simp add: branch_f3s_def)
    then show ?thesis by (simp add: branch_bad_def branch_ref_ucast [symmetric] branch_f3s_3bit)
  qed
  show ?thesis
    using good
    by (intro tb_passI) (simp add: branch_random_def branch_operands_def Vbranch_cmp_eval_def tb_wp
        branch_chk_def wp_check branch_dut.wp_settle Vbranch_cmp_eval_of_def branch_bad_def
        vbool_def Let_def)
qed

lemma branch_body_pass: "tb_pass (\<lambda>_ _. True) (branch_body Vbranch_cmp_eval) 20042"
proof -
  have "tb_pass (\<lambda>_ _. True) (run_sections (branch_chk Vbranch_cmp_eval) branch_sections) 42"
    using branch_bench.sections_pass [OF branch_sections_good, folded Vbranch_cmp_eval_def]
    by (simp add: section_vectors_def branch_sections_def)
  then have "tb_pass (\<lambda>_ _. True) (branch_body Vbranch_cmp_eval) (42 + (0 + 1 * (20000 - 0)))"
    unfolding branch_body_def by (intro tb_pass_intros branch_random_pass) simp_all
  then show ?thesis by simp
qed

section \<open>Properties\<close>

text \<open>
  C13. The RTL comparator decides each of the six RISC-V branch conditions on the operands read
  as signed (\<open>blt\<close>, \<open>bge\<close>) or unsigned (\<open>bltu\<close>, \<open>bgeu\<close>) integers, never takes a branch for the two unused
  encodings, and agrees with the C++ reference model on every encoding.
\<close>

theorem branch_cmp_decides:
  "branch_cmp a b 0 = (a = b) \<and> branch_cmp a b 1 = (a \<noteq> b)
   \<and> branch_cmp a b 4 = (sint a < sint b) \<and> branch_cmp a b 5 = (\<not> sint a < sint b)
   \<and> branch_cmp a b 6 = (uint a < uint b) \<and> branch_cmp a b 7 = (\<not> uint a < uint b)
   \<and> \<not> branch_cmp a b 2 \<and> \<not> branch_cmp a b 3
   \<and> branch_ref (ucast f3) a b = branch_cmp a b f3"
  unfolding branch_ref_ucast by (simp add: branch_cmp_def word_less_def word_le_def not_less)

text \<open>
  C29. The branch comparator's bench accepts the RTL with all of its 20042 checks, whatever the
  arguments and initial port values.
\<close>

theorem tb_branch_cmp_passes: "run_passes (branch_main Vbranch_cmp_eval argv d) 20042"
  unfolding branch_main_def by (rule tb_pass_run [OF branch_body_pass]) simp

text \<open>
  C35. It rejects a comparator that is wrong on one of the 42 directed vectors: exit code 1.
\<close>

theorem tb_branch_cmp_rejects:
  assumes "v \<in> set (section_vectors branch_sections)" and "branch_bad f v"
  shows "fst (branch_main (Vbranch_cmp_eval_of f) argv d) = 1"
  unfolding branch_main_def branch_body_def
  by (rule branch_bench.rejects [OF assms]) (intro tb_mono_intros branch_random_mono)

theorem tb_branch_cmp_rejects_witness:
  "fst (branch_main (Vbranch_cmp_eval_of (\<lambda>a b f3. if f3 = 4 then a < b else branch_cmp a b f3)) []
     \<lparr>br_a = 0, br_b = 0, br_funct3 = 0, br_taken = False\<rparr>) = 1"
  by (rule tb_branch_cmp_rejects [where v = "(F3_BLT, 0xFFFFFFFF, 1, True)"])
    (simp_all add: section_vectors_def branch_sections_def branch_bad_def tb_data)

end
