(* ===== verification/Immgen.thy ===== *)
theory Immgen
  imports Tb_Common
begin

text \<open>
  The immediate generator: the RTL module \<open>rtl/core/immgen.v\<close>, and its test bench
  \<open>sim/verilator/tb_immgen.cpp\<close> with the C++ instruction encoders. An \<open>int32_t\<close> is modelled
  by its two's complement bit pattern.
\<close>

section \<open>immgen.v\<close>

definition immgen :: "u32 \<Rightarrow> u32" where
  "immgen instr =
     (let opcode = vbits 6 0 instr :: 7 word in
      if opcode = 0b0110111 \<or> opcode = 0b0010111
      then word_cat (vbits 31 12 instr :: 20 word) (0 :: 12 word)
      else if opcode = 0b1101111
      then word_cat (vrep (bit instr 31) :: 11 word)
             (word_cat (vbits 31 31 instr :: 1 word)
               (word_cat (vbits 19 12 instr :: 8 word)
                 (word_cat (vbits 20 20 instr :: 1 word)
                   (word_cat (vbits 30 21 instr :: 10 word) (0 :: 1 word) :: 11 word)
                   :: 12 word) :: 20 word) :: 21 word)
      else if opcode = 0b1100011
      then word_cat (vrep (bit instr 31) :: 19 word)
             (word_cat (vbits 31 31 instr :: 1 word)
               (word_cat (vbits 7 7 instr :: 1 word)
                 (word_cat (vbits 30 25 instr :: 6 word)
                   (word_cat (vbits 11 8 instr :: 4 word) (0 :: 1 word) :: 5 word)
                   :: 11 word) :: 12 word) :: 13 word)
      else if opcode = 0b0100011
      then word_cat (vrep (bit instr 31) :: 20 word)
             (word_cat (vbits 31 25 instr :: 7 word) (vbits 11 7 instr :: 5 word) :: 12 word)
      else if opcode \<in> {0b1100111, 0b0000011, 0b0010011, 0b0001111, 0b1110011}
      then word_cat (vrep (bit instr 31) :: 20 word) (vbits 31 20 instr :: 12 word)
      else 0)"

record Vimmgen =
  ig_instr :: u32
  ig_imm :: u32

definition Vimmgen_eval_of :: "(u32 \<Rightarrow> u32) \<Rightarrow> Vimmgen \<Rightarrow> Vimmgen" where
  "Vimmgen_eval_of f d = d\<lparr>ig_imm := f (ig_instr d)\<rparr>"

definition Vimmgen_eval :: "Vimmgen \<Rightarrow> Vimmgen" where
  "Vimmgen_eval = Vimmgen_eval_of immgen"

interpretation immgen_dut: comb_dut "Vimmgen_eval_of f" for f
  by unfold_locales (simp add: Vimmgen_eval_of_def)

section \<open>tb_immgen.cpp: opcodes and encoders\<close>

definition ig_OP_LUI :: u32 where [tb_data]: "ig_OP_LUI = 0b0110111"
definition ig_OP_AUIPC :: u32 where [tb_data]: "ig_OP_AUIPC = 0b0010111"
definition ig_OP_JAL :: u32 where [tb_data]: "ig_OP_JAL = 0b1101111"
definition ig_OP_JALR :: u32 where [tb_data]: "ig_OP_JALR = 0b1100111"
definition ig_OP_BRANCH :: u32 where [tb_data]: "ig_OP_BRANCH = 0b1100011"
definition ig_OP_LOAD :: u32 where [tb_data]: "ig_OP_LOAD = 0b0000011"
definition ig_OP_STORE :: u32 where [tb_data]: "ig_OP_STORE = 0b0100011"
definition ig_OP_OPIMM :: u32 where [tb_data]: "ig_OP_OPIMM = 0b0010011"
definition ig_OP_OP :: u32 where [tb_data]: "ig_OP_OP = 0b0110011"

definition ig_enc_i :: "u32 \<Rightarrow> u32 \<Rightarrow> u32 \<Rightarrow> u32 \<Rightarrow> u32 \<Rightarrow> u32" where
  "ig_enc_i op rd f3 rs1 imm =
     push_bit 20 (imm AND 0xFFF) OR push_bit 15 rs1 OR push_bit 12 f3 OR push_bit 7 rd OR op"

definition ig_enc_s :: "u32 \<Rightarrow> u32 \<Rightarrow> u32 \<Rightarrow> u32 \<Rightarrow> u32 \<Rightarrow> u32" where
  "ig_enc_s op f3 rs1 rs2 imm =
     (let u = imm AND 0xFFF in
      push_bit 25 (drop_bit 5 u AND 0x7F) OR push_bit 20 rs2 OR push_bit 15 rs1
        OR push_bit 12 f3 OR push_bit 7 (u AND 0x1F) OR op)"

definition ig_enc_b :: "u32 \<Rightarrow> u32 \<Rightarrow> u32 \<Rightarrow> u32 \<Rightarrow> u32 \<Rightarrow> u32" where
  "ig_enc_b op f3 rs1 rs2 imm =
     (let u = imm AND 0x1FFF in
      push_bit 31 (drop_bit 12 u AND 1) OR push_bit 25 (drop_bit 5 u AND 0x3F)
        OR push_bit 20 rs2 OR push_bit 15 rs1 OR push_bit 12 f3
        OR push_bit 8 (drop_bit 1 u AND 0xF) OR push_bit 7 (drop_bit 11 u AND 1) OR op)"

definition ig_enc_u :: "u32 \<Rightarrow> u32 \<Rightarrow> u32 \<Rightarrow> u32" where
  "ig_enc_u op rd imm = (imm AND 0xFFFFF000) OR push_bit 7 rd OR op"

definition ig_enc_j :: "u32 \<Rightarrow> u32 \<Rightarrow> u32 \<Rightarrow> u32" where
  "ig_enc_j op rd imm =
     (let u = imm AND 0x1FFFFF in
      push_bit 31 (drop_bit 20 u AND 1) OR push_bit 21 (drop_bit 1 u AND 0x3FF)
        OR push_bit 20 (drop_bit 11 u AND 1) OR push_bit 12 (drop_bit 12 u AND 0xFF)
        OR push_bit 7 rd OR op)"

definition sext :: "u32 \<Rightarrow> nat \<Rightarrow> u32" where
  "sext v n =
     (let v' = v AND (if 32 \<le> n then 0xFFFFFFFF else push_bit n 1 - 1);
          m = push_bit (n - 1) 1
      in (v' XOR m) - m)"

section \<open>tb_immgen.cpp: the bench\<close>

definition immgen_chk :: "(Vimmgen \<Rightarrow> Vimmgen) \<Rightarrow> u32 \<times> u32 \<Rightarrow> (Vimmgen tb, unit) state" where
  "immgen_chk ev v = (case v of (instr, want) \<Rightarrow> do {
     poke (\<lambda>d. d\<lparr>ig_instr := instr\<rparr>);
     tb_settle ev;
     r \<leftarrow> peek ig_imm;
     tb_check ''tb_immgen.cpp'' 68 ''d.imm'' (ucast r) (ucast want) })"

definition immgen_sections :: "(string \<times> (u32 \<times> u32) list) list" where
  "immgen_sections =
    [(''1. known instruction words'',
      [(0x02A08293, 42),
       (0xFFF08293, 0xFFFFFFFF),
       (0xF5B50793, 0xFFFFFF5B),
       (0x01010113, 16)]),
     (''2. I-type directed'',
      [(ig_enc_i ig_OP_OPIMM 5 0 1 0, 0),
       (ig_enc_i ig_OP_OPIMM 5 0 1 2047, 2047),
       (ig_enc_i ig_OP_OPIMM 5 0 1 (- 2048), 0xFFFFF800),
       (ig_enc_i ig_OP_LOAD 5 2 1 8, 8)]),
     (''3. S-type directed'',
      [(ig_enc_s ig_OP_STORE 2 1 2 8, 8),
       (ig_enc_s ig_OP_STORE 2 1 2 (- 8), 0xFFFFFFF8),
       (ig_enc_s ig_OP_STORE 2 1 2 2047, 2047),
       (ig_enc_s ig_OP_STORE 2 1 2 (- 2048), 0xFFFFF800)]),
     (''4. B-type directed'',
      [(ig_enc_b ig_OP_BRANCH 0 1 2 8, 8),
       (ig_enc_b ig_OP_BRANCH 0 1 2 (- 8), 0xFFFFFFF8),
       (ig_enc_b ig_OP_BRANCH 0 1 2 4094, 4094),
       (ig_enc_b ig_OP_BRANCH 0 1 2 (- 4096), 0xFFFFF000)]),
     (''5. U-type directed'',
      [(ig_enc_u ig_OP_LUI 5 0x12345000, 0x12345000),
       (ig_enc_u ig_OP_AUIPC 5 0xFFFFF000, 0xFFFFF000),
       (ig_enc_u ig_OP_LUI 5 0x00000000, 0x00000000),
       (ig_enc_u ig_OP_LUI 5 0x00001000, 0x00001000)]),
     (''6. J-type directed'',
      [(ig_enc_j ig_OP_JAL 1 8, 8),
       (ig_enc_j ig_OP_JAL 1 (- 8), 0xFFFFFFF8),
       (ig_enc_j ig_OP_JAL 1 1048574, 0x000FFFFE),
       (ig_enc_j ig_OP_JAL 1 (- 1048576), 0xFFF00000)]),
     (''7. R-type has no immediate'',
      [(0b0110011 OR push_bit 7 5 OR push_bit 15 1 OR push_bit 20 2, 0)])]"

definition immgen_random :: "(Vimmgen \<Rightarrow> Vimmgen) \<Rightarrow> int \<Rightarrow> unit \<Rightarrow> (Vimmgen tb, unit) state" where
  "immgen_random ev i u = do {
     rd \<leftarrow> tb_rnd_in 0 31;
     rs1 \<leftarrow> tb_rnd_in 0 31;
     rs2 \<leftarrow> tb_rnd_in 0 31;
     f3 \<leftarrow> tb_rnd_in 0 7;
     kind \<leftarrow> tb_rnd_in 0 4;
     if kind = 0 then do {
       x \<leftarrow> tb_rnd;
       let v = sext x 12;
       immgen_chk ev (ig_enc_i ig_OP_OPIMM rd f3 rs1 v, v) }
     else if kind = 1 then do {
       x \<leftarrow> tb_rnd;
       let v = sext x 12;
       immgen_chk ev (ig_enc_s ig_OP_STORE f3 rs1 rs2 v, v) }
     else if kind = 2 then do {
       x \<leftarrow> tb_rnd;
       let v = sext (x AND NOT 1) 13;
       immgen_chk ev (ig_enc_b ig_OP_BRANCH f3 rs1 rs2 v, v) }
     else if kind = 3 then do {
       x \<leftarrow> tb_rnd;
       let v = x AND 0xFFFFF000;
       immgen_chk ev (ig_enc_u ig_OP_LUI rd v, v) }
     else if kind = 4 then do {
       x \<leftarrow> tb_rnd;
       let v = sext (x AND NOT 1) 21;
       immgen_chk ev (ig_enc_j ig_OP_JAL rd v, v) }
     else State_Monad.return () }"

definition immgen_body :: "(Vimmgen \<Rightarrow> Vimmgen) \<Rightarrow> (Vimmgen tb, unit) state" where
  "immgen_body ev = do {
     run_sections (immgen_chk ev) immgen_sections;
     tb_begin ''8. random round-trip'';
     for_range 0 20000 (immgen_random ev) () }"

definition immgen_main :: "(Vimmgen \<Rightarrow> Vimmgen) \<Rightarrow> string list \<Rightarrow> Vimmgen \<Rightarrow> int \<times> Vimmgen tb" where
  "immgen_main ev argv d = tb_run (immgen_body ev) ''immgen'' argv d"

section \<open>The encoders against the extractor\<close>

lemma sext_signed_take_bit:
  assumes "0 < n" "n \<le> 32"
  shows "sext v n = signed_take_bit (n - 1) v"
proof -
  define k where "k = n - 1"
  have k: "n = Suc k" "k < 32" using assms by (auto simp: k_def)
  define m :: u32 where "m = push_bit k 1"
  have msk: "(if 32 \<le> n then 0xFFFFFFFF else push_bit n 1 - 1) = (mask n :: u32)"
  proof (cases "n = 32")
    case True
    then show ?thesis by (simp add: mask_eq_exp_minus_1)
  next
    case False
    then show ?thesis using assms by (simp add: mask_eq_exp_minus_1 push_bit_eq_mult)
  qed
  have s: "sext v n = ((v AND mask n) XOR m) - m"
    unfolding sext_def msk by (simp add: m_def k Let_def)
  show ?thesis
  proof (cases "bit v k")
    case True
    have "(v AND mask n) XOR m = take_bit k v"
      using True k by (auto intro!: bit_word_eqI simp: m_def bit_simps less_Suc_eq)
    then have "sext v n = take_bit k v + (- m)" unfolding s by simp
    also have "- m = NOT (mask k)"
      by (simp add: m_def minus_exp_eq_not_mask push_bit_eq_mult)
    also have "take_bit k v + NOT (mask k) = take_bit k v OR NOT (mask k)"
      by (rule disjunctive_add) (auto simp: bit_simps)
    also have "\<dots> = signed_take_bit k v"
      using True k by (auto intro!: bit_word_eqI simp: bit_simps min_def)
    finally show ?thesis by (simp add: k)
  next
    case False
    have "(v AND mask n) XOR m = take_bit k v OR m"
      using False k by (auto intro!: bit_word_eqI simp: m_def bit_simps less_Suc_eq)
    also have "\<dots> = take_bit k v + m"
      by (rule disjunctive_add [symmetric]) (auto simp: m_def bit_simps)
    finally have "sext v n = take_bit k v" unfolding s by simp
    also have "\<dots> = signed_take_bit k v"
      using False k by (auto intro!: bit_word_eqI simp: bit_simps min_def split: if_splits)
    finally show ?thesis by (simp add: k)
  qed
qed

lemma opcode_of_encoding:
  "vbits 6 0 (ig_enc_i op rd f3 rs1 v) = (vbits 6 0 op :: 7 word)"
  "vbits 6 0 (ig_enc_s op f3 rs1 rs2 v) = (vbits 6 0 op :: 7 word)"
  "vbits 6 0 (ig_enc_b op f3 rs1 rs2 v) = (vbits 6 0 op :: 7 word)"
  "vbits 6 0 (ig_enc_u op rd v) = (vbits 6 0 op :: 7 word)"
  "vbits 6 0 (ig_enc_j op rd v) = (vbits 6 0 op :: 7 word)"
  unfolding word_eq_iff_bits ig_enc_i_def ig_enc_s_def ig_enc_b_def ig_enc_u_def ig_enc_j_def Let_def
  by (simp_all add: bit_simps all_less_numeral all_less_Suc_conv)

lemma opcode_values:
  "vbits 6 0 ig_OP_LUI = (0b0110111 :: 7 word)"
  "vbits 6 0 ig_OP_AUIPC = (0b0010111 :: 7 word)"
  "vbits 6 0 ig_OP_JAL = (0b1101111 :: 7 word)"
  "vbits 6 0 ig_OP_JALR = (0b1100111 :: 7 word)"
  "vbits 6 0 ig_OP_BRANCH = (0b1100011 :: 7 word)"
  "vbits 6 0 ig_OP_LOAD = (0b0000011 :: 7 word)"
  "vbits 6 0 ig_OP_STORE = (0b0100011 :: 7 word)"
  "vbits 6 0 ig_OP_OPIMM = (0b0010011 :: 7 word)"
  by (simp_all add: tb_data vbits_def)

text \<open>Each format returns the immediate it encodes, bit by bit, the fields being in range.\<close>

lemma immgen_enc_i:
  fixes rd rs1 :: "5 word" and f3 :: "3 word"
  shows "immgen (ig_enc_i ig_OP_OPIMM (ucast rd) (ucast f3) (ucast rs1) (signed_take_bit 11 w)) = signed_take_bit 11 w"
    and "immgen (ig_enc_i ig_OP_LOAD (ucast rd) (ucast f3) (ucast rs1) (signed_take_bit 11 w)) = signed_take_bit 11 w"
    and "immgen (ig_enc_i ig_OP_JALR (ucast rd) (ucast f3) (ucast rs1) (signed_take_bit 11 w)) = signed_take_bit 11 w"
  unfolding immgen_def opcode_of_encoding opcode_values
  unfolding word_eq_iff_bits ig_enc_i_def ig_OP_OPIMM_def ig_OP_LOAD_def ig_OP_JALR_def
  by (simp_all add: Let_def bit_simps all_less_numeral all_less_Suc_conv)

lemma immgen_enc_s:
  fixes rs1 rs2 :: "5 word" and f3 :: "3 word"
  shows "immgen (ig_enc_s ig_OP_STORE (ucast f3) (ucast rs1) (ucast rs2) (signed_take_bit 11 w))
    = signed_take_bit 11 w"
  unfolding immgen_def opcode_of_encoding opcode_values
  unfolding word_eq_iff_bits ig_enc_s_def ig_OP_STORE_def
  by (simp add: Let_def bit_simps all_less_numeral all_less_Suc_conv)

lemma immgen_enc_b:
  fixes rs1 rs2 :: "5 word" and f3 :: "3 word"
  shows "immgen (ig_enc_b ig_OP_BRANCH (ucast f3) (ucast rs1) (ucast rs2)
      (signed_take_bit 12 (w AND NOT 1))) = signed_take_bit 12 (w AND NOT 1)"
  unfolding immgen_def opcode_of_encoding opcode_values
  unfolding word_eq_iff_bits ig_enc_b_def ig_OP_BRANCH_def
  by (simp add: Let_def bit_simps all_less_numeral all_less_Suc_conv, simp add: numeral_eq_Suc)

lemma immgen_enc_u:
  fixes rd :: "5 word"
  shows "immgen (ig_enc_u ig_OP_LUI (ucast rd) (w AND 0xFFFFF000)) = w AND 0xFFFFF000"
    and "immgen (ig_enc_u ig_OP_AUIPC (ucast rd) (w AND 0xFFFFF000)) = w AND 0xFFFFF000"
  unfolding immgen_def opcode_of_encoding opcode_values
  unfolding word_eq_iff_bits ig_enc_u_def ig_OP_LUI_def ig_OP_AUIPC_def
  by (simp_all add: Let_def bit_simps all_less_numeral all_less_Suc_conv)

lemma immgen_enc_j:
  fixes rd :: "5 word"
  shows "immgen (ig_enc_j ig_OP_JAL (ucast rd) (signed_take_bit 20 (w AND NOT 1)))
    = signed_take_bit 20 (w AND NOT 1)"
  unfolding immgen_def opcode_of_encoding opcode_values
  unfolding word_eq_iff_bits ig_enc_j_def ig_OP_JAL_def
  by (simp add: Let_def bit_simps all_less_numeral all_less_Suc_conv, simp add: numeral_eq_Suc)

section \<open>The bench on an arbitrary extractor\<close>

definition immgen_bad :: "(u32 \<Rightarrow> u32) \<Rightarrow> u32 \<times> u32 \<Rightarrow> bool" where
  "immgen_bad f v = (case v of (instr, want) \<Rightarrow> f instr \<noteq> want)"

lemma immgen_chk_counts:
  "tb_counts (immgen_chk (Vimmgen_eval_of f) v) 1 (of_bool (immgen_bad f v))"
  by (cases v) (auto intro!: tb_countsI simp: immgen_chk_def tb_wp wp_check immgen_dut.wp_settle
      Vimmgen_eval_of_def immgen_bad_def)

interpretation immgen_bench: directed_bench "immgen_chk (Vimmgen_eval_of f)" "immgen_bad f" for f
  by unfold_locales (rule immgen_chk_counts)

lemma immgen_random_mono: "tb_mono (immgen_random (Vimmgen_eval_of f) i u)"
  unfolding immgen_random_def by (intro tb_mono_intros immgen_bench.chk_mono)

section \<open>The bench on the RTL\<close>

lemma immgen_sections_good: "list_all (\<lambda>v. \<not> immgen_bad immgen v) (section_vectors immgen_sections)"
  unfolding section_vectors_def immgen_sections_def
  apply (simp add: immgen_bad_def tb_data ig_enc_i_def ig_enc_s_def ig_enc_b_def ig_enc_u_def ig_enc_j_def Let_def)
  by (simp add: immgen_def Let_def vbits_def  word_cat_eq unsigned_minus_1_eq_mask mask_eq_exp_minus_1 push_bit_eq_mult)

lemma immgen_random_good:
  "\<not> immgen_bad immgen (ig_enc_i ig_OP_OPIMM (rnd_scale 0 31 a) (rnd_scale 0 7 b) (rnd_scale 0 31 c) (sext x 12), sext x 12)"
  "\<not> immgen_bad immgen (ig_enc_s ig_OP_STORE (rnd_scale 0 7 b) (rnd_scale 0 31 c) (rnd_scale 0 31 a) (sext x 12), sext x 12)"
  "\<not> immgen_bad immgen (ig_enc_b ig_OP_BRANCH (rnd_scale 0 7 b) (rnd_scale 0 31 c) (rnd_scale 0 31 a)
      (sext (x AND NOT 1) 13), sext (x AND NOT 1) 13)"
  "\<not> immgen_bad immgen (ig_enc_u ig_OP_LUI (rnd_scale 0 31 a) (x AND 0xFFFFF000), x AND 0xFFFFF000)"
  "\<not> immgen_bad immgen (ig_enc_j ig_OP_JAL (rnd_scale 0 31 a) (sext (x AND NOT 1) 21), sext (x AND NOT 1) 21)"
proof -
  obtain A B C where scale: "rnd_scale 0 31 a = ucast (A :: 5 word)" "rnd_scale 0 7 b = ucast (B :: 3 word)"
    "rnd_scale 0 31 c = ucast (C :: 5 word)"
    using rnd_5 rnd_3 by metis
  have sx: "sext v 12 = signed_take_bit 11 v" "sext v 13 = signed_take_bit 12 v"
    "sext v 21 = signed_take_bit 20 v" for v
    by (simp_all add: sext_signed_take_bit)
  note fields = scale sx immgen_bad_def prod.case not_not immgen_enc_i immgen_enc_s immgen_enc_b immgen_enc_u immgen_enc_j
  show "\<not> immgen_bad immgen (ig_enc_i ig_OP_OPIMM (rnd_scale 0 31 a) (rnd_scale 0 7 b) (rnd_scale 0 31 c)
      (sext x 12), sext x 12)"
    by (simp only: fields)
  show "\<not> immgen_bad immgen (ig_enc_s ig_OP_STORE (rnd_scale 0 7 b) (rnd_scale 0 31 c) (rnd_scale 0 31 a)
      (sext x 12), sext x 12)"
    by (simp only: fields)
  show "\<not> immgen_bad immgen (ig_enc_b ig_OP_BRANCH (rnd_scale 0 7 b) (rnd_scale 0 31 c) (rnd_scale 0 31 a)
      (sext (x AND NOT 1) 13), sext (x AND NOT 1) 13)"
    by (simp only: fields)
  show "\<not> immgen_bad immgen (ig_enc_u ig_OP_LUI (rnd_scale 0 31 a) (x AND 0xFFFFF000), x AND 0xFFFFF000)"
    by (simp only: fields)
  show "\<not> immgen_bad immgen (ig_enc_j ig_OP_JAL (rnd_scale 0 31 a) (sext (x AND NOT 1) 21),
      sext (x AND NOT 1) 21)"
    by (simp only: fields)
qed

lemma immgen_chk_pass:
  "\<not> immgen_bad immgen v \<Longrightarrow> tb_pass (\<lambda>_ _. True) (immgen_chk Vimmgen_eval v) 1"
  unfolding Vimmgen_eval_def by (rule immgen_bench.chk_pass)

lemma immgen_random_pass: "tb_pass (\<lambda>_ _. True) (immgen_random Vimmgen_eval i u) 1"
proof -
  have kind: "rnd_scale 0 4 x = 4" if "rnd_scale 0 4 x \<noteq> 0" "rnd_scale 0 4 x \<noteq> 1"
    "rnd_scale 0 4 x \<noteq> 2" "rnd_scale 0 4 x \<noteq> 3" for x
    using that rnd_scale_0_less [of 4 x] by (simp add: word_unat_eq_iff)
  show ?thesis
    unfolding immgen_random_def
    apply (intro tb_pass_program)
         apply (rule immgen_chk_pass, rule immgen_random_good)+
    apply (drule (3) kind, erule (1) notE)
    done
qed

lemma immgen_body_pass: "tb_pass (\<lambda>_ _. True) (immgen_body Vimmgen_eval) 20025"
proof -
  have "tb_pass (\<lambda>_ _. True) (run_sections (immgen_chk Vimmgen_eval) immgen_sections) 25"
    using immgen_bench.sections_pass [OF immgen_sections_good, folded Vimmgen_eval_def]
    by (simp add: section_vectors_def immgen_sections_def)
  then have "tb_pass (\<lambda>_ _. True) (immgen_body Vimmgen_eval) (25 + (0 + 1 * (20000 - 0)))"
    unfolding immgen_body_def by (intro tb_pass_intros immgen_random_pass) simp_all
  then show ?thesis by simp
qed

section \<open>Properties\<close>

lemma scast_12: "scast (i :: 12 word) = (signed_take_bit 11 (ucast i) :: u32)"
  unfolding word_eq_iff_bits by (simp add: bit_simps all_less_numeral all_less_Suc_conv)

lemma scast_20: "scast (i :: 20 word) = (signed_take_bit 19 (ucast i) :: u32)"
  unfolding word_eq_iff_bits by (simp add: bit_simps all_less_numeral all_less_Suc_conv)

lemma scast_12_double:
  "push_bit 1 (scast (i :: 12 word)) = (signed_take_bit 12 (push_bit 1 (ucast i) AND NOT 1) :: u32)"
  unfolding word_eq_iff_bits bit_push_bit_iff bit_signed_take_bit_iff bit_and_iff
  by (simp add: bit_simps all_less_numeral all_less_Suc_conv)

lemma scast_20_double:
  "push_bit 1 (scast (i :: 20 word)) = (signed_take_bit 20 (push_bit 1 (ucast i) AND NOT 1) :: u32)"
  unfolding word_eq_iff_bits bit_push_bit_iff bit_signed_take_bit_iff bit_and_iff
  by (simp add: bit_simps all_less_numeral all_less_Suc_conv)

lemma upper_20: "push_bit 12 (ucast (i :: 20 word)) = (push_bit 12 (ucast i) AND 0xFFFFF000 :: u32)"
  unfolding word_eq_iff_bits by (simp add: bit_simps all_less_numeral all_less_Suc_conv)

text \<open>
  C8. Round trip of the immediates: for every register, \<open>funct3\<close> and immediate field, the RTL
  extracts from the word the encoders build exactly the immediate that went in, the 12-bit
  (I, S) and 20-bit (U) fields and the even 13-bit (B) and 21-bit (J) offsets, sign extended
  except in U-type.
\<close>

theorem immgen_round_trip:
  fixes rd rs1 rs2 :: "5 word" and f3 :: "3 word" and i12 :: "12 word" and i20 :: "20 word"
  shows "immgen (ig_enc_i ig_OP_OPIMM (ucast rd) (ucast f3) (ucast rs1) (scast i12)) = scast i12
    \<and> immgen (ig_enc_i ig_OP_LOAD (ucast rd) (ucast f3) (ucast rs1) (scast i12)) = scast i12
    \<and> immgen (ig_enc_i ig_OP_JALR (ucast rd) (ucast f3) (ucast rs1) (scast i12)) = scast i12
    \<and> immgen (ig_enc_s ig_OP_STORE (ucast f3) (ucast rs1) (ucast rs2) (scast i12)) = scast i12
    \<and> immgen (ig_enc_b ig_OP_BRANCH (ucast f3) (ucast rs1) (ucast rs2) (push_bit 1 (scast i12)))
        = push_bit 1 (scast i12)
    \<and> immgen (ig_enc_u ig_OP_LUI (ucast rd) (push_bit 12 (ucast i20))) = push_bit 12 (ucast i20)
    \<and> immgen (ig_enc_u ig_OP_AUIPC (ucast rd) (push_bit 12 (ucast i20))) = push_bit 12 (ucast i20)
    \<and> immgen (ig_enc_j ig_OP_JAL (ucast rd) (push_bit 1 (scast i20))) = push_bit 1 (scast i20)"
  unfolding scast_12_double scast_20_double
  unfolding scast_12 immgen_enc_i immgen_enc_s immgen_enc_b immgen_enc_j
    immgen_enc_u [of _ "push_bit 12 (ucast i20)", folded upper_20] by simp

text \<open>
  C27. The immediate generator's bench accepts the RTL with all of its 20025 checks, whatever
  the arguments and initial port values.
\<close>

theorem tb_immgen_passes: "run_passes (immgen_main Vimmgen_eval argv d) 20025"
  unfolding immgen_main_def by (rule tb_pass_run [OF immgen_body_pass]) simp

text \<open>
  C36. It rejects an extractor that is wrong on one of the 25 directed vectors: exit code 1.
\<close>

theorem tb_immgen_rejects:
  assumes "v \<in> set (section_vectors immgen_sections)" and "immgen_bad f v"
  shows "fst (immgen_main (Vimmgen_eval_of f) argv d) = 1"
  unfolding immgen_main_def immgen_body_def
  by (rule immgen_bench.rejects [OF assms]) (intro tb_mono_intros immgen_random_mono)

theorem tb_immgen_rejects_witness:
  "fst (immgen_main (Vimmgen_eval_of (\<lambda>i. drop_bit 20 i)) [] \<lparr>ig_instr = 0, ig_imm = 0\<rparr>) = 1"
  by (rule tb_immgen_rejects [where v = "(0xFFF08293, 0xFFFFFFFF)"])
    (simp_all add: section_vectors_def immgen_sections_def immgen_bad_def)

end
