(* ===== verification/Decoder.thy ===== *)
theory Decoder
  imports Alu
begin

text \<open>
  The instruction decoder: the RTL module \<open>rtl/core/decoder.v\<close>, its test bench
  \<open>sim/verilator/tb_decoder.cpp\<close>, and the specification of the integer computational
  instructions against which decoder and ALU together are verified.
\<close>

section \<open>decoder.v\<close>

record decoder_out =
  dc_rs1_addr :: "5 word"
  dc_rs2_addr :: "5 word"
  dc_rd_addr :: "5 word"
  dc_funct3 :: "3 word"
  dc_alu_op :: "4 word"
  dc_alu_src :: bool
  dc_alu_a_pc :: bool
  dc_alu_a_zero :: bool
  dc_reg_we :: bool
  dc_mem_we :: bool
  dc_mem_re :: bool
  dc_wb_sel :: "2 word"
  dc_is_branch :: bool
  dc_is_jal :: bool
  dc_is_jalr :: bool
  dc_illegal :: bool
  dc_csr_op :: "2 word"
  dc_csr_re :: bool
  dc_csr_we :: bool
  dc_csr_use_imm :: bool
  dc_is_mret :: bool
  dc_is_ecall :: bool

text \<open>The continuous assignments and the defaults at the head of the \<open>always @(*)\<close> block.\<close>

definition decoder_defaults :: "u32 \<Rightarrow> decoder_out" where
  "decoder_defaults instr =
     \<lparr>dc_rs1_addr = vbits 19 15 instr, dc_rs2_addr = vbits 24 20 instr,
      dc_rd_addr = vbits 11 7 instr, dc_funct3 = vbits 14 12 instr,
      dc_alu_op = ALU_ADD, dc_alu_src = True, dc_alu_a_pc = False, dc_alu_a_zero = False,
      dc_reg_we = False, dc_mem_we = False, dc_mem_re = False, dc_wb_sel = 0,
      dc_is_branch = False, dc_is_jal = False, dc_is_jalr = False, dc_illegal = False,
      dc_csr_op = 0, dc_csr_re = False, dc_csr_we = False, dc_csr_use_imm = False,
      dc_is_mret = False, dc_is_ecall = False\<rparr>"

text \<open>The \<open>SYSTEM\<close> opcode: \<open>ecall\<close>, \<open>ebreak\<close>, \<open>mret\<close> and the CSR instructions.\<close>

definition decoder_system :: "u32 \<Rightarrow> decoder_out \<Rightarrow> decoder_out" where
  "decoder_system instr o1 =
     (let funct3 = vbits 14 12 instr :: 3 word;
          imm = vbits 31 20 instr :: 12 word;
          op2 = vbits 1 0 funct3 :: 2 word in
      if funct3 = 0b000
      then (if imm = 0x000 then o1\<lparr>dc_is_ecall := True\<rparr>
            else if imm = 0x001 then o1\<lparr>dc_is_ecall := True\<rparr>
            else if imm = 0x302 then o1\<lparr>dc_is_mret := True\<rparr>
            else o1\<lparr>dc_illegal := True\<rparr>)
      else
        (let o2 = o1\<lparr>dc_reg_we := True, dc_wb_sel := 3, dc_csr_use_imm := bit funct3 2\<rparr>;
             o3 = (if op2 = 0b01 then o2\<lparr>dc_csr_op := 0b01\<rparr>
                   else if op2 = 0b10 then o2\<lparr>dc_csr_op := 0b10\<rparr>
                   else if op2 = 0b11 then o2\<lparr>dc_csr_op := 0b11\<rparr>
                   else o2\<lparr>dc_illegal := True\<rparr>)
         in o3\<lparr>dc_csr_re := \<not> (op2 = 0b01 \<and> dc_rd_addr o1 = 0),
               dc_csr_we := \<not> (op2 \<noteq> 0b01 \<and> (vbits 19 15 instr :: 5 word) = 0)\<rparr>))"

definition decoder :: "u32 \<Rightarrow> decoder_out" where
  "decoder instr =
     (let d = decoder_defaults instr;
          opcode = vbits 6 0 instr :: 7 word;
          funct3 = dc_funct3 d;
          b30 = vbits 30 30 instr :: 1 word in
      if opcode = 0b0110111 then d\<lparr>dc_reg_we := True, dc_alu_a_pc := False, dc_alu_a_zero := True\<rparr>
      else if opcode = 0b0010111 then d\<lparr>dc_reg_we := True, dc_alu_a_pc := True, dc_alu_a_zero := False\<rparr>
      else if opcode = 0b1101111 then d\<lparr>dc_reg_we := True, dc_wb_sel := 2, dc_is_jal := True\<rparr>
      else if opcode = 0b1100011 then d\<lparr>dc_reg_we := False, dc_is_branch := True\<rparr>
      else if opcode = 0b0100011 then d\<lparr>dc_reg_we := False, dc_mem_we := True\<rparr>
      else if opcode = 0b0110011
        then d\<lparr>dc_reg_we := True, dc_alu_src := False, dc_alu_op := word_cat b30 funct3\<rparr>
      else if opcode = 0b1100111 then d\<lparr>dc_reg_we := True, dc_wb_sel := 2, dc_is_jalr := True\<rparr>
      else if opcode = 0b0000011 then d\<lparr>dc_reg_we := True, dc_mem_re := True, dc_wb_sel := 1\<rparr>
      else if opcode = 0b0010011
        then d\<lparr>dc_reg_we := True, dc_alu_src := True,
               dc_alu_op := word_cat (if funct3 = 0b101 then b30 else 0) funct3\<rparr>
      else if opcode = 0b0001111 then d
      else if opcode = 0b1110011 then decoder_system instr d
      else d\<lparr>dc_illegal := True\<rparr>)"

record Vdecoder =
  dc_instr :: u32
  dc_out :: decoder_out

definition Vdecoder_eval_of :: "(u32 \<Rightarrow> decoder_out) \<Rightarrow> Vdecoder \<Rightarrow> Vdecoder" where
  "Vdecoder_eval_of f d = d\<lparr>dc_out := f (dc_instr d)\<rparr>"

definition Vdecoder_eval :: "Vdecoder \<Rightarrow> Vdecoder" where
  "Vdecoder_eval = Vdecoder_eval_of decoder"

interpretation decoder_dut: comb_dut "Vdecoder_eval_of f" for f
  by unfold_locales (simp add: Vdecoder_eval_of_def)

section \<open>tb_decoder.cpp: opcodes and encoders\<close>

definition dc_OP_LUI :: u32 where [tb_data]: "dc_OP_LUI = 0b0110111"
definition dc_OP_AUIPC :: u32 where [tb_data]: "dc_OP_AUIPC = 0b0010111"
definition dc_OP_JAL :: u32 where [tb_data]: "dc_OP_JAL = 0b1101111"
definition dc_OP_JALR :: u32 where [tb_data]: "dc_OP_JALR = 0b1100111"
definition dc_OP_BRANCH :: u32 where [tb_data]: "dc_OP_BRANCH = 0b1100011"
definition dc_OP_LOAD :: u32 where [tb_data]: "dc_OP_LOAD = 0b0000011"
definition dc_OP_STORE :: u32 where [tb_data]: "dc_OP_STORE = 0b0100011"
definition dc_OP_OPIMM :: u32 where [tb_data]: "dc_OP_OPIMM = 0b0010011"
definition dc_OP_OP :: u32 where [tb_data]: "dc_OP_OP = 0b0110011"
definition dc_OP_FENCE :: u32 where [tb_data]: "dc_OP_FENCE = 0b0001111"
definition dc_OP_SYSTEM :: u32 where [tb_data]: "dc_OP_SYSTEM = 0b1110011"

definition dc_enc_r :: "u32 \<Rightarrow> u32 \<Rightarrow> u32 \<Rightarrow> u32 \<Rightarrow> u32 \<Rightarrow> u32" where
  "dc_enc_r f7 rs2 rs1 f3 rd =
     push_bit 25 f7 OR push_bit 20 rs2 OR push_bit 15 rs1 OR push_bit 12 f3 OR push_bit 7 rd
       OR dc_OP_OP"

definition dc_enc_i :: "u32 \<Rightarrow> u32 \<Rightarrow> u32 \<Rightarrow> u32 \<Rightarrow> u32 \<Rightarrow> u32" where
  "dc_enc_i op rd f3 rs1 imm =
     push_bit 20 (imm AND 0xFFF) OR push_bit 15 rs1 OR push_bit 12 f3 OR push_bit 7 rd OR op"

definition dc_enc_s :: "u32 \<Rightarrow> u32 \<Rightarrow> u32 \<Rightarrow> u32 \<Rightarrow> u32" where
  "dc_enc_s f3 rs1 rs2 imm =
     (let u = imm AND 0xFFF in
      push_bit 25 (drop_bit 5 u AND 0x7F) OR push_bit 20 rs2 OR push_bit 15 rs1
        OR push_bit 12 f3 OR push_bit 7 (u AND 0x1F) OR dc_OP_STORE)"

section \<open>tb_decoder.cpp: the bench\<close>

text \<open>One \<open>CHECK_EQ\<close> of an output: its line, its text, the port and the value wanted.\<close>

type_synonym port_check = "nat \<times> string \<times> (decoder_out \<Rightarrow> u64) \<times> u64"

definition decoder_check :: "port_check \<Rightarrow> (Vdecoder tb, unit) state" where
  "decoder_check c = (case c of (line, expr, port, want) \<Rightarrow> do {
     r \<leftarrow> peek (\<lambda>d. port (dc_out d));
     tb_check ''tb_decoder.cpp'' line expr r want })"

text \<open>The lambda \<open>decode\<close>, and a call of it with the checks that follow.\<close>

definition decoder_decode :: "(Vdecoder \<Rightarrow> Vdecoder) \<Rightarrow> u32 \<Rightarrow> (Vdecoder tb, unit) state" where
  "decoder_decode ev instr = do { poke (\<lambda>d. d\<lparr>dc_instr := instr\<rparr>); tb_settle ev }"

definition decoder_chk :: "(Vdecoder \<Rightarrow> Vdecoder) \<Rightarrow> u32 \<times> port_check list \<Rightarrow> (Vdecoder tb, unit) state" where
  "decoder_chk ev v = do { decoder_decode ev (fst v); each decoder_check (snd v) }"

definition decoder_sections :: "(string \<times> (u32 \<times> port_check list) list) list" where
  "decoder_sections =
     [(''1. register fields extracted from fixed positions'',
       [((dc_enc_r 0 2 1 0 5),
         [(36, ''d.rs1_addr'', ucast \<circ> dc_rs1_addr, 1),
          (37, ''d.rs2_addr'', ucast \<circ> dc_rs2_addr, 2),
          (38, ''d.rd_addr'', ucast \<circ> dc_rd_addr, 5),
          (39, ''d.funct3'', ucast \<circ> dc_funct3, 0)]),
        ((dc_enc_r 0 31 30 7 29),
         [(41, ''d.rs1_addr'', ucast \<circ> dc_rs1_addr, 30),
          (42, ''d.rs2_addr'', ucast \<circ> dc_rs2_addr, 31),
          (43, ''d.rd_addr'', ucast \<circ> dc_rd_addr, 29),
          (44, ''d.funct3'', ucast \<circ> dc_funct3, 7)])]),
      (''2. R-type control signals'',
       [((dc_enc_r 0 2 1 0 5),
         [(48, ''d.alu_op'', ucast \<circ> dc_alu_op, ucast tb_ALU_ADD),
          (49, ''d.alu_src'', vbool \<circ> dc_alu_src, 0),
          (50, ''d.reg_we'', vbool \<circ> dc_reg_we, 1),
          (51, ''d.mem_we'', vbool \<circ> dc_mem_we, 0),
          (52, ''d.mem_re'', vbool \<circ> dc_mem_re, 0),
          (53, ''d.wb_sel'', ucast \<circ> dc_wb_sel, 0),
          (54, ''d.illegal'', vbool \<circ> dc_illegal, 0)])]),
      (''3. R-type: bit 30 selects sub and sra'',
       [((dc_enc_r 0b0100000 2 1 0b000 5),
         [(58, ''d.alu_op'', ucast \<circ> dc_alu_op, ucast tb_ALU_SUB)]),
        ((dc_enc_r 0b0000000 2 1 0b101 5),
         [(60, ''d.alu_op'', ucast \<circ> dc_alu_op, ucast tb_ALU_SRL)]),
        ((dc_enc_r 0b0100000 2 1 0b101 5),
         [(62, ''d.alu_op'', ucast \<circ> dc_alu_op, ucast tb_ALU_SRA)]),
        ((dc_enc_r 0 2 1 0b010 5),
         [(64, ''d.alu_op'', ucast \<circ> dc_alu_op, ucast tb_ALU_SLT)])]),
      (''4. OP-IMM: bit 30 must be masked'',
       [((dc_enc_i dc_OP_OPIMM 5 0b000 1 42),
         [(68, ''d.alu_op'', ucast \<circ> dc_alu_op, ucast tb_ALU_ADD),
          (69, ''d.alu_src'', vbool \<circ> dc_alu_src, 1),
          (70, ''d.reg_we'', vbool \<circ> dc_reg_we, 1)]),
        ((dc_enc_i dc_OP_OPIMM 5 0b000 1 (- 1)),
         [(72, ''d.alu_op'', ucast \<circ> dc_alu_op, ucast tb_ALU_ADD)]),
        ((dc_enc_i dc_OP_OPIMM 5 0b100 1 (- 1)),
         [(74, ''d.alu_op'', ucast \<circ> dc_alu_op, ucast tb_ALU_XOR)]),
        ((dc_enc_i dc_OP_OPIMM 5 0b010 1 (- 1)),
         [(76, ''d.alu_op'', ucast \<circ> dc_alu_op, ucast tb_ALU_SLT)])]),
      (''5. OP-IMM: srai is the exception'',
       [(push_bit 25 0b0000000 OR push_bit 20 4 OR push_bit 15 1 OR push_bit 12 0b101 OR push_bit 7 5 OR dc_OP_OPIMM,
         [(80, ''d.alu_op'', ucast \<circ> dc_alu_op, ucast tb_ALU_SRL)]),
        (push_bit 25 0b0100000 OR push_bit 20 4 OR push_bit 15 1 OR push_bit 12 0b101 OR push_bit 7 5 OR dc_OP_OPIMM,
         [(82, ''d.alu_op'', ucast \<circ> dc_alu_op, ucast tb_ALU_SRA)]),
        (push_bit 25 0b0000000 OR push_bit 20 4 OR push_bit 15 1 OR push_bit 12 0b001 OR push_bit 7 5 OR dc_OP_OPIMM,
         [(84, ''d.alu_op'', ucast \<circ> dc_alu_op, ucast tb_ALU_SLL)])]),
      (''6. loads'',
       [((dc_enc_i dc_OP_LOAD 5 0b010 1 8),
         [(88, ''d.alu_op'', ucast \<circ> dc_alu_op, ucast tb_ALU_ADD),
          (89, ''d.alu_src'', vbool \<circ> dc_alu_src, 1),
          (90, ''d.reg_we'', vbool \<circ> dc_reg_we, 1),
          (91, ''d.mem_re'', vbool \<circ> dc_mem_re, 1),
          (92, ''d.mem_we'', vbool \<circ> dc_mem_we, 0),
          (93, ''d.wb_sel'', ucast \<circ> dc_wb_sel, 1),
          (94, ''d.funct3'', ucast \<circ> dc_funct3, 0b010)]),
        ((dc_enc_i dc_OP_LOAD 5 0b100 1 8),
         [(96, ''d.funct3'', ucast \<circ> dc_funct3, 0b100),
          (97, ''d.alu_op'', ucast \<circ> dc_alu_op, ucast tb_ALU_ADD)])]),
      (''7. stores'',
       [((dc_enc_s 0b010 1 2 8),
         [(101, ''d.alu_op'', ucast \<circ> dc_alu_op, ucast tb_ALU_ADD),
          (102, ''d.alu_src'', vbool \<circ> dc_alu_src, 1),
          (103, ''d.reg_we'', vbool \<circ> dc_reg_we, 0),
          (104, ''d.mem_we'', vbool \<circ> dc_mem_we, 1),
          (105, ''d.mem_re'', vbool \<circ> dc_mem_re, 0),
          (106, ''d.rs1_addr'', ucast \<circ> dc_rs1_addr, 1),
          (107, ''d.rs2_addr'', ucast \<circ> dc_rs2_addr, 2)])]),
      (''8. branches'',
       [(push_bit 15 1 OR push_bit 20 2 OR push_bit 12 0b000 OR dc_OP_BRANCH,
         [(111, ''d.is_branch'', vbool \<circ> dc_is_branch, 1),
          (112, ''d.reg_we'', vbool \<circ> dc_reg_we, 0),
          (113, ''d.mem_we'', vbool \<circ> dc_mem_we, 0),
          (114, ''d.is_jal'', vbool \<circ> dc_is_jal, 0),
          (115, ''d.is_jalr'', vbool \<circ> dc_is_jalr, 0)])]),
      (''9. jumps'',
       [(push_bit 7 1 OR dc_OP_JAL,
         [(119, ''d.is_jal'', vbool \<circ> dc_is_jal, 1),
          (120, ''d.is_jalr'', vbool \<circ> dc_is_jalr, 0),
          (121, ''d.reg_we'', vbool \<circ> dc_reg_we, 1),
          (122, ''d.wb_sel'', ucast \<circ> dc_wb_sel, 2)]),
        ((dc_enc_i dc_OP_JALR 1 0 1 0),
         [(124, ''d.is_jalr'', vbool \<circ> dc_is_jalr, 1),
          (125, ''d.is_jal'', vbool \<circ> dc_is_jal, 0),
          (126, ''d.reg_we'', vbool \<circ> dc_reg_we, 1),
          (127, ''d.wb_sel'', ucast \<circ> dc_wb_sel, 2),
          (128, ''d.alu_op'', ucast \<circ> dc_alu_op, ucast tb_ALU_ADD),
          (129, ''d.alu_src'', vbool \<circ> dc_alu_src, 1)])]),
      (''10. lui and auipc'',
       [(push_bit 12 0x12345 OR push_bit 7 5 OR dc_OP_LUI,
         [(133, ''d.alu_a_zero'', vbool \<circ> dc_alu_a_zero, 1),
          (134, ''d.alu_a_pc'', vbool \<circ> dc_alu_a_pc, 0),
          (135, ''d.reg_we'', vbool \<circ> dc_reg_we, 1),
          (136, ''d.wb_sel'', ucast \<circ> dc_wb_sel, 0),
          (137, ''d.alu_op'', ucast \<circ> dc_alu_op, ucast tb_ALU_ADD)]),
        (push_bit 12 0x12345 OR push_bit 7 5 OR dc_OP_AUIPC,
         [(139, ''d.alu_a_pc'', vbool \<circ> dc_alu_a_pc, 1),
          (140, ''d.alu_a_zero'', vbool \<circ> dc_alu_a_zero, 0),
          (141, ''d.reg_we'', vbool \<circ> dc_reg_we, 1)])]),
      (''11. fence and system are nops'',
       [(dc_OP_FENCE,
         [(145, ''d.reg_we'', vbool \<circ> dc_reg_we, 0),
          (146, ''d.mem_we'', vbool \<circ> dc_mem_we, 0),
          (147, ''d.illegal'', vbool \<circ> dc_illegal, 0)]),
        (dc_OP_SYSTEM,
         [(149, ''d.reg_we'', vbool \<circ> dc_reg_we, 0),
          (150, ''d.mem_we'', vbool \<circ> dc_mem_we, 0)])]),
      (''12. illegal opcodes flagged'',
       [(0x00000000,
         [(154, ''d.illegal'', vbool \<circ> dc_illegal, 1),
          (155, ''d.reg_we'', vbool \<circ> dc_reg_we, 0),
          (156, ''d.mem_we'', vbool \<circ> dc_mem_we, 0)]),
        (0xFFFFFFFF,
         [(158, ''d.illegal'', vbool \<circ> dc_illegal, 1)]),
        (0x0000007F,
         [(160, ''d.illegal'', vbool \<circ> dc_illegal, 1)])])]"

text \<open>Section 13: random R-type words.\<close>

definition decoder_random_r :: "(Vdecoder \<Rightarrow> Vdecoder) \<Rightarrow> int \<Rightarrow> unit \<Rightarrow> (Vdecoder tb, unit) state" where
  "decoder_random_r ev i u = do {
     rd \<leftarrow> tb_rnd_in 0 31;
     rs1 \<leftarrow> tb_rnd_in 0 31;
     rs2 \<leftarrow> tb_rnd_in 0 31;
     f3 \<leftarrow> tb_rnd_in 0 7;
     z \<leftarrow> tb_rnd_in 0 1;
     let f7 = (if z \<noteq> 0 then 0b0100000 else 0);
     decoder_chk ev (dc_enc_r f7 rs2 rs1 f3 rd,
       [(167, ''d.rs1_addr'', ucast \<circ> dc_rs1_addr, ucast rs1),
        (168, ''d.rs2_addr'', ucast \<circ> dc_rs2_addr, ucast rs2),
        (169, ''d.rd_addr'', ucast \<circ> dc_rd_addr, ucast rd),
        (170, ''d.funct3'', ucast \<circ> dc_funct3, ucast f3),
        (171, ''d.alu_op'', ucast \<circ> dc_alu_op, ucast (push_bit 3 (drop_bit 5 f7) OR f3)),
        (172, ''d.reg_we'', vbool \<circ> dc_reg_we, 1),
        (173, ''d.alu_src'', vbool \<circ> dc_alu_src, 0)]) }"

text \<open>Section 14: random OP-IMM words; the shifts are skipped by \<open>continue\<close>.\<close>

definition decoder_random_i :: "(Vdecoder \<Rightarrow> Vdecoder) \<Rightarrow> int \<Rightarrow> unit \<Rightarrow> (Vdecoder tb, unit) state" where
  "decoder_random_i ev i u = do {
     x \<leftarrow> tb_rnd;
     let imm = (x AND 0xFFF) - 2048;
     f3 \<leftarrow> tb_rnd_in 0 7;
     if f3 = 0b001 \<or> f3 = 0b101 then State_Monad.return ()
     else decoder_chk ev (dc_enc_i dc_OP_OPIMM 5 f3 1 imm,
       [(182, ''d.alu_op & 0b1000'', \<lambda>d. ucast (ucast (dc_alu_op d) AND (0b1000 :: u32)), 0),
        (183, ''d.alu_op & 0b0111'', \<lambda>d. ucast (ucast (dc_alu_op d) AND (0b0111 :: u32)), ucast f3)]) }"

definition decoder_body :: "(Vdecoder \<Rightarrow> Vdecoder) \<Rightarrow> (Vdecoder tb, unit) state" where
  "decoder_body ev = do {
     run_sections (decoder_chk ev) decoder_sections;
     tb_begin ''13. register fields across random instructions'';
     for_range 0 5000 (decoder_random_r ev) ();
     tb_begin ''14. OP-IMM never produces SUB, across all immediates'';
     for_range 0 5000 (decoder_random_i ev) () }"

definition decoder_main :: "(Vdecoder \<Rightarrow> Vdecoder) \<Rightarrow> string list \<Rightarrow> Vdecoder \<Rightarrow> int \<times> Vdecoder tb" where
  "decoder_main ev argv d = tb_run (decoder_body ev) ''decoder'' argv d"

section \<open>The bench on an arbitrary decoder\<close>

definition decoder_failures :: "(u32 \<Rightarrow> decoder_out) \<Rightarrow> u32 \<times> port_check list \<Rightarrow> int" where
  "decoder_failures f v =
     sum_list (map (\<lambda>(line, expr, port, want). of_bool (port (f (fst v)) \<noteq> want)) (snd v))"

lemma decoder_check_counts_at:
  "wp (decoder_check c) (\<lambda>_ s. tb_dut s = d \<and> tb_checks s = k + 1
      \<and> tb_fails s = f + (case c of (line, expr, port, want) \<Rightarrow> of_bool (port (dc_out d) \<noteq> want))) d k f h m"
  by (cases c) (simp add: decoder_check_def tb_wp wp_check)

lemma decoder_checks_at:
  "wp (each decoder_check cs) (\<lambda>_ s. tb_dut s = d \<and> tb_checks s = k + int (length cs)
      \<and> tb_fails s = f + sum_list (map (\<lambda>(line, expr, port, want). of_bool (port (dc_out d) \<noteq> want)) cs))
    d k f h m"
proof (induction cs arbitrary: k f h m)
  case Nil
  then show ?case by (simp add: wp_return)
next
  case (Cons c cs)
  show ?case
    unfolding each.simps wp_bind
    apply (rule wp_mono [OF decoder_check_counts_at])
    subgoal for x s
      using Cons [of "tb_checks s" "tb_fails s" "tb_rest s" "tb.more s"]
      by (auto elim!: wp_mono simp: algebra_simps)
    done
qed

lemma decoder_chk_counts:
  "tb_counts (decoder_chk (Vdecoder_eval_of f) v) (int (length (snd v))) (decoder_failures f v)"
proof (rule tb_countsI)
  fix d k ff h m
  show "wp (decoder_chk (Vdecoder_eval_of f) v)
      (\<lambda>x s. tb_checks s = k + int (length (snd v)) \<and> tb_fails s = ff + decoder_failures f v) d k ff h m"
    using decoder_checks_at [of "snd v" "Vdecoder_eval_of f (d\<lparr>dc_instr := fst v\<rparr>)" k ff "settle_aux h" m]
    by (auto simp: decoder_chk_def decoder_decode_def tb_wp decoder_dut.wp_settle decoder_failures_def
        Vdecoder_eval_of_def elim!: wp_mono)
qed

interpretation decoder_bench: vector_bench "decoder_chk (Vdecoder_eval_of f)"
  "\<lambda>v. int (length (snd v))" "decoder_failures f" for f
  by unfold_locales
    (rule decoder_chk_counts, auto simp: decoder_failures_def intro!: sum_list_nonneg)

lemma decoder_random_mono:
  "tb_mono (decoder_random_r (Vdecoder_eval_of f) i u)"
  "tb_mono (decoder_random_i (Vdecoder_eval_of f) i u)"
  unfolding decoder_random_r_def decoder_random_i_def
  by (intro tb_mono_intros decoder_bench.chk_mono)+

section \<open>What the decoder reads back from an encoded word\<close>

lemma enc_r_fields:
  fixes rd rs1 rs2 :: "5 word" and f3 :: "3 word" and f7 :: "7 word"
  defines "w \<equiv> dc_enc_r (ucast f7) (ucast rs2) (ucast rs1) (ucast f3) (ucast rd)"
  shows "vbits 6 0 w = (0b0110011 :: 7 word)" "vbits 19 15 w = rs1" "vbits 24 20 w = rs2"
    "vbits 11 7 w = rd" "vbits 14 12 w = f3" "vbits 30 30 w = (vbits 5 5 f7 :: 1 word)"
  unfolding w_def word_eq_iff_bits dc_enc_r_def dc_OP_OP_def
  by (simp_all add: bit_simps all_less_numeral all_less_Suc_conv)

lemma enc_i_fields:
  fixes rd rs1 :: "5 word" and f3 :: "3 word" and imm :: u32
  defines "w \<equiv> dc_enc_i dc_OP_OPIMM (ucast rd) (ucast f3) (ucast rs1) imm"
  shows "vbits 6 0 w = (0b0010011 :: 7 word)" "vbits 19 15 w = rs1"
    "vbits 11 7 w = rd" "vbits 14 12 w = f3" "vbits 30 30 w = (vbits 10 10 imm :: 1 word)"
  unfolding w_def word_eq_iff_bits dc_enc_i_def dc_OP_OPIMM_def
  by (simp_all add: bit_simps all_less_numeral all_less_Suc_conv)

lemma decoder_sections_good:
  "list_all (\<lambda>v. decoder_failures decoder v = 0) (section_vectors decoder_sections)"
  unfolding section_vectors_def decoder_sections_def
  by (simp add: decoder_failures_def decoder_def decoder_defaults_def decoder_system_def Let_def
      dc_enc_r_def dc_enc_i_def dc_enc_s_def tb_data vbits_def word_cat_eq)

lemma decoder_enc_r:
  fixes rd rs1 rs2 :: "5 word" and f3 :: "3 word" and f7 :: "7 word"
  defines "w \<equiv> dc_enc_r (ucast f7) (ucast rs2) (ucast rs1) (ucast f3) (ucast rd)"
  shows "decoder w = (decoder_defaults w)\<lparr>dc_rs1_addr := rs1, dc_rs2_addr := rs2, dc_rd_addr := rd,
    dc_funct3 := f3, dc_reg_we := True, dc_alu_src := False,
    dc_alu_op := word_cat (vbits 5 5 f7 :: 1 word) f3\<rparr>"
  using enc_r_fields [of f7 rs2 rs1 f3 rd, folded w_def]
  by (simp add: decoder_def decoder_defaults_def Let_def)

lemma decoder_enc_i:
  fixes rd rs1 :: "5 word" and f3 :: "3 word" and imm :: u32
  defines "w \<equiv> dc_enc_i dc_OP_OPIMM (ucast rd) (ucast f3) (ucast rs1) imm"
  shows "decoder w = (decoder_defaults w)\<lparr>dc_rs1_addr := rs1, dc_rd_addr := rd,
    dc_funct3 := f3, dc_reg_we := True, dc_alu_src := True,
    dc_alu_op := word_cat (if f3 = 5 then vbits 10 10 imm else 0 :: 1 word) f3\<rparr>"
  using enc_i_fields [of rd f3 rs1 imm, folded w_def]
  by (simp add: decoder_def decoder_defaults_def Let_def)

lemma decoder_alu_op:
  fixes rd rs1 rs2 :: "5 word" and f3 :: "3 word" and f7 :: "7 word" and imm :: u32
  shows "dc_alu_op (decoder (dc_enc_r (ucast f7) (ucast rs2) (ucast rs1) (ucast f3) (ucast rd)))
      = word_cat (vbits 5 5 f7 :: 1 word) f3"
    and "dc_alu_op (decoder (dc_enc_i dc_OP_OPIMM (ucast rd) (ucast f3) (ucast rs1) imm))
      = word_cat (if f3 = 5 then vbits 10 10 imm else 0 :: 1 word) f3"
  by (simp_all add: decoder_enc_r decoder_enc_i)

lemma alu_op_bits:
  "word_cat (0 :: 1 word) (f3 :: 3 word) = (ucast f3 :: 4 word)"
  "word_cat (1 :: 1 word) (f3 :: 3 word) = (8 OR ucast f3 :: 4 word)"
  unfolding word_eq_iff_bits
  by (simp_all add: bit_simps all_less_numeral all_less_Suc_conv)

section \<open>The bench on the RTL\<close>

lemma decoder_chk_pass:
  "decoder_failures decoder v = 0 \<Longrightarrow>
   tb_pass (\<lambda>_ _. True) (decoder_chk Vdecoder_eval v) (int (length (snd v)))"
  unfolding Vdecoder_eval_def by (rule decoder_bench.chk_pass)

lemma decoder_random_r_good:
  fixes f7 a b c e :: u32
  assumes f7: "f7 = 0b0100000 \<or> f7 = 0"
  defines "rd \<equiv> rnd_scale 0 31 a" and "rs1 \<equiv> rnd_scale 0 31 b" and "rs2 \<equiv> rnd_scale 0 31 c"
    and "f3 \<equiv> rnd_scale 0 7 e"
  shows "decoder_failures decoder (dc_enc_r f7 rs2 rs1 f3 rd,
       [(167, ''d.rs1_addr'', ucast \<circ> dc_rs1_addr, ucast rs1),
        (168, ''d.rs2_addr'', ucast \<circ> dc_rs2_addr, ucast rs2),
        (169, ''d.rd_addr'', ucast \<circ> dc_rd_addr, ucast rd),
        (170, ''d.funct3'', ucast \<circ> dc_funct3, ucast f3),
        (171, ''d.alu_op'', ucast \<circ> dc_alu_op, ucast (push_bit 3 (drop_bit 5 f7) OR f3)),
        (172, ''d.reg_we'', vbool \<circ> dc_reg_we, 1),
        (173, ''d.alu_src'', vbool \<circ> dc_alu_src, 0)]) = 0"
proof -
  obtain A B C :: "5 word" and E :: "3 word"
    where fields: "rd = ucast A" "rs1 = ucast B" "rs2 = ucast C" "f3 = ucast E"
    using rnd_5 rnd_3 unfolding rd_def rs1_def rs2_def f3_def by metis
  define F :: "7 word" where "F = ucast f7"
  have F: "f7 = ucast F" "F = 0b0100000 \<or> F = 0" using f7 by (auto simp: F_def)
  have op: "(ucast (word_cat (vbits 5 5 F :: 1 word) E :: 4 word) :: u64)
      = ucast (push_bit 3 (drop_bit 5 (ucast F)) OR ucast E :: u32)"
    using F(2) unfolding word_eq_iff_bits
    by (auto simp: bit_simps all_less_numeral all_less_Suc_conv)
  show ?thesis
    unfolding fields F(1) by (simp add: decoder_failures_def decoder_enc_r op ucast_ucast_up)
qed

lemma decoder_random_i_good:
  assumes "rnd_scale 0 7 e \<noteq> 5"
  shows "decoder_failures decoder (dc_enc_i dc_OP_OPIMM 5 (rnd_scale 0 7 e) 1 imm,
       [(182, ''d.alu_op & 0b1000'', \<lambda>d. ucast (ucast (dc_alu_op d) AND (0b1000 :: u32)), 0),
        (183, ''d.alu_op & 0b0111'', \<lambda>d. ucast (ucast (dc_alu_op d) AND (0b0111 :: u32)),
          ucast (rnd_scale 0 7 e))]) = 0"
proof -
  obtain E :: "3 word" where E: "rnd_scale 0 7 e = ucast E" using rnd_3 by blast
  then have "E \<noteq> 5" using assms by auto
  moreover have "(ucast (word_cat (0 :: 1 word) E :: 4 word) AND 8 :: u32) = 0"
    "(ucast (word_cat (0 :: 1 word) E :: 4 word) AND 7 :: u32) = ucast E"
    unfolding word_eq_iff_bits by (simp_all add: bit_simps all_less_numeral all_less_Suc_conv)
  moreover have "decoder (dc_enc_i dc_OP_OPIMM 5 (ucast E) 1 imm)
      = decoder (dc_enc_i dc_OP_OPIMM (ucast (5 :: 5 word)) (ucast E) (ucast (1 :: 5 word)) imm)"
    by simp
  ultimately show ?thesis
    unfolding E by (simp only: decoder_enc_i) (simp add: decoder_failures_def)
qed

lemma decoder_random_r_pass: "tb_pass (\<lambda>_ _. True) (decoder_random_r Vdecoder_eval i u) 7"
  unfolding decoder_random_r_def
  by (intro tb_pass_program, rule tb_pass_eq [OF decoder_chk_pass], rule decoder_random_r_good)
    simp_all

lemma decoder_random_i_ok:
  "tb_ok (\<lambda>d k m. lo \<le> k \<and> k \<le> lo + 2 * j) (decoder_random_i Vdecoder_eval i u)
     (\<lambda>_ d k m. lo \<le> k \<and> k \<le> lo + 2 * (j + 1))"
proof (rule tb_okI)
  fix d k f h and m :: unit
  assume k: "lo \<le> k \<and> k \<le> lo + 2 * j"
  have chk: "wp (decoder_chk Vdecoder_eval v) (\<lambda>x s. (lo \<le> tb_checks s \<and> tb_checks s \<le> lo + 2 * (j + 1))
      \<and> tb_fails s = f) d k f h' m"
    if "decoder_failures decoder v = 0" "length (snd v) = 2" for v h'
    by (rule wp_mono [OF tb_okD [OF tb_passD [OF decoder_chk_pass [OF that(1)], where k = k]]])
      (use k that(2) in auto)
  show "wp (decoder_random_i Vdecoder_eval i u)
      (\<lambda>x s. (lo \<le> tb_checks s \<and> tb_checks s \<le> lo + 2 * (j + 1)) \<and> tb_fails s = f) d k f h m"
    unfolding decoder_random_i_def Let_def wp_rnd wp_rnd_in if_distrib [of wp] if_distribR
    apply (split if_split, intro conjI impI)
    subgoal using k by (simp add: wp_return)
    subgoal by (rule chk, rule decoder_random_i_good) simp_all
    done
qed

lemma decoder_body_ok:
  "tb_ok (\<lambda>d k m. k = 0) (decoder_body Vdecoder_eval) (\<lambda>_ d k m. 35077 \<le> k \<and> k \<le> 45077)"
  unfolding decoder_body_def
proof (intro tb_ok_bind)
  show "tb_ok (\<lambda>d k m. k = 0) (run_sections (decoder_chk Vdecoder_eval) decoder_sections) (\<lambda>_ d k m. k = 77)"
    using tb_passD [OF decoder_bench.sections_pass [OF decoder_sections_good, folded Vdecoder_eval_def], where k = 0]
    by (rule tb_ok_conseq) (simp_all add: section_vectors_def decoder_sections_def)
  show "tb_ok (\<lambda>d k m. k = 77) (tb_begin s) (\<lambda>_ d k m. k = 77)" for s
    using tb_passD [OF tb_pass_begin, where k = 77] by (rule tb_ok_conseq) simp_all
  have "tb_pass (\<lambda>_ _. True) (for_range 0 5000 (decoder_random_r Vdecoder_eval) ()) (7 * (5000 - 0))"
    by (intro tb_pass_for decoder_random_r_pass) simp
  then show "tb_ok (\<lambda>d k m. k = 77) (for_range 0 5000 (decoder_random_r Vdecoder_eval) ()) (\<lambda>_ d k m. k = 35077)"
    using tb_passD by (fastforce elim: tb_ok_conseq)
  show "tb_ok (\<lambda>d k m. k = 35077) (tb_begin s) (\<lambda>_ d k m. k = 35077)" for s
    using tb_passD [OF tb_pass_begin, where k = 35077] by (rule tb_ok_conseq) simp_all
  have "tb_ok (\<lambda>d k m. 35077 \<le> k \<and> k \<le> 35077 + 2 * 0)
      (for_range 0 5000 (decoder_random_i Vdecoder_eval) ())
      (\<lambda>_ d k m. 35077 \<le> k \<and> k \<le> 35077 + 2 * 5000)"
    by (rule tb_ok_for [where I = "\<lambda>i _ d k m. 35077 \<le> k \<and> k \<le> 35077 + 2 * i"])
      (simp, rule decoder_random_i_ok)
  then show "tb_ok (\<lambda>d k m. k = 35077) (for_range 0 5000 (decoder_random_i Vdecoder_eval) ())
      (\<lambda>_ d k m. 35077 \<le> k \<and> k \<le> 45077)"
    by (rule tb_ok_conseq) simp_all
qed

section \<open>Specification of the computational instructions\<close>

text \<open>
  The result of the OP and OP-IMM instructions by \<open>funct3\<close>, as the RISC-V manual tabulates it;
  \<open>alt\<close> selects \<open>sub\<close> and \<open>sra\<close>. It is independent of the ALU's operation codes.
\<close>

definition isa_op :: "3 word \<Rightarrow> bool \<Rightarrow> u32 \<Rightarrow> u32 \<Rightarrow> u32" where
  "isa_op f3 alt a b =
     (if f3 = 0 then (if alt then a - b else a + b)
      else if f3 = 1 then push_bit (unat b mod 32) a
      else if f3 = 2 then of_bool (sint a < sint b)
      else if f3 = 3 then of_bool (uint a < uint b)
      else if f3 = 4 then a XOR b
      else if f3 = 5 then (if alt then word_of_int (sint a div 2 ^ (unat b mod 32))
                           else word_of_int (uint a div 2 ^ (unat b mod 32)))
      else if f3 = 6 then a OR b
      else a AND b)"

lemma srl_sra_div:
  "drop_bit n (a :: u32) = word_of_int (uint a div 2 ^ n)"
  "signed_drop_bit n (a :: u32) = word_of_int (sint a div 2 ^ n)"
  by (simp_all flip: uint_drop_bit_u32 sint_signed_drop_bit_u32)

lemma alu_isa:
  "alu a b (ucast f3) = isa_op f3 False a b"
  "alu a b (8 OR ucast f3) = (if f3 = 0 \<or> f3 = 5 then isa_op f3 True a b else 0)"
  by (cases f3 rule: word3_exhaust;
      simp add: alu_def isa_op_def tb_data Let_def shamt_mod_32 srl_sra_div word_less_def)+

section \<open>The SYSTEM opcode\<close>

lemma funct3_low: "(vbits 13 12 i :: 2 word) = 0 \<longleftrightarrow> (vbits 14 12 i :: 3 word) = 0 \<or> (vbits 14 12 i :: 3 word) = 4"
  unfolding word_eq_iff_bits by (auto simp: bit_simps all_less_numeral all_less_Suc_conv)

lemma csr_op_field: "vbits (Suc 0) 0 (vbits 14 12 i :: 3 word) = (vbits 13 12 i :: 2 word)"
  unfolding word_eq_iff_bits by (auto simp: bit_simps all_less_numeral all_less_Suc_conv)

lemma decoder_system_illegal:
  "dc_illegal (decoder_system i o1) \<longleftrightarrow> dc_illegal o1 \<or>
    (if (vbits 14 12 i :: 3 word) = 0 then (vbits 31 20 i :: 12 word) \<notin> {0, 1, 0x302} else (vbits 14 12 i :: 3 word) = 4)"
  using funct3_low [of i] word2_exhaust [of "vbits 13 12 i"]
  by (auto simp: decoder_system_def Let_def csr_op_field)

lemma decoder_system_controls:
  "dc_mem_we (decoder_system i o1) = dc_mem_we o1"
  "dc_mem_re (decoder_system i o1) = dc_mem_re o1"
  "dc_is_branch (decoder_system i o1) = dc_is_branch o1"
  "dc_is_jal (decoder_system i o1) = dc_is_jal o1"
  "dc_is_jalr (decoder_system i o1) = dc_is_jalr o1"
  "dc_is_mret (decoder_system i o1) = (dc_is_mret o1 \<or> (vbits 14 12 i :: 3 word) = 0 \<and> (vbits 31 20 i :: 12 word) = 0x302)"
  "dc_is_ecall (decoder_system i o1) = (dc_is_ecall o1 \<or> (vbits 14 12 i :: 3 word) = 0 \<and> (vbits 31 20 i :: 12 word) \<in> {0, 1})"
  "dc_reg_we (decoder_system i o1) = (dc_reg_we o1 \<or> (vbits 14 12 i :: 3 word) \<noteq> 0)"
  "dc_csr_op o1 = 0 \<Longrightarrow> dc_csr_op (decoder_system i o1) = (if (vbits 14 12 i :: 3 word) = 0 then 0 else vbits 13 12 i)"
  using word2_exhaust [of "vbits 13 12 i"] by (auto simp: decoder_system_def Let_def csr_op_field)

section \<open>Properties\<close>

text \<open>
  C9. The decoder accepts an instruction word exactly when its major opcode is one of the eleven
  of RV32I and, for a SYSTEM word, it is \<open>ecall\<close>, \<open>ebreak\<close>, \<open>mret\<close> or a CSR access (\<open>funct3 = 100\<close>
  is none); every other word is flagged illegal. The \<open>funct7\<close> field plays no part.
\<close>

theorem decoder_illegal_iff:
  "dc_illegal (decoder i) =
     (let op = vbits 6 0 i :: 7 word; f3 = vbits 14 12 i :: 3 word; imm = vbits 31 20 i :: 12 word
      in \<not> (if op = 0x73 then (if f3 = 0 then imm \<in> {0, 1, 0x302} else f3 \<noteq> 4)
             else op \<in> {0x37, 0x17, 0x6F, 0x67, 0x63, 0x03, 0x23, 0x33, 0x13, 0x0F}))"
  by (simp add: decoder_def decoder_system_illegal decoder_defaults_def Let_def)

text \<open>
  C11. For every instruction word the control signals are consistent: a rejected word starts no
  memory access, jump or trap return; at most one of store, load, branch, \<open>jal\<close>, \<open>jalr\<close>, \<open>mret\<close>,
  \<open>ecall\<close> and CSR operation is selected; and no store, branch, \<open>mret\<close> or \<open>ecall\<close> writes a register.
\<close>

theorem decoder_controls_exclusive:
  "let out = decoder i in
     \<not> (dc_illegal out \<and> (dc_mem_we out \<or> dc_mem_re out \<or> dc_is_branch out \<or> dc_is_jal out
          \<or> dc_is_jalr out \<or> dc_is_mret out \<or> dc_is_ecall out))
     \<and> length (filter id [dc_mem_we out, dc_mem_re out, dc_is_branch out, dc_is_jal out,
          dc_is_jalr out, dc_is_mret out, dc_is_ecall out, dc_csr_op out \<noteq> 0]) \<le> 1
     \<and> \<not> (dc_reg_we out \<and> (dc_mem_we out \<or> dc_is_branch out \<or> dc_is_mret out \<or> dc_is_ecall out))"
  by (simp add: decoder_def decoder_system_illegal decoder_system_controls decoder_defaults_def Let_def)

text \<open>
  C3. Decoder and ALU together implement the computational instructions: for an R-type word
  with \<open>funct7\<close> 0 or 0100000, and for every OP-IMM word whatever its immediate (so a negative
  immediate never turns \<open>addi\<close> into a subtraction), the operation selected by the decoder
  makes the ALU compute the result the ISA specifies. The six R-type encodings that RV32I does
  not define (\<open>funct7\<close> 0100000 with another \<open>funct3\<close>) compute 0.
\<close>

theorem decoder_alu_refines_isa:
  fixes rd rs1 rs2 :: "5 word" and f3 :: "3 word"
  shows "alu a b (dc_alu_op (decoder (dc_enc_r 0 (ucast rs2) (ucast rs1) (ucast f3) (ucast rd))))
      = isa_op f3 False a b
    \<and> alu a b (dc_alu_op (decoder (dc_enc_r 0x20 (ucast rs2) (ucast rs1) (ucast f3) (ucast rd))))
      = (if f3 = 0 \<or> f3 = 5 then isa_op f3 True a b else 0)
    \<and> alu a b (dc_alu_op (decoder (dc_enc_i dc_OP_OPIMM (ucast rd) (ucast f3) (ucast rs1) imm)))
      = isa_op f3 (f3 = 5 \<and> bit imm 10) a b"
proof -
  have op: "alu a b (word_cat (if c then 1 else 0 :: 1 word) f3)
      = (if c then if f3 = 0 \<or> f3 = 5 then isa_op f3 True a b else 0 else isa_op f3 False a b)" for c
    by (simp only: alu_op_bits alu_isa if_distrib [of "\<lambda>x. alu a b (word_cat x f3)"] split: if_split)
  have imm: "(if f3 = 5 then vbits 10 10 imm else 0 :: 1 word) = (if f3 = 5 \<and> bit imm 10 then 1 else 0)"
    unfolding word_eq_iff_bits by (auto simp: bit_simps)
  show ?thesis
    using decoder_alu_op(1) [of 0 rs2 rs1 f3 rd] decoder_alu_op(1) [of "0x20" rs2 rs1 f3 rd]
      decoder_alu_op(2) [of rd f3 rs1 imm, unfolded imm]
      op [of False] op [of True] op [of "f3 = 5 \<and> bit imm 10"]
    by (auto simp: vbits_def)
qed

text \<open>
  C23. The decoder's bench accepts the RTL: it exits with 0 and no failure, whatever the seed
  and the initial port values, after between 35077 and 45077 checks (the loop of section 14
  skips the random shift instructions, two checks each).
\<close>

theorem tb_decoder_passes:
  "let r = decoder_main Vdecoder_eval argv d
   in fst r = 0 \<and> tb_fails (snd r) = 0 \<and> 35077 \<le> tb_checks (snd r) \<and> tb_checks (snd r) \<le> 45077"
  unfolding decoder_main_def Let_def
  using tb_ok_run_if [OF decoder_body_ok, where name = "''decoder''"] by simp

text \<open>
  C37. It rejects a decoder that drives a wrong value on a port that one of the 77 directed
  checks reads: exit code 1.
\<close>

theorem tb_decoder_rejects:
  assumes "v \<in> set (section_vectors decoder_sections)" and "decoder_failures f v \<noteq> 0"
  shows "fst (decoder_main (Vdecoder_eval_of f) argv d) = 1"
  unfolding decoder_main_def decoder_body_def
  by (rule decoder_bench.rejects [OF assms]) (intro tb_mono_intros decoder_random_mono)

theorem tb_decoder_rejects_witness:
  "fst (decoder_main (Vdecoder_eval_of (\<lambda>i. decoder_defaults i)) []
     \<lparr>dc_instr = 0, dc_out = decoder_defaults 0\<rparr>) = 1"
  by (rule tb_decoder_rejects [where v = "(0x0000007F, [(160, ''d.illegal'', vbool \<circ> dc_illegal, 1)])"])
    (simp_all add: section_vectors_def decoder_sections_def decoder_failures_def decoder_defaults_def)

end
