(* ===== verification/Regfile.thy ===== *)
theory Regfile
  imports Tb_Common
begin

text \<open>
  The register file: the RTL module \<open>rtl/core/regfile.v\<close> with its parameter \<open>BYPASS\<close>, and its
  test bench \<open>sim/verilator/tb_regfile.cpp\<close> with the C++ shadow model. It is the first model
  with a clock, and shows how an RTL block is given to the harness: as the two functions of
  the locale \<open>verilated_module\<close>.
\<close>

section \<open>regfile.v\<close>

record Vregfile = vclk +
  rf_rs1_addr :: "5 word"
  rf_rs1_data :: u32
  rf_rs2_addr :: "5 word"
  rf_rs2_data :: u32
  rf_rd_addr :: "5 word"
  rf_rd_data :: u32
  rf_rd_we :: bool
  rf_regs :: "5 word \<Rightarrow> u32"

text \<open>The \<open>always @(posedge clk)\<close> block and the continuous assignments.\<close>

definition regfile_seq :: "Vregfile \<Rightarrow> Vregfile" where
  "regfile_seq d =
     (if rf_rd_we d \<and> rf_rd_addr d \<noteq> 0
      then d\<lparr>rf_regs := (rf_regs d)(rf_rd_addr d := rf_rd_data d)\<rparr> else d)"

definition regfile_read :: "bool \<Rightarrow> Vregfile \<Rightarrow> 5 word \<Rightarrow> u32" where
  "regfile_read BYPASS d rs_addr =
     (let bypass = BYPASS \<and> rf_rd_we d \<and> rf_rd_addr d = rs_addr \<and> rs_addr \<noteq> 0;
          muxed = (if bypass then rf_rd_data d else rf_regs d rs_addr)
      in if rs_addr = 0 then 0 else muxed)"

definition regfile_comb :: "bool \<Rightarrow> Vregfile \<Rightarrow> Vregfile" where
  "regfile_comb BYPASS d =
     d\<lparr>rf_rs1_data := regfile_read BYPASS d (rf_rs1_addr d),
       rf_rs2_data := regfile_read BYPASS d (rf_rs2_addr d)\<rparr>"

text \<open>The state after the \<open>initial\<close> block.\<close>

definition regfile_init :: Vregfile where
  "regfile_init =
     \<lparr>v_clk = False, v_clk_prev = False, rf_rs1_addr = 0, rf_rs1_data = 0, rf_rs2_addr = 0,
      rf_rs2_data = 0, rf_rd_addr = 0, rf_rd_data = 0, rf_rd_we = False, rf_regs = (\<lambda>_. 0)\<rparr>"

definition Vregfile_eval :: "bool \<Rightarrow> Vregfile \<Rightarrow> Vregfile" where
  "Vregfile_eval BYPASS = veval regfile_seq (regfile_comb BYPASS)"

interpretation rf: verilated_module regfile_seq "regfile_comb BYPASS" for BYPASS
  by unfold_locales (simp_all add: regfile_seq_def regfile_comb_def regfile_read_def)

section \<open>tb_regfile.cpp\<close>

definition regfile_idle :: "Vregfile \<Rightarrow> Vregfile" where
  "regfile_idle d =
     d\<lparr>v_clk := False, rf_rd_we := False, rf_rd_addr := 0, rf_rd_data := 0,
       rf_rs1_addr := 0, rf_rs2_addr := 0\<rparr>"

text \<open>The lambdas \<open>wr\<close>, \<open>rd1\<close> and \<open>rd2\<close>; an address is an \<open>int\<close>, truncated by the 5-bit port.\<close>

definition rf_wr :: "(Vregfile \<Rightarrow> Vregfile) \<Rightarrow> u32 \<Rightarrow> u32 \<Rightarrow> (Vregfile tb, unit) state" where
  "rf_wr ev addr data = do {
     poke (\<lambda>d. d\<lparr>rf_rd_addr := ucast addr, rf_rd_data := data, rf_rd_we := True\<rparr>);
     tb_tick ev;
     poke (\<lambda>d. d\<lparr>rf_rd_we := False\<rparr>) }"

definition rf_rd1 :: "(Vregfile \<Rightarrow> Vregfile) \<Rightarrow> u32 \<Rightarrow> (Vregfile tb, u32) state" where
  "rf_rd1 ev addr = do { poke (\<lambda>d. d\<lparr>rf_rs1_addr := ucast addr\<rparr>); tb_settle ev; peek rf_rs1_data }"

definition rf_rd2 :: "(Vregfile \<Rightarrow> Vregfile) \<Rightarrow> u32 \<Rightarrow> (Vregfile tb, u32) state" where
  "rf_rd2 ev addr = do { poke (\<lambda>d. d\<lparr>rf_rs2_addr := ucast addr\<rparr>); tb_settle ev; peek rf_rs2_data }"

definition rf_check :: "nat \<Rightarrow> string \<Rightarrow> (Vregfile \<Rightarrow> u32) \<Rightarrow> u64 \<Rightarrow> (Vregfile tb, unit) state" where
  "rf_check line expr port want = do {
     r \<leftarrow> peek port;
     tb_check ''tb_regfile.cpp'' line expr (ucast r) want }"

definition regfile_test_1_2 :: "(Vregfile \<Rightarrow> Vregfile) \<Rightarrow> (Vregfile tb, unit) state" where
  "regfile_test_1_2 ev = do {
     tb_begin ''1. write then read back on port A'';
     rf_wr ev 7 0xDEADBEEF;
     poke (\<lambda>d. d\<lparr>rf_rs1_addr := 7\<rparr>); tb_settle ev;
     rf_check 30 ''d.rs1_data'' rf_rs1_data 0xDEADBEEF;
     tb_begin ''2. same register visible on both ports'';
     poke (\<lambda>d. d\<lparr>rf_rs2_addr := 7\<rparr>); tb_settle ev;
     rf_check 34 ''d.rs2_data'' rf_rs2_data 0xDEADBEEF }"

definition regfile_test_3 :: "(Vregfile \<Rightarrow> Vregfile) \<Rightarrow> (Vregfile tb, unit) state" where
  "regfile_test_3 ev = do {
     tb_begin ''3. rd_we low -> write does not take effect'';
     rf_wr ev 8 0x12345678;
     poke (\<lambda>d. d\<lparr>rf_rd_addr := 8, rf_rd_data := 0x87654321, rf_rd_we := False\<rparr>);
     tb_tick ev;
     poke (\<lambda>d. d\<lparr>rf_rs1_addr := 8\<rparr>); tb_settle ev;
     rf_check 46 ''d.rs1_data'' rf_rs1_data 0x12345678 }"

definition regfile_test_4 :: "(Vregfile \<Rightarrow> Vregfile) \<Rightarrow> (Vregfile tb, unit) state" where
  "regfile_test_4 ev = do {
     tb_begin ''4. write to x0 with we high -> x0 still reads 0'';
     poke (\<lambda>d. d\<lparr>rf_rd_addr := 0, rf_rd_data := 0x22446688, rf_rd_we := True\<rparr>);
     tb_tick ev;
     poke (\<lambda>d. d\<lparr>rf_rd_we := False, rf_rs1_addr := 0\<rparr>);
     tb_settle ev;
     rf_check 60 ''d.rs1_data'' rf_rs1_data 0x00000000 }"

definition regfile_test_5 :: "(Vregfile \<Rightarrow> Vregfile) \<Rightarrow> (Vregfile tb, unit) state" where
  "regfile_test_5 ev = do {
     tb_begin ''5. x0 reads 0 on both ports'';
     poke (\<lambda>d. d\<lparr>rf_rs1_addr := 0, rf_rs2_addr := 0\<rparr>);
     tb_settle ev;
     rf_check 68 ''d.rs1_data'' rf_rs1_data 0x00000000;
     rf_check 69 ''d.rs2_data'' rf_rs2_data 0x00000000 }"

definition regfile_test_6 :: "(Vregfile \<Rightarrow> Vregfile) \<Rightarrow> (Vregfile tb, unit) state" where
  "regfile_test_6 ev = do {
     tb_begin ''6. bypass: write x9 while reading x9 in the same cycle'';
     rf_wr ev 9 0x33333333;
     poke (\<lambda>d. d\<lparr>rf_rd_addr := 9, rf_rd_data := 0x11223344, rf_rd_we := True, rf_rs1_addr := 9\<rparr>);
     tb_settle ev;
     rf_check 81 ''d.rs1_data'' rf_rs1_data 0x11223344;
     tb_tick ev;
     poke (\<lambda>d. d\<lparr>rf_rd_we := False\<rparr>);
     tb_settle ev;
     rf_check 86 ''d.rs1_data'' rf_rs1_data 0x11223344 }"

definition regfile_test_7 :: "(Vregfile \<Rightarrow> Vregfile) \<Rightarrow> (Vregfile tb, unit) state" where
  "regfile_test_7 ev = do {
     tb_begin ''7. bypass respects rd_we: same setup, we=0 -> old value'';
     rf_wr ev 9 0x33333333;
     poke (\<lambda>d. d\<lparr>rf_rd_addr := 9, rf_rd_data := 0x11223344, rf_rd_we := False, rf_rs1_addr := 9\<rparr>);
     tb_settle ev;
     rf_check 101 ''d.rs1_data'' rf_rs1_data 0x33333333;
     poke (\<lambda>d. d\<lparr>rf_rd_we := False\<rparr>) }"

definition regfile_test_8 :: "(Vregfile \<Rightarrow> Vregfile) \<Rightarrow> (Vregfile tb, unit) state" where
  "regfile_test_8 ev = do {
     tb_begin ''8. bypass does no resurrect x0'';
     poke (\<lambda>d. d\<lparr>rf_rd_addr := 0, rf_rd_data := 0xDEADBEEF, rf_rd_we := True,
                 rf_rs1_addr := 0, rf_rs2_addr := 0\<rparr>);
     tb_settle ev;
     rf_check 109 ''d.rs1_data'' rf_rs1_data 0x00000000;
     rf_check 110 ''d.rs2_data'' rf_rs2_data 0x00000000;
     tb_tick ev;
     poke (\<lambda>d. d\<lparr>rf_rd_we := False\<rparr>) }"

definition regfile_test_9 :: "(Vregfile \<Rightarrow> Vregfile) \<Rightarrow> (Vregfile tb, unit) state" where
  "regfile_test_9 ev = do {
     tb_begin ''9. neighbours undisturbed'';
     rf_wr ev 10 0xAAAAAAAA;
     rf_wr ev 11 0xBBBBBBBB;
     rf_wr ev 12 0xCCCCCCCC;
     r10 \<leftarrow> rf_rd1 ev 10; tb_check ''tb_regfile.cpp'' 117 ''rd1(10)'' (ucast r10) 0xAAAAAAAA;
     r11 \<leftarrow> rf_rd1 ev 11; tb_check ''tb_regfile.cpp'' 118 ''rd1(11)'' (ucast r11) 0xBBBBBBBB;
     r12 \<leftarrow> rf_rd1 ev 12; tb_check ''tb_regfile.cpp'' 119 ''rd1(12)'' (ucast r12) 0xCCCCCCCC }"

text \<open>Section 10: the resynchronisation loop, then one random write and two random reads.\<close>

definition regfile_resync :: "(Vregfile \<Rightarrow> Vregfile) \<Rightarrow> int \<Rightarrow> u32 list \<Rightarrow> (Vregfile tb, u32 list) state" where
  "regfile_resync ev i model = do {
     v \<leftarrow> rf_rd1 ev (word_of_int i);
     State_Monad.return (model[nat i := v]) }"

definition regfile_random :: "(Vregfile \<Rightarrow> Vregfile) \<Rightarrow> int \<Rightarrow> u32 list \<Rightarrow> (Vregfile tb, u32 list) state" where
  "regfile_random ev i model = do {
     a \<leftarrow> tb_rnd_in 0 31;
     v \<leftarrow> tb_rnd;
     rf_wr ev a v;
     let model' = (if a \<noteq> 0 then model[unat a := v] else model);
     b \<leftarrow> tb_rnd_in 0 31;
     c \<leftarrow> tb_rnd_in 0 31;
     rb \<leftarrow> rf_rd1 ev b;
     tb_check ''tb_regfile.cpp'' 135 ''rd1(b)'' (ucast rb) (ucast (if b = 0 then 0 else model' ! unat b));
     rc \<leftarrow> rf_rd2 ev c;
     tb_check ''tb_regfile.cpp'' 136 ''rd2(c)'' (ucast rc) (ucast (if c = 0 then 0 else model' ! unat c));
     State_Monad.return model' }"

definition regfile_body :: "(Vregfile \<Rightarrow> Vregfile) \<Rightarrow> (Vregfile tb, unit) state" where
  "regfile_body ev = do {
     poke regfile_idle;
     regfile_test_1_2 ev; regfile_test_3 ev; regfile_test_4 ev; regfile_test_5 ev;
     regfile_test_6 ev; regfile_test_7 ev; regfile_test_8 ev; regfile_test_9 ev;
     tb_begin ''10. random against shadow model'';
     model \<leftarrow> for_range 0 32 (regfile_resync ev) (replicate 32 0);
     _ \<leftarrow> for_range 0 5000 (regfile_random ev) model;
     State_Monad.return () }"

definition regfile_main :: "(Vregfile \<Rightarrow> Vregfile) \<Rightarrow> string list \<Rightarrow> Vregfile \<Rightarrow> int \<times> Vregfile tb" where
  "regfile_main ev argv d = tb_run (regfile_body ev) ''regfile'' argv d"

section \<open>The directed sections on the RTL\<close>

definition rf_ready :: "Vregfile \<Rightarrow> bool" where
  "rf_ready d \<longleftrightarrow> \<not> v_clk d \<and> \<not> rf_rd_we d"

lemmas rf_exec = tb_wp wp_check rf.wp_settle rf.wp_tick Vregfile_eval_def rf_wr_def rf_rd1_def
  rf_rd2_def rf_check_def vposedge_def veval_def regfile_seq_def regfile_comb_def regfile_read_def

lemma regfile_directed_pass:
  "tb_pass (\<lambda>d _. rf_ready d) (regfile_test_1_2 (Vregfile_eval b)) 2"
  "tb_pass (\<lambda>d _. rf_ready d) (regfile_test_3 (Vregfile_eval b)) 1"
  "tb_pass (\<lambda>d _. rf_ready d) (regfile_test_4 (Vregfile_eval b)) 1"
  "tb_pass (\<lambda>d _. rf_ready d) (regfile_test_5 (Vregfile_eval b)) 2"
  "tb_pass (\<lambda>d _. rf_ready d) (regfile_test_6 (Vregfile_eval True)) 2"
  "tb_pass (\<lambda>d _. rf_ready d) (regfile_test_7 (Vregfile_eval b)) 1"
  "tb_pass (\<lambda>d _. rf_ready d) (regfile_test_8 (Vregfile_eval b)) 2"
  "tb_pass (\<lambda>d _. rf_ready d) (regfile_test_9 (Vregfile_eval b)) 3"
  by (rule tb_passI; simp add: rf_exec rf_ready_def regfile_test_1_2_def regfile_test_3_def
      regfile_test_4_def regfile_test_5_def regfile_test_6_def regfile_test_7_def
      regfile_test_8_def regfile_test_9_def)+

section \<open>The random section on the RTL\<close>

lemma unat5: "unat (a :: 5 word) < 32"
  using unsigned_less [of a] by simp

lemma unat_u32_5: "unat (ucast (a :: 5 word) :: u32) = unat a"
  by (rule unat_ucast_up) simp

lemma ucast_u32_5_zero: "(ucast (a :: 5 word) :: u32) = 0 \<longleftrightarrow> a = 0"
  using ucast_up_eq_iff [of a 0, where 'b = 32] by simp

text \<open>The bench between its calls: ready, register contents \<open>R\<close>, \<open>c\<close> checks done.\<close>

definition rf_at :: "(5 word \<Rightarrow> u32) \<Rightarrow> int \<Rightarrow> Vregfile \<Rightarrow> int \<Rightarrow> unit \<Rightarrow> bool" where
  "rf_at R c d k m \<longleftrightarrow> rf_ready d \<and> rf_regs d = R \<and> k = c"

lemma rf_wr_ok:
  "tb_ok (rf_at R c) (rf_wr (Vregfile_eval b) a v)
     (\<lambda>_. rf_at (if (ucast a :: 5 word) = 0 then R else R(ucast a := v)) c)"
  by (rule tb_okI) (simp add: rf_exec rf_at_def rf_ready_def)

lemma rf_rd_ok:
  "tb_ok (rf_at R c) (rf_rd1 (Vregfile_eval b) a)
     (\<lambda>x d k m. rf_at R c d k m \<and> x = (if (ucast a :: 5 word) = 0 then 0 else R (ucast a)))"
  "tb_ok (rf_at R c) (rf_rd2 (Vregfile_eval b) a)
     (\<lambda>x d k m. rf_at R c d k m \<and> x = (if (ucast a :: 5 word) = 0 then 0 else R (ucast a)))"
  by (rule tb_okI; simp add: rf_exec rf_at_def rf_ready_def)+

text \<open>The first \<open>n\<close> entries of the shadow array agree with the registers.\<close>

definition rf_shadows :: "u32 list \<Rightarrow> nat \<Rightarrow> (5 word \<Rightarrow> u32) \<Rightarrow> bool" where
  "rf_shadows model n R \<longleftrightarrow>
     length model = 32 \<and> (\<forall>a. a \<noteq> 0 \<and> unat a < n \<longrightarrow> model ! unat a = R a)"

lemma rf_shadows_write:
  "rf_shadows model 32 R \<Longrightarrow>
   rf_shadows (if a \<noteq> 0 then model[unat a := v] else model) 32 (if a = 0 then R else R(a := v))"
  by (auto simp: rf_shadows_def nth_list_update unat5 simp flip: word_unat_eq_iff)

lemma rf_shadows_next:
  assumes "rf_shadows model (nat i) R" and "0 \<le> i"
    and "x = (if (ucast (word_of_int i :: u32) :: 5 word) = 0 then 0 else R (ucast (word_of_int i :: u32)))"
  shows "rf_shadows (model[nat i := x]) (nat (i + 1)) R"
proof -
  have addr: "ucast (word_of_int i :: u32) = a"
    if "unat a = nat i" for a :: "5 word"
  proof -
    have "i = int (unat a)" using that assms(2) by linarith
    then show "ucast (word_of_int i :: u32) = a" by (simp add: ucast_ucast_up)
  qed
  have "model[nat i := x] ! unat a = R a" if "a \<noteq> 0" "unat a < nat (i + 1)" for a
  proof (cases "unat a = nat i")
    case True
    then show ?thesis using addr [OF True] assms that(1) unat5 [of a] by (simp add: rf_shadows_def)
  next
    case False
    then show ?thesis using assms that by (simp add: rf_shadows_def)
  qed
  then show ?thesis using assms(1) by (simp add: rf_shadows_def)
qed

lemma regfile_resync_ok:
  assumes "0 \<le> i"
  shows "tb_ok (\<lambda>d k m. rf_at R c d k m \<and> rf_shadows model (nat i) R)
     (regfile_resync (Vregfile_eval b) i model)
     (\<lambda>model' d k m. rf_at R c d k m \<and> rf_shadows model' (nat (i + 1)) R)"
proof (rule tb_okI)
  fix d k f h m
  assume pre: "rf_at R c d k m \<and> rf_shadows model (nat i) R"
  show "wp (regfile_resync (Vregfile_eval b) i model) (\<lambda>x s. (rf_at R c (tb_dut s) (tb_checks s) (tb.more s)
      \<and> rf_shadows x (nat (i + 1)) R) \<and> tb_fails s = f) d k f h m"
    unfolding regfile_resync_def
    apply (rule wp_bind_ok [OF rf_rd_ok(1)], rule pre [THEN conjunct1])
    subgoal for x d' k' h' m'
      using rf_shadows_next [of model i R x] pre assms by (simp add: wp_return)
    done
qed

lemma regfile_random_ok:
  "tb_ok (\<lambda>d k m. \<exists>R. rf_at R c d k m \<and> rf_shadows model 32 R)
     (regfile_random (Vregfile_eval b') i model)
     (\<lambda>model' d k m. \<exists>R. rf_at R (c + 2) d k m \<and> rf_shadows model' 32 R)"
proof (rule tb_okI)
  fix d k f m and h :: tb_aux
  assume "\<exists>R. rf_at R c d k m \<and> rf_shadows model 32 R"
  then obtain R where R: "rf_at R c d k m" "rf_shadows model 32 R" by blast
  let ?Q = "\<lambda>x s. (\<exists>R. rf_at R (c + 2) (tb_dut s) (tb_checks s) (tb.more s) \<and> rf_shadows x 32 R) \<and> tb_fails s = f"
  have reads: "wp (do {
      rb \<leftarrow> rf_rd1 (Vregfile_eval b') (ucast B);
      tb_check ''tb_regfile.cpp'' 135 ''rd1(b)'' (ucast rb) (ucast (if ucast B = (0 :: u32) then 0 else model' ! unat (ucast B :: u32)));
      rc \<leftarrow> rf_rd2 (Vregfile_eval b') (ucast C);
      tb_check ''tb_regfile.cpp'' 136 ''rd2(c)'' (ucast rc) (ucast (if ucast C = (0 :: u32) then 0 else model' ! unat (ucast C :: u32)));
      State_Monad.return model' }) ?Q d' k' f h' m'"
    if "rf_at R' c d' k' m'" and sh: "rf_shadows model' 32 R'" for B C :: "5 word" and model' R' d' k' h' m'
  proof -
    have rd: "(if (ucast X :: u32) = 0 then 0 else model' ! unat (ucast X :: u32)) = (if X = 0 then 0 else R' X)" for X :: "5 word"
      using sh unat5 [of X] by (simp add: rf_shadows_def unat_u32_5 ucast_u32_5_zero)
    show ?thesis
      unfolding rd
      apply (rule wp_bind_ok [OF rf_rd_ok(1)], rule that(1))
      apply (rule wp_check_pass, simp add: ucast_ucast_up)
      apply (rule wp_bind_ok [OF rf_rd_ok(2) [where c = "c + 1"]])
       apply (simp add: rf_at_def)
      apply (rule wp_check_pass, simp add: ucast_ucast_up)
      using sh by (auto simp: wp_return rf_at_def)
  qed
  obtain A where A: "rnd_scale 0 31 (fst (mt_next (tb_rng h))) = ucast (A :: 5 word)" using rnd_5 by blast
  show "wp (regfile_random (Vregfile_eval b') i model) ?Q d k f h m"
    unfolding regfile_random_def wp_rnd wp_rnd_in Let_def A
  proof (rule wp_bind_ok [OF rf_wr_ok], rule R(1))
    fix x d' k' m' and h' :: tb_aux
    let ?v = "fst (mt_next (tb_rng (h\<lparr>tb_rng := snd (mt_next (tb_rng h))\<rparr>)))"
    assume at: "rf_at (if (ucast (ucast A :: u32) :: 5 word) = 0 then R else R(ucast (ucast A :: u32) := ?v)) c d' k' m'"
    obtain B C where "rnd_scale 0 31 (fst (mt_next (tb_rng h'))) = ucast (B :: 5 word)"
      "rnd_scale 0 31 (fst (mt_next (tb_rng (h'\<lparr>tb_rng := snd (mt_next (tb_rng h'))\<rparr>)))) = ucast (C :: 5 word)"
      using rnd_5 by metis
    note BC = this
    have model: "(if (ucast A :: u32) \<noteq> 0 then model[unat (ucast A :: u32) := ?v] else model)
        = (if A \<noteq> 0 then model[unat A := ?v] else model)"
      by (simp add: unat_u32_5 ucast_u32_5_zero)
    show "wp (do {
        b \<leftarrow> tb_rnd_in 0 31; c \<leftarrow> tb_rnd_in 0 31; rb \<leftarrow> rf_rd1 (Vregfile_eval b') b;
        tb_check ''tb_regfile.cpp'' 135 ''rd1(b)'' (ucast rb) (ucast (if b = 0 then 0 else
          (if (ucast A :: u32) \<noteq> 0 then model[unat (ucast A :: u32) := ?v] else model) ! unat b));
        rc \<leftarrow> rf_rd2 (Vregfile_eval b') c;
        tb_check ''tb_regfile.cpp'' 136 ''rd2(c)'' (ucast rc) (ucast (if c = 0 then 0 else
          (if (ucast A :: u32) \<noteq> 0 then model[unat (ucast A :: u32) := ?v] else model) ! unat c));
        State_Monad.return (if (ucast A :: u32) \<noteq> 0 then model[unat (ucast A :: u32) := ?v] else model) })
      ?Q d' k' f h' m'"
      unfolding model wp_rnd_in BC
      by (rule reads [OF _ rf_shadows_write [OF R(2), of A ?v]]) (use at in \<open>simp add: ucast_ucast_up split: if_splits\<close>)
  qed
qed


lemma regfile_body_ok:
  "tb_ok (\<lambda>d k m. k = 0) (regfile_body (Vregfile_eval True)) (\<lambda>_ d k m. k = 10014)"
proof -
  let ?ev = "Vregfile_eval True"
  have directed: "tb_pass (\<lambda>d _. rf_ready d) (do {
      regfile_test_1_2 ?ev; regfile_test_3 ?ev; regfile_test_4 ?ev; regfile_test_5 ?ev;
      regfile_test_6 ?ev; regfile_test_7 ?ev; regfile_test_8 ?ev; regfile_test_9 ?ev;
      tb_begin s }) (2 + (1 + (1 + (2 + (2 + (1 + (2 + (3 + 0))))))))" for s
    by (intro tb_pass_intros regfile_directed_pass)
  have start: "tb_ok (\<lambda>d k m. k = 0) (poke regfile_idle) (\<lambda>_ d k m. rf_ready d \<and> k = 0)"
    by (rule tb_okI) (simp add: wp_poke rf_ready_def regfile_idle_def)
  have resync: "tb_ok (\<lambda>d k m. rf_at R 14 d k m \<and> rf_shadows (replicate 32 0) (nat 0) R)
      (for_range 0 32 (regfile_resync ?ev) (replicate 32 0))
      (\<lambda>model d k m. rf_at R 14 d k m \<and> rf_shadows model (nat 32) R)" for R
    by (rule tb_ok_for [where I = "\<lambda>i model d k m. rf_at R 14 d k m \<and> rf_shadows model (nat i) R"])
      (simp, rule regfile_resync_ok, simp)
  have "tb_ok (\<lambda>d k m. rf_ready d \<and> k = 14) (for_range 0 32 (regfile_resync ?ev) (replicate 32 0))
      (\<lambda>model d k m. \<exists>R. rf_at R 14 d k m \<and> rf_shadows model 32 R)"
  proof (rule tb_okI)
    fix d m and k f :: int and h :: tb_aux
    assume "rf_ready d \<and> k = 14"
    then have "rf_at (rf_regs d) 14 d k m \<and> rf_shadows (replicate 32 0) (nat 0) (rf_regs d)"
      by (simp add: rf_at_def rf_shadows_def)
    from tb_okD [OF resync this] show "wp (for_range 0 32 (regfile_resync ?ev) (replicate 32 0))
        (\<lambda>x s. (\<exists>R. rf_at R 14 (tb_dut s) (tb_checks s) (tb.more s) \<and> rf_shadows x 32 R) \<and> tb_fails s = f) d k f h m"
      by (rule wp_mono) auto
  qed
  moreover have "tb_ok (\<lambda>d k m. \<exists>R. rf_at R 14 d k m \<and> rf_shadows model 32 R)
      (for_range 0 5000 (regfile_random ?ev) model)
      (\<lambda>model d k m. \<exists>R. rf_at R 10014 d k m \<and> rf_shadows model 32 R)" for model
  proof -
    define I where "I i model d k m = (\<exists>R. rf_at R (14 + 2 * i) d k m \<and> rf_shadows model 32 R)"
      for i model d k m
    have "tb_ok (I i model) (regfile_random ?ev i model) (\<lambda>model'. I (i + 1) model')" for i model
      using regfile_random_ok [where c = "14 + 2 * i" and b' = True] by (simp add: I_def [abs_def] algebra_simps)
    then have "tb_ok (I 0 model) (for_range 0 5000 (regfile_random ?ev) model) (\<lambda>model'. I 5000 model')"
      by (intro tb_ok_for) auto
    then show ?thesis by (simp add: I_def [abs_def])
  qed
  then have "tb_ok (\<lambda>d k m. \<exists>R. rf_at R 14 d k m \<and> rf_shadows model 32 R)
      (do { _ \<leftarrow> for_range 0 5000 (regfile_random ?ev) model; State_Monad.return () })
      (\<lambda>_ d k m. k = 10014)" for model
    by (rule tb_ok_bind) (rule tb_ok_return, auto simp: rf_at_def)
  ultimately have loops: "tb_ok (\<lambda>d k m. rf_ready d \<and> k = 14)
      (do { model \<leftarrow> for_range 0 32 (regfile_resync ?ev) (replicate 32 0);
            _ \<leftarrow> for_range 0 5000 (regfile_random ?ev) model; State_Monad.return () })
      (\<lambda>_ d k m. k = 10014)"
    by (rule tb_ok_bind)
  have "tb_ok (\<lambda>d k m. rf_ready d \<and> k = 0) (do {
      regfile_test_1_2 ?ev; regfile_test_3 ?ev; regfile_test_4 ?ev; regfile_test_5 ?ev;
      regfile_test_6 ?ev; regfile_test_7 ?ev; regfile_test_8 ?ev; regfile_test_9 ?ev;
      tb_begin s }) (\<lambda>_ d k m. rf_ready d \<and> k = 14)" for s
    using tb_passD [OF directed, where k = 0] by simp
  from tb_ok_bind [OF start tb_ok_bind [OF this loops]]
  show ?thesis unfolding regfile_body_def by simp
qed

section \<open>Properties\<close>

text \<open>
  What a history of clock edges leaves in a register: the last value written to it, 0 if there
  is none, and 0 in \<open>x0\<close>. One step of the history gives the inputs \<open>rd_we\<close>, \<open>rd_addr\<close>, \<open>rd_data\<close>
  of one edge; newest first.
\<close>

primrec regfile_spec :: "(bool \<times> 5 word \<times> u32) list \<Rightarrow> 5 word \<Rightarrow> u32" where
  "regfile_spec [] a = 0"
| "regfile_spec (w # ws) a =
     (case w of (we, rd, v) \<Rightarrow> if we \<and> rd = a \<and> a \<noteq> 0 then v else regfile_spec ws a)"

primrec regfile_run :: "bool \<Rightarrow> (bool \<times> 5 word \<times> u32) list \<Rightarrow> Vregfile" where
  "regfile_run BYPASS [] = regfile_init"
| "regfile_run BYPASS (w # ws) =
     (case w of (we, rd, v) \<Rightarrow>
        vposedge regfile_seq (regfile_comb BYPASS)
          ((regfile_run BYPASS ws)\<lparr>rf_rd_we := we, rf_rd_addr := rd, rf_rd_data := v\<rparr>))"

lemma regfile_run_regs: "rf_regs (regfile_run b ws) a = regfile_spec ws a"
proof (induction ws arbitrary: a)
  case Nil
  then show ?case by (simp add: regfile_init_def)
next
  case (Cons w ws)
  then show ?case by (cases w) (simp add: vposedge_def regfile_seq_def regfile_comb_def)
qed

lemma regfile_spec_x0: "regfile_spec ws 0 = 0"
  by (induction ws) auto


text \<open>
  C25. The register file's bench accepts the RTL with all of its 10014 checks, in particular
  the 10000 random reads against the shadow model, from any initial state of the device.
\<close>

theorem tb_regfile_passes: "run_passes (regfile_main (Vregfile_eval True) argv d) 10014"
  unfolding regfile_main_def by (rule tb_ok_run [OF regfile_body_ok]) simp

lemma regfile_mono:
  "tb_mono (regfile_test_7 ev)" "tb_mono (regfile_test_8 ev)" "tb_mono (regfile_test_9 ev)"
  "tb_mono (regfile_resync ev i model)" "tb_mono (regfile_random ev i model)"
  unfolding regfile_test_7_def regfile_test_8_def regfile_test_9_def regfile_resync_def
    regfile_random_def rf_wr_def rf_rd1_def rf_rd2_def rf_check_def
  by (intro tb_mono_intros)+

text \<open>
  C33. The bench notices a register file without the write-through bypass (\<open>BYPASS = 0\<close>): it
  exits with 1.
\<close>

theorem tb_regfile_detects_no_bypass: "fst (regfile_main (Vregfile_eval False) argv d) = 1"
proof -
  let ?ev = "Vregfile_eval False"
  let ?pre = "do { poke regfile_idle; regfile_test_1_2 ?ev; regfile_test_3 ?ev; regfile_test_4 ?ev;
    regfile_test_5 ?ev; regfile_test_6 ?ev }"
  have test_6: "wp (regfile_test_6 ?ev) (\<lambda>_ s. 0 < tb_fails s) d k 0 h m" if "rf_ready d" for d k h m
    using that by (simp add: rf_exec rf_ready_def regfile_test_6_def)
  have "wp ?pre (\<lambda>_ s. 0 < tb_fails s) d 0 0 (tb_new_aux ''regfile'' argv) ()"
    unfolding wp_poke
    apply (rule wp_bind_ok [OF tb_passD [OF regfile_directed_pass(1)]])
     apply (simp add: rf_ready_def regfile_idle_def)
    apply (rule wp_bind_ok [OF tb_passD [OF regfile_directed_pass(2)]], assumption)
    apply (rule wp_bind_ok [OF tb_passD [OF regfile_directed_pass(3)]], assumption)
    apply (rule wp_bind_ok [OF tb_passD [OF regfile_directed_pass(4)]], assumption)
    apply (rule test_6, erule conjunct1)
    done
  then show ?thesis
    unfolding regfile_main_def regfile_body_def
    using tb_run_detects [where c = ?pre and c' = "do {
        regfile_test_7 ?ev; regfile_test_8 ?ev; regfile_test_9 ?ev;
        tb_begin ''10. random against shadow model'';
        model \<leftarrow> for_range 0 32 (regfile_resync ?ev) (replicate 32 0);
        _ \<leftarrow> for_range 0 5000 (regfile_random ?ev) model; State_Monad.return () }"]
    by (simp add: tb_mono_intros regfile_mono)
qed

end
