(* ===== verification/Imem.thy ===== *)
theory Imem
  imports Tb_Common
begin

text \<open>
  The instruction memory: the RTL module \<open>rtl/core/imem.v\<close>, whose contents come from a hex
  file at elaboration, and its test bench \<open>sim/verilator/tb_imem.cpp\<close>, which writes that file
  before it constructs the device. The files are a map from names to contents.
\<close>

section \<open>Hex files\<close>

text \<open>
  One line as the bench writes it: \<open>std::hex << setw(8) << setfill('0')\<close>. And \<open>$readmemh\<close> on
  such files: hexadecimal words separated by white space, stored from address 0 on.
\<close>

definition hex_digit :: "nat \<Rightarrow> char" where
  "hex_digit n = ''0123456789abcdef'' ! n"

definition hex8 :: "u32 \<Rightarrow> string" where
  "hex8 w = map (\<lambda>k. hex_digit (unat (vbits (4 * k + 3) (4 * k) w :: 4 word))) [7, 6, 5, 4, 3, 2, 1, 0]"

definition hex_text :: "u32 list \<Rightarrow> string" where
  "hex_text ws = concat (map (\<lambda>w. hex8 w @ [CHR 0x0A]) ws)"

fun readmemh_words :: "string \<Rightarrow> u32 option \<Rightarrow> u32 list" where
  "readmemh_words [] acc = (case acc of None \<Rightarrow> [] | Some w \<Rightarrow> [w])"
| "readmemh_words (c # cs) acc =
     (if is_digit_in 16 c
      then readmemh_words cs (Some (16 * (case acc of None \<Rightarrow> 0 | Some w \<Rightarrow> w)
             + word_of_int (the (digit_val c))))
      else (case acc of None \<Rightarrow> readmemh_words cs None | Some w \<Rightarrow> w # readmemh_words cs None))"

definition readmemh :: "string \<Rightarrow> (14 word \<Rightarrow> u32) \<Rightarrow> 14 word \<Rightarrow> u32" where
  "readmemh text mem =
     (let ws = readmemh_words text None in (\<lambda>i. if unat i < length ws then ws ! unat i else mem i))"

text \<open>\<open>$value$plusargs("<name>=%s", hexfile)\<close>: the first argument with that prefix.\<close>

primrec plusarg :: "string \<Rightarrow> string list \<Rightarrow> string option" where
  "plusarg pre [] = None"
| "plusarg pre (arg # args) =
     (if take (length pre) arg = pre then Some (drop (length pre) arg) else plusarg pre args)"

text \<open>The \<open>initial\<close> block that imem.v and dmem.v share. A file that cannot be read loads nothing.\<close>

definition mem_initial ::
  "string \<Rightarrow> string \<Rightarrow> (string \<Rightarrow> string option) \<Rightarrow> string list \<Rightarrow> (14 word \<Rightarrow> u32) \<Rightarrow> 14 word \<Rightarrow> u32" where
  "mem_initial pre INIT_FILE files argv mem =
     (let load = (\<lambda>name. case files name of None \<Rightarrow> mem | Some text \<Rightarrow> readmemh text mem)
      in case plusarg pre argv of
           Some hexfile \<Rightarrow> load hexfile
         | None \<Rightarrow> if INIT_FILE \<noteq> '''' then load INIT_FILE else mem)"

section \<open>imem.v\<close>

record Vimem = vclk +
  im_en :: bool
  im_addr :: u32
  im_instr :: u32
  im_mem :: "14 word \<Rightarrow> u32"

definition imem_seq :: "Vimem \<Rightarrow> Vimem" where
  "imem_seq d = (if im_en d then d\<lparr>im_instr := im_mem d (vbits 15 2 (im_addr d))\<rparr> else d)"

definition imem_initial :: "(string \<Rightarrow> string option) \<Rightarrow> string list \<Rightarrow> Vimem \<Rightarrow> Vimem" where
  "imem_initial files argv d =
     d\<lparr>im_mem := mem_initial ''+imem='' ''imem_test.hex'' files argv (im_mem d)\<rparr>"

definition Vimem_eval :: "Vimem \<Rightarrow> Vimem" where
  "Vimem_eval = veval imem_seq id"

interpretation imem: verilated_module imem_seq "id :: Vimem \<Rightarrow> Vimem"
  by unfold_locales (simp_all add: imem_seq_def)

section \<open>tb_imem.cpp\<close>

primrec mt_stream :: "nat \<Rightarrow> mt19937 \<Rightarrow> u32 list" where
  "mt_stream 0 g = []"
| "mt_stream (Suc n) g = (let (x, g') = mt_next g in x # mt_stream n g')"

definition imem_golden :: "u32 list" where
  "imem_golden = mt_stream 16384 (mt_seed 12345)"

definition imem_fetch :: "(Vimem \<Rightarrow> Vimem) \<Rightarrow> u32 \<Rightarrow> (Vimem tb, u32) state" where
  "imem_fetch ev byte_addr = do {
     poke (\<lambda>d. d\<lparr>im_addr := byte_addr, im_en := True\<rparr>);
     tb_tick ev;
     peek im_instr }"

text \<open>\<open>CHECK_EQ(fetch(a), golden[i])\<close>, with the line and the text of the expression.\<close>

definition imem_chk :: "(Vimem \<Rightarrow> Vimem) \<Rightarrow> u32 list \<Rightarrow> nat \<times> string \<times> u32 \<times> nat \<Rightarrow> (Vimem tb, unit) state" where
  "imem_chk ev golden v = (case v of (line, expr, a, i) \<Rightarrow> do {
     r \<leftarrow> imem_fetch ev a;
     tb_check ''tb_imem.cpp'' line expr (ucast r) (ucast (golden ! i)) })"

definition imem_sections :: "(string \<times> (nat \<times> string \<times> u32 \<times> nat) list) list" where
  "imem_sections =
    [(''1. first few words'',
      [(37, ''fetch(0x80000000)'', 0x80000000, 0),
       (38, ''fetch(0x80000004)'', 0x80000004, 1),
       (39, ''fetch(0x80000008)'', 0x80000008, 2),
       (40, ''fetch(0x8000000C)'', 0x8000000C, 3)]),
     (''2. byte address maps to word index'',
      [(43, ''fetch(0x80000040)'', 0x80000040, 16),
       (44, ''fetch(0x80001000)'', 0x80001000, 1024)]),
     (''3. low two bits are ignored'',
      [(47, ''fetch(0x80000004)'', 0x80000004, 1),
       (48, ''fetch(0x80000005)'', 0x80000005, 1),
       (49, ''fetch(0x80000006)'', 0x80000006, 1),
       (50, ''fetch(0x80000007)'', 0x80000007, 1)]),
     (''4. base address is ignored'',
      [(53, ''fetch(0x00000000)'', 0x00000000, 0),
       (54, ''fetch(0x80000000)'', 0x80000000, 0)]),
     (''5. last word in range'',
      [(57, ''fetch(0x8000FFFC)'', 0x8000FFFC, 16383)])]"

definition imem_test_6 :: "(Vimem \<Rightarrow> Vimem) \<Rightarrow> u32 list \<Rightarrow> (Vimem tb, unit) state" where
  "imem_test_6 ev golden = do {
     tb_begin ''6. en low holds the output'';
     imem_chk ev golden (62, ''fetch(0x80000020)'', 0x80000020, 8);
     poke (\<lambda>d. d\<lparr>im_addr := 0x80000040, im_en := False\<rparr>);
     tb_tick ev;
     r1 \<leftarrow> peek im_instr;
     tb_check ''tb_imem.cpp'' 66 ''d.instr'' (ucast r1) (ucast (golden ! 8));
     tb_tick ev;
     r2 \<leftarrow> peek im_instr;
     tb_check ''tb_imem.cpp'' 68 ''d.instr'' (ucast r2) (ucast (golden ! 8));
     poke (\<lambda>d. d\<lparr>im_en := True\<rparr>);
     tb_tick ev;
     r3 \<leftarrow> peek im_instr;
     tb_check ''tb_imem.cpp'' 71 ''d.instr'' (ucast r3) (ucast (golden ! 16)) }"

definition imem_sweep :: "(Vimem \<Rightarrow> Vimem) \<Rightarrow> u32 list \<Rightarrow> int \<Rightarrow> unit \<Rightarrow> (Vimem tb, unit) state" where
  "imem_sweep ev golden i u =
     imem_chk ev golden (75, ''fetch(0x80000000 + i * 4)'', 0x80000000 + word_of_int i * 4, nat i)"

definition imem_random :: "(Vimem \<Rightarrow> Vimem) \<Rightarrow> u32 list \<Rightarrow> int \<Rightarrow> unit \<Rightarrow> (Vimem tb, unit) state" where
  "imem_random ev golden i u = do {
     idx \<leftarrow> tb_rnd_in 0 16383;
     imem_chk ev golden (80, ''fetch(0x80000000 + idx * 4)'', 0x80000000 + idx * 4, unat idx) }"

definition imem_body :: "(Vimem \<Rightarrow> Vimem) \<Rightarrow> u32 list \<Rightarrow> (Vimem tb, unit) state" where
  "imem_body ev golden = do {
     poke (\<lambda>d. d\<lparr>v_clk := False, im_en := False, im_addr := 0\<rparr>);
     run_sections (imem_chk ev golden) imem_sections;
     imem_test_6 ev golden;
     tb_begin ''7. sweep every word'';
     for_range 0 16384 (imem_sweep ev golden) ();
     tb_begin ''8. random access order'';
     for_range 0 5000 (imem_random ev golden) () }"

text \<open>The bench writes the file, then constructs the device, whose \<open>initial\<close> block reads it.\<close>

definition imem_main ::
  "(Vimem \<Rightarrow> Vimem) \<Rightarrow> (string \<Rightarrow> string option) \<Rightarrow> string list \<Rightarrow> Vimem \<Rightarrow> int \<times> Vimem tb" where
  "imem_main ev files argv d =
     (let golden = imem_golden;
          files' = files(''imem_test.hex'' \<mapsto> hex_text golden)
      in tb_run (imem_body ev golden) ''imem'' argv (imem_initial files' argv d))"

section \<open>The hex file round trip\<close>

lemma hex_digit_nibble:
  "is_digit_in 16 (hex_digit (unat (n :: 4 word)))"
  "word_of_int (the (digit_val (hex_digit (unat n)))) = (ucast n :: u32)"
proof -
  have "unat n < 16" using unsigned_less [of n] by simp
  moreover have "list_all (\<lambda>n. digit_val (hex_digit n) = Some (int n)) [0..<16]"
    by code_simp
  ultimately have "digit_val (hex_digit (unat n)) = Some (int (unat n))"
    by (simp add: list_all_iff)
  then show "is_digit_in 16 (hex_digit (unat n))"
    "word_of_int (the (digit_val (hex_digit (unat n)))) = (ucast n :: u32)"
    using uint_lt2p [of n] by (simp_all add: is_digit_in_def)
qed

lemma hex_step:
  "16 * drop_bit (4 + k) w + ucast (vbits (k + 3) k w :: 4 word) = drop_bit k (w :: u32)"
proof -
  have "ucast (vbits (k + 3) k w :: 4 word) = take_bit 4 (drop_bit k w)"
    by (auto intro!: bit_word_eqI simp: bit_simps)
  moreover have "16 * drop_bit (4 + k) w = push_bit 4 (drop_bit 4 (drop_bit k w))"
    by (simp add: push_bit_eq_mult drop_bit_drop_bit)
  ultimately show ?thesis
    using bits_ident [of 4 "drop_bit k w"] by simp
qed

lemma readmemh_hex8: "readmemh_words (hex8 w @ CHR 0x0A # cs) None = w # readmemh_words cs None"
proof -
  have step: "readmemh_words (hex_digit (unat (vbits (k + 3) k w :: 4 word)) # cs) (Some (drop_bit (4 + k) w))
      = readmemh_words cs (Some (drop_bit k w))" for k cs
    by (simp add: hex_digit_nibble hex_step)
  have first: "readmemh_words (hex_digit (unat (vbits 31 28 w :: 4 word)) # cs) None
      = readmemh_words cs (Some (drop_bit 28 w))" for cs
    using hex_step [of 28 w] by (simp add: hex_digit_nibble)
  have newline: "readmemh_words (CHR 0x0A # cs) (Some w) = w # readmemh_words cs None"
    by (simp add: is_digit_in_def digit_val_def)
  show ?thesis
    using newline step [of 24] step [of 20] step [of 16] step [of 12] step [of 8] step [of 4] step [of 0] first
    by (simp add: hex8_def del: readmemh_words.simps(2))
qed

lemma readmemh_hex_text: "readmemh_words (hex_text ws) None = ws"
  by (induction ws) (simp_all add: hex_text_def readmemh_hex8)

section \<open>The bench on the RTL\<close>

lemma imem_index:
  "vbits 15 2 (0x80000000 + ucast (w :: 14 word) * 4 :: u32) = w"
proof -
  have "(0x80000000 + ucast w * 4 :: u32) = 0x80000000 + push_bit 2 (ucast w)"
    by (simp add: push_bit_eq_mult)
  also have "\<dots> = 0x80000000 OR push_bit 2 (ucast w)"
  proof (rule disjunctive_add)
    fix n
    have "\<forall>n < 32. bit (0x80000000 :: u32) n \<longrightarrow> n = 31"
      by (simp add: all_less_numeral all_less_Suc_conv)
    then have "bit (0x80000000 :: u32) n \<Longrightarrow> n = 31" using bit_imp_le_length [of _ n] by fastforce
    then show "\<not> bit (0x80000000 :: u32) n \<or> \<not> bit (push_bit 2 (ucast w) :: u32) n"
      unfolding bit_push_bit_iff bit_ucast_iff by (cases "n = 31") auto
  qed
  finally have sum: "(0x80000000 + ucast w * 4 :: u32) = 0x80000000 OR push_bit 2 (ucast w)" .
  show ?thesis
    unfolding sum word_eq_iff_bits bit_vbits bit_or_iff bit_push_bit_iff
    by (simp add: bit_simps all_less_numeral all_less_Suc_conv)
qed

lemma imem_index_int:
  assumes "0 \<le> i" "i < 16384"
  shows "vbits 15 2 (0x80000000 + word_of_int i * 4 :: u32) = (word_of_int i :: 14 word)"
    and "unat (word_of_int i :: 14 word) = nat i"
proof -
  show u: "unat (word_of_int i :: 14 word) = nat i"
    using assms by (simp add: unsigned_of_int take_bit_eq_mod)
  have "(word_of_int i :: u32) = word_of_nat (unat (word_of_int i :: 14 word))"
    unfolding u using assms by simp
  then show "vbits 15 2 (0x80000000 + word_of_int i * 4 :: u32) = (word_of_int i :: 14 word)"
    using imem_index [of "word_of_int i"] by simp
qed

definition imem_ready :: "u32 list \<Rightarrow> Vimem \<Rightarrow> bool" where
  "imem_ready golden d \<longleftrightarrow> \<not> v_clk d \<and> (\<forall>a. im_mem d a = golden ! unat a)"

lemmas imem_exec = tb_wp wp_check imem.wp_tick Vimem_eval_def imem_fetch_def imem_chk_def
  vposedge_def imem_seq_def imem_ready_def

lemma imem_chk_pass:
  assumes "unat (vbits 15 2 (fst (snd (snd v))) :: 14 word) = snd (snd (snd v))"
  shows "tb_pass (\<lambda>d _. imem_ready golden d) (imem_chk Vimem_eval golden v) 1"
  using assms by (cases v) (intro tb_passI, simp add: imem_exec)

lemma imem_test_6_pass:
  "tb_pass (\<lambda>d _. imem_ready golden d) (imem_test_6 Vimem_eval golden) 4"
proof (rule tb_passI)
  fix d k f h m
  assume "imem_ready golden d"
  moreover have "unat (vbits 15 2 (0x80000020 :: u32) :: 14 word) = 8"
    "unat (vbits 15 2 (0x80000040 :: u32) :: 14 word) = 16" by (simp_all add: vbits_def)
  ultimately show "wp (imem_test_6 Vimem_eval golden) (\<lambda>x s. imem_ready golden (tb_dut s)
      \<and> tb_checks s = k + 4 \<and> tb_fails s = f) d k f h m"
    by (simp add: imem_test_6_def imem_exec)
qed

lemma imem_loops_pass:
  "0 \<le> i \<Longrightarrow> i < 16384 \<Longrightarrow>
   tb_pass (\<lambda>d _. imem_ready golden d) (imem_sweep Vimem_eval golden i u) 1"
  "tb_pass (\<lambda>d _. imem_ready golden d) (imem_random Vimem_eval golden j u) 1"
proof -
  show "tb_pass (\<lambda>d _. imem_ready golden d) (imem_sweep Vimem_eval golden i u) 1" if "0 \<le> i" "i < 16384"
    unfolding imem_sweep_def by (rule imem_chk_pass) (simp add: imem_index_int that)
  have "unat (vbits 15 2 (0x80000000 + rnd_scale 0 16383 x * 4 :: u32) :: 14 word) = unat (rnd_scale 0 16383 x)" for x
  proof -
    have "unat (rnd_scale 0 16383 x) < 2 ^ 14" using rnd_scale_0_less [of 16383 x] by simp
    then have w: "ucast (ucast (rnd_scale 0 16383 x) :: 14 word) = rnd_scale 0 16383 x"
      by (intro ucast_ucast_le) simp
    have "unat (ucast (rnd_scale 0 16383 x) :: 14 word) = unat (rnd_scale 0 16383 x)"
      using unat_ucast_up [of "ucast (rnd_scale 0 16383 x) :: 14 word", where 'b = 32] by (simp add: w)
    then show ?thesis using imem_index [of "ucast (rnd_scale 0 16383 x)"] by (simp add: w)
  qed
  then show "tb_pass (\<lambda>d _. imem_ready golden d) (imem_random Vimem_eval golden j u) 1"
    unfolding imem_random_def by (intro tb_pass_program imem_chk_pass) simp
qed

lemma imem_sections_good:
  "list_all (\<lambda>v. unat (vbits 15 2 (fst (snd (snd v))) :: 14 word) = snd (snd (snd v))) (section_vectors imem_sections)"
  by (simp add: section_vectors_def imem_sections_def vbits_def)

lemma imem_body_ok:
  "tb_ok (\<lambda>d k m. (\<forall>a. im_mem d a = golden ! unat a) \<and> k = 0) (imem_body Vimem_eval golden)
     (\<lambda>_ d k m. k = 21401)"
proof -
  let ?I = "\<lambda>d (_ :: unit). imem_ready golden d"
  have "tb_pass ?I (run_sections (imem_chk Vimem_eval golden) imem_sections)
      (1 * int (length (section_vectors imem_sections)))"
    by (rule tb_pass_sections, rule imem_chk_pass) (use imem_sections_good in \<open>simp add: list_all_iff\<close>)
  then have "tb_pass ?I (run_sections (imem_chk Vimem_eval golden) imem_sections) 13"
    by (simp add: section_vectors_def imem_sections_def)
  then have "tb_pass ?I (do { run_sections (imem_chk Vimem_eval golden) imem_sections;
     imem_test_6 Vimem_eval golden;
     tb_begin s;
     for_range 0 16384 (imem_sweep Vimem_eval golden) ();
     tb_begin s';
     for_range 0 5000 (imem_random Vimem_eval golden) () })
    (13 + (4 + (0 + (1 * (16384 - 0) + (0 + 1 * (5000 - 0))))))" for s s'
    by (intro tb_pass_intros imem_test_6_pass imem_loops_pass) auto
  note rest = tb_passD [OF this, where k = 0]
  have "tb_ok (\<lambda>d k m. (\<forall>a. im_mem d a = golden ! unat a) \<and> k = 0)
      (poke (\<lambda>d. d\<lparr>v_clk := False, im_en := False, im_addr := 0\<rparr>)) (\<lambda>_ d k m. ?I d m \<and> k = 0)"
    by (rule tb_okI) (simp add: wp_poke imem_ready_def)
  then show ?thesis
    unfolding imem_body_def by (rule tb_ok_bind) (rule tb_ok_conseq [OF rest], simp_all)
qed

lemma length_mt_stream [simp]: "length (mt_stream n g) = n"
  by (induction n arbitrary: g) (simp_all split: prod.splits)

lemma imem_initial_golden:
  assumes "plusarg ''+imem='' argv = None"
  shows "im_mem (imem_initial (files(''imem_test.hex'' \<mapsto> hex_text imem_golden)) argv d) a
    = imem_golden ! unat a"
proof -
  have "unat a < length imem_golden"
    using unsigned_less [of a] by (simp add: imem_golden_def)
  then show ?thesis
    by (simp add: imem_initial_def mem_initial_def assms readmemh_def readmemh_hex_text Let_def)
qed

section \<open>Properties\<close>

text \<open>
  C21. Hex files round-trip: what the bench prints with \<open>std::hex\<close>, \<open>setw(8)\<close> and
  \<open>setfill('0')\<close>, one word per line, \<open>$readmemh\<close> reads back word for word, and it leaves the
  memory beyond the last word as it was.
\<close>

theorem readmemh_reads_hex_text:
  "readmemh_words (hex_text ws) None = ws
   \<and> readmemh (hex_text ws) mem i = (if unat i < length ws then ws ! unat i else mem i)"
  by (simp add: readmemh_def readmemh_hex_text)

text \<open>
  C26. The instruction memory's bench accepts the RTL with all of its 21401 checks: every fetch
  returns the word of the file the bench wrote, and a fetch with \<open>en\<close> low holds the output. The
  arguments must not redirect the memory to another file with \<open>+imem=\<close>.
\<close>

theorem tb_imem_passes:
  assumes "plusarg ''+imem='' argv = None"
  shows "run_passes (imem_main Vimem_eval files argv d) 21401"
  unfolding imem_main_def Let_def
  by (rule tb_ok_run [OF imem_body_ok]) (simp add: imem_initial_golden assms)

theorem tb_imem_passes_witness:
  "run_passes (imem_main Vimem_eval Map.empty [''Vimem'', ''+seed=7'']
     \<lparr>v_clk = False, v_clk_prev = False, im_en = False, im_addr = 0, im_instr = 0,
      im_mem = (\<lambda>_. 0)\<rparr>) 21401"
  by (rule tb_imem_passes) simp

end
