(* ===== verification/Dmem.thy ===== *)
theory Dmem
  imports Imem
begin

text \<open>
  The data memory: the RTL module \<open>rtl/core/dmem.v\<close>, a word memory with byte strobes and a
  synchronous read port, and its test bench \<open>sim/verilator/tb_dmem.cpp\<close> with the C++ byte array
  it is compared against.
\<close>

section \<open>dmem.v\<close>

record Vdmem = vclk +
  dm_en :: bool
  dm_addr :: u32
  dm_wdata :: u32
  dm_wstrb :: "4 word"
  dm_rdata :: u32
  dm_mem :: "14 word \<Rightarrow> u32"

definition dm_word_idx :: "Vdmem \<Rightarrow> 14 word" where
  "dm_word_idx d = vbits 15 2 (dm_addr d)"

text \<open>The four lane writes of one edge.\<close>

definition dmem_merge :: "4 word \<Rightarrow> u32 \<Rightarrow> u32 \<Rightarrow> u32" where
  "dmem_merge wstrb wdata x0 =
     (let x1 = (if bit wstrb 0 then vput 7 0 (vbits 7 0 wdata :: 8 word) x0 else x0);
          x2 = (if bit wstrb 1 then vput 15 8 (vbits 15 8 wdata :: 8 word) x1 else x1);
          x3 = (if bit wstrb 2 then vput 23 16 (vbits 23 16 wdata :: 8 word) x2 else x2)
      in if bit wstrb 3 then vput 31 24 (vbits 31 24 wdata :: 8 word) x3 else x3)"

definition dmem_seq :: "Vdmem \<Rightarrow> Vdmem" where
  "dmem_seq d =
     (let i = dm_word_idx d in
      d\<lparr>dm_rdata := (if dm_en d then dm_mem d i else dm_rdata d),
        dm_mem := (dm_mem d)(i := dmem_merge (dm_wstrb d) (dm_wdata d) (dm_mem d i))\<rparr>)"

definition dmem_initial :: "(string \<Rightarrow> string option) \<Rightarrow> string list \<Rightarrow> Vdmem \<Rightarrow> Vdmem" where
  "dmem_initial files argv d = d\<lparr>dm_mem := mem_initial ''+dmem='' '''' files argv (dm_mem d)\<rparr>"

definition Vdmem_eval :: "Vdmem \<Rightarrow> Vdmem" where
  "Vdmem_eval = veval dmem_seq id"

interpretation dmem: verilated_module dmem_seq "id :: Vdmem \<Rightarrow> Vdmem"
  by unfold_locales (simp_all add: dmem_seq_def dm_word_idx_def Let_def)

section \<open>tb_dmem.cpp\<close>

definition dmem_BASE :: u32 where [tb_data]: "dmem_BASE = 0x80000000"

text \<open>The lambdas \<open>store\<close> and \<open>load\<close>.\<close>

definition dmem_store :: "(Vdmem \<Rightarrow> Vdmem) \<Rightarrow> u32 \<Rightarrow> u32 \<Rightarrow> u8 \<Rightarrow> (Vdmem tb, unit) state" where
  "dmem_store ev a v strb = do {
     poke (\<lambda>d. d\<lparr>dm_addr := a, dm_wdata := v, dm_wstrb := ucast strb\<rparr>);
     tb_tick ev;
     poke (\<lambda>d. d\<lparr>dm_wstrb := 0\<rparr>) }"

definition dmem_load :: "(Vdmem \<Rightarrow> Vdmem) \<Rightarrow> u32 \<Rightarrow> (Vdmem tb, u32) state" where
  "dmem_load ev a = do {
     poke (\<lambda>d. d\<lparr>dm_addr := a, dm_wstrb := 0\<rparr>);
     tb_tick ev;
     peek dm_rdata }"

definition dmem_load_check :: "(Vdmem \<Rightarrow> Vdmem) \<Rightarrow> nat \<Rightarrow> string \<Rightarrow> u32 \<Rightarrow> u32 \<Rightarrow> (Vdmem tb, unit) state" where
  "dmem_load_check ev line expr a want = do {
     r \<leftarrow> dmem_load ev a;
     tb_check ''tb_dmem.cpp'' line expr (ucast r) (ucast want) }"

definition dmem_test_1 :: "(Vdmem \<Rightarrow> Vdmem) \<Rightarrow> (Vdmem tb, unit) state" where
  "dmem_test_1 ev = do {
     tb_begin ''1. word round-trip'';
     dmem_store ev (dmem_BASE + 0) 0xDEADBEEF 0xF;
     dmem_load_check ev 25 ''load(BASE + 0)'' (dmem_BASE + 0) 0xDEADBEEF;
     dmem_store ev (dmem_BASE + 4) 0x12345678 0xF;
     dmem_load_check ev 27 ''load(BASE + 4)'' (dmem_BASE + 4) 0x12345678;
     dmem_load_check ev 28 ''load(BASE + 0)'' (dmem_BASE + 0) 0xDEADBEEF }"

definition dmem_test_2 :: "(Vdmem \<Rightarrow> Vdmem) \<Rightarrow> (Vdmem tb, unit) state" where
  "dmem_test_2 ev = do {
     tb_begin ''2. wstrb selects individual byte lanes'';
     dmem_store ev (dmem_BASE + 8) 0x00000000 0xF;
     dmem_store ev (dmem_BASE + 8) 0x000000AA 0x1;
     dmem_load_check ev 33 ''load(BASE + 8)'' (dmem_BASE + 8) 0x000000AA;
     dmem_store ev (dmem_BASE + 8) 0x0000BB00 0x2;
     dmem_load_check ev 35 ''load(BASE + 8)'' (dmem_BASE + 8) 0x0000BBAA;
     dmem_store ev (dmem_BASE + 8) 0x00CC0000 0x4;
     dmem_load_check ev 37 ''load(BASE + 8)'' (dmem_BASE + 8) 0x00CCBBAA;
     dmem_store ev (dmem_BASE + 8) 0xDD000000 0x8;
     dmem_load_check ev 39 ''load(BASE + 8)'' (dmem_BASE + 8) 0xDDCCBBAA }"

definition dmem_test_3 :: "(Vdmem \<Rightarrow> Vdmem) \<Rightarrow> (Vdmem tb, unit) state" where
  "dmem_test_3 ev = do {
     tb_begin ''3. wstrb combinations do not disturb other lanes'';
     dmem_store ev (dmem_BASE + 12) 0xFFFFFFFF 0xF;
     dmem_store ev (dmem_BASE + 12) 0x00000000 0x2;
     dmem_load_check ev 44 ''load(BASE + 12)'' (dmem_BASE + 12) 0xFFFF00FF;
     dmem_store ev (dmem_BASE + 12) 0x12340000 0xC;
     dmem_load_check ev 46 ''load(BASE + 12)'' (dmem_BASE + 12) 0x123400FF }"

definition dmem_test_4 :: "(Vdmem \<Rightarrow> Vdmem) \<Rightarrow> (Vdmem tb, unit) state" where
  "dmem_test_4 ev = do {
     tb_begin ''4. wstrb == 0 means no write'';
     dmem_store ev (dmem_BASE + 16) 0xCAFEBABE 0xF;
     poke (\<lambda>d. d\<lparr>dm_addr := dmem_BASE + 16, dm_wdata := 0x00000000, dm_wstrb := 0\<rparr>);
     tb_tick ev;
     dmem_load_check ev 52 ''load(BASE + 16)'' (dmem_BASE + 16) 0xCAFEBABE }"

definition dmem_test_5 :: "(Vdmem \<Rightarrow> Vdmem) \<Rightarrow> (Vdmem tb, unit) state" where
  "dmem_test_5 ev = do {
     tb_begin ''5. en == 0 holds rdata (no new sync read)'';
     dmem_store ev (dmem_BASE + 20) 0x11223344 0xF;
     _ \<leftarrow> dmem_load ev (dmem_BASE + 20);
     poke (\<lambda>d. d\<lparr>dm_en := False, dm_addr := dmem_BASE + 24\<rparr>);
     tb_tick ev;
     r \<leftarrow> peek dm_rdata;
     tb_check ''tb_dmem.cpp'' 60 ''d.rdata'' (ucast r) 0x11223344;
     poke (\<lambda>d. d\<lparr>dm_en := True\<rparr>) }"

text \<open>Section 6: the byte array, and the loops over it.\<close>

definition dmem_resync :: "(Vdmem \<Rightarrow> Vdmem) \<Rightarrow> int \<Rightarrow> u8 list \<Rightarrow> (Vdmem tb, u8 list) state" where
  "dmem_resync ev w model = do {
     v \<leftarrow> dmem_load ev (dmem_BASE + word_of_int w * 4);
     State_Monad.return (model
       [nat w * 4 + 0 := ucast (v AND 0xFF),
        nat w * 4 + 1 := ucast (drop_bit 8 v AND 0xFF),
        nat w * 4 + 2 := ucast (drop_bit 16 v AND 0xFF),
        nat w * 4 + 3 := ucast (drop_bit 24 v AND 0xFF)]) }"

definition model_store :: "nat \<Rightarrow> u32 \<Rightarrow> u8 \<Rightarrow> u8 list \<Rightarrow> u8 list" where
  "model_store off v strb model =
     fold (\<lambda>k m. if strb AND push_bit k 1 \<noteq> 0
                  then m[off + k := ucast (drop_bit (8 * k) v AND 0xFF)] else m) [0, 1, 2, 3] model"

definition model_load :: "nat \<Rightarrow> u8 list \<Rightarrow> u32" where
  "model_load off model = fold (\<lambda>k want. want OR push_bit (8 * k) (ucast (model ! (off + k)))) [0, 1, 2, 3] 0"

definition dmem_random :: "(Vdmem \<Rightarrow> Vdmem) \<Rightarrow> int \<Rightarrow> u8 list \<Rightarrow> (Vdmem tb, u8 list) state" where
  "dmem_random ev i model = do {
     x \<leftarrow> tb_rnd_in 0 0xFFFF;
     let off = x AND NOT 3;
     v \<leftarrow> tb_rnd;
     s \<leftarrow> tb_rnd_in 0 15;
     let strb = (ucast s :: u8);
     dmem_store ev (dmem_BASE + off) v strb;
     let model' = model_store (unat off) v strb model;
     y \<leftarrow> tb_rnd_in 0 0xFFFF;
     let loff = y AND NOT 3;
     let want = model_load (unat loff) model';
     dmem_load_check ev 85 ''load(BASE + loff)'' (dmem_BASE + loff) want;
     State_Monad.return model' }"

definition dmem_body :: "(Vdmem \<Rightarrow> Vdmem) \<Rightarrow> (Vdmem tb, unit) state" where
  "dmem_body ev = do {
     poke (\<lambda>d. d\<lparr>v_clk := False, dm_en := True, dm_addr := 0, dm_wdata := 0, dm_wstrb := 0\<rparr>);
     dmem_test_1 ev; dmem_test_2 ev; dmem_test_3 ev; dmem_test_4 ev; dmem_test_5 ev;
     tb_begin ''6. random against byte-array model'';
     model \<leftarrow> for_range 0 16384 (dmem_resync ev) (replicate 65536 0);
     _ \<leftarrow> for_range 0 20000 (dmem_random ev) model;
     State_Monad.return () }"

definition dmem_main ::
  "(Vdmem \<Rightarrow> Vdmem) \<Rightarrow> (string \<Rightarrow> string option) \<Rightarrow> string list \<Rightarrow> Vdmem \<Rightarrow> int \<times> Vdmem tb" where
  "dmem_main ev files argv d = tb_run (dmem_body ev) ''dmem'' argv (dmem_initial files argv d)"

section \<open>Byte lanes\<close>

lemma dmem_merge_full: "dmem_merge 0xF v x = v"
  unfolding word_eq_iff_bits
  by (simp add: dmem_merge_def bit_simps all_less_numeral all_less_Suc_conv Let_def)

lemma dmem_merge_none: "dmem_merge 0 v x = x"
  by (simp add: dmem_merge_def)

lemma lanes: "j < 4 \<Longrightarrow> j = 0 \<or> j = 1 \<or> j = 2 \<or> j = (3 :: nat)"
  by auto

lemma byte_merge:
  assumes "j < 4"
  shows "(vbits (8 * j + 7) (8 * j) (dmem_merge s v x) :: u8) =
     (if bit s j then vbits (8 * j + 7) (8 * j) v else vbits (8 * j + 7) (8 * j) x)"
  using lanes [OF assms] unfolding word_eq_iff_bits
  by (elim disjE; simp add: dmem_merge_def bit_simps all_less_numeral all_less_Suc_conv Let_def;
      simp add: numeral_eq_Suc)

lemma word_of_bytes:
  assumes "\<And>j. j < 4 \<Longrightarrow> model ! (off + j) = (vbits (8 * j + 7) (8 * j) x :: u8)"
  shows "model_load off model = x"
  using assms [of 0] assms [of 1] assms [of 2] assms [of 3] unfolding model_load_def word_eq_iff_bits [of _ x]
  by (simp add: bit_simps all_less_numeral all_less_Suc_conv)

section \<open>The directed sections on the RTL\<close>

definition dm_ready :: "Vdmem \<Rightarrow> bool" where
  "dm_ready d \<longleftrightarrow> \<not> v_clk d \<and> dm_en d"

lemmas dm_exec = tb_wp wp_check dmem.wp_tick Vdmem_eval_def dmem_store_def dmem_load_def
  dmem_load_check_def vposedge_def dmem_seq_def dm_word_idx_def dm_ready_def dmem_BASE_def Let_def

lemma dmem_directed_pass:
  "tb_pass (\<lambda>d _. dm_ready d) (dmem_test_1 Vdmem_eval) 3"
  "tb_pass (\<lambda>d _. dm_ready d) (dmem_test_2 Vdmem_eval) 4"
  "tb_pass (\<lambda>d _. dm_ready d) (dmem_test_3 Vdmem_eval) 2"
  "tb_pass (\<lambda>d _. dm_ready d) (dmem_test_4 Vdmem_eval) 1"
  "tb_pass (\<lambda>d _. dm_ready d) (dmem_test_5 Vdmem_eval) 1"
  by (rule tb_passI; simp add: dm_exec dmem_merge_full dmem_merge_none dmem_test_1_def dmem_test_2_def
      dmem_test_3_def dmem_test_4_def dmem_test_5_def vbits_def; (simp add: dmem_merge_def vput_def vbits_def mask_numeral)?)+

section \<open>The random section on the RTL\<close>

text \<open>The first \<open>n\<close> of the \<open>N\<close> words that the byte array covers agree with the memory.\<close>

definition dm_shadows :: "nat \<Rightarrow> u8 list \<Rightarrow> nat \<Rightarrow> (14 word \<Rightarrow> u32) \<Rightarrow> bool" where
  "dm_shadows N model n M \<longleftrightarrow> length model = 4 * N \<and> n \<le> N \<and>
     (\<forall>w j. unat w < n \<and> j < 4 \<longrightarrow> model ! (4 * unat w + j) = vbits (8 * j + 7) (8 * j) (M w))"

lemma unat14: "unat (w :: 14 word) < 16384"
  using unsigned_less [of w] by simp

lemma dm_shadows_load:
  "dm_shadows N model n M \<Longrightarrow> unat w < n \<Longrightarrow> model_load (4 * unat w) model = M w"
  by (rule word_of_bytes) (simp add: dm_shadows_def)

lemma model_store_nth:
  assumes "i < length model" and "off + 3 < length model"
  shows "model_store off v strb model ! i =
    (if off \<le> i \<and> i < off + 4 \<and> bit strb (i - off) then vbits (8 * (i - off) + 7) (8 * (i - off)) v
     else model ! i)"
proof -
  have strb: "strb AND push_bit k 1 \<noteq> 0 \<longleftrightarrow> bit strb k" for k
    by (simp add: bit_iff_and_push_bit_not_eq_0)
  have byte: "ucast (drop_bit (8 * k) v AND 0xFF) = (vbits (8 * k + 7) (8 * k) v :: u8)" for k
    unfolding word_eq_iff_bits by (simp add: bit_simps all_less_numeral all_less_Suc_conv)
  have i: "off \<le> i \<and> i < off + 4 \<longleftrightarrow> i = off \<or> i = off + 1 \<or> i = off + 2 \<or> i = off + 3" by auto
  show ?thesis
    using assms unfolding model_store_def byte strb i
    by (auto simp: nth_list_update)
qed

lemma length_model_store [simp]: "length (model_store off v strb model) = length model"
  by (simp add: model_store_def)

lemma dm_shadows_store:
  assumes "dm_shadows N model n M" and "unat w < N"
  shows "dm_shadows N (model_store (4 * unat w) v strb model) n (M(w := dmem_merge (ucast strb) v (M w)))"
  unfolding dm_shadows_def
proof (intro conjI allI impI)
  show "length (model_store (4 * unat w) v strb model) = 4 * N" "n \<le> N"
    using assms by (simp_all add: dm_shadows_def)
  fix u :: "14 word" and j :: nat
  assume j: "unat u < n \<and> j < 4"
  have old: "model ! (4 * unat u + j) = vbits (8 * j + 7) (8 * j) (M u)"
    using assms j by (simp add: dm_shadows_def)
  have lane: "4 * unat w \<le> 4 * unat u + j \<and> 4 * unat u + j < 4 * unat w + 4 \<longleftrightarrow> u = w"
    using j by (auto simp: word_unat_eq_iff)
  have strb: "bit strb j = bit (ucast strb :: 4 word) j"
    using j by (simp add: bit_simps)
  have "model_store (4 * unat w) v strb model ! (4 * unat u + j) =
      (if 4 * unat w \<le> 4 * unat u + j \<and> 4 * unat u + j < 4 * unat w + 4 \<and> bit strb (4 * unat u + j - 4 * unat w)
       then vbits (8 * (4 * unat u + j - 4 * unat w) + 7) (8 * (4 * unat u + j - 4 * unat w)) v
       else model ! (4 * unat u + j))"
    by (rule model_store_nth) (use assms j in \<open>auto simp: dm_shadows_def\<close>)
  then show "model_store (4 * unat w) v strb model ! (4 * unat u + j)
      = vbits (8 * j + 7) (8 * j) ((M(w := dmem_merge (ucast strb) v (M w))) u)"
    using lane old j strb by (cases "u = w") (auto simp: byte_merge)
qed

lemma dm_shadows_resync:
  assumes "dm_shadows N model (nat i) M" and "0 \<le> i" "i < int N" "N \<le> 16384"
  defines "v \<equiv> M (word_of_int i)"
  shows "dm_shadows N (model
       [nat i * 4 + 0 := ucast (v AND 0xFF),
        nat i * 4 + 1 := ucast (drop_bit 8 v AND 0xFF),
        nat i * 4 + 2 := ucast (drop_bit 16 v AND 0xFF),
        nat i * 4 + 3 := ucast (drop_bit 24 v AND 0xFF)]) (nat (i + 1)) M"
  unfolding dm_shadows_def
proof (intro conjI allI impI)
  let ?m = "model
       [nat i * 4 + 0 := ucast (v AND 0xFF),
        nat i * 4 + 1 := ucast (drop_bit 8 v AND 0xFF),
        nat i * 4 + 2 := ucast (drop_bit 16 v AND 0xFF),
        nat i * 4 + 3 := ucast (drop_bit 24 v AND 0xFF)]"
  have len: "length model = 4 * N" using assms(1) by (simp add: dm_shadows_def)
  then show "length ?m = 4 * N" "nat (i + 1) \<le> N" using assms by simp_all
  fix u :: "14 word" and j :: nat
  assume uj: "unat u < nat (i + 1) \<and> j < 4"
  have byte: "ucast (drop_bit (8 * k) v AND 0xFF) = (vbits (8 * k + 7) (8 * k) v :: u8)" for k
    unfolding word_eq_iff_bits by (simp add: bit_simps all_less_numeral all_less_Suc_conv)
  show "?m ! (4 * unat u + j) = vbits (8 * j + 7) (8 * j) (M u)"
  proof (cases "unat u = nat i")
    case True
    then have "i = int (unat u)" using assms(2) by linarith
    then have u: "M u = v" by (simp add: v_def)
    have j: "j = 0 \<or> j = 1 \<or> j = 2 \<or> j = 3" using uj by auto
    have "nat i < N" using assms(2,3) by linarith
    then have b: "nat i * 4 + k < length model" if "k < 4" for k using that len by linarith
    show ?thesis
      using j b [of 0] b [of 1] b [of 2] b [of 3] byte [of 0] byte [of 1] byte [of 2] byte [of 3]
      unfolding u True by (auto simp: nth_list_update mult.commute)
  next
    case False
    then have "unat u < nat i" using uj assms(2) by linarith
    then show ?thesis
      using assms(1) uj by (simp add: dm_shadows_def)
  qed
qed

lemma rnd_word_aligned:
  assumes hi: "Suc (unat hi) = 4 * N" and N: "N \<le> 16384"
  shows "\<exists>w :: 14 word. rnd_scale 0 hi x AND NOT 3 = ucast w * 4 \<and> unat w < N"
proof -
  let ?y = "rnd_scale 0 hi x"
  have y: "unat ?y \<le> unat hi"
  proof (rule rnd_scale_0_less)
    have "unat (- 1 :: u32) = 0xFFFFFFFF" by (simp add: unsigned_minus_1_eq_mask mask_eq_exp_minus_1)
    then show "hi < - 1" using hi N unfolding word_less_nat_alt by linarith
  qed
  have "ucast (ucast ?y :: 16 word) = ?y"
    by (rule ucast_ucast_le) (use y hi N in simp)
  then obtain z :: "16 word" where z: "?y = ucast z" by metis
  have w: "(ucast (vbits 15 2 ?y :: 14 word) * 4 :: u32) = ?y AND NOT 3"
  proof -
    have "(ucast (vbits 15 2 ?y :: 14 word) * 4 :: u32) = push_bit 2 (ucast (vbits 15 2 ?y :: 14 word))"
      by (simp add: push_bit_eq_mult)
    also have "\<dots> = ?y AND NOT 3"
      unfolding z word_eq_iff_bits bit_push_bit_iff
      by (simp add: bit_simps all_less_numeral all_less_Suc_conv, simp add: numeral_eq_Suc)
    finally show ?thesis .
  qed
  have "unat (vbits 15 2 ?y :: 14 word) = unat ?y div 4"
  proof -
    have "vbits 15 2 ?y = (ucast (drop_bit 2 ?y) :: 14 word)"
      by (rule bit_word_eqI) (auto simp: bit_simps)
    then have "unat (vbits 15 2 ?y :: 14 word) = take_bit 14 (unat ?y div 4)"
      by (simp add: unsigned_ucast_eq unat_drop_bit_eq drop_bit_eq_div unat_div)
    also have "\<dots> = unat ?y div 4"
      using y hi N by (simp add: take_bit_nat_eq_self_iff)
    finally show ?thesis .
  qed
  then have "unat (vbits 15 2 ?y :: 14 word) < N" using y hi by linarith
  with w show ?thesis by metis
qed

lemma aligned_address:
  "unat (ucast (w :: 14 word) * 4 :: u32) = 4 * unat w"
  "vbits 15 2 (dmem_BASE + ucast w * 4) = w"
proof -
  have "unat (ucast w :: u32) = unat w" by (rule unat_ucast_up) simp
  then show "unat (ucast w * 4 :: u32) = 4 * unat w"
    using unat14 [of w] by (simp add: unat_word_ariths)
  show "vbits 15 2 (dmem_BASE + ucast w * 4) = w"
    unfolding dmem_BASE_def by (rule imem_index)
qed

text \<open>
  What a byte-array bench relies on of the memory under test: strobed stores and loads of words.
  \<open>at M c\<close> is the state between calls with memory \<open>M\<close> and \<open>c\<close> checks done; the bench covers the
  first \<open>N\<close> words, \<open>hi\<close> being the last byte offset.
\<close>

locale shadowed_memory =
  fixes at :: "(14 word \<Rightarrow> u32) \<Rightarrow> int \<Rightarrow> 'd \<Rightarrow> int \<Rightarrow> 'm \<Rightarrow> bool"
    and store :: "u32 \<Rightarrow> u32 \<Rightarrow> u8 \<Rightarrow> (('d, 'm) tb_scheme, unit) state"
    and load :: "u32 \<Rightarrow> (('d, 'm) tb_scheme, u32) state"
    and N :: nat and hi :: u32
  assumes hi: "Suc (unat hi) = 4 * N" and N: "N \<le> 16384"
    and store_ok: "tb_ok (at M c) (store (dmem_BASE + ucast w * 4) v strb)
      (\<lambda>_. at (M(w := dmem_merge (ucast strb) v (M w))) c)"
    and load_ok: "tb_ok (at M c) (load a) (\<lambda>x d k m. at M c d k m \<and> x = M (vbits 15 2 a))"
    and at_count: "at M c d k m \<Longrightarrow> at M (c + 1) d (k + 1) m"
begin

lemma resync_ok:
  assumes "0 \<le> i" "i < int N"
  shows "tb_ok (\<lambda>d k m. \<exists>M. at M c d k m \<and> dm_shadows N model (nat i) M)
     (do { v \<leftarrow> load (dmem_BASE + word_of_int i * 4);
       State_Monad.return (model
         [nat i * 4 + 0 := ucast (v AND 0xFF),
          nat i * 4 + 1 := ucast (drop_bit 8 v AND 0xFF),
          nat i * 4 + 2 := ucast (drop_bit 16 v AND 0xFF),
          nat i * 4 + 3 := ucast (drop_bit 24 v AND 0xFF)]) })
     (\<lambda>model' d k m. \<exists>M. at M c d k m \<and> dm_shadows N model' (nat (i + 1)) M)"
proof (rule tb_okI)
  fix d k f h m
  assume "\<exists>M. at M c d k m \<and> dm_shadows N model (nat i) M"
  then obtain M where M: "at M c d k m" "dm_shadows N model (nat i) M" by blast
  have a: "vbits 15 2 (dmem_BASE + word_of_int i * 4) = (word_of_int i :: 14 word)"
    unfolding dmem_BASE_def by (rule imem_index_int(1)) (use assms N in simp_all)
  show "wp (do { v \<leftarrow> load (dmem_BASE + word_of_int i * 4);
       State_Monad.return (model
         [nat i * 4 + 0 := ucast (v AND 0xFF),
          nat i * 4 + 1 := ucast (drop_bit 8 v AND 0xFF),
          nat i * 4 + 2 := ucast (drop_bit 16 v AND 0xFF),
          nat i * 4 + 3 := ucast (drop_bit 24 v AND 0xFF)]) })
     (\<lambda>x s. (\<exists>M. at M c (tb_dut s) (tb_checks s) (tb.more s) \<and> dm_shadows N x (nat (i + 1)) M) \<and> tb_fails s = f)
     d k f h m"
    apply (rule wp_bind_ok [OF load_ok], rule M(1))
    using dm_shadows_resync [OF M(2) assms N] by (auto simp: wp_return a)
qed

lemma random_ok:
  "tb_ok (\<lambda>d k m. \<exists>M. at M c d k m \<and> dm_shadows N model N M)
     (do { x \<leftarrow> tb_rnd_in 0 hi;
       v \<leftarrow> tb_rnd;
       s \<leftarrow> tb_rnd_in lo 15;
       store (dmem_BASE + (x AND NOT 3)) v (ucast s);
       y \<leftarrow> tb_rnd_in 0 hi;
       r \<leftarrow> load (dmem_BASE + (y AND NOT 3));
       tb_check file line expr (ucast r)
         (ucast (model_load (unat (y AND NOT 3)) (model_store (unat (x AND NOT 3)) v (ucast s) model)));
       State_Monad.return (model_store (unat (x AND NOT 3)) v (ucast s) model) })
     (\<lambda>model' d k m. \<exists>M. at M (c + 1) d k m \<and> dm_shadows N model' N M)"
proof (rule tb_ok_rnd_in, rule tb_ok_rnd, rule tb_ok_rnd_in, rule tb_okI)
  fix x v s d m and k f :: int and h :: tb_aux
  assume "\<exists>M. at M c d k m \<and> dm_shadows N model N M"
  then obtain M where M: "at M c d k m" "dm_shadows N model N M" by blast
  let ?x = "rnd_scale 0 hi x AND NOT 3" and ?s = "ucast (rnd_scale lo 15 s) :: u8"
  obtain w where w: "?x = ucast (w :: 14 word) * 4" "unat w < N"
    using rnd_word_aligned [OF hi N] by blast
  let ?M = "M(w := dmem_merge (ucast ?s) v (M w))" and ?model = "model_store (unat ?x) v ?s model"
  have sh: "dm_shadows N ?model N ?M"
    unfolding w(1) aligned_address(1) by (rule dm_shadows_store [OF M(2) w(2)])
  have rest: "tb_ok (at ?M c) (do { y \<leftarrow> tb_rnd_in 0 hi;
       r \<leftarrow> load (dmem_BASE + (y AND NOT 3));
       tb_check file line expr (ucast r) (ucast (model_load (unat (y AND NOT 3)) ?model));
       State_Monad.return ?model })
     (\<lambda>model' d k m. \<exists>M. at M (c + 1) d k m \<and> dm_shadows N model' N M)"
  proof (rule tb_ok_rnd_in, rule tb_okI, rule wp_bind_ok [OF load_ok], assumption)
    fix y r d' m' and k' f :: int and h' :: tb_aux
    assume r: "at ?M c d' k' m' \<and> r = ?M (vbits 15 2 (dmem_BASE + (rnd_scale 0 hi y AND NOT 3)))"
    obtain u where u: "rnd_scale 0 hi y AND NOT 3 = ucast (u :: 14 word) * 4" "unat u < N"
      using rnd_word_aligned [OF hi N] by blast
    have "r = model_load (unat (rnd_scale 0 hi y AND NOT 3)) ?model"
      using dm_shadows_load [OF sh u(2)] r unfolding u(1) aligned_address by simp
    then show "wp (tb_check file line expr (ucast r)
          (ucast (model_load (unat (rnd_scale 0 hi y AND NOT 3)) ?model)) \<bind> (\<lambda>_. State_Monad.return ?model))
        (\<lambda>x s. (\<exists>M. at M (c + 1) (tb_dut s) (tb_checks s) (tb.more s) \<and> dm_shadows N x N M) \<and> tb_fails s = f)
        d' k' f h' m'"
      using sh r by (auto simp: wp_check wp_return intro: at_count)
  qed
  show "wp (store (dmem_BASE + ?x) v ?s \<bind> (\<lambda>_. tb_rnd_in 0 hi \<bind> (\<lambda>y. load (dmem_BASE + (y AND NOT 3)) \<bind> (\<lambda>r.
      tb_check file line expr (ucast r) (ucast (model_load (unat (y AND NOT 3)) ?model)) \<bind>
      (\<lambda>_. State_Monad.return ?model)))))
      (\<lambda>x s. (\<exists>M. at M (c + 1) (tb_dut s) (tb_checks s) (tb.more s) \<and> dm_shadows N x N M) \<and> tb_fails s = f) d k f h m"
    using w(1) M(1) rest unfolding w(1)
    by - (rule wp_bind_ok [OF store_ok], assumption, rule tb_okD)
qed

lemma loops_ok:
  assumes resync: "\<And>i model. 0 \<le> i \<Longrightarrow> i < int N \<Longrightarrow>
      tb_ok (\<lambda>d k m. \<exists>M. at M c d k m \<and> dm_shadows N model (nat i) M) (resync i model)
        (\<lambda>model' d k m. \<exists>M. at M c d k m \<and> dm_shadows N model' (nat (i + 1)) M)"
    and random: "\<And>c i model.
      tb_ok (\<lambda>d k m. \<exists>M. at M c d k m \<and> dm_shadows N model N M) (random i model)
        (\<lambda>model' d k m. \<exists>M. at M (c + 1) d k m \<and> dm_shadows N model' N M)"
    and "0 \<le> R"
  shows "tb_ok (\<lambda>d k m. \<exists>M. at M c d k m)
     (do { model \<leftarrow> for_range 0 (int N) resync (replicate (4 * N) 0);
        _ \<leftarrow> for_range 0 R random model; State_Monad.return () })
     (\<lambda>_ d k m. \<exists>M. at M (c + R) d k m)"
proof -
  have "tb_ok (\<lambda>d k m. \<exists>M. at M c d k m \<and> dm_shadows N (replicate (4 * N) 0) (nat 0) M)
      (for_range 0 (int N) resync (replicate (4 * N) 0))
      (\<lambda>model d k m. \<exists>M. at M c d k m \<and> dm_shadows N model (nat (int N)) M)"
    by (rule tb_ok_for [where I = "\<lambda>i model d k m. \<exists>M. at M c d k m \<and> dm_shadows N model (nat i) M"])
      (simp, rule resync, simp_all)
  then have A: "tb_ok (\<lambda>d k m. \<exists>M. at M c d k m) (for_range 0 (int N) resync (replicate (4 * N) 0))
      (\<lambda>model d k m. \<exists>M. at M c d k m \<and> dm_shadows N model N M)"
    by (rule tb_ok_conseq) (auto simp: dm_shadows_def)
  define I where "I i model d k m = (\<exists>M. at M (c + i) d k m \<and> dm_shadows N model N M)" for i model d k m
  have "tb_ok (I i model) (random i model) (\<lambda>model'. I (i + 1) model')" for i model
    using random [where c = "c + i"] by (simp add: I_def [abs_def] algebra_simps)
  then have "tb_ok (I 0 model) (for_range 0 R random model) (\<lambda>model'. I R model')" for model
    using \<open>0 \<le> R\<close> by (intro tb_ok_for) auto
  then have "tb_ok (\<lambda>d k m. \<exists>M. at M c d k m \<and> dm_shadows N model N M)
      (do { _ \<leftarrow> for_range 0 R random model; State_Monad.return () })
      (\<lambda>_ d k m. \<exists>M. at M (c + R) d k m)" for model
    unfolding I_def [abs_def]
    by (intro tb_ok_bind [where R = "\<lambda>x d k m. \<exists>M. at M (c + R) d k m \<and> dm_shadows N x N M"])
      (simp, rule tb_ok_return, auto)
  from tb_ok_bind [OF A this] show ?thesis .
qed

end

text \<open>The bench between its calls: ready, memory contents \<open>M\<close>, \<open>c\<close> checks done.\<close>

definition dm_at :: "(14 word \<Rightarrow> u32) \<Rightarrow> int \<Rightarrow> Vdmem \<Rightarrow> int \<Rightarrow> unit \<Rightarrow> bool" where
  "dm_at M c d k m \<longleftrightarrow> dm_ready d \<and> dm_mem d = M \<and> k = c"

interpretation dm: shadowed_memory dm_at "dmem_store Vdmem_eval" "dmem_load Vdmem_eval" 16384 "0xFFFF"
proof unfold_locales
  fix M c w v strb
  show "tb_ok (dm_at M c) (dmem_store Vdmem_eval (dmem_BASE + ucast w * 4) v strb)
     (\<lambda>_. dm_at (M(w := dmem_merge (ucast strb) v (M w))) c)"
    using aligned_address(2) [of w] by (intro tb_okI) (simp add: dm_exec dm_at_def)
next
  fix M c a
  show "tb_ok (dm_at M c) (dmem_load Vdmem_eval a) (\<lambda>x d k m. dm_at M c d k m \<and> x = M (vbits 15 2 a))"
    by (rule tb_okI) (simp add: dm_exec dm_at_def dmem_merge_none)
qed (simp_all add: dm_at_def)

lemma dmem_resync_ok:
  "0 \<le> i \<Longrightarrow> i < 16384 \<Longrightarrow>
   tb_ok (\<lambda>d k m. \<exists>M. dm_at M c d k m \<and> dm_shadows 16384 model (nat i) M) (dmem_resync Vdmem_eval i model)
     (\<lambda>model' d k m. \<exists>M. dm_at M c d k m \<and> dm_shadows 16384 model' (nat (i + 1)) M)"
  unfolding dmem_resync_def by (rule dm.resync_ok) simp_all

lemma dmem_random_ok:
  "tb_ok (\<lambda>d k m. \<exists>M. dm_at M c d k m \<and> dm_shadows 16384 model 16384 M) (dmem_random Vdmem_eval i model)
     (\<lambda>model' d k m. \<exists>M. dm_at M (c + 1) d k m \<and> dm_shadows 16384 model' 16384 M)"
  unfolding dmem_random_def dmem_load_check_def Let_def State_Monad.bind_assoc by (rule dm.random_ok)

lemma dmem_body_ok: "tb_ok (\<lambda>d k m. k = 0) (dmem_body Vdmem_eval) (\<lambda>_ d k m. k = 20011)"
proof -
  let ?ev = Vdmem_eval
  have directed: "tb_pass (\<lambda>d _. dm_ready d) (do {
      dmem_test_1 ?ev; dmem_test_2 ?ev; dmem_test_3 ?ev; dmem_test_4 ?ev; dmem_test_5 ?ev;
      tb_begin s }) (3 + (4 + (2 + (1 + (1 + 0)))))" for s
    by (intro tb_pass_intros dmem_directed_pass)
  have start: "tb_ok (\<lambda>d k m. k = 0)
      (poke (\<lambda>d. d\<lparr>v_clk := False, dm_en := True, dm_addr := 0, dm_wdata := 0, dm_wstrb := 0\<rparr>))
      (\<lambda>_ d k m. dm_ready d \<and> k = 0)"
    by (rule tb_okI) (simp add: wp_poke dm_ready_def)
  have loops: "tb_ok (\<lambda>d k m. dm_ready d \<and> k = 11) (do {
      model \<leftarrow> for_range 0 16384 (dmem_resync ?ev) (replicate 65536 0);
      _ \<leftarrow> for_range 0 20000 (dmem_random ?ev) model; State_Monad.return () }) (\<lambda>_ d k m. k = 20011)"
    by (rule tb_ok_conseq [OF dm.loops_ok [OF dmem_resync_ok dmem_random_ok, where c = 11 and R = 20000, simplified]])
      (auto simp: dm_at_def)
  have "tb_ok (\<lambda>d k m. dm_ready d \<and> k = 0) (do {
      dmem_test_1 ?ev; dmem_test_2 ?ev; dmem_test_3 ?ev; dmem_test_4 ?ev; dmem_test_5 ?ev;
      tb_begin s }) (\<lambda>_ d k m. dm_ready d \<and> k = 11)" for s
    using tb_passD [OF directed, where k = 0] by simp
  from tb_ok_bind [OF start tb_ok_bind [OF this loops]]
  show ?thesis unfolding dmem_body_def by simp
qed

section \<open>Properties\<close>

text \<open>
  What a history of edges leaves in a byte: byte \<open>j\<close> of the last word written at that word
  address with strobe bit \<open>j\<close> set, or the initial byte. One step is \<open>(addr, wdata, wstrb)\<close>,
  newest first.
\<close>

primrec dmem_spec :: "(14 word \<Rightarrow> u32) \<Rightarrow> (u32 \<times> u32 \<times> 4 word) list \<Rightarrow> 14 word \<Rightarrow> nat \<Rightarrow> u8" where
  "dmem_spec M [] a j = vbits (8 * j + 7) (8 * j) (M a)"
| "dmem_spec M (w # ws) a j =
     (case w of (addr, v, strb) \<Rightarrow>
        if vbits 15 2 addr = a \<and> bit strb j then vbits (8 * j + 7) (8 * j) v else dmem_spec M ws a j)"

primrec dmem_run :: "Vdmem \<Rightarrow> (u32 \<times> u32 \<times> 4 word) list \<Rightarrow> Vdmem" where
  "dmem_run d [] = d"
| "dmem_run d (w # ws) =
     (case w of (addr, v, strb) \<Rightarrow>
        vposedge dmem_seq id ((dmem_run d ws)\<lparr>dm_addr := addr, dm_wdata := v, dm_wstrb := strb\<rparr>))"

lemma dmem_run_bytes:
  "j < 4 \<Longrightarrow> vbits (8 * j + 7) (8 * j) (dm_mem (dmem_run d ws) a) = dmem_spec (dm_mem d) ws a j"
proof (induction ws)
  case Nil
  then show ?case by simp
next
  case (Cons w ws)
  then show ?case
    by (cases w) (auto simp: vposedge_def dmem_seq_def dm_word_idx_def Let_def byte_merge)
qed

text \<open>
  C7. The data memory refines a byte-addressed memory of last writes: after any history of
  strobed writes, a read of any word address returns on the next edge, for each of its four
  lanes, the byte last written to that lane with its strobe set; the low two and the upper
  sixteen address bits are ignored.
\<close>

theorem dmem_refines_bytes:
  "let r = dm_rdata (vposedge dmem_seq id
        ((dmem_run d ws)\<lparr>dm_en := True, dm_addr := a, dm_wdata := v, dm_wstrb := s\<rparr>));
       byte = dmem_spec (dm_mem d) ws (vbits 15 2 a)
   in vbits 7 0 r = byte 0 \<and> vbits 15 8 r = byte 1 \<and> vbits 23 16 r = byte 2 \<and> vbits 31 24 r = byte 3"
  using dmem_run_bytes [of 0] dmem_run_bytes [of 1] dmem_run_bytes [of 2] dmem_run_bytes [of 3]
  by (simp add: vposedge_def dmem_seq_def dm_word_idx_def Let_def)

text \<open>
  C24. The data memory's bench accepts the RTL with all of its 20011 checks, in particular the
  20000 random loads against the byte array, whatever the initial memory, the files and the
  arguments (\<open>+dmem=\<close> included).
\<close>

theorem tb_dmem_passes: "run_passes (dmem_main Vdmem_eval files argv d) 20011"
  unfolding dmem_main_def by (rule tb_ok_run [OF dmem_body_ok]) simp

end
