(* ===== verification/Csr.thy ===== *)
theory Csr
  imports Tb_Common
begin

text \<open>
  The machine-mode CSR file: the RTL module \<open>rtl/core/csr.v\<close> (registers, trap entry and
  \<open>mret\<close>, the timer interrupt) and its test bench \<open>sim/verilator/tb_csr.cpp\<close>.
\<close>

section \<open>csr.v\<close>

definition CSR_MSTATUS :: "12 word" where [tb_data]: "CSR_MSTATUS = 0x300"
definition CSR_MIE :: "12 word" where [tb_data]: "CSR_MIE = 0x304"
definition CSR_MTVEC :: "12 word" where [tb_data]: "CSR_MTVEC = 0x305"
definition CSR_MSCRATCH :: "12 word" where [tb_data]: "CSR_MSCRATCH = 0x340"
definition CSR_MEPC :: "12 word" where [tb_data]: "CSR_MEPC = 0x341"
definition CSR_MCAUSE :: "12 word" where [tb_data]: "CSR_MCAUSE = 0x342"
definition CSR_MIP :: "12 word" where [tb_data]: "CSR_MIP = 0x344"
definition CSR_MHARTID :: "12 word" where [tb_data]: "CSR_MHARTID = 0xF14"

text \<open>The registers.\<close>

record csr_regs =
  mstatus_mie :: bool
  mstatus_mpie :: bool
  mstatus_mpp :: "2 word"
  mie_mtie :: bool
  priv_m :: bool
  mtvec :: u32
  mscratch :: u32
  mepc :: u32
  mcause :: u32

text \<open>The ports, and the registers inside.\<close>

record Vcsr = vclk +
  cs_rst_n :: bool
  cs_bus_stall :: bool
  cs_csr_addr :: "12 word"
  cs_csr_wdata :: u32
  cs_csr_op :: "2 word"
  cs_csr_re :: bool
  cs_csr_we :: bool
  cs_csr_rdata :: u32
  cs_csr_illegal :: bool
  cs_trap :: bool
  cs_trap_pc :: u32
  cs_trap_cause :: u32
  cs_is_mret :: bool
  cs_timer_irq :: bool
  cs_mtvec_out :: u32
  cs_mepc_out :: u32
  cs_priv_m_out :: bool
  cs_interrupt_pending :: bool
  cs_r :: csr_regs

definition mstatus_rdata :: "csr_regs \<Rightarrow> u32" where
  "mstatus_rdata r =
     word_cat (0 :: 19 word) (word_cat (mstatus_mpp r) (word_cat (0 :: 3 word)
       (word_cat (vbool (mstatus_mpie r) :: 1 word) (word_cat (0 :: 3 word)
         (word_cat (vbool (mstatus_mie r) :: 1 word) (0 :: 3 word) :: 4 word) :: 7 word)
           :: 8 word) :: 11 word) :: 13 word)"

definition mie_rdata :: "csr_regs \<Rightarrow> u32" where
  "mie_rdata r = word_cat (0 :: 24 word) (word_cat (vbool (mie_mtie r) :: 1 word) (0 :: 7 word) :: 8 word)"

definition mip_rdata :: "bool \<Rightarrow> u32" where
  "mip_rdata timer_irq = word_cat (0 :: 24 word) (word_cat (vbool timer_irq :: 1 word) (0 :: 7 word) :: 8 word)"

definition csr_ignored :: "12 word \<Rightarrow> bool" where
  "csr_ignored csr_addr \<longleftrightarrow>
     csr_addr = 0x301 \<or> csr_addr = 0x302 \<or> csr_addr = 0x303 \<or> csr_addr = 0x343
     \<or> csr_addr = 0x180 \<or> csr_addr = 0x3A0 \<or> csr_addr = 0x3B0"

text \<open>The read port: value and \<open>csr_illegal\<close>.\<close>

definition csr_read :: "csr_regs \<Rightarrow> bool \<Rightarrow> 12 word \<Rightarrow> bool \<Rightarrow> bool \<Rightarrow> u32 \<times> bool" where
  "csr_read r timer_irq csr_addr csr_re csr_we =
     (if csr_addr = CSR_MSTATUS then (mstatus_rdata r, False)
      else if csr_addr = CSR_MIE then (mie_rdata r, False)
      else if csr_addr = CSR_MTVEC then (mtvec r, False)
      else if csr_addr = CSR_MSCRATCH then (mscratch r, False)
      else if csr_addr = CSR_MEPC then (mepc r, False)
      else if csr_addr = CSR_MCAUSE then (mcause r, False)
      else if csr_addr = CSR_MIP then (mip_rdata timer_irq, False)
      else if csr_addr = CSR_MHARTID then (0, False)
      else (0, (csr_re \<or> csr_we) \<and> \<not> csr_ignored csr_addr))"

definition csr_new :: "2 word \<Rightarrow> u32 \<Rightarrow> u32 \<Rightarrow> u32" where
  "csr_new csr_op csr_rdata csr_wdata =
     (if csr_op = 0b01 then csr_wdata
      else if csr_op = 0b10 then csr_rdata OR csr_wdata
      else if csr_op = 0b11 then csr_rdata AND NOT csr_wdata
      else csr_rdata)"

text \<open>The branches of the \<open>always @(posedge clk)\<close> block.\<close>

definition csr_reset :: csr_regs where
  "csr_reset =
     \<lparr>mstatus_mie = False, mstatus_mpie = False, mstatus_mpp = 0b00, mie_mtie = False,
      priv_m = True, mtvec = 0, mscratch = 0, mepc = 0, mcause = 0\<rparr>"

definition csr_trap :: "u32 \<Rightarrow> u32 \<Rightarrow> csr_regs \<Rightarrow> csr_regs" where
  "csr_trap trap_pc trap_cause r =
     r\<lparr>mepc := trap_pc, mcause := trap_cause, mstatus_mpie := mstatus_mie r, mstatus_mie := False,
       mstatus_mpp := vrep (priv_m r), priv_m := True\<rparr>"

definition csr_mret :: "csr_regs \<Rightarrow> csr_regs" where
  "csr_mret r =
     r\<lparr>priv_m := bit (mstatus_mpp r) 1, mstatus_mie := mstatus_mpie r, mstatus_mpie := True,
       mstatus_mpp := 0b00\<rparr>"

definition csr_write :: "12 word \<Rightarrow> u32 \<Rightarrow> csr_regs \<Rightarrow> csr_regs" where
  "csr_write csr_addr new r =
     (if csr_addr = CSR_MSTATUS
        then r\<lparr>mstatus_mie := bit new 3, mstatus_mpie := bit new 7, mstatus_mpp := vbits 12 11 new\<rparr>
      else if csr_addr = CSR_MIE then r\<lparr>mie_mtie := bit new 7\<rparr>
      else if csr_addr = CSR_MTVEC then r\<lparr>mtvec := new\<rparr>
      else if csr_addr = CSR_MSCRATCH then r\<lparr>mscratch := new\<rparr>
      else if csr_addr = CSR_MEPC then r\<lparr>mepc := new\<rparr>
      else if csr_addr = CSR_MCAUSE then r\<lparr>mcause := new\<rparr>
      else r)"

text \<open>The read port as driven by the instruction inputs, and the next registers.\<close>

definition csr_port :: "Vcsr \<Rightarrow> u32 \<times> bool" where
  "csr_port d = csr_read (cs_r d) (cs_timer_irq d) (cs_csr_addr d) (cs_csr_re d) (cs_csr_we d)"

definition csr_do_write :: "Vcsr \<Rightarrow> bool" where
  "csr_do_write d \<longleftrightarrow> cs_csr_we d \<and> \<not> snd (csr_port d) \<and> cs_csr_addr d \<noteq> CSR_MHARTID"

definition csr_next :: "Vcsr \<Rightarrow> csr_regs" where
  "csr_next d =
     (if \<not> cs_rst_n d then csr_reset
      else if cs_bus_stall d then cs_r d
      else if cs_trap d then csr_trap (cs_trap_pc d) (cs_trap_cause d) (cs_r d)
      else if cs_is_mret d then csr_mret (cs_r d)
      else if csr_do_write d
        then csr_write (cs_csr_addr d) (csr_new (cs_csr_op d) (fst (csr_port d)) (cs_csr_wdata d)) (cs_r d)
      else cs_r d)"

definition csr_seq :: "Vcsr \<Rightarrow> Vcsr" where
  "csr_seq d = d\<lparr>cs_r := csr_next d\<rparr>"

definition csr_comb :: "Vcsr \<Rightarrow> Vcsr" where
  "csr_comb d =
     d\<lparr>cs_csr_rdata := fst (csr_port d), cs_csr_illegal := snd (csr_port d),
       cs_mtvec_out := mtvec (cs_r d), cs_mepc_out := mepc (cs_r d), cs_priv_m_out := priv_m (cs_r d),
       cs_interrupt_pending := mstatus_mie (cs_r d) \<and> mie_mtie (cs_r d) \<and> cs_timer_irq d\<rparr>"

definition Vcsr_eval :: "Vcsr \<Rightarrow> Vcsr" where
  "Vcsr_eval = veval csr_seq csr_comb"

text \<open>The registers do not see the clock or the outputs.\<close>

lemma csr_port_inputs:
  "csr_port (d\<lparr>v_clk := b\<rparr>) = csr_port d" "csr_port (d\<lparr>v_clk_prev := b\<rparr>) = csr_port d"
  "csr_port (csr_comb d) = csr_port d"
  by (simp_all add: csr_comb_def csr_port_def)

lemma csr_do_write_inputs:
  "csr_do_write (d\<lparr>v_clk := b\<rparr>) = csr_do_write d" "csr_do_write (d\<lparr>v_clk_prev := b\<rparr>) = csr_do_write d"
  "csr_do_write (csr_comb d) = csr_do_write d"
  unfolding csr_do_write_def csr_port_inputs by (simp_all add: csr_comb_def)

lemma csr_next_inputs:
  "csr_next (d\<lparr>v_clk := b\<rparr>) = csr_next d" "csr_next (d\<lparr>v_clk_prev := b\<rparr>) = csr_next d"
  "csr_next (csr_comb d) = csr_next d"
  unfolding csr_next_def csr_port_inputs csr_do_write_inputs by (simp_all add: csr_comb_def)

lemmas csr_inputs_only = csr_port_inputs csr_next_inputs

interpretation csr: verilated_module csr_seq csr_comb
proof unfold_locales
  fix d b
  show "csr_comb (csr_comb d) = csr_comb d"
    unfolding csr_comb_def [of "csr_comb d"] csr_inputs_only by (simp add: csr_comb_def)
  show "csr_comb (csr_seq (csr_comb d)) = csr_comb (csr_seq d)"
    unfolding csr_seq_def csr_inputs_only by (simp add: csr_comb_def csr_port_def)
qed (simp_all add: csr_seq_def csr_inputs_only, simp_all add: csr_comb_def csr_inputs_only)

section \<open>tb_csr.cpp: the lambdas\<close>

definition cs_OP_NONE :: u32 where [tb_data]: "cs_OP_NONE = 0b00"
definition cs_OP_RW :: u32 where [tb_data]: "cs_OP_RW = 0b01"
definition cs_OP_RS :: u32 where [tb_data]: "cs_OP_RS = 0b10"
definition cs_OP_RC :: u32 where [tb_data]: "cs_OP_RC = 0b11"

definition tb_MSTATUS :: u32 where [tb_data]: "tb_MSTATUS = 0x300"
definition tb_MISA :: u32 where [tb_data]: "tb_MISA = 0x301"
definition tb_MEDELEG :: u32 where [tb_data]: "tb_MEDELEG = 0x302"
definition tb_MIDELEG :: u32 where [tb_data]: "tb_MIDELEG = 0x303"
definition tb_MIE :: u32 where [tb_data]: "tb_MIE = 0x304"
definition tb_MTVEC :: u32 where [tb_data]: "tb_MTVEC = 0x305"
definition tb_MSCRATCH :: u32 where [tb_data]: "tb_MSCRATCH = 0x340"
definition tb_MEPC :: u32 where [tb_data]: "tb_MEPC = 0x341"
definition tb_MCAUSE :: u32 where [tb_data]: "tb_MCAUSE = 0x342"
definition tb_MTVAL :: u32 where [tb_data]: "tb_MTVAL = 0x343"
definition tb_MIP :: u32 where [tb_data]: "tb_MIP = 0x344"
definition tb_SATP :: u32 where [tb_data]: "tb_SATP = 0x180"
definition tb_PMPCFG0 :: u32 where [tb_data]: "tb_PMPCFG0 = 0x3A0"
definition tb_PMPADDR0 :: u32 where [tb_data]: "tb_PMPADDR0 = 0x3B0"
definition tb_MHARTID :: u32 where [tb_data]: "tb_MHARTID = 0xF14"
definition tb_MNSTATUS :: u32 where [tb_data]: "tb_MNSTATUS = 0x744"
definition tb_BOGUS :: u32 where [tb_data]: "tb_BOGUS = 0x123"

definition cs_rd :: "(Vcsr \<Rightarrow> Vcsr) \<Rightarrow> u32 \<Rightarrow> (Vcsr tb, u32) state" where
  "cs_rd ev addr = do {
     poke (\<lambda>d. d\<lparr>cs_csr_addr := ucast addr, cs_csr_op := ucast cs_OP_RS, cs_csr_wdata := 0,
                 cs_csr_re := True, cs_csr_we := False\<rparr>);
     tb_settle ev;
     v \<leftarrow> peek cs_csr_rdata;
     poke (\<lambda>d. d\<lparr>cs_csr_re := False, cs_csr_op := ucast cs_OP_NONE\<rparr>);
     State_Monad.return v }"

definition cs_access :: "(Vcsr \<Rightarrow> Vcsr) \<Rightarrow> u32 \<Rightarrow> u32 \<Rightarrow> u32 \<Rightarrow> bool \<Rightarrow> bool \<Rightarrow> (Vcsr tb, u32) state" where
  "cs_access ev addr op wdata re we = do {
     poke (\<lambda>d. d\<lparr>cs_csr_addr := ucast addr, cs_csr_op := ucast op, cs_csr_wdata := wdata,
                 cs_csr_re := re, cs_csr_we := we\<rparr>);
     tb_settle ev;
     old \<leftarrow> peek cs_csr_rdata;
     tb_tick ev;
     poke (\<lambda>d. d\<lparr>cs_csr_re := False, cs_csr_we := False, cs_csr_op := ucast cs_OP_NONE\<rparr>);
     State_Monad.return old }"

definition cs_illegal :: "(Vcsr \<Rightarrow> Vcsr) \<Rightarrow> u32 \<Rightarrow> u32 \<Rightarrow> bool \<Rightarrow> bool \<Rightarrow> (Vcsr tb, bool) state" where
  "cs_illegal ev addr op re we = do {
     poke (\<lambda>d. d\<lparr>cs_csr_addr := ucast addr, cs_csr_op := ucast op, cs_csr_wdata := 0,
                 cs_csr_re := re, cs_csr_we := we\<rparr>);
     tb_settle ev;
     v \<leftarrow> peek cs_csr_illegal;
     poke (\<lambda>d. d\<lparr>cs_csr_re := False, cs_csr_we := False, cs_csr_op := ucast cs_OP_NONE\<rparr>);
     tb_settle ev;
     State_Monad.return v }"

definition cs_mret :: "(Vcsr \<Rightarrow> Vcsr) \<Rightarrow> (Vcsr tb, unit) state" where
  "cs_mret ev = do { poke (\<lambda>d. d\<lparr>cs_is_mret := True\<rparr>); tb_tick ev; poke (\<lambda>d. d\<lparr>cs_is_mret := False\<rparr>) }"

definition cs_do_trap :: "(Vcsr \<Rightarrow> Vcsr) \<Rightarrow> u32 \<Rightarrow> u32 \<Rightarrow> (Vcsr tb, unit) state" where
  "cs_do_trap ev pc cause = do {
     poke (\<lambda>d. d\<lparr>cs_trap := True, cs_trap_pc := pc, cs_trap_cause := cause\<rparr>);
     tb_tick ev;
     poke (\<lambda>d. d\<lparr>cs_trap := False\<rparr>) }"

text \<open>The \<open>CHECK_EQ\<close>s, by the form of their first argument.\<close>

definition cs_check :: "nat \<Rightarrow> string \<Rightarrow> u64 \<Rightarrow> u64 \<Rightarrow> (Vcsr tb, unit) state" where
  "cs_check line expr got want = tb_check ''tb_csr.cpp'' line expr got want"

definition cs_check_port :: "nat \<Rightarrow> string \<Rightarrow> (Vcsr \<Rightarrow> u64) \<Rightarrow> u64 \<Rightarrow> (Vcsr tb, unit) state" where
  "cs_check_port line expr port want = do { v \<leftarrow> peek port; cs_check line expr v want }"

definition cs_check_rd :: "(Vcsr \<Rightarrow> Vcsr) \<Rightarrow> nat \<Rightarrow> string \<Rightarrow> u32 \<Rightarrow> (u32 \<Rightarrow> u32) \<Rightarrow> u32 \<Rightarrow> (Vcsr tb, unit) state" where
  "cs_check_rd ev line expr addr part want = do {
     v \<leftarrow> cs_rd ev addr;
     cs_check line expr (ucast (part v)) (ucast want) }"

definition cs_check_illegal ::
  "(Vcsr \<Rightarrow> Vcsr) \<Rightarrow> nat \<Rightarrow> string \<Rightarrow> u32 \<Rightarrow> u32 \<Rightarrow> bool \<Rightarrow> bool \<Rightarrow> bool \<Rightarrow> (Vcsr tb, unit) state" where
  "cs_check_illegal ev line expr addr op re we want = do {
     v \<leftarrow> cs_illegal ev addr op re we;
     cs_check line expr (vbool v) (vbool want) }"

section \<open>tb_csr.cpp: the directed sections\<close>

definition csr_start :: "(Vcsr \<Rightarrow> Vcsr) \<Rightarrow> (Vcsr tb, unit) state" where
  "csr_start ev = do {
     poke (\<lambda>d. d\<lparr>v_clk := False, cs_rst_n := False, cs_bus_stall := False, cs_csr_addr := 0,
       cs_csr_wdata := 0, cs_csr_op := ucast cs_OP_NONE, cs_csr_re := False, cs_csr_we := False,
       cs_trap := False, cs_trap_pc := 0, cs_trap_cause := 0, cs_is_mret := False,
       cs_timer_irq := False\<rparr>);
     tb_tick ev; tb_tick ev;
     poke (\<lambda>d. d\<lparr>cs_rst_n := True\<rparr>);
     tb_tick ev }"

definition csr_test_1 :: "(Vcsr \<Rightarrow> Vcsr) \<Rightarrow> (Vcsr tb, unit) state" where
  "csr_test_1 ev = do {
     tb_begin ''1. reset state'';
     cs_check_rd ev 76 ''rd(CSR_MSTATUS)'' tb_MSTATUS (\<lambda>v. v) 0;
     cs_check_rd ev 77 ''rd(CSR_MTVEC)'' tb_MTVEC (\<lambda>v. v) 0;
     cs_check_rd ev 78 ''rd(CSR_MSCRATCH)'' tb_MSCRATCH (\<lambda>v. v) 0;
     cs_check_rd ev 79 ''rd(CSR_MEPC)'' tb_MEPC (\<lambda>v. v) 0;
     cs_check_rd ev 80 ''rd(CSR_MCAUSE)'' tb_MCAUSE (\<lambda>v. v) 0;
     cs_check_rd ev 81 ''rd(CSR_MIE)'' tb_MIE (\<lambda>v. v) 0;
     cs_check_rd ev 82 ''rd(CSR_MIP)'' tb_MIP (\<lambda>v. v) 0;
     cs_check_port 83 ''d.priv_m_out'' (vbool \<circ> cs_priv_m_out) 1 }"

definition csr_test_2 :: "(Vcsr \<Rightarrow> Vcsr) \<Rightarrow> (Vcsr tb, unit) state" where
  "csr_test_2 ev = do {
     tb_begin ''2. csrrw -- write then read back'';
     _ \<leftarrow> cs_access ev tb_MSCRATCH cs_OP_RW 0xDEADBEEF True True;
     cs_check_rd ev 87 ''rd(CSR_MSCRATCH)'' tb_MSCRATCH (\<lambda>v. v) 0xDEADBEEF;
     _ \<leftarrow> cs_access ev tb_MTVEC cs_OP_RW 0x80000100 True True;
     cs_check_rd ev 89 ''rd(CSR_MTVEC)'' tb_MTVEC (\<lambda>v. v) 0x80000100 }"

definition csr_test_3 :: "(Vcsr \<Rightarrow> Vcsr) \<Rightarrow> (Vcsr tb, unit) state" where
  "csr_test_3 ev = do {
     tb_begin ''3. csrrw returns the OLD value'';
     old \<leftarrow> cs_access ev tb_MSCRATCH cs_OP_RW 0x11112222 True True;
     cs_check 96 ''old'' (ucast old) 0xDEADBEEF;
     cs_check_rd ev 97 ''rd(CSR_MSCRATCH)'' tb_MSCRATCH (\<lambda>v. v) 0x11112222 }"

definition csr_test_4 :: "(Vcsr \<Rightarrow> Vcsr) \<Rightarrow> (Vcsr tb, unit) state" where
  "csr_test_4 ev = do {
     tb_begin ''4. csrrs sets bits, csrrc clears them'';
     _ \<leftarrow> cs_access ev tb_MSCRATCH cs_OP_RW 0x0000FFFF True True;
     _ \<leftarrow> cs_access ev tb_MSCRATCH cs_OP_RS 0x00FF0000 True True;
     cs_check_rd ev 102 ''rd(CSR_MSCRATCH)'' tb_MSCRATCH (\<lambda>v. v) 0x00FFFFFF;
     _ \<leftarrow> cs_access ev tb_MSCRATCH cs_OP_RC 0x000000FF True True;
     cs_check_rd ev 104 ''rd(CSR_MSCRATCH)'' tb_MSCRATCH (\<lambda>v. v) 0x00FFFF00;
     old \<leftarrow> cs_access ev tb_MSCRATCH cs_OP_RS 0xFF000000 True True;
     cs_check 107 ''old'' (ucast old) 0x00FFFF00;
     cs_check_rd ev 108 ''rd(CSR_MSCRATCH)'' tb_MSCRATCH (\<lambda>v. v) 0xFFFFFF00 }"

definition csr_test_5 :: "(Vcsr \<Rightarrow> Vcsr) \<Rightarrow> (Vcsr tb, unit) state" where
  "csr_test_5 ev = do {
     tb_begin ''5. csr_we low means no write'';
     _ \<leftarrow> cs_access ev tb_MSCRATCH cs_OP_RW 0x55555555 True True;
     poke (\<lambda>d. d\<lparr>cs_csr_addr := ucast tb_MSCRATCH, cs_csr_op := ucast cs_OP_RW, cs_csr_wdata := 0xAAAAAAAA\<rparr>);
     poke (\<lambda>d. d\<lparr>cs_csr_re := True, cs_csr_we := False\<rparr>);
     tb_tick ev;
     poke (\<lambda>d. d\<lparr>cs_csr_re := False\<rparr>);
     cs_check_rd ev 116 ''rd(CSR_MSCRATCH)'' tb_MSCRATCH (\<lambda>v. v) 0x55555555 }"

definition csr_test_6 :: "(Vcsr \<Rightarrow> Vcsr) \<Rightarrow> (Vcsr tb, unit) state" where
  "csr_test_6 ev = do {
     tb_begin ''6. mhartid reads zero and ignores writes'';
     cs_check_rd ev 119 ''rd(CSR_MHARTID)'' tb_MHARTID (\<lambda>v. v) 0;
     _ \<leftarrow> cs_access ev tb_MHARTID cs_OP_RW 0xFFFFFFFF True True;
     cs_check_rd ev 121 ''rd(CSR_MHARTID)'' tb_MHARTID (\<lambda>v. v) 0;
     cs_check_illegal ev 123 ''illegal(CSR_MHARTID, OP_RW, true, true)'' tb_MHARTID cs_OP_RW True True False }"

definition csr_test_7 :: "(Vcsr \<Rightarrow> Vcsr) \<Rightarrow> (Vcsr tb, unit) state" where
  "csr_test_7 ev = do {
     tb_begin ''7. recognised-but-ignored CSRs accept writes, read zero'';
     each (\<lambda>a. do {
       cs_check_illegal ev 133 ''illegal(a, OP_RW, true, true)'' a cs_OP_RW True True False;
       _ \<leftarrow> cs_access ev a cs_OP_RW 0xFFFFFFFF True True;
       cs_check_rd ev 135 ''rd(a)'' a (\<lambda>v. v) 0 })
       [tb_MISA, tb_MEDELEG, tb_MIDELEG, tb_MTVAL, tb_SATP, tb_PMPCFG0, tb_PMPADDR0] }"

definition csr_test_8 :: "(Vcsr \<Rightarrow> Vcsr) \<Rightarrow> (Vcsr tb, unit) state" where
  "csr_test_8 ev = do {
     tb_begin ''8. unimplemented CSRs raise illegal'';
     cs_check_illegal ev 141 ''illegal(CSR_MNSTATUS, OP_RW, true, true)'' tb_MNSTATUS cs_OP_RW True True True;
     cs_check_illegal ev 142 ''illegal(CSR_BOGUS,    OP_RW, true, true)'' tb_BOGUS cs_OP_RW True True True;
     cs_check_illegal ev 143 ''illegal(CSR_BOGUS,    OP_RS, true, false)'' tb_BOGUS cs_OP_RS True False True }"

definition csr_test_9 :: "(Vcsr \<Rightarrow> Vcsr) \<Rightarrow> (Vcsr tb, unit) state" where
  "csr_test_9 ev = do {
     tb_begin ''9. illegal only fires on a real access'';
     cs_check_illegal ev 148 ''illegal(CSR_BOGUS, OP_NONE, false, false)'' tb_BOGUS cs_OP_NONE False False False;
     cs_check_illegal ev 149 ''illegal(0x7FF,     OP_NONE, false, false)'' 0x7FF cs_OP_NONE False False False }"

definition csr_test_10 :: "(Vcsr \<Rightarrow> Vcsr) \<Rightarrow> (Vcsr tb, unit) state" where
  "csr_test_10 ev = do {
     tb_begin ''10. trap entry writes mepc and mcause'';
     _ \<leftarrow> cs_access ev tb_MEPC cs_OP_RW 0 True True;
     _ \<leftarrow> cs_access ev tb_MCAUSE cs_OP_RW 0 True True;
     poke (\<lambda>d. d\<lparr>cs_trap := True, cs_trap_pc := 0x80000234, cs_trap_cause := 2\<rparr>);
     tb_tick ev;
     poke (\<lambda>d. d\<lparr>cs_trap := False\<rparr>);
     cs_check_rd ev 157 ''rd(CSR_MEPC)'' tb_MEPC (\<lambda>v. v) 0x80000234;
     cs_check_rd ev 158 ''rd(CSR_MCAUSE)'' tb_MCAUSE (\<lambda>v. v) 2 }"

definition csr_test_11 :: "(Vcsr \<Rightarrow> Vcsr) \<Rightarrow> (Vcsr tb, unit) state" where
  "csr_test_11 ev = do {
     tb_begin ''11. trap entry outranks an instruction write'';
     _ \<leftarrow> cs_access ev tb_MEPC cs_OP_RW 0xAAAAAAAA True True;
     poke (\<lambda>d. d\<lparr>cs_csr_addr := ucast tb_MEPC, cs_csr_op := ucast cs_OP_RW, cs_csr_wdata := 0xBBBBBBBB\<rparr>);
     poke (\<lambda>d. d\<lparr>cs_csr_re := True, cs_csr_we := True\<rparr>);
     poke (\<lambda>d. d\<lparr>cs_trap := True, cs_trap_pc := 0x80000500, cs_trap_cause := 11\<rparr>);
     tb_tick ev;
     poke (\<lambda>d. d\<lparr>cs_trap := False, cs_csr_re := False, cs_csr_we := False, cs_csr_op := ucast cs_OP_NONE\<rparr>);
     cs_check_rd ev 168 ''rd(CSR_MEPC)'' tb_MEPC (\<lambda>v. v) 0x80000500;
     cs_check_rd ev 169 ''rd(CSR_MCAUSE)'' tb_MCAUSE (\<lambda>v. v) 11 }"

definition csr_test_12 :: "(Vcsr \<Rightarrow> Vcsr) \<Rightarrow> (Vcsr tb, unit) state" where
  "csr_test_12 ev = do {
     tb_begin ''12. mtvec_out and mepc_out track their registers'';
     _ \<leftarrow> cs_access ev tb_MTVEC cs_OP_RW 0x80001000 True True;
     _ \<leftarrow> cs_access ev tb_MEPC cs_OP_RW 0x80002000 True True;
     tb_settle ev;
     cs_check_port 175 ''d.mtvec_out'' (ucast \<circ> cs_mtvec_out) 0x80001000;
     cs_check_port 176 ''d.mepc_out'' (ucast \<circ> cs_mepc_out) 0x80002000 }"

definition csr_test_13 :: "(Vcsr \<Rightarrow> Vcsr) \<Rightarrow> (Vcsr tb, unit) state" where
  "csr_test_13 ev = do {
     tb_begin ''13. mie: only bit 7 (MTIE) is real, rest read zero'';
     _ \<leftarrow> cs_access ev tb_MIE cs_OP_RW 0xFFFFFFFF True True;
     cs_check_rd ev 180 ''rd(CSR_MIE)'' tb_MIE (\<lambda>v. v) 0x00000080;
     _ \<leftarrow> cs_access ev tb_MIE cs_OP_RW 0x00000000 True True;
     cs_check_rd ev 182 ''rd(CSR_MIE)'' tb_MIE (\<lambda>v. v) 0x00000000;
     cs_check_illegal ev 183 ''illegal(CSR_MIE, OP_RW, true, true)'' tb_MIE cs_OP_RW True True False }"

definition csr_test_14 :: "(Vcsr \<Rightarrow> Vcsr) \<Rightarrow> (Vcsr tb, unit) state" where
  "csr_test_14 ev = do {
     tb_begin ''14. mip: bit 7 mirrors timer_irq live, writes are dropped'';
     cs_check_rd ev 186 ''rd(CSR_MIP)'' tb_MIP (\<lambda>v. v) 0x00000000;
     poke (\<lambda>d. d\<lparr>cs_timer_irq := True\<rparr>);
     cs_check_rd ev 188 ''rd(CSR_MIP)'' tb_MIP (\<lambda>v. v) 0x00000080;
     _ \<leftarrow> cs_access ev tb_MIP cs_OP_RW 0x00000000 True True;
     cs_check_rd ev 190 ''rd(CSR_MIP)'' tb_MIP (\<lambda>v. v) 0x00000080;
     poke (\<lambda>d. d\<lparr>cs_timer_irq := False\<rparr>);
     cs_check_rd ev 192 ''rd(CSR_MIP)'' tb_MIP (\<lambda>v. v) 0x00000000;
     cs_check_illegal ev 193 ''illegal(CSR_MIP, OP_RW, true, true)'' tb_MIP cs_OP_RW True True False }"

definition csr_test_14b :: "(Vcsr \<Rightarrow> Vcsr) \<Rightarrow> (Vcsr tb, unit) state" where
  "csr_test_14b ev = do {
     tb_begin ''14b. interrupt_pending needs mstatus.MIE, mie.MTIE, and mip.MTIP together'';
     _ \<leftarrow> cs_access ev tb_MSTATUS cs_OP_RW 0 True True;
     _ \<leftarrow> cs_access ev tb_MIE cs_OP_RW 0 True True;
     poke (\<lambda>d. d\<lparr>cs_timer_irq := False\<rparr>);
     tb_settle ev;
     cs_check_port 200 ''d.interrupt_pending'' (vbool \<circ> cs_interrupt_pending) 0;
     _ \<leftarrow> cs_access ev tb_MIE cs_OP_RW (push_bit 7 1) True True;
     poke (\<lambda>d. d\<lparr>cs_timer_irq := True\<rparr>);
     tb_settle ev;
     cs_check_port 204 ''d.interrupt_pending'' (vbool \<circ> cs_interrupt_pending) 0;
     _ \<leftarrow> cs_access ev tb_MSTATUS cs_OP_RS (push_bit 3 1) True True;
     tb_settle ev;
     cs_check_port 207 ''d.interrupt_pending'' (vbool \<circ> cs_interrupt_pending) 1;
     poke (\<lambda>d. d\<lparr>cs_timer_irq := False\<rparr>);
     tb_settle ev;
     cs_check_port 210 ''d.interrupt_pending'' (vbool \<circ> cs_interrupt_pending) 0 }"

definition csr_test_15 :: "(Vcsr \<Rightarrow> Vcsr) \<Rightarrow> (Vcsr tb, unit) state" where
  "csr_test_15 ev = do {
     tb_begin ''15. mstatus: only MIE(3)/MPIE(7)/MPP(12:11) are real'';
     _ \<leftarrow> cs_access ev tb_MSTATUS cs_OP_RW 0xFFFFFFFF True True;
     cs_check_rd ev 214 ''rd(CSR_MSTATUS)'' tb_MSTATUS (\<lambda>v. v) (push_bit 11 0x3 OR push_bit 7 1 OR push_bit 3 1);
     _ \<leftarrow> cs_access ev tb_MSTATUS cs_OP_RW 0x00000000 True True;
     cs_check_rd ev 216 ''rd(CSR_MSTATUS)'' tb_MSTATUS (\<lambda>v. v) 0;
     _ \<leftarrow> cs_access ev tb_MSTATUS cs_OP_RW (push_bit 3 1) True True;
     cs_check_rd ev 218 ''rd(CSR_MSTATUS)'' tb_MSTATUS (\<lambda>v. v) (push_bit 3 1);
     _ \<leftarrow> cs_access ev tb_MSTATUS cs_OP_RS (push_bit 7 1) True True;
     cs_check_rd ev 220 ''rd(CSR_MSTATUS)'' tb_MSTATUS (\<lambda>v. v) (push_bit 3 1 OR push_bit 7 1) }"

definition csr_test_16 :: "(Vcsr \<Rightarrow> Vcsr) \<Rightarrow> (Vcsr tb, unit) state" where
  "csr_test_16 ev = do {
     tb_begin ''16. trap entry: MIE->MPIE, MIE<-0, MPP<-priv, priv<-M'';
     _ \<leftarrow> cs_access ev tb_MSTATUS cs_OP_RW 0 True True;
     _ \<leftarrow> cs_access ev tb_MSTATUS cs_OP_RS (push_bit 3 1) True True;
     cs_check_port 232 ''d.priv_m_out'' (vbool \<circ> cs_priv_m_out) 1;
     cs_do_trap ev 0x80000010 7;
     cs_check_rd ev 234 ''rd(CSR_MSTATUS) & (1u << 7)'' tb_MSTATUS (\<lambda>v. v AND push_bit 7 1) (push_bit 7 1);
     cs_check_rd ev 235 ''rd(CSR_MSTATUS) & (1u << 3)'' tb_MSTATUS (\<lambda>v. v AND push_bit 3 1) 0;
     cs_check_rd ev 236 ''(rd(CSR_MSTATUS) >> 11) & 0x3'' tb_MSTATUS (\<lambda>v. drop_bit 11 v AND 0x3) 0x3;
     cs_check_port 237 ''d.priv_m_out'' (vbool \<circ> cs_priv_m_out) 1 }"

definition csr_test_17 :: "(Vcsr \<Rightarrow> Vcsr) \<Rightarrow> (Vcsr tb, unit) state" where
  "csr_test_17 ev = do {
     tb_begin ''17. mret: MIE<-MPIE, MPIE<-1, MPP<-U, priv<-MPP'';
     cs_mret ev;
     cs_check_rd ev 241 ''rd(CSR_MSTATUS) & (1u << 3)'' tb_MSTATUS (\<lambda>v. v AND push_bit 3 1) (push_bit 3 1);
     cs_check_rd ev 242 ''rd(CSR_MSTATUS) & (1u << 7)'' tb_MSTATUS (\<lambda>v. v AND push_bit 7 1) (push_bit 7 1);
     cs_check_rd ev 243 ''(rd(CSR_MSTATUS) >> 11) & 0x3'' tb_MSTATUS (\<lambda>v. drop_bit 11 v AND 0x3) 0x0;
     cs_check_port 244 ''d.priv_m_out'' (vbool \<circ> cs_priv_m_out) 1 }"

definition csr_test_18 :: "(Vcsr \<Rightarrow> Vcsr) \<Rightarrow> (Vcsr tb, unit) state" where
  "csr_test_18 ev = do {
     tb_begin ''18. dropping to U-mode via MPP, trap records the pre-trap mode'';
     _ \<leftarrow> cs_access ev tb_MSTATUS cs_OP_RC (push_bit 11 0x3) True True;
     cs_mret ev;
     cs_check_port 249 ''d.priv_m_out'' (vbool \<circ> cs_priv_m_out) 0;
     cs_do_trap ev 0x80000020 8;
     cs_check_port 251 ''d.priv_m_out'' (vbool \<circ> cs_priv_m_out) 1;
     cs_check_rd ev 252 ''(rd(CSR_MSTATUS) >> 11) & 0x3'' tb_MSTATUS (\<lambda>v. drop_bit 11 v AND 0x3) 0x0 }"

definition csr_test_19 :: "(Vcsr \<Rightarrow> Vcsr) \<Rightarrow> (Vcsr tb, unit) state" where
  "csr_test_19 ev = do {
     tb_begin ''19. bus_stall holds mret's effect -- it fires exactly once'';
     _ \<leftarrow> cs_access ev tb_MSTATUS cs_OP_RW (push_bit 3 1 OR push_bit 11 0x3) True True;
     cs_check_port 259 ''d.priv_m_out'' (vbool \<circ> cs_priv_m_out) 1;
     poke (\<lambda>d. d\<lparr>cs_is_mret := True\<rparr>);
     poke (\<lambda>d. d\<lparr>cs_bus_stall := True\<rparr>);
     _ \<leftarrow> for_range 0 5 (\<lambda>i u. tb_tick ev) ();
     poke (\<lambda>d. d\<lparr>cs_bus_stall := False\<rparr>);
     tb_tick ev;
     poke (\<lambda>d. d\<lparr>cs_is_mret := False\<rparr>);
     cs_check_rd ev 266 ''rd(CSR_MSTATUS) & (1u << 3)'' tb_MSTATUS (\<lambda>v. v AND push_bit 3 1) 0;
     cs_check_rd ev 267 ''rd(CSR_MSTATUS) & (1u << 7)'' tb_MSTATUS (\<lambda>v. v AND push_bit 7 1) (push_bit 7 1);
     cs_check_rd ev 268 ''(rd(CSR_MSTATUS) >> 11) & 0x3'' tb_MSTATUS (\<lambda>v. drop_bit 11 v AND 0x3) 0x0;
     cs_check_port 269 ''d.priv_m_out'' (vbool \<circ> cs_priv_m_out) 1 }"

section \<open>tb_csr.cpp: the random section\<close>

definition csr_rw :: "u32 list" where [tb_data]:
  "csr_rw = [tb_MTVEC, tb_MSCRATCH, tb_MEPC, tb_MCAUSE]"

definition csr_resync :: "(Vcsr \<Rightarrow> Vcsr) \<Rightarrow> int \<Rightarrow> u32 list \<Rightarrow> (Vcsr tb, u32 list) state" where
  "csr_resync ev i model = do {
     v \<leftarrow> cs_rd ev (csr_rw ! nat i);
     State_Monad.return (model[nat i := v]) }"

definition csr_random :: "(Vcsr \<Rightarrow> Vcsr) \<Rightarrow> int \<Rightarrow> u32 list \<Rightarrow> (Vcsr tb, u32 list) state" where
  "csr_random ev i model = do {
     k \<leftarrow> tb_rnd_in 0 3;
     v \<leftarrow> tb_rnd;
     z \<leftarrow> tb_rnd_in 0 2;
     let op = cs_OP_RW + z;
     got_old \<leftarrow> cs_access ev (csr_rw ! unat k) op v True True;
     cs_check 284 ''got_old'' (ucast got_old) (ucast (model ! unat k));
     let model' =
       (if op = cs_OP_RW then model[unat k := v]
        else if op = cs_OP_RS then model[unat k := model ! unat k OR v]
        else if op = cs_OP_RC then model[unat k := model ! unat k AND NOT v]
        else model);
     cs_check_rd ev 291 ''rd(rw[k])'' (csr_rw ! unat k) (\<lambda>v. v) (model' ! unat k);
     State_Monad.return model' }"

definition csr_directed :: "(Vcsr \<Rightarrow> Vcsr) \<Rightarrow> (Vcsr tb, unit) state" where
  "csr_directed ev = do {
     csr_test_1 ev; csr_test_2 ev; csr_test_3 ev; csr_test_4 ev; csr_test_5 ev; csr_test_6 ev;
     csr_test_7 ev; csr_test_8 ev; csr_test_9 ev; csr_test_10 ev; csr_test_11 ev; csr_test_12 ev;
     csr_test_13 ev; csr_test_14 ev; csr_test_14b ev; csr_test_15 ev; csr_test_16 ev;
     csr_test_17 ev; csr_test_18 ev; csr_test_19 ev }"

definition csr_body :: "(Vcsr \<Rightarrow> Vcsr) \<Rightarrow> (Vcsr tb, unit) state" where
  "csr_body ev = do {
     csr_start ev;
     csr_directed ev;
     tb_begin ''20. random read/write against a shadow model'';
     model \<leftarrow> for_range 0 4 (csr_resync ev) [0, 0, 0, 0];
     _ \<leftarrow> for_range 0 5000 (csr_random ev) model;
     State_Monad.return () }"

definition csr_main :: "(Vcsr \<Rightarrow> Vcsr) \<Rightarrow> string list \<Rightarrow> Vcsr \<Rightarrow> int \<times> Vcsr tb" where
  "csr_main ev argv d = tb_run (csr_body ev) ''csr'' argv d"

section \<open>The directed sections on the RTL\<close>

text \<open>
  The state between sections: the handshake inputs at rest and the registers \<open>r\<close>, whose
  privilege mode the outputs show.
\<close>

definition csr_rest :: "Vcsr \<Rightarrow> bool" where
  "csr_rest d \<longleftrightarrow> \<not> v_clk d \<and> cs_rst_n d \<and> \<not> cs_bus_stall d \<and> \<not> cs_trap d \<and> \<not> cs_is_mret d
     \<and> \<not> cs_csr_we d \<and> \<not> cs_timer_irq d \<and> priv_m (cs_r d) \<and> cs_priv_m_out d"

lemmas csr_exec = tb_wp wp_check csr.wp_settle csr.wp_tick Vcsr_eval_def cs_rd_def cs_access_def
  cs_illegal_def cs_mret_def cs_do_trap_def cs_check_def cs_check_port_def cs_check_rd_def
  cs_check_illegal_def vposedge_def veval_def csr_seq_def csr_comb_def csr_next_def
  csr_do_write_def csr_port_def csr_read_def csr_new_def csr_trap_def csr_mret_def csr_write_def
  csr_reset_def csr_ignored_def mstatus_rdata_def mie_rdata_def mip_rdata_def tb_data
  csr_rest_def

lemma minus_1_2bit: "(- 1 :: 2 word) = 3"
  by simp

lemmas csr_calls = cs_rd_def cs_access_def cs_illegal_def cs_mret_def cs_do_trap_def cs_check_def
  cs_check_port_def cs_check_rd_def cs_check_illegal_def

lemma csr_start_ok:
  "tb_ok (\<lambda>d k m. k = 0) (do { csr_start Vcsr_eval; csr_test_1 Vcsr_eval }) (\<lambda>_ d k m. csr_rest d \<and> k = 8)"
  by (rule tb_okI) (simp add: csr_exec csr_start_def csr_test_1_def word_cat_eq)

lemma csr_pass_2_3: "tb_pass (\<lambda>d _. csr_rest d) (do { csr_test_2 Vcsr_eval; csr_test_3 Vcsr_eval }) 4"
  unfolding csr_test_2_def csr_test_3_def csr_calls Vcsr_eval_def
  by (rule tb_passI) (simp add: csr_exec word_cat_eq vbits_def cong: wp_cong)

lemma csr_pass_4: "tb_pass (\<lambda>d _. csr_rest d) (csr_test_4 Vcsr_eval) 4"
  unfolding csr_test_4_def csr_calls Vcsr_eval_def
  by (rule tb_passI) (simp add: csr_exec word_cat_eq vbits_def cong: wp_cong)

lemma csr_pass_5: "tb_pass (\<lambda>d _. csr_rest d) (csr_test_5 Vcsr_eval) 1"
  unfolding csr_test_5_def csr_calls Vcsr_eval_def
  by (rule tb_passI) (simp add: csr_exec word_cat_eq vbits_def cong: wp_cong)

lemma csr_pass_6: "tb_pass (\<lambda>d _. csr_rest d) (csr_test_6 Vcsr_eval) 3"
  unfolding csr_test_6_def csr_calls Vcsr_eval_def
  by (rule tb_passI) (simp add: csr_exec word_cat_eq vbits_def cong: wp_cong)

lemma csr_pass_7: "tb_pass (\<lambda>d _. csr_rest d) (csr_test_7 Vcsr_eval) 14"
  unfolding csr_test_7_def each.simps csr_calls Vcsr_eval_def
  by (rule tb_passI) (simp add: csr_exec word_cat_eq vbits_def cong: wp_cong)

lemma csr_pass_8: "tb_pass (\<lambda>d _. csr_rest d) (csr_test_8 Vcsr_eval) 3"
  unfolding csr_test_8_def csr_calls Vcsr_eval_def
  by (rule tb_passI) (simp add: csr_exec word_cat_eq vbits_def cong: wp_cong)

lemma csr_pass_9: "tb_pass (\<lambda>d _. csr_rest d) (csr_test_9 Vcsr_eval) 2"
  unfolding csr_test_9_def csr_calls Vcsr_eval_def
  by (rule tb_passI) (simp add: csr_exec word_cat_eq vbits_def cong: wp_cong)

lemma csr_pass_10: "tb_pass (\<lambda>d _. csr_rest d) (csr_test_10 Vcsr_eval) 2"
  unfolding csr_test_10_def csr_calls Vcsr_eval_def
  by (rule tb_passI) (simp add: csr_exec word_cat_eq vbits_def cong: wp_cong)

lemma csr_pass_11: "tb_pass (\<lambda>d _. csr_rest d) (csr_test_11 Vcsr_eval) 2"
  unfolding csr_test_11_def csr_calls Vcsr_eval_def
  by (rule tb_passI) (simp add: csr_exec word_cat_eq vbits_def cong: wp_cong)

lemma csr_pass_12: "tb_pass (\<lambda>d _. csr_rest d) (csr_test_12 Vcsr_eval) 2"
  unfolding csr_test_12_def csr_calls Vcsr_eval_def
  by (rule tb_passI) (simp add: csr_exec word_cat_eq vbits_def cong: wp_cong)

lemma csr_pass_13: "tb_pass (\<lambda>d _. csr_rest d) (csr_test_13 Vcsr_eval) 3"
  unfolding csr_test_13_def csr_calls Vcsr_eval_def
  by (rule tb_passI) (simp add: csr_exec word_cat_eq vbits_def cong: wp_cong)

lemma csr_pass_14: "tb_pass (\<lambda>d _. csr_rest d) (csr_test_14 Vcsr_eval) 5"
  unfolding csr_test_14_def csr_calls Vcsr_eval_def
  by (rule tb_passI) (simp add: csr_exec word_cat_eq vbits_def cong: wp_cong)

lemma csr_pass_14b: "tb_pass (\<lambda>d _. csr_rest d) (csr_test_14b Vcsr_eval) 4"
  unfolding csr_test_14b_def csr_calls Vcsr_eval_def
  by (rule tb_passI) (simp add: csr_exec word_cat_eq vbits_def cong: wp_cong)

lemma csr_pass_15: "tb_pass (\<lambda>d _. csr_rest d) (csr_test_15 Vcsr_eval) 4"
  unfolding csr_test_15_def csr_calls Vcsr_eval_def
  by (rule tb_passI) (simp add: csr_exec word_cat_eq vbits_def cong: wp_cong)

text \<open>Sections 16 to 18 hand the state of \<open>mstatus\<close> on.\<close>

definition csr_rest_with :: "bool \<Rightarrow> bool \<Rightarrow> 2 word \<Rightarrow> Vcsr \<Rightarrow> bool" where
  "csr_rest_with mie mpie mpp d \<longleftrightarrow> csr_rest d \<and> mstatus_mie (cs_r d) = mie
     \<and> mstatus_mpie (cs_r d) = mpie \<and> mstatus_mpp (cs_r d) = mpp"

lemma csr_ok_16:
  "tb_ok (\<lambda>d k m. csr_rest d \<and> k = c) (csr_test_16 Vcsr_eval)
     (\<lambda>_ d k m. csr_rest_with False True 3 d \<and> k = c + 5)"
  unfolding csr_test_16_def csr_calls Vcsr_eval_def
  by (rule tb_okI) (simp add: csr_exec csr_rest_with_def minus_1_2bit word_cat_eq vbits_def cong: wp_cong)

lemma csr_ok_17:
  "tb_ok (\<lambda>d k m. csr_rest_with False True 3 d \<and> k = c) (csr_test_17 Vcsr_eval)
     (\<lambda>_ d k m. csr_rest_with True True 0 d \<and> k = c + 4)"
  unfolding csr_test_17_def csr_calls Vcsr_eval_def
  by (rule tb_okI) (simp add: csr_exec csr_rest_with_def minus_1_2bit word_cat_eq vbits_def cong: wp_cong)

lemma csr_ok_18:
  "tb_ok (\<lambda>d k m. csr_rest_with True True 0 d \<and> k = c) (csr_test_18 Vcsr_eval)
     (\<lambda>_ d k m. csr_rest d \<and> k = c + 3)"
  unfolding csr_test_18_def csr_calls Vcsr_eval_def
  by (rule tb_okI) (simp add: csr_exec csr_rest_with_def minus_1_2bit word_cat_eq vbits_def cong: wp_cong)

lemma csr_pass_16_18:
  "tb_pass (\<lambda>d _. csr_rest d) (do { csr_test_16 Vcsr_eval; csr_test_17 Vcsr_eval; csr_test_18 Vcsr_eval }) 12"
  unfolding tb_pass_def
  using tb_ok_bind [OF csr_ok_16 tb_ok_bind [OF csr_ok_17 csr_ok_18]] by (simp add: add.assoc)

lemma csr_pass_19: "tb_pass (\<lambda>d _. csr_rest d) (csr_test_19 Vcsr_eval) 5"
  unfolding csr_test_19_def csr_calls Vcsr_eval_def
  by (rule tb_passI) (simp add: csr_exec word_cat_eq vbits_def cong: wp_cong)

lemma csr_directed_pass: "tb_pass (\<lambda>d _. csr_rest d) (do {
     csr_test_2 Vcsr_eval; csr_test_3 Vcsr_eval; csr_test_4 Vcsr_eval; csr_test_5 Vcsr_eval;
     csr_test_6 Vcsr_eval; csr_test_7 Vcsr_eval; csr_test_8 Vcsr_eval; csr_test_9 Vcsr_eval;
     csr_test_10 Vcsr_eval; csr_test_11 Vcsr_eval; csr_test_12 Vcsr_eval; csr_test_13 Vcsr_eval;
     csr_test_14 Vcsr_eval; csr_test_14b Vcsr_eval; csr_test_15 Vcsr_eval; csr_test_16 Vcsr_eval;
     csr_test_17 Vcsr_eval; csr_test_18 Vcsr_eval; csr_test_19 Vcsr_eval }) 70"
proof -
  have "tb_pass (\<lambda>d _. csr_rest d) (do {
     (do { csr_test_2 Vcsr_eval; csr_test_3 Vcsr_eval }); csr_test_4 Vcsr_eval; csr_test_5 Vcsr_eval;
     csr_test_6 Vcsr_eval; csr_test_7 Vcsr_eval; csr_test_8 Vcsr_eval; csr_test_9 Vcsr_eval;
     csr_test_10 Vcsr_eval; csr_test_11 Vcsr_eval; csr_test_12 Vcsr_eval; csr_test_13 Vcsr_eval;
     csr_test_14 Vcsr_eval; csr_test_14b Vcsr_eval; csr_test_15 Vcsr_eval;
     (do { csr_test_16 Vcsr_eval; csr_test_17 Vcsr_eval; csr_test_18 Vcsr_eval }); csr_test_19 Vcsr_eval })
     (4 + (4 + (1 + (3 + (14 + (3 + (2 + (2 + (2 + (2 + (3 + (5 + (4 + (4 + (12 + 5)))))))))))))))"
    by (intro tb_pass_bind csr_pass_2_3 csr_pass_4 csr_pass_5 csr_pass_6 csr_pass_7 csr_pass_8
        csr_pass_9 csr_pass_10 csr_pass_11 csr_pass_12 csr_pass_13 csr_pass_14 csr_pass_14b
        csr_pass_15 csr_pass_16_18 csr_pass_19)
  then show ?thesis by simp
qed

section \<open>The random section on the RTL\<close>

definition csr_at :: "csr_regs \<Rightarrow> int \<Rightarrow> Vcsr \<Rightarrow> int \<Rightarrow> unit \<Rightarrow> bool" where
  "csr_at r c d k m \<longleftrightarrow> csr_rest d \<and> cs_r d = r \<and> k = c"

text \<open>The four full-width registers, in the order of \<open>rw\<close>.\<close>

definition csr_plain :: "csr_regs \<Rightarrow> u32 list" where
  "csr_plain r = [mtvec r, mscratch r, mepc r, mcause r]"

lemma nat_less_4: "i < 4 \<Longrightarrow> i = 0 \<or> i = 1 \<or> i = 2 \<or> i = (3 :: nat)"
  by auto

lemma csr_plain_read:
  assumes "i < 4"
  shows "csr_read r irq (ucast (csr_rw ! i)) re we = (csr_plain r ! i, False)"
    "ucast (csr_rw ! i) \<noteq> CSR_MHARTID"
  using nat_less_4 [OF assms] by (auto simp: csr_read_def csr_plain_def tb_data)

lemma csr_plain_write:
  assumes "i < 4"
  shows "csr_plain (csr_write (ucast (csr_rw ! i)) v r) = (csr_plain r)[i := v]"
    "priv_m (csr_write (ucast (csr_rw ! i)) v r) = priv_m r"
  using nat_less_4 [OF assms] by (auto simp: csr_write_def csr_plain_def tb_data)

lemma cs_rd_ok:
  assumes "i < 4"
  shows "tb_ok (csr_at r c) (cs_rd Vcsr_eval (csr_rw ! i))
     (\<lambda>x d k m. csr_at r c d k m \<and> x = csr_plain r ! i)"
  by (rule tb_okI) (auto simp: cs_rd_def tb_wp csr.wp_settle Vcsr_eval_def csr_at_def csr_rest_def
      veval_def csr_comb_def csr_port_def csr_plain_read [OF assms])

lemma cs_access_ok:
  assumes "i < 4"
  shows "tb_ok (csr_at r c) (cs_access Vcsr_eval (csr_rw ! i) op v True True)
     (\<lambda>x d k m. csr_at (csr_write (ucast (csr_rw ! i)) (csr_new (ucast op) (csr_plain r ! i) v) r) c d k m
        \<and> x = csr_plain r ! i)"
  by (rule tb_okI) (auto simp: cs_access_def tb_wp csr.wp_settle csr.wp_tick Vcsr_eval_def csr_at_def
      csr_rest_def veval_def vposedge_def csr_comb_def csr_seq_def csr_port_def csr_next_def
      csr_do_write_def csr_plain_read [OF assms] csr_plain_write [OF assms])

lemma csr_resync_ok:
  assumes "0 \<le> i" "i < 4"
  shows "tb_ok (\<lambda>d k m. csr_at r c d k m \<and> length model = 4 \<and> take (nat i) model = take (nat i) (csr_plain r))
     (csr_resync Vcsr_eval i model)
     (\<lambda>model' d k m. csr_at r c d k m \<and> length model' = 4
        \<and> take (nat (i + 1)) model' = take (nat (i + 1)) (csr_plain r))"
proof (rule tb_okI)
  fix d m and k f :: int and h :: tb_aux
  assume pre: "csr_at r c d k m \<and> length model = 4 \<and> take (nat i) model = take (nat i) (csr_plain r)"
  have i: "nat i < 4" "nat (i + 1) = Suc (nat i)" using assms by auto
  have len: "length (csr_plain r) = 4" by (simp add: csr_plain_def)
  show "wp (csr_resync Vcsr_eval i model) (\<lambda>x s. (csr_at r c (tb_dut s) (tb_checks s) (tb.more s)
      \<and> length x = 4 \<and> take (nat (i + 1)) x = take (nat (i + 1)) (csr_plain r)) \<and> tb_fails s = f) d k f h m"
    unfolding csr_resync_def
    apply (rule wp_bind_ok [OF cs_rd_ok [OF i(1)]], rule pre [THEN conjunct1])
    using pre i len by (simp add: wp_return take_Suc_conv_app_nth)
qed

lemma csr_random_ok:
  "tb_ok (\<lambda>d k m. \<exists>r. csr_at r c d k m \<and> model = csr_plain r) (csr_random Vcsr_eval i model)
     (\<lambda>model' d k m. \<exists>r. csr_at r (c + 2) d k m \<and> model' = csr_plain r)"
proof (rule tb_okI)
  fix d m and k f :: int and h :: tb_aux
  assume "\<exists>r. csr_at r c d k m \<and> model = csr_plain r"
  then obtain r where r: "csr_at r c d k m" "model = csr_plain r" by blast
  let ?j = "unat (rnd_scale 0 3 (fst (mt_next (tb_rng h))))"
  let ?h1 = "h\<lparr>tb_rng := snd (mt_next (tb_rng h))\<rparr>"
  let ?v = "fst (mt_next (tb_rng ?h1))"
  let ?z = "rnd_scale 0 2 (fst (mt_next (tb_rng (?h1\<lparr>tb_rng := snd (mt_next (tb_rng ?h1))\<rparr>))))"
  have j: "?j < 4" using rnd_scale_0_less [of 3 "fst (mt_next (tb_rng h))"] by simp
  have "unat ?z \<le> unat (2 :: u32)" by (rule rnd_scale_0_less) simp
  then have "unat ?z = 0 \<or> unat ?z = 1 \<or> unat ?z = 2" by simp linarith
  then have z: "?z = 0 \<or> ?z = 1 \<or> ?z = 2" by (simp add: word_unat_eq_iff)
  show "wp (csr_random Vcsr_eval i model) (\<lambda>x s. (\<exists>r. csr_at r (c + 2) (tb_dut s) (tb_checks s) (tb.more s)
      \<and> x = csr_plain r) \<and> tb_fails s = f) d k f h m"
    unfolding csr_random_def wp_rnd wp_rnd_in Let_def cs_check_rd_def cs_check_def State_Monad.bind_assoc
  proof (rule wp_bind_ok [OF cs_access_ok [OF j]], rule r(1), rule wp_check_pass, simp add: r(2))
    fix x d' m' and k' :: int and h' :: tb_aux
    let ?r' = "csr_write (ucast (csr_rw ! ?j)) (csr_new (ucast (cs_OP_RW + ?z)) (csr_plain r ! ?j) ?v) r"
    let ?model = "if cs_OP_RW + ?z = cs_OP_RW then model[?j := ?v]
      else if cs_OP_RW + ?z = cs_OP_RS then model[?j := model ! ?j OR ?v]
      else if cs_OP_RW + ?z = cs_OP_RC then model[?j := model ! ?j AND NOT ?v] else model"
    assume at: "csr_at ?r' c d' k' m' \<and> x = csr_plain r ! ?j"
    have model: "?model = csr_plain ?r'"
      unfolding csr_plain_write(1) [OF j] r(2) csr_new_def
      using z by (elim disjE) (simp_all add: tb_data)
    show "wp (cs_rd Vcsr_eval (csr_rw ! ?j) \<bind> (\<lambda>v. tb_check ''tb_csr.cpp'' 291 ''rd(rw[k])'' (ucast v)
          (ucast (?model ! ?j)) \<bind> (\<lambda>_. State_Monad.return ?model)))
        (\<lambda>x s. (\<exists>r. csr_at r (c + 2) (tb_dut s) (tb_checks s) (tb.more s) \<and> x = csr_plain r) \<and> tb_fails s = f)
        d' (k' + 1) f h' m'"
      unfolding model
      apply (rule wp_bind_ok [OF cs_rd_ok [OF j, where r = ?r' and c = "c + 1"]])
       apply (use at in \<open>simp add: csr_at_def\<close>)
      apply (rule wp_check_pass, simp)
      by (auto simp: wp_return csr_at_def)
  qed
qed

lemma csr_body_ok: "tb_ok (\<lambda>d k m. k = 0) (csr_body Vcsr_eval) (\<lambda>_ d k m. k = 10078)"
proof -
  let ?ev = Vcsr_eval
  have loop: "tb_ok (\<lambda>d k m. csr_at r 78 d k m \<and> length [0 :: u32, 0, 0, 0] = 4
        \<and> take (nat 0) [0 :: u32, 0, 0, 0] = take (nat 0) (csr_plain r))
      (for_range 0 4 (csr_resync ?ev) [0, 0, 0, 0])
      (\<lambda>model d k m. csr_at r 78 d k m \<and> length model = 4 \<and> take (nat 4) model = take (nat 4) (csr_plain r))" for r
    by (rule tb_ok_for [where I = "\<lambda>i model d k m. csr_at r 78 d k m \<and> length model = 4
          \<and> take (nat i) model = take (nat i) (csr_plain r)"]) (simp, rule csr_resync_ok)
  have A: "tb_ok (\<lambda>d k m. csr_rest d \<and> k = 78) (for_range 0 4 (csr_resync ?ev) [0, 0, 0, 0])
      (\<lambda>model d k m. \<exists>r. csr_at r 78 d k m \<and> model = csr_plain r)"
  proof (rule tb_okI)
    fix d m and k f :: int and h :: tb_aux
    assume "csr_rest d \<and> k = 78"
    then have "csr_at (cs_r d) 78 d k m \<and> length [0 :: u32, 0, 0, 0] = 4
        \<and> take (nat 0) [0 :: u32, 0, 0, 0] = take (nat 0) (csr_plain (cs_r d))"
      by (simp add: csr_at_def)
    from tb_okD [OF loop this] show "wp (for_range 0 4 (csr_resync ?ev) [0, 0, 0, 0])
        (\<lambda>x s. (\<exists>r. csr_at r 78 (tb_dut s) (tb_checks s) (tb.more s) \<and> x = csr_plain r) \<and> tb_fails s = f) d k f h m"
      by (rule wp_mono) (auto simp: csr_plain_def)
  qed
  define I where "I i model d k m = (\<exists>r. csr_at r (78 + 2 * i) d k m \<and> model = csr_plain r)"
    for i model d k m
  have "tb_ok (I i model) (csr_random ?ev i model) (\<lambda>model'. I (i + 1) model')" for i model
    using csr_random_ok [where c = "78 + 2 * i"] by (simp add: I_def [abs_def] algebra_simps)
  then have "tb_ok (I 0 model) (for_range 0 5000 (csr_random ?ev) model) (\<lambda>model'. I 5000 model')" for model
    by (intro tb_ok_for) auto
  then have B: "tb_ok (\<lambda>d k m. \<exists>r. csr_at r 78 d k m \<and> model = csr_plain r)
      (do { _ \<leftarrow> for_range 0 5000 (csr_random ?ev) model; State_Monad.return () })
      (\<lambda>_ d k m. k = 10078)" for model
    unfolding I_def [abs_def]
    by (intro tb_ok_bind [where R = "\<lambda>x d k m. \<exists>r. csr_at r 10078 d k m \<and> x = csr_plain r"])
      (simp, rule tb_ok_return, auto simp: csr_at_def)
  have "tb_pass (\<lambda>d _. csr_rest d) (do { (do {
     csr_test_2 ?ev; csr_test_3 ?ev; csr_test_4 ?ev; csr_test_5 ?ev;
     csr_test_6 ?ev; csr_test_7 ?ev; csr_test_8 ?ev; csr_test_9 ?ev;
     csr_test_10 ?ev; csr_test_11 ?ev; csr_test_12 ?ev; csr_test_13 ?ev;
     csr_test_14 ?ev; csr_test_14b ?ev; csr_test_15 ?ev; csr_test_16 ?ev;
     csr_test_17 ?ev; csr_test_18 ?ev; csr_test_19 ?ev }); tb_begin s }) (70 + 0)" for s
    by (intro tb_pass_bind csr_directed_pass tb_pass_begin)
  from tb_passD [OF this, where k = 8]
  have C: "tb_ok (\<lambda>d k m. csr_rest d \<and> k = 8) (do { (do {
     csr_test_2 ?ev; csr_test_3 ?ev; csr_test_4 ?ev; csr_test_5 ?ev;
     csr_test_6 ?ev; csr_test_7 ?ev; csr_test_8 ?ev; csr_test_9 ?ev;
     csr_test_10 ?ev; csr_test_11 ?ev; csr_test_12 ?ev; csr_test_13 ?ev;
     csr_test_14 ?ev; csr_test_14b ?ev; csr_test_15 ?ev; csr_test_16 ?ev;
     csr_test_17 ?ev; csr_test_18 ?ev; csr_test_19 ?ev }); tb_begin s }) (\<lambda>_ d k m. csr_rest d \<and> k = 78)" for s
    by simp
  from tb_ok_bind [OF csr_start_ok tb_ok_bind [OF C tb_ok_bind [OF A B]]]
  show ?thesis unfolding csr_body_def csr_directed_def by simp
qed

section \<open>Properties\<close>

text \<open>One clock edge of the module.\<close>

abbreviation csr_edge :: "Vcsr \<Rightarrow> Vcsr" where
  "csr_edge \<equiv> vposedge csr_seq csr_comb"

lemma csr_edge_r: "cs_r (csr_edge d) = csr_next d"
  by (simp add: vposedge_def csr_seq_def csr_comb_def)

text \<open>
  C5. Traps nest one deep: an edge with \<open>trap\<close> saves the pc and the cause, disables interrupts
  and enters M-mode whatever instruction access is pending; a following edge with \<open>is_mret\<close>
  restores the interrupt enable and the privilege mode of before, and leaves \<open>mtvec\<close>,
  \<open>mscratch\<close> and \<open>mie\<close> alone.
\<close>

theorem csr_trap_then_mret:
  "let r = cs_r d;
       d1 = csr_edge (d\<lparr>cs_rst_n := True, cs_bus_stall := False, cs_trap := True,
              cs_trap_pc := pc, cs_trap_cause := cause\<rparr>);
       d2 = csr_edge (d1\<lparr>cs_trap := False, cs_is_mret := True\<rparr>)
   in cs_mepc_out d1 = pc \<and> mcause (cs_r d1) = cause \<and> cs_priv_m_out d1
      \<and> \<not> cs_interrupt_pending d1
      \<and> cs_r d2 = r\<lparr>mepc := pc, mcause := cause, mstatus_mpie := True, mstatus_mpp := 0\<rparr>"
  by (simp add: vposedge_def csr_seq_def csr_comb_def csr_next_def csr_trap_def csr_mret_def
      Let_def vrep_def bit_simps)

lemma csr_edge_stalled:
  "cs_rst_n d \<Longrightarrow> cs_bus_stall d \<Longrightarrow> csr_edge d = csr_comb (d\<lparr>v_clk := False, v_clk_prev := False\<rparr>)"
  by (simp add: vposedge_def csr_seq_def csr_next_def)

lemma csr_comb_bus_stall: "(csr_comb d)\<lparr>cs_bus_stall := b\<rparr> = csr_comb (d\<lparr>cs_bus_stall := b\<rparr>)"
  by (simp add: csr_comb_def csr_port_def)

lemma csr_stalled_edges:
  assumes "cs_rst_n d" "cs_bus_stall d"
  shows "(csr_edge ^^ Suc n) d = csr_comb (d\<lparr>v_clk := False, v_clk_prev := False\<rparr>)"
proof (induction n)
  case 0
  then show ?case using assms by (simp add: csr_edge_stalled)
next
  case (Suc n)
  let ?e = "d\<lparr>v_clk := False, v_clk_prev := False\<rparr>"
  have "(csr_edge ^^ Suc (Suc n)) d = csr_edge (csr_comb ?e)"
    using Suc by simp
  also have "\<dots> = csr_comb ((csr_comb ?e)\<lparr>v_clk := False, v_clk_prev := False\<rparr>)"
    by (rule csr_edge_stalled) (simp_all add: csr_comb_def assms)
  also have "\<dots> = csr_comb ?e"
    by (simp add: csr.comb_upd [symmetric] csr.comb_comb)
  finally show ?case .
qed

text \<open>
  C1. The stall of the bus makes trap entry and \<open>mret\<close> happen once: any number of edges with
  \<open>bus_stall\<close> high, followed by one edge with it low and the same inputs, leave the registers of
  that one edge alone.
\<close>

theorem csr_stall_applies_once:
  "cs_r (csr_edge (((csr_edge ^^ n) (d\<lparr>cs_rst_n := True, cs_bus_stall := True\<rparr>))\<lparr>cs_bus_stall := False\<rparr>))
   = cs_r (csr_edge (d\<lparr>cs_rst_n := True, cs_bus_stall := False\<rparr>))"
proof (cases n)
  case (Suc m)
  let ?d = "d\<lparr>cs_rst_n := True, cs_bus_stall := True\<rparr>"
  have "(csr_edge ^^ n) ?d = csr_comb (?d\<lparr>v_clk := False, v_clk_prev := False\<rparr>)"
    unfolding Suc by (rule csr_stalled_edges) simp_all
  moreover have "?d\<lparr>v_clk := False, v_clk_prev := False, cs_bus_stall := False\<rparr>
      = (d\<lparr>cs_rst_n := True, cs_bus_stall := False\<rparr>)\<lparr>v_clk := False\<rparr>\<lparr>v_clk_prev := False\<rparr>"
    by simp
  ultimately show ?thesis
    unfolding csr_edge_r by (simp only: csr_comb_bus_stall csr_next_inputs)
qed (simp add: csr_edge_r)

text \<open>The implemented bits of each register.\<close>

definition csr_mask :: "12 word \<Rightarrow> u32" where
  "csr_mask a =
     (if a = CSR_MSTATUS then 0x1888
      else if a = CSR_MIE then 0x80
      else if a \<in> {CSR_MTVEC, CSR_MSCRATCH, CSR_MEPC, CSR_MCAUSE} then - 1
      else 0)"

lemma mstatus_write_read:
  "mstatus_rdata (r\<lparr>mstatus_mie := bit v 3, mstatus_mpie := bit v 7, mstatus_mpp := vbits 12 11 v\<rparr>)
     = v AND 0x1888"
  unfolding word_eq_iff_bits
  by (simp add: mstatus_rdata_def bit_simps all_less_numeral all_less_Suc_conv)

lemma mie_write_read: "mie_rdata (r\<lparr>mie_mtie := bit v 7\<rparr>) = v AND 0x80"
  unfolding word_eq_iff_bits
  by (simp add: mie_rdata_def bit_simps all_less_numeral all_less_Suc_conv)

lemma rdata_other:
  "mstatus_rdata (r\<lparr>mie_mtie := x\<rparr>) = mstatus_rdata r" "mstatus_rdata (r\<lparr>mtvec := y\<rparr>) = mstatus_rdata r"
  "mstatus_rdata (r\<lparr>mscratch := y\<rparr>) = mstatus_rdata r" "mstatus_rdata (r\<lparr>mepc := y\<rparr>) = mstatus_rdata r"
  "mstatus_rdata (r\<lparr>mcause := y\<rparr>) = mstatus_rdata r"
  "mie_rdata (r\<lparr>mstatus_mie := a, mstatus_mpie := b, mstatus_mpp := c\<rparr>) = mie_rdata r"
  "mie_rdata (r\<lparr>mtvec := y\<rparr>) = mie_rdata r" "mie_rdata (r\<lparr>mscratch := y\<rparr>) = mie_rdata r"
  "mie_rdata (r\<lparr>mepc := y\<rparr>) = mie_rdata r" "mie_rdata (r\<lparr>mcause := y\<rparr>) = mie_rdata r"
  by (simp_all add: mstatus_rdata_def mie_rdata_def)

lemma csr_write_read:
  "fst (csr_read (csr_write a v r) irq b re we) =
     (if b = a \<and> a \<in> {CSR_MSTATUS, CSR_MIE, CSR_MTVEC, CSR_MSCRATCH, CSR_MEPC, CSR_MCAUSE}
      then v AND csr_mask a else fst (csr_read r irq b re we))"
  unfolding csr_write_def csr_read_def csr_mask_def
  by (auto simp: mstatus_write_read mie_write_read rdata_other tb_data)


text \<open>
  C10. An access is illegal exactly when it reads or writes (so a CSR number that merely appears
  in the immediate of another instruction does not trap) and the address is none of the eight
  implemented and seven ignored CSRs.
\<close>

theorem csr_illegal_iff:
  "snd (csr_read r irq a re we) \<longleftrightarrow>
     (re \<or> we) \<and> a \<notin> {0x300, 0x304, 0x305, 0x340, 0x341, 0x342, 0x344, 0xF14,
                      0x301, 0x302, 0x303, 0x343, 0x180, 0x3A0, 0x3B0}"
  by (auto simp: csr_read_def csr_ignored_def tb_data)

text \<open>
  C22. The CSR file's bench accepts the RTL with all of its 10078 checks, from any initial state.
\<close>

theorem tb_csr_passes: "run_passes (csr_main Vcsr_eval argv d) 10078"
  unfolding csr_main_def by (rule tb_ok_run [OF csr_body_ok]) simp

end
