(* ===== verification/Axil.thy ===== *)
theory Axil
  imports Tb_Common
begin

text \<open>
  AXI4-Lite slaves: the register interface \<open>axil_reg_if\<close> that \<open>rtl/soc/gpio.v\<close>, \<open>timer.v\<close>,
  \<open>axil_mem.v\<close> and \<open>uart_axil.v\<close> instantiate (\<open>rtl/vendor/verilog-axi/axil_reg_if_wr.v\<close> and
  \<open>axil_reg_if_rd.v\<close>), and the bus master \<open>axil_write\<close>/\<open>axil_read\<close> that their benches contain.
  What a module connects to the interface is a value of \<open>axil_user\<close>; the locales prove once what
  one transaction of the bench does to the registers behind the interface.
\<close>

section \<open>axil_reg_if\<close>

text \<open>The registers of the write half and of the read half. The \<open>_prot\<close> inputs are not used.\<close>

record axil_wr =
  wr_timeout :: "2 word"
  wr_awaddr :: u32
  wr_awvalid :: bool
  wr_wdata :: u32
  wr_wstrb :: "4 word"
  wr_wvalid :: bool
  wr_bvalid :: bool
  wr_en :: bool

record axil_rd =
  rd_timeout :: "2 word"
  rd_araddr :: u32
  rd_arvalid :: bool
  rd_rdata :: u32
  rd_rvalid :: bool
  rd_en :: bool

text \<open>The module: clock, reset, the pins of the bus, the two halves and the user's own state.\<close>

record 'u axil = vclk +
  ax_rst_n :: bool
  ax_awaddr :: u32
  ax_awprot :: "3 word"
  ax_awvalid :: bool
  ax_awready :: bool
  ax_wdata :: u32
  ax_wstrb :: "4 word"
  ax_wvalid :: bool
  ax_wready :: bool
  ax_bresp :: "2 word"
  ax_bvalid :: bool
  ax_bready :: bool
  ax_araddr :: u32
  ax_arprot :: "3 word"
  ax_arvalid :: bool
  ax_arready :: bool
  ax_rdata :: u32
  ax_rresp :: "2 word"
  ax_rvalid :: bool
  ax_rready :: bool
  ax_wr :: axil_wr
  ax_rd :: axil_rd
  ax_usr :: 'u

text \<open>
  One edge of each half, with the wait and ack signals of the register interface. The parameter
  \<open>TIMEOUT\<close> is 4, so the counter has two bits and restarts at 3.
\<close>

definition axil_wr_next :: "'u axil \<Rightarrow> bool \<Rightarrow> bool \<Rightarrow> axil_wr" where
  "axil_wr_next d reg_wr_wait reg_wr_ack =
     (let r = ax_wr d;
          done = (wr_en r \<and> (reg_wr_ack \<or> wr_timeout r = 0));
          awvalid = (if \<not> wr_awvalid r then ax_awvalid d else if done then False else wr_awvalid r);
          wvalid = (if \<not> wr_wvalid r then ax_wvalid d else if done then False else wr_wvalid r);
          bvalid = (if done then True else wr_bvalid r \<and> \<not> ax_bready d)
      in \<lparr>wr_timeout =
            (if wr_en r \<and> \<not> reg_wr_wait \<and> wr_timeout r \<noteq> 0 then wr_timeout r - 1
             else if \<not> wr_awvalid r then 3 else wr_timeout r),
          wr_awaddr = (if \<not> wr_awvalid r then ax_awaddr d else wr_awaddr r),
          wr_awvalid = (ax_rst_n d \<and> awvalid),
          wr_wdata = (if \<not> wr_wvalid r then ax_wdata d else wr_wdata r),
          wr_wstrb = (if \<not> wr_wvalid r then ax_wstrb d else wr_wstrb r),
          wr_wvalid = (ax_rst_n d \<and> wvalid),
          wr_bvalid = (ax_rst_n d \<and> bvalid),
          wr_en = (ax_rst_n d \<and> awvalid \<and> wvalid \<and> \<not> bvalid)\<rparr>)"

definition axil_rd_next :: "'u axil \<Rightarrow> u32 \<Rightarrow> bool \<Rightarrow> bool \<Rightarrow> axil_rd" where
  "axil_rd_next d reg_rd_data reg_rd_wait reg_rd_ack =
     (let r = ax_rd d;
          done = (rd_en r \<and> (reg_rd_ack \<or> rd_timeout r = 0));
          arvalid = (if \<not> rd_arvalid r then ax_arvalid d else if done then False else rd_arvalid r);
          rvalid = (if done then True else rd_rvalid r \<and> \<not> ax_rready d)
      in \<lparr>rd_timeout =
            (if rd_en r \<and> \<not> reg_rd_wait \<and> rd_timeout r \<noteq> 0 then rd_timeout r - 1
             else if \<not> rd_arvalid r then 3 else rd_timeout r),
          rd_araddr = (if \<not> rd_arvalid r then ax_araddr d else rd_araddr r),
          rd_arvalid = (ax_rst_n d \<and> arvalid),
          rd_rdata = (if done then reg_rd_data else rd_rdata r),
          rd_rvalid = (ax_rst_n d \<and> rvalid),
          rd_en = (ax_rst_n d \<and> arvalid \<and> \<not> rvalid)\<rparr>)"

text \<open>
  What a slave connects: the wait and ack of writes, the data, wait and ack of reads, its own
  registers' next value (from \<open>rst_n\<close> and the two halves) and its own combinational outputs.
\<close>

record 'u axil_user =
  au_wr_wait :: "axil_wr \<Rightarrow> 'u \<Rightarrow> bool"
  au_wr_ack :: "axil_wr \<Rightarrow> 'u \<Rightarrow> bool"
  au_rd_data :: "axil_rd \<Rightarrow> 'u \<Rightarrow> u32"
  au_rd_wait :: "axil_rd \<Rightarrow> 'u \<Rightarrow> bool"
  au_rd_ack :: "axil_rd \<Rightarrow> 'u \<Rightarrow> bool"
  au_step :: "bool \<Rightarrow> axil_wr \<Rightarrow> axil_rd \<Rightarrow> 'u \<Rightarrow> 'u"
  au_out :: "'u \<Rightarrow> 'u"

definition axil_seq :: "'u axil_user \<Rightarrow> 'u axil \<Rightarrow> 'u axil" where
  "axil_seq U d =
     (let w = ax_wr d; r = ax_rd d; u = ax_usr d in
      d\<lparr>ax_wr := axil_wr_next d (au_wr_wait U w u) (au_wr_ack U w u),
        ax_rd := axil_rd_next d (au_rd_data U r u) (au_rd_wait U r u) (au_rd_ack U r u),
        ax_usr := au_step U (ax_rst_n d) w r u\<rparr>)"

definition axil_comb :: "'u axil_user \<Rightarrow> 'u axil \<Rightarrow> 'u axil" where
  "axil_comb U d =
     d\<lparr>ax_awready := \<not> wr_awvalid (ax_wr d), ax_wready := \<not> wr_wvalid (ax_wr d),
       ax_bresp := 0, ax_bvalid := wr_bvalid (ax_wr d),
       ax_arready := \<not> rd_arvalid (ax_rd d), ax_rdata := rd_rdata (ax_rd d),
       ax_rresp := 0, ax_rvalid := rd_rvalid (ax_rd d),
       ax_usr := au_out U (ax_usr d)\<rparr>"

definition axil_eval :: "'u axil_user \<Rightarrow> 'u axil \<Rightarrow> 'u axil" where
  "axil_eval U = veval (axil_seq U) (axil_comb U)"

section \<open>The bus master of the benches\<close>

definition axil_write_iter ::
  "('u axil \<Rightarrow> 'u axil) \<Rightarrow> bool \<times> bool \<times> bool \<Rightarrow> (('u axil, 'm) tb_scheme, bool \<times> bool \<times> bool) state" where
  "axil_write_iter ev acc = (case acc of (aw_acc, w_acc, got_b) \<Rightarrow> do {
     poke ev;
     awready \<leftarrow> peek ax_awready;
     let aw_acc = (aw_acc \<or> awready);
     wready \<leftarrow> peek ax_wready;
     let w_acc = (w_acc \<or> wready);
     bv \<leftarrow> peek ax_bvalid;
     tb_tick ev;
     poke (\<lambda>d. if aw_acc then d\<lparr>ax_awvalid := False\<rparr> else d);
     poke (\<lambda>d. if w_acc then d\<lparr>ax_wvalid := False\<rparr> else d);
     State_Monad.return (aw_acc, w_acc, got_b \<or> bv) })"

definition axil_write ::
  "('u axil \<Rightarrow> 'u axil) \<Rightarrow> u32 \<Rightarrow> u32 \<Rightarrow> u8 \<Rightarrow> (('u axil, 'm) tb_scheme, unit) state" where
  "axil_write ev addr data strb = do {
     poke (\<lambda>d. d\<lparr>ax_awaddr := addr, ax_awprot := 0, ax_awvalid := True,
                 ax_wdata := data, ax_wstrb := ucast strb, ax_wvalid := True, ax_bready := True\<rparr>);
     _ \<leftarrow> loop_n 20 (\<lambda>(aw_acc, w_acc, got_b). \<not> got_b) (axil_write_iter ev) (False, False, False);
     poke (\<lambda>d. d\<lparr>ax_bready := False\<rparr>) }"

definition axil_read_iter ::
  "('u axil \<Rightarrow> 'u axil) \<Rightarrow> bool \<times> bool \<times> u32 \<Rightarrow> (('u axil, 'm) tb_scheme, bool \<times> bool \<times> u32) state" where
  "axil_read_iter ev acc = (case acc of (ar_acc, got_r, data) \<Rightarrow> do {
     poke ev;
     arready \<leftarrow> peek ax_arready;
     let ar_acc = (ar_acc \<or> arready);
     rv \<leftarrow> peek ax_rvalid;
     rdata \<leftarrow> peek ax_rdata;
     let data = (if rv then rdata else data);
     tb_tick ev;
     poke (\<lambda>d. if ar_acc then d\<lparr>ax_arvalid := False\<rparr> else d);
     State_Monad.return (ar_acc, got_r \<or> rv, data) })"

definition axil_read :: "('u axil \<Rightarrow> 'u axil) \<Rightarrow> u32 \<Rightarrow> (('u axil, 'm) tb_scheme, u32) state" where
  "axil_read ev addr = do {
     poke (\<lambda>d. d\<lparr>ax_araddr := addr, ax_arprot := 0, ax_arvalid := True, ax_rready := True\<rparr>);
     x \<leftarrow> loop_n 20 (\<lambda>(ar_acc, got_r, data). \<not> got_r) (axil_read_iter ev) (False, False, 0);
     poke (\<lambda>d. d\<lparr>ax_rready := False\<rparr>);
     State_Monad.return (snd (snd x)) }"

text \<open>The reset sequence at the start of the three benches.\<close>

definition axil_reset :: "('u axil \<Rightarrow> 'u axil) \<Rightarrow> (('u axil, 'm) tb_scheme, unit) state" where
  "axil_reset ev = do {
     poke (\<lambda>d. d\<lparr>ax_awvalid := False, ax_wvalid := False, ax_bready := False,
                 ax_arvalid := False, ax_rready := False\<rparr>);
     tb_tick ev; tb_tick ev;
     poke (\<lambda>d. d\<lparr>ax_rst_n := True\<rparr>) }"

section \<open>Transactions\<close>

text \<open>The two halves look at inputs and registers only.\<close>

lemma axil_next_inputs [simp]:
  "axil_wr_next (d\<lparr>v_clk := b\<rparr>) wt ack = axil_wr_next d wt ack"
  "axil_wr_next (d\<lparr>v_clk_prev := b\<rparr>) wt ack = axil_wr_next d wt ack"
  "axil_rd_next (d\<lparr>v_clk := b\<rparr>) x rwt rack = axil_rd_next d x rwt rack"
  "axil_rd_next (d\<lparr>v_clk_prev := b\<rparr>) x rwt rack = axil_rd_next d x rwt rack"
  by (simp_all add: axil_wr_next_def axil_rd_next_def cong del: if_weak_cong)

lemma axil_next_comb [simp]:
  "axil_wr_next (axil_comb U d) wt ack = axil_wr_next d wt ack"
  "axil_rd_next (axil_comb U d) x rwt rack = axil_rd_next d x rwt rack"
  by (simp_all add: axil_wr_next_def axil_rd_next_def axil_comb_def cong del: if_weak_cong)

lemma axil_comb_regs:
  "ax_wr (axil_comb U d) = ax_wr d" "ax_rd (axil_comb U d) = ax_rd d"
  "ax_rst_n (axil_comb U d) = ax_rst_n d" "ax_usr (axil_comb U d) = au_out U (ax_usr d)"
  "v_clk (axil_comb U d) = v_clk d" "v_clk_prev (axil_comb U d) = v_clk_prev d"
  by (simp_all add: axil_comb_def)

lemma axil_comb_cong:
  assumes "ax_wr d = ax_wr e" "ax_rd d = ax_rd e" "au_out U (ax_usr d) = au_out U (ax_usr e)"
    and "d\<lparr>ax_awready := x1, ax_wready := x2, ax_bresp := x3, ax_bvalid := x4, ax_arready := x5,
           ax_rdata := x6, ax_rresp := x7, ax_rvalid := x8, ax_usr := x9\<rparr>
       = e\<lparr>ax_awready := x1, ax_wready := x2, ax_bresp := x3, ax_bvalid := x4, ax_arready := x5,
           ax_rdata := x6, ax_rresp := x7, ax_rvalid := x8, ax_usr := x9\<rparr>"
  shows "axil_comb U d = axil_comb U e"
  using assms by (cases d, cases e) (simp add: axil_comb_def)

text \<open>
  A slave whose outputs are a function of its registers and inputs is a Verilated module.
\<close>

locale axil_slave =
  fixes U :: "'u axil_user"
  assumes out_out: "au_out U (au_out U u) = au_out U u"
    and wr_wait_out: "au_wr_wait U w (au_out U u) = au_wr_wait U w u"
    and wr_ack_out: "au_wr_ack U w (au_out U u) = au_wr_ack U w u"
    and rd_data_out: "au_rd_data U r (au_out U u) = au_rd_data U r u"
    and rd_wait_out: "au_rd_wait U r (au_out U u) = au_rd_wait U r u"
    and rd_ack_out: "au_rd_ack U r (au_out U u) = au_rd_ack U r u"
    and step_out: "au_out U (au_step U rst_n w r (au_out U u)) = au_out U (au_step U rst_n w r u)"
begin

lemma seq_comb:
  "axil_comb U (axil_seq U (axil_comb U d)) = axil_comb U (axil_seq U d)"
  by (rule axil_comb_cong)
    (simp_all add: axil_seq_def axil_comb_regs Let_def wr_wait_out wr_ack_out rd_data_out rd_wait_out
      rd_ack_out step_out, simp add: axil_comb_def)

end

sublocale axil_slave \<subseteq> vm: verilated_module "axil_seq U" "axil_comb U"
proof unfold_locales
  fix d b
  show "axil_comb U (d\<lparr>v_clk := b\<rparr>) = (axil_comb U d)\<lparr>v_clk := b\<rparr>"
    "axil_comb U (d\<lparr>v_clk_prev := b\<rparr>) = (axil_comb U d)\<lparr>v_clk_prev := b\<rparr>"
    "axil_comb U (axil_comb U d) = axil_comb U d"
    by (simp_all add: axil_comb_def out_out)
  show "v_clk (axil_seq U d) = v_clk d"
    "axil_seq U (d\<lparr>v_clk := b\<rparr>) = (axil_seq U d)\<lparr>v_clk := b\<rparr>"
    "axil_seq U (d\<lparr>v_clk_prev := b\<rparr>) = (axil_seq U d)\<lparr>v_clk_prev := b\<rparr>"
    by (simp_all add: axil_seq_def Let_def)
qed (simp_all only: seq_comb axil_comb_regs)

abbreviation axil_edge :: "'u axil_user \<Rightarrow> 'u axil \<Rightarrow> 'u axil" where
  "axil_edge U \<equiv> vposedge (axil_seq U) (axil_comb U)"

text \<open>One iteration of the master's loops.\<close>

context axil_slave
begin

lemma wp_axil_tick:
  "\<not> v_clk d \<Longrightarrow> wp (State_Monad.bind (tb_tick (axil_eval U)) F) Q d k f h m
    = wp (F ()) Q (axil_edge U d) k f (tick_aux h) m"
  by (simp add: axil_eval_def vm.wp_tick)

lemma edge_eval: "\<not> v_clk d \<Longrightarrow> axil_edge U (axil_eval U d) = axil_edge U d"
  by (simp add: axil_eval_def vm.posedge_eval)

lemma eval_pins:
  assumes "\<not> v_clk d"
  shows "\<not> v_clk (axil_eval U d)"
    "ax_awready (axil_eval U d) = (\<not> wr_awvalid (ax_wr d))"
    "ax_wready (axil_eval U d) = (\<not> wr_wvalid (ax_wr d))"
    "ax_bvalid (axil_eval U d) = wr_bvalid (ax_wr d)"
    "ax_arready (axil_eval U d) = (\<not> rd_arvalid (ax_rd d))"
    "ax_rvalid (axil_eval U d) = rd_rvalid (ax_rd d)"
    "ax_rdata (axil_eval U d) = rd_rdata (ax_rd d)"
  using assms by (simp_all add: axil_eval_def vm.eval_low axil_comb_def)

lemma wp_axil_write_iter:
  assumes "\<not> v_clk d"
  shows "wp (State_Monad.bind (axil_write_iter (axil_eval U) (aw_acc, w_acc, got_b)) F) Q d k f h m =
    (let aw_acc = (aw_acc \<or> \<not> wr_awvalid (ax_wr d)); w_acc = (w_acc \<or> \<not> wr_wvalid (ax_wr d));
         d1 = axil_edge U d;
         d2 = (if aw_acc then d1\<lparr>ax_awvalid := False\<rparr> else d1);
         d3 = (if w_acc then d2\<lparr>ax_wvalid := False\<rparr> else d2)
     in wp (F (aw_acc, w_acc, got_b \<or> wr_bvalid (ax_wr d))) Q d3 k f (tick_aux h) m)"
  using assms unfolding axil_write_iter_def prod.case Let_def
  by (simp add: wp_assoc wp_poke wp_peek wp_return_bind wp_axil_tick edge_eval eval_pins
      cong: wp_cong split del: if_split) (simp add: eval_pins)

lemma wp_axil_read_iter:
  assumes "\<not> v_clk d"
  shows "wp (State_Monad.bind (axil_read_iter (axil_eval U) (ar_acc, got_r, data)) F) Q d k f h m =
    (let ar_acc = (ar_acc \<or> \<not> rd_arvalid (ax_rd d));
         data = (if rd_rvalid (ax_rd d) then rd_rdata (ax_rd d) else data);
         d1 = axil_edge U d;
         d2 = (if ar_acc then d1\<lparr>ax_arvalid := False\<rparr> else d1)
     in wp (F (ar_acc, got_r \<or> rd_rvalid (ax_rd d), data)) Q d2 k f (tick_aux h) m)"
  using assms unfolding axil_read_iter_def prod.case Let_def
  by (simp add: wp_assoc wp_poke wp_peek wp_return_bind wp_axil_tick edge_eval eval_pins
      cong: wp_cong split del: if_split) (simp add: eval_pins)

end

text \<open>One edge, field by field.\<close>

lemma axil_edge_regs:
  "ax_wr (axil_edge U d) = axil_wr_next d (au_wr_wait U (ax_wr d) (ax_usr d)) (au_wr_ack U (ax_wr d) (ax_usr d))"
  "ax_rd (axil_edge U d) = axil_rd_next d (au_rd_data U (ax_rd d) (ax_usr d))
     (au_rd_wait U (ax_rd d) (ax_usr d)) (au_rd_ack U (ax_rd d) (ax_usr d))"
  "ax_usr (axil_edge U d) = au_out U (au_step U (ax_rst_n d) (ax_wr d) (ax_rd d) (ax_usr d))"
  by (simp_all add: vposedge_def axil_seq_def axil_comb_def Let_def)

lemma axil_edge_pins:
  "\<not> v_clk (axil_edge U d)" "ax_rst_n (axil_edge U d) = ax_rst_n d"
  "ax_awaddr (axil_edge U d) = ax_awaddr d" "ax_awvalid (axil_edge U d) = ax_awvalid d"
  "ax_wdata (axil_edge U d) = ax_wdata d" "ax_wstrb (axil_edge U d) = ax_wstrb d"
  "ax_wvalid (axil_edge U d) = ax_wvalid d" "ax_bready (axil_edge U d) = ax_bready d"
  "ax_araddr (axil_edge U d) = ax_araddr d" "ax_arvalid (axil_edge U d) = ax_arvalid d"
  "ax_rready (axil_edge U d) = ax_rready d"
  by (simp_all add: vposedge_def axil_seq_def axil_comb_def Let_def)

lemma axil_wr_next_fields:
  "wr_timeout (axil_wr_next d wt ack) =
     (if wr_en (ax_wr d) \<and> \<not> wt \<and> wr_timeout (ax_wr d) \<noteq> 0 then wr_timeout (ax_wr d) - 1
      else if \<not> wr_awvalid (ax_wr d) then 3 else wr_timeout (ax_wr d))"
  "wr_awaddr (axil_wr_next d wt ack) = (if wr_awvalid (ax_wr d) then wr_awaddr (ax_wr d) else ax_awaddr d)"
  "wr_wdata (axil_wr_next d wt ack) = (if wr_wvalid (ax_wr d) then wr_wdata (ax_wr d) else ax_wdata d)"
  "wr_wstrb (axil_wr_next d wt ack) = (if wr_wvalid (ax_wr d) then wr_wstrb (ax_wr d) else ax_wstrb d)"
  by (simp_all add: axil_wr_next_def Let_def)

lemma axil_wr_next_valid:
  defines "done \<equiv> \<lambda>d ack. wr_en (ax_wr d) \<and> (ack \<or> wr_timeout (ax_wr d) = 0)"
  shows
  "wr_awvalid (axil_wr_next d wt ack) \<longleftrightarrow> ax_rst_n d \<and>
     (if wr_awvalid (ax_wr d) then \<not> done d ack else ax_awvalid d)"
  "wr_wvalid (axil_wr_next d wt ack) \<longleftrightarrow> ax_rst_n d \<and>
     (if wr_wvalid (ax_wr d) then \<not> done d ack else ax_wvalid d)"
  "wr_bvalid (axil_wr_next d wt ack) \<longleftrightarrow> ax_rst_n d \<and>
     (done d ack \<or> wr_bvalid (ax_wr d) \<and> \<not> ax_bready d)"
  "wr_en (axil_wr_next d wt ack) \<longleftrightarrow> wr_awvalid (axil_wr_next d wt ack)
     \<and> wr_wvalid (axil_wr_next d wt ack) \<and> \<not> wr_bvalid (axil_wr_next d wt ack)"
  by (auto simp: axil_wr_next_def Let_def done_def)

lemma axil_rd_next_fields:
  "rd_timeout (axil_rd_next d x rwt rack) =
     (if rd_en (ax_rd d) \<and> \<not> rwt \<and> rd_timeout (ax_rd d) \<noteq> 0 then rd_timeout (ax_rd d) - 1
      else if \<not> rd_arvalid (ax_rd d) then 3 else rd_timeout (ax_rd d))"
  "rd_araddr (axil_rd_next d x rwt rack) = (if rd_arvalid (ax_rd d) then rd_araddr (ax_rd d) else ax_araddr d)"
  "rd_rdata (axil_rd_next d x rwt rack) =
     (if rd_en (ax_rd d) \<and> (rack \<or> rd_timeout (ax_rd d) = 0) then x else rd_rdata (ax_rd d))"
  by (simp_all add: axil_rd_next_def Let_def)

lemma axil_rd_next_valid:
  defines "done \<equiv> \<lambda>d rack. rd_en (ax_rd d) \<and> (rack \<or> rd_timeout (ax_rd d) = 0)"
  shows
  "rd_arvalid (axil_rd_next d x rwt rack) \<longleftrightarrow> ax_rst_n d \<and>
     (if rd_arvalid (ax_rd d) then \<not> done d rack else ax_arvalid d)"
  "rd_rvalid (axil_rd_next d x rwt rack) \<longleftrightarrow> ax_rst_n d \<and>
     (done d rack \<or> rd_rvalid (ax_rd d) \<and> \<not> ax_rready d)"
  "rd_en (axil_rd_next d x rwt rack) \<longleftrightarrow> rd_arvalid (axil_rd_next d x rwt rack)
     \<and> \<not> rd_rvalid (axil_rd_next d x rwt rack)"
  by (auto simp: axil_rd_next_def Let_def done_def)

lemmas axil_step = axil_edge_regs axil_edge_pins axil_wr_next_fields axil_wr_next_valid
  axil_rd_next_fields axil_rd_next_valid

text \<open>Between transactions: no request on the pins and none in the two halves.\<close>

definition axil_idle :: "'u axil \<Rightarrow> bool" where
  "axil_idle d \<longleftrightarrow> \<not> v_clk d \<and> ax_rst_n d
     \<and> \<not> ax_awvalid d \<and> \<not> ax_wvalid d \<and> \<not> ax_bready d \<and> \<not> ax_arvalid d \<and> \<not> ax_rready d
     \<and> \<not> wr_awvalid (ax_wr d) \<and> \<not> wr_wvalid (ax_wr d) \<and> \<not> wr_bvalid (ax_wr d) \<and> \<not> wr_en (ax_wr d)
     \<and> \<not> rd_arvalid (ax_rd d) \<and> \<not> rd_rvalid (ax_rd d) \<and> \<not> rd_en (ax_rd d)"

text \<open>The reset sequence makes any slave idle, its user's registers reset.\<close>

definition axil_was_reset :: "'u axil_user \<Rightarrow> 'u axil \<Rightarrow> 'u axil" where
  "axil_was_reset U d =
     (axil_edge U (axil_edge U (d\<lparr>ax_awvalid := False, ax_wvalid := False, ax_bready := False,
        ax_arvalid := False, ax_rready := False\<rparr>)))\<lparr>ax_rst_n := True\<rparr>"

context axil_slave
begin

lemma wp_axil_reset:
  "\<not> v_clk d \<Longrightarrow> wp (State_Monad.bind (axil_reset (axil_eval U)) F) Q d k f h m
    = wp (F ()) Q (axil_was_reset U d) k f (tick_aux (tick_aux h)) m"
  unfolding axil_reset_def
  by (simp add: wp_assoc wp_poke wp_axil_tick axil_edge_pins axil_was_reset_def cong: wp_cong)

lemma axil_was_reset_idle: "\<not> v_clk d \<Longrightarrow> \<not> ax_rst_n d \<Longrightarrow> axil_idle (axil_was_reset U d)"
  by (simp add: axil_idle_def axil_was_reset_def axil_step)

end

text \<open>
  The device after \<open>axil_write\<close> and after \<open>axil_read\<close> with an answer at once: three edges each,
  the request being withdrawn after the first.
\<close>

definition axil_wrote :: "'u axil_user \<Rightarrow> u32 \<Rightarrow> u32 \<Rightarrow> u8 \<Rightarrow> 'u axil \<Rightarrow> 'u axil" where
  "axil_wrote U addr data strb d =
     (let step = (\<lambda>d. (axil_edge U d)\<lparr>ax_awvalid := False, ax_wvalid := False\<rparr>) in
      (step (step (step (d\<lparr>ax_awaddr := addr, ax_awprot := 0, ax_awvalid := True,
         ax_wdata := data, ax_wstrb := ucast strb, ax_wvalid := True, ax_bready := True\<rparr>))))
      \<lparr>ax_bready := False\<rparr>)"

definition axil_was_read :: "nat \<Rightarrow> 'u axil_user \<Rightarrow> u32 \<Rightarrow> 'u axil \<Rightarrow> 'u axil" where
  "axil_was_read n U addr d =
     (((\<lambda>d. (axil_edge U d)\<lparr>ax_arvalid := False\<rparr>) ^^ n)
        (d\<lparr>ax_araddr := addr, ax_arprot := 0, ax_arvalid := True, ax_rready := True\<rparr>))
     \<lparr>ax_rready := False\<rparr>"

text \<open>The bound of the master's loops, as far as they get.\<close>

lemma loop_bound: "(20 :: nat) = Suc (Suc (Suc (Suc 16)))"
  by simp

locale axil_writes = axil_slave U
  for U :: "'u axil_user" +
  fixes quiet :: "'u \<Rightarrow> 'u" and write_reg :: "u32 \<Rightarrow> u32 \<Rightarrow> 4 word \<Rightarrow> 'u \<Rightarrow> 'u"
  assumes wr_now: "\<not> au_wr_wait U w u" "au_wr_ack U w u = wr_en w"
    and step_quiet: "\<not> wr_en w \<Longrightarrow> \<not> rd_en r \<Longrightarrow> au_step U True w r u = quiet u"
    and step_write: "wr_en w \<Longrightarrow> \<not> rd_en r \<Longrightarrow>
      au_step U True w r u = write_reg (wr_awaddr w) (wr_wdata w) (wr_wstrb w) u"
begin

lemma wp_axil_write:
  assumes "axil_idle d"
  shows "wp (State_Monad.bind (axil_write (axil_eval U) addr data strb) F) Q d k f h m
    = wp (F ()) Q (axil_wrote U addr data strb d) k f (tick_aux (tick_aux (tick_aux h))) m"
  using assms unfolding axil_idle_def axil_write_def loop_bound
  by (simp add: Let_def wp_assoc wp_poke wp_loop_n wp_axil_write_iter axil_step wr_now axil_wrote_def
      del: loop_n.simps cong: wp_cong)

lemma out_quiet: "au_out U (quiet (au_out U u)) = au_out U (quiet u)"
  using step_out [of True "w\<lparr>wr_en := False\<rparr>" "r\<lparr>rd_en := False\<rparr>" u for w r] by (simp add: step_quiet)

lemma out_write: "au_out U (write_reg a v s (au_out U u)) = au_out U (write_reg a v s u)"
  using step_out [of True "w\<lparr>wr_en := True, wr_awaddr := a, wr_wdata := v, wr_wstrb := s\<rparr>"
      "r\<lparr>rd_en := False\<rparr>" u for w r] by (simp add: step_write)

lemma out_quiet_write:
  "au_out U (quiet (write_reg a v s (au_out U u))) = au_out U (quiet (write_reg a v s u))"
  using out_quiet [of "write_reg a v s (au_out U u)"] out_quiet [of "write_reg a v s u"]
  by (simp add: out_write)

text \<open>A write leaves the slave idle and has performed exactly one register write.\<close>

lemma axil_wrote_idle: "axil_idle d \<Longrightarrow> axil_idle (axil_wrote U addr data strb d)"
  unfolding axil_idle_def by (simp add: axil_wrote_def axil_step wr_now)

lemma axil_wrote_usr:
  "axil_idle d \<Longrightarrow> ax_usr (axil_wrote U addr data strb d)
     = au_out U (quiet (write_reg addr data (ucast strb) (quiet (ax_usr d))))"
  unfolding axil_idle_def
  by (simp add: axil_wrote_def axil_step wr_now step_quiet step_write out_quiet out_quiet_write)

text \<open>A cycle without a transaction.\<close>

lemma axil_edge_idle:
  assumes "axil_idle d"
  shows "axil_idle (axil_edge U d) \<and> ax_usr (axil_edge U d) = au_out U (quiet (ax_usr d))"
  using assms unfolding axil_idle_def by (simp add: axil_step wr_now step_quiet)

lemma axil_tick_ok:
  "tb_ok (\<lambda>d k m. axil_idle d \<and> P (au_out U (quiet (ax_usr d))) k m) (tb_tick (axil_eval U))
     (\<lambda>_ d k m. axil_idle d \<and> P (ax_usr d) k m)"
  by (rule tb_okI)
    (simp add: wp_axil_tick [where F = State_Monad.return, simplified] wp_return axil_idle_def axil_step
      wr_now step_quiet)

lemma axil_write_ok:
  "tb_ok (\<lambda>d k m. axil_idle d \<and> P (au_out U (quiet (write_reg addr data (ucast strb) (quiet (ax_usr d))))) k m)
     (axil_write (axil_eval U) addr data strb) (\<lambda>_ d k m. axil_idle d \<and> P (ax_usr d) k m)"
  by (rule tb_okI)
    (simp add: wp_axil_write [where F = State_Monad.return, simplified] wp_return axil_wrote_idle axil_wrote_usr)

end

text \<open>Registers that answer a read at once.\<close>

locale axil_regs = axil_writes U quiet write_reg
  for U :: "'u axil_user" and quiet :: "'u \<Rightarrow> 'u" and write_reg :: "u32 \<Rightarrow> u32 \<Rightarrow> 4 word \<Rightarrow> 'u \<Rightarrow> 'u" +
  fixes reset :: "'u \<Rightarrow> 'u" and read_reg :: "u32 \<Rightarrow> 'u \<Rightarrow> u32"
  assumes step_reset: "au_step U False w r u = reset u"
    and rd_now: "\<not> au_rd_wait U r u" "au_rd_ack U r u = rd_en r"
    and rd_data: "au_rd_data U r u = read_reg (rd_araddr r) u"
    and step_read: "\<not> wr_en w \<Longrightarrow> rd_en r \<Longrightarrow> au_step U True w r u = quiet u"
begin

lemma out_reset: "au_out U (reset (au_out U u)) = au_out U (reset u)"
  using step_out [of False _ _ u] by (simp add: step_reset)

lemma axil_was_reset_usr:
  "\<not> ax_rst_n d \<Longrightarrow> ax_usr (axil_was_reset U d) = au_out U (reset (reset (ax_usr d)))"
  by (simp add: axil_was_reset_def axil_step step_reset out_reset)

lemma read_out: "read_reg a (au_out U u) = read_reg a u"
  using rd_data_out [of "r\<lparr>rd_araddr := a\<rparr>" u for r] by (simp add: rd_data)

lemma wp_axil_read:
  assumes "axil_idle d"
  shows "wp (State_Monad.bind (axil_read (axil_eval U) addr) F) Q d k f h m
    = wp (F (read_reg addr (quiet (ax_usr d)))) Q (axil_was_read 3 U addr d) k f
        (tick_aux (tick_aux (tick_aux h))) m"
  using assms unfolding axil_idle_def axil_read_def loop_bound
  by (simp add: Let_def wp_assoc wp_poke wp_return_bind wp_loop_n wp_axil_read_iter axil_step rd_now
      axil_was_read_def numeral_3_eq_3 rd_data step_quiet read_out
      del: loop_n.simps cong: wp_cong) simp

lemma axil_was_read_idle: "axil_idle d \<Longrightarrow> axil_idle (axil_was_read 3 U addr d)"
  unfolding axil_idle_def by (simp add: axil_was_read_def numeral_3_eq_3 axil_step rd_now)

lemma axil_was_read_usr:
  "axil_idle d \<Longrightarrow> ax_usr (axil_was_read 3 U addr d) = au_out U (quiet (quiet (quiet (ax_usr d))))"
  unfolding axil_idle_def
  by (simp add: axil_was_read_def numeral_3_eq_3 axil_step rd_now step_quiet step_read out_quiet)

lemma axil_read_ok:
  "tb_ok (\<lambda>d k m. axil_idle d \<and> P (read_reg addr (quiet (ax_usr d))) (au_out U (quiet (quiet (quiet (ax_usr d))))) k m)
     (axil_read (axil_eval U) addr) (\<lambda>r d k m. axil_idle d \<and> P r (ax_usr d) k m)"
  by (rule tb_okI)
    (simp add: wp_axil_read [where F = State_Monad.return, simplified] wp_return axil_was_read_idle axil_was_read_usr)

end

lemma four_Suc: "(4 :: nat) = Suc (Suc (Suc (Suc 0)))"
  by simp

lemma loop_bound_5: "(20 :: nat) = Suc (Suc (Suc (Suc (Suc 15))))"
  by simp

text \<open>The cycles of a read: the request is held (\<open>req\<close>), then the response (\<open>rsp\<close>).\<close>

definition axil_reading :: "bool \<Rightarrow> bool \<Rightarrow> u32 \<Rightarrow> 'u \<Rightarrow> 'u axil \<Rightarrow> bool" where
  "axil_reading req rsp addr u d \<longleftrightarrow> \<not> v_clk d \<and> ax_rst_n d
     \<and> \<not> ax_awvalid d \<and> \<not> ax_wvalid d \<and> \<not> ax_bready d \<and> \<not> ax_arvalid d \<and> ax_rready d
     \<and> \<not> wr_awvalid (ax_wr d) \<and> \<not> wr_wvalid (ax_wr d) \<and> \<not> wr_bvalid (ax_wr d) \<and> \<not> wr_en (ax_wr d)
     \<and> rd_arvalid (ax_rd d) = req \<and> rd_en (ax_rd d) = req \<and> rd_rvalid (ax_rd d) = rsp
     \<and> (req \<longrightarrow> rd_araddr (ax_rd d) = addr \<and> rd_timeout (ax_rd d) = 3) \<and> ax_usr d = u"

text \<open>
  A memory with a registered output: the first cycle of a read fetches into the output register
  and waits, the second one acknowledges.
\<close>

locale axil_fetching = axil_writes U quiet write_reg
  for U :: "'u axil_user" and quiet :: "'u \<Rightarrow> 'u" and write_reg :: "u32 \<Rightarrow> u32 \<Rightarrow> 4 word \<Rightarrow> 'u \<Rightarrow> 'u" +
  fixes fetched :: "'u \<Rightarrow> bool" and fetch deliver :: "u32 \<Rightarrow> 'u \<Rightarrow> 'u" and read_reg :: "u32 \<Rightarrow> 'u \<Rightarrow> u32"
  assumes rd_second: "au_rd_wait U r u = (rd_en r \<and> \<not> fetched u)" "au_rd_ack U r u = (rd_en r \<and> fetched u)"
    and step_first: "\<not> wr_en w \<Longrightarrow> rd_en r \<Longrightarrow> \<not> fetched u \<Longrightarrow> au_step U True w r u = fetch (rd_araddr r) u"
    and step_second: "\<not> wr_en w \<Longrightarrow> rd_en r \<Longrightarrow> fetched u \<Longrightarrow> au_step U True w r u = deliver (rd_araddr r) u"
    and fetched: "\<not> fetched (au_out U (quiet u))" "fetched (au_out U (fetch a u))"
    and rd_fetched: "au_rd_data U r (au_out U (fetch a u)) = read_reg a u"
begin

lemma wp_axil_read:
  assumes "axil_idle d"
  shows "wp (State_Monad.bind (axil_read (axil_eval U) addr) F) Q d k f h m
    = wp (F (read_reg addr (au_out U (quiet (ax_usr d))))) Q (axil_was_read 4 U addr d) k f
        (tick_aux (tick_aux (tick_aux (tick_aux h)))) m"
  using assms unfolding axil_idle_def axil_read_def loop_bound_5
  by (simp add: Let_def wp_assoc wp_poke wp_return_bind wp_loop_n wp_axil_read_iter axil_step rd_second
      axil_was_read_def four_Suc step_quiet step_first fetched rd_fetched
      del: loop_n.simps cong: wp_cong)
    (simp add: axil_step rd_second step_quiet step_first fetched rd_fetched)

lemma axil_reading_step:
  "axil_idle d \<Longrightarrow> axil_reading True False addr (au_out U (quiet (ax_usr d)))
    ((axil_edge U (d\<lparr>ax_araddr := addr, ax_arprot := 0, ax_arvalid := True, ax_rready := True\<rparr>))\<lparr>ax_arvalid := False\<rparr>)"
  "axil_reading True False addr u d \<Longrightarrow> \<not> fetched u \<Longrightarrow>
    axil_reading True False addr (au_out U (fetch addr u)) ((axil_edge U d)\<lparr>ax_arvalid := False\<rparr>)"
  "axil_reading True False addr u d \<Longrightarrow> fetched u \<Longrightarrow>
    axil_reading False True addr (au_out U (deliver addr u)) ((axil_edge U d)\<lparr>ax_arvalid := False\<rparr>)"
  "axil_reading False True addr u d \<Longrightarrow>
    axil_reading False False addr (au_out U (quiet u)) ((axil_edge U d)\<lparr>ax_arvalid := False\<rparr>)"
  by (simp_all add: axil_idle_def axil_reading_def axil_step rd_second step_quiet step_first step_second)

lemma axil_was_read_reading:
  assumes "axil_idle d"
  shows "axil_reading False False addr
     (au_out U (quiet (au_out U (deliver addr (au_out U (fetch addr (au_out U (quiet (ax_usr d)))))))))
     ((axil_was_read 4 U addr d)\<lparr>ax_rready := True\<rparr>)"
proof -
  have eq: "(axil_was_read 4 U addr d)\<lparr>ax_rready := True\<rparr> = ((\<lambda>d. (axil_edge U d)\<lparr>ax_arvalid := False\<rparr>) ^^ 4)
      (d\<lparr>ax_araddr := addr, ax_arprot := 0, ax_arvalid := True, ax_rready := True\<rparr>)" (is "_ = ?d")
  proof -
    have "ax_rready ?d" by (simp add: four_Suc axil_edge_pins)
    then show ?thesis unfolding axil_was_read_def by (cases ?d) simp
  qed
  show ?thesis
    unfolding eq unfolding four_Suc funpow.simps o_apply id_apply
    by (intro axil_reading_step fetched assms)
qed

lemma axil_was_read_idle: "axil_idle d \<Longrightarrow> axil_idle (axil_was_read 4 U addr d)"
  using axil_was_read_reading [of d addr]
  by (simp add: axil_reading_def axil_idle_def) (simp add: axil_was_read_def)

lemma axil_was_read_usr:
  "axil_idle d \<Longrightarrow> ax_usr (axil_was_read 4 U addr d)
    = au_out U (quiet (au_out U (deliver addr (au_out U (fetch addr (au_out U (quiet (ax_usr d))))))))"
  using axil_was_read_reading [of d addr] by (simp add: axil_reading_def)

lemma axil_read_ok:
  "tb_ok (\<lambda>d k m. axil_idle d \<and> P (read_reg addr (au_out U (quiet (ax_usr d))))
        (au_out U (quiet (au_out U (deliver addr (au_out U (fetch addr (au_out U (quiet (ax_usr d)))))))) ) k m)
     (axil_read (axil_eval U) addr) (\<lambda>r d k m. axil_idle d \<and> P r (ax_usr d) k m)"
  by (rule tb_okI)
    (simp add: wp_axil_read [where F = State_Monad.return, simplified] wp_return axil_was_read_idle axil_was_read_usr)

end

end
