(* ===== verification/Timer.thy ===== *)
theory Timer
  imports Axil
begin

text \<open>
  The machine timer: \<open>rtl/soc/timer.v\<close> behind the AXI4-Lite register interface, and its test
  bench \<open>sim/verilator/tb_timer.cpp\<close>.
\<close>

section \<open>timer.v\<close>

record timer =
  tm_irq :: bool
  tm_mtime :: u64
  tm_mtimecmp :: u64

type_synonym Vtimer = "timer axil"

definition timer_mtime_next :: "bool \<Rightarrow> axil_wr \<Rightarrow> u64 \<Rightarrow> u64" where
  "timer_mtime_next rst_n w mtime =
     (let sel = (vbits 3 2 (wr_awaddr w) :: 2 word) in
      if \<not> rst_n then 0
      else if wr_en w \<and> sel = 0 then vput 31 0 (wr_wdata w) mtime
      else if wr_en w \<and> sel = 1 then vput 63 32 (wr_wdata w) mtime
      else mtime + 1)"

definition timer_mtimecmp_next :: "bool \<Rightarrow> axil_wr \<Rightarrow> u64 \<Rightarrow> u64" where
  "timer_mtimecmp_next rst_n w mtimecmp =
     (let sel = (vbits 3 2 (wr_awaddr w) :: 2 word) in
      if \<not> rst_n then - 1
      else if wr_en w \<and> sel = 2 then vput 31 0 (wr_wdata w) mtimecmp
      else if wr_en w \<and> sel = 3 then vput 63 32 (wr_wdata w) mtimecmp
      else mtimecmp)"

definition timer_step :: "bool \<Rightarrow> axil_wr \<Rightarrow> axil_rd \<Rightarrow> timer \<Rightarrow> timer" where
  "timer_step rst_n w r u =
     u\<lparr>tm_mtime := timer_mtime_next rst_n w (tm_mtime u),
       tm_mtimecmp := timer_mtimecmp_next rst_n w (tm_mtimecmp u)\<rparr>"

definition timer_out :: "timer \<Rightarrow> timer" where
  "timer_out u = u\<lparr>tm_irq := tm_mtimecmp u \<le> tm_mtime u\<rparr>"

definition timer_rd_data :: "axil_rd \<Rightarrow> timer \<Rightarrow> u32" where
  "timer_rd_data r u =
     (let sel = (vbits 3 2 (rd_araddr r) :: 2 word) in
      if sel = 0 then vbits 31 0 (tm_mtime u)
      else if sel = 1 then vbits 63 32 (tm_mtime u)
      else if sel = 2 then vbits 31 0 (tm_mtimecmp u)
      else vbits 63 32 (tm_mtimecmp u))"

definition timer_user :: "timer axil_user" where
  "timer_user =
     \<lparr>au_wr_wait = \<lambda>w u. False, au_wr_ack = \<lambda>w u. wr_en w,
      au_rd_data = timer_rd_data, au_rd_wait = \<lambda>r u. False, au_rd_ack = \<lambda>r u. rd_en r,
      au_step = timer_step, au_out = timer_out\<rparr>"

definition Vtimer_eval :: "Vtimer \<Rightarrow> Vtimer" where
  "Vtimer_eval = axil_eval timer_user"

text \<open>
  What one cycle and one register access mean to the user of the module: a write to half of
  \<open>mtime\<close> replaces the increment of that cycle, a write to half of \<open>mtimecmp\<close> does not.
\<close>

definition timer_tick :: "timer \<Rightarrow> timer" where
  "timer_tick u = u\<lparr>tm_mtime := tm_mtime u + 1\<rparr>"

definition timer_write :: "u32 \<Rightarrow> u32 \<Rightarrow> 4 word \<Rightarrow> timer \<Rightarrow> timer" where
  "timer_write a v strb u =
     (let sel = (vbits 3 2 a :: 2 word) in
      if sel = 0 then u\<lparr>tm_mtime := vput 31 0 v (tm_mtime u)\<rparr>
      else if sel = 1 then u\<lparr>tm_mtime := vput 63 32 v (tm_mtime u)\<rparr>
      else if sel = 2 then (timer_tick u)\<lparr>tm_mtimecmp := vput 31 0 v (tm_mtimecmp u)\<rparr>
      else (timer_tick u)\<lparr>tm_mtimecmp := vput 63 32 v (tm_mtimecmp u)\<rparr>)"

definition timer_read :: "u32 \<Rightarrow> timer \<Rightarrow> u32" where
  "timer_read a u = timer_rd_data \<lparr>rd_timeout = 0, rd_araddr = a, rd_arvalid = False, rd_rdata = 0,
     rd_rvalid = False, rd_en = False\<rparr> u"

interpretation tm: axil_regs timer_user timer_tick timer_write "\<lambda>u. u\<lparr>tm_mtime := 0, tm_mtimecmp := - 1\<rparr>" timer_read
proof unfold_locales
  fix w :: axil_wr and r :: axil_rd and u
  assume w: "wr_en w"
  show "au_step timer_user True w r u = timer_write (wr_awaddr w) (wr_wdata w) (wr_wstrb w) u"
    using w word2_exhaust [of "vbits 3 2 (wr_awaddr w)"]
    by (auto simp: timer_user_def timer_step_def timer_write_def timer_mtime_next_def
        timer_mtimecmp_next_def timer_tick_def Let_def)
qed (simp_all add: timer_user_def timer_step_def timer_rd_data_def timer_out_def timer_mtime_next_def
    timer_mtimecmp_next_def timer_tick_def timer_read_def Let_def)

section \<open>tb_timer.cpp\<close>

definition REG_MTIME_LO :: u32 where [tb_data]: "REG_MTIME_LO = 0x0"
definition REG_MTIME_HI :: u32 where [tb_data]: "REG_MTIME_HI = 0x4"
definition REG_MTIMECMP_LO :: u32 where [tb_data]: "REG_MTIMECMP_LO = 0x8"
definition REG_MTIMECMP_HI :: u32 where [tb_data]: "REG_MTIMECMP_HI = 0xC"

text \<open>The bench's copies of the bus master, \<open>strb\<close> having the default value 0xF.\<close>

definition timer_axil_write :: "(Vtimer \<Rightarrow> Vtimer) \<Rightarrow> u32 \<Rightarrow> u32 \<Rightarrow> (Vtimer tb, unit) state" where
  "timer_axil_write ev addr data = axil_write ev addr data 0xF"

definition timer_axil_read :: "(Vtimer \<Rightarrow> Vtimer) \<Rightarrow> u32 \<Rightarrow> (Vtimer tb, u32) state" where
  "timer_axil_read ev addr = axil_read ev addr"

definition read_mtime :: "(Vtimer \<Rightarrow> Vtimer) \<Rightarrow> (Vtimer tb, u64) state" where
  "read_mtime ev = do {
     lo \<leftarrow> timer_axil_read ev REG_MTIME_LO;
     hi \<leftarrow> timer_axil_read ev REG_MTIME_HI;
     State_Monad.return (push_bit 32 (ucast hi) OR ucast lo) }"

definition tm_check :: "nat \<Rightarrow> string \<Rightarrow> u64 \<Rightarrow> u64 \<Rightarrow> (Vtimer tb, unit) state" where
  "tm_check line expr got want = tb_check ''tb_timer.cpp'' line expr got want"

definition tm_check_irq :: "nat \<Rightarrow> bool \<Rightarrow> (Vtimer tb, unit) state" where
  "tm_check_irq line want = do {
     irq \<leftarrow> peek (\<lambda>d. tm_irq (ax_usr d));
     tm_check line ''d.timer_irq'' (vbool irq) (vbool want) }"

text \<open>
  \<open>while (!d.timer_irq && guard < 200) { tb.tick(); guard++; }\<close>, with \<open>n\<close> the number of
  iterations that \<open>guard\<close> still allows.
\<close>

primrec timer_wait :: "(Vtimer \<Rightarrow> Vtimer) \<Rightarrow> nat \<Rightarrow> (Vtimer tb, unit) state" where
  "timer_wait ev 0 = State_Monad.return ()"
| "timer_wait ev (Suc n) = do {
     irq \<leftarrow> peek (\<lambda>d. tm_irq (ax_usr d));
     if irq then State_Monad.return () else do { tb_tick ev; timer_wait ev n } }"

definition timer_start :: "(Vtimer \<Rightarrow> Vtimer) \<Rightarrow> (Vtimer tb, unit) state" where
  "timer_start ev = do {
     poke (\<lambda>d. d\<lparr>v_clk := False, ax_rst_n := False\<rparr>);
     axil_reset ev }"

definition timer_test_1 :: "(Vtimer \<Rightarrow> Vtimer) \<Rightarrow> (Vtimer tb, unit) state" where
  "timer_test_1 ev = do {
     tb_begin ''1. mtime free-runs from 0, mtimecmp resets to all-ones'';
     x \<leftarrow> timer_axil_read ev REG_MTIME_LO;
     tm_check 72 ''axil_read(tb, REG_MTIME_LO) < 10'' (vbool (x < 10)) 1;
     x \<leftarrow> timer_axil_read ev REG_MTIMECMP_LO;
     tm_check 73 ''axil_read(tb, REG_MTIMECMP_LO)'' (ucast x) 0xFFFFFFFF;
     x \<leftarrow> timer_axil_read ev REG_MTIMECMP_HI;
     tm_check 74 ''axil_read(tb, REG_MTIMECMP_HI)'' (ucast x) 0xFFFFFFFF;
     tm_check_irq 75 False }"

definition timer_test_2 :: "(Vtimer \<Rightarrow> Vtimer) \<Rightarrow> (Vtimer tb, unit) state" where
  "timer_test_2 ev = do {
     tb_begin ''2. mtime advances by roughly the number of cycles elapsed'';
     t0 \<leftarrow> read_mtime ev;
     for_range 0 100 (\<lambda>i _. tb_tick ev) ();
     t1 \<leftarrow> read_mtime ev;
     tm_check 83 ''t1 > t0'' (vbool (t0 < t1)) 1;
     tm_check 84 ''t1 - t0 >= 100'' (vbool (100 \<le> t1 - t0)) 1;
     tm_check 85 ''t1 - t0 < 200'' (vbool (t1 - t0 < 200)) 1 }"

definition timer_test_3 :: "(Vtimer \<Rightarrow> Vtimer) \<Rightarrow> (Vtimer tb, unit) state" where
  "timer_test_3 ev = do {
     tb_begin ''3. timer_irq asserts when mtime reaches mtimecmp'';
     now \<leftarrow> read_mtime ev;
     let target = now + 20;
     timer_axil_write ev REG_MTIMECMP_LO (ucast target);
     timer_axil_write ev REG_MTIMECMP_HI (ucast (drop_bit 32 target));
     tm_check_irq 92 False;
     timer_wait ev 200;
     tm_check_irq 96 True;
     fired_at \<leftarrow> read_mtime ev;
     tm_check 98 ''fired_at >= target'' (vbool (target \<le> fired_at)) 1 }"

definition timer_test_4 :: "(Vtimer \<Rightarrow> Vtimer) \<Rightarrow> (Vtimer tb, unit) state" where
  "timer_test_4 ev = do {
     tb_begin ''4. re-arming mtimecmp forward clears the interrupt'';
     now2 \<leftarrow> read_mtime ev;
     let target2 = now2 + 30;
     timer_axil_write ev REG_MTIMECMP_LO (ucast target2);
     timer_axil_write ev REG_MTIMECMP_HI (ucast (drop_bit 32 target2));
     tm_check_irq 105 False;
     timer_wait ev 200;
     tm_check_irq 108 True }"

definition timer_test_5 :: "(Vtimer \<Rightarrow> Vtimer) \<Rightarrow> (Vtimer tb, unit) state" where
  "timer_test_5 ev = do {
     tb_begin ''5. writing mtimecmp back below mtime keeps irq asserted'';
     timer_axil_write ev REG_MTIMECMP_LO 0;
     timer_axil_write ev REG_MTIMECMP_HI 0;
     tm_check_irq 113 True }"

definition timer_test_6 :: "(Vtimer \<Rightarrow> Vtimer) \<Rightarrow> (Vtimer tb, unit) state" where
  "timer_test_6 ev = do {
     tb_begin ''6. writes to mtime itself take effect'';
     timer_axil_write ev REG_MTIMECMP_LO 0xFFFFFFFF;
     timer_axil_write ev REG_MTIMECMP_HI 0xFFFFFFFF;
     timer_axil_write ev REG_MTIME_HI 0x00000001;
     timer_axil_write ev REG_MTIME_LO 0x00000000;
     after_set \<leftarrow> read_mtime ev;
     tm_check 121 ''after_set >= 0x100000000ULL'' (vbool (0x100000000 \<le> after_set)) 1;
     tm_check 122 ''after_set < 0x100000100ULL'' (vbool (after_set < 0x100000100)) 1 }"

definition timer_test_7 :: "(Vtimer \<Rightarrow> Vtimer) \<Rightarrow> (Vtimer tb, unit) state" where
  "timer_test_7 ev = do {
     tb_begin ''7. high/low halves are independently addressable'';
     timer_axil_write ev REG_MTIMECMP_LO 0x12345678;
     timer_axil_write ev REG_MTIMECMP_HI 0x9ABCDEF0;
     x \<leftarrow> timer_axil_read ev REG_MTIMECMP_LO;
     tm_check 127 ''axil_read(tb, REG_MTIMECMP_LO)'' (ucast x) 0x12345678;
     x \<leftarrow> timer_axil_read ev REG_MTIMECMP_HI;
     tm_check 128 ''axil_read(tb, REG_MTIMECMP_HI)'' (ucast x) 0x9ABCDEF0 }"

definition timer_body :: "(Vtimer \<Rightarrow> Vtimer) \<Rightarrow> (Vtimer tb, unit) state" where
  "timer_body ev = do {
     timer_start ev;
     timer_test_1 ev; timer_test_2 ev; timer_test_3 ev; timer_test_4 ev;
     timer_test_5 ev; timer_test_6 ev; timer_test_7 ev }"

definition timer_main :: "(Vtimer \<Rightarrow> Vtimer) \<Rightarrow> string list \<Rightarrow> Vtimer \<Rightarrow> int \<times> Vtimer tb" where
  "timer_main ev argv d = tb_run (timer_body ev) ''timer'' argv d"

section \<open>The bench on the RTL\<close>

text \<open>Between transactions, with \<open>mtime = t\<close>, \<open>mtimecmp = c\<close> and \<open>n\<close> checks done.\<close>

definition tm_at :: "u64 \<Rightarrow> u64 \<Rightarrow> int \<Rightarrow> Vtimer \<Rightarrow> int \<Rightarrow> unit \<Rightarrow> bool" where
  "tm_at t c n d k m \<longleftrightarrow> axil_idle d \<and> tm_mtime (ax_usr d) = t \<and> tm_mtimecmp (ax_usr d) = c
     \<and> tm_irq (ax_usr d) = (c \<le> t) \<and> k = n"

lemma timer_out_user: "au_out timer_user = timer_out"
  by (simp add: timer_user_def)

lemma tm_start_ok: "tb_ok (\<lambda>d k m. k = 0) (timer_start Vtimer_eval) (\<lambda>_. tm_at 0 (- 1) 0)"
  unfolding timer_start_def Vtimer_eval_def
  by (rule tb_okI)
    (simp add: wp_poke tm.wp_axil_reset [where F = State_Monad.return, simplified] wp_return
      tm_at_def tm.axil_was_reset_idle tm.axil_was_reset_usr timer_out_user timer_out_def)

lemma tm_tick_ok: "tb_ok (tm_at t c n) (tb_tick Vtimer_eval) (\<lambda>_. tm_at (t + 1) c n)"
  unfolding Vtimer_eval_def
  by (rule tb_ok_conseq [OF tm.axil_tick_ok [where P = "\<lambda>u k m. tm_mtime u = t + 1 \<and> tm_mtimecmp u = c
      \<and> tm_irq u = (c \<le> t + 1) \<and> k = n"]])
    (auto simp: tm_at_def timer_out_user timer_out_def timer_tick_def)

lemma tm_read_ok:
  "tb_ok (tm_at t c n) (timer_axil_read Vtimer_eval a)
     (\<lambda>r d k m. r = timer_read a \<lparr>tm_irq = False, tm_mtime = t + 1, tm_mtimecmp = c\<rparr> \<and> tm_at (t + 3) c n d k m)"
  unfolding Vtimer_eval_def timer_axil_read_def
  by (rule tb_ok_conseq [OF tm.axil_read_ok [where P = "\<lambda>r u k m.
      r = timer_read a \<lparr>tm_irq = False, tm_mtime = t + 1, tm_mtimecmp = c\<rparr>
      \<and> tm_mtime u = t + 3 \<and> tm_mtimecmp u = c \<and> tm_irq u = (c \<le> t + 3) \<and> k = n"]])
    (auto simp: tm_at_def timer_out_user timer_out_def timer_tick_def timer_read_def timer_rd_data_def
      Let_def add.assoc)

definition tm_written :: "u32 \<Rightarrow> u32 \<Rightarrow> u64 \<Rightarrow> u64 \<Rightarrow> u64 \<times> u64" where
  "tm_written a v t c =
     (let u = timer_write a v 0xF \<lparr>tm_irq = False, tm_mtime = t + 1, tm_mtimecmp = c\<rparr>
      in (tm_mtime u + 1, tm_mtimecmp u))"

lemma tm_write_ok:
  "tb_ok (tm_at t c n) (timer_axil_write Vtimer_eval a v)
     (\<lambda>_. tm_at (fst (tm_written a v t c)) (snd (tm_written a v t c)) n)"
  unfolding Vtimer_eval_def timer_axil_write_def
  by (rule tb_ok_conseq [OF tm.axil_write_ok [where P = "\<lambda>u k m. tm_mtime u = fst (tm_written a v t c)
      \<and> tm_mtimecmp u = snd (tm_written a v t c) \<and> tm_irq u = (tm_mtimecmp u \<le> tm_mtime u) \<and> k = n"]])
    (auto simp: tm_at_def timer_out_user timer_out_def timer_tick_def timer_write_def tm_written_def
      Let_def)

text \<open>The loop that waits for the interrupt ends when \<open>mtime\<close> reaches \<open>mtimecmp\<close>.\<close>

lemma tm_wait_ok:
  assumes "t \<le> c" and "unat (c - t) \<le> n"
  shows "tb_ok (tm_at t c k) (timer_wait Vtimer_eval n) (\<lambda>_. tm_at c c k)"
  using assms
proof (induction n arbitrary: t)
  case 0
  then have "t = c" by (simp add: unat_eq_0)
  then show ?case by (auto intro: tb_ok_return)
next
  case (Suc n)
  show ?case
  proof (cases "t = c")
    case True
    then show ?thesis
      by (intro tb_okI) (auto simp: wp_peek wp_if_bind wp_return tm_at_def)
  next
    case False
    then have lt: "t < c" using Suc.prems by simp
    then have "t + 1 \<le> c" by (rule inc_le)
    moreover have "unat (c - (t + 1)) \<le> n"
    proof -
      have "c - t \<noteq> 0" using lt by simp
      then have "unat (c - t - 1) = unat (c - t) - 1" by (rule unat_minus_one)
      then show ?thesis using Suc.prems(2) by (simp add: diff_diff_eq)
    qed
    ultimately have IH: "tb_ok (tm_at (t + 1) c k) (timer_wait Vtimer_eval n) (\<lambda>_. tm_at c c k)"
      by (rule Suc.IH)
    have run: "tb_ok (tm_at t c k) (do { tb_tick Vtimer_eval; timer_wait Vtimer_eval n }) (\<lambda>_. tm_at c c k)"
      by (rule tb_ok_bind [OF tm_tick_ok IH])
    show ?thesis
    proof (rule tb_okI)
      fix d k' f h m
      assume at: "tm_at t c k d k' m"
      then have "\<not> tm_irq (ax_usr d)" using lt by (simp add: tm_at_def not_le)
      then show "wp (timer_wait Vtimer_eval (Suc n))
          (\<lambda>x s. tm_at c c k (tb_dut s) (tb_checks s) (tb.more s) \<and> tb_fails s = f) d k' f h m"
        using tb_okD [OF run at] by (simp add: wp_peek)
    qed
  qed
qed

text \<open>Rules to run a section: one call, its result and the next state as side conditions.\<close>

lemma tm_read_bind:
  assumes "t + 3 = t'" and "timer_read a \<lparr>tm_irq = False, tm_mtime = t + 1, tm_mtimecmp = c\<rparr> = r"
    and "tb_ok (tm_at t' c n) (F r) Q"
  shows "tb_ok (tm_at t c n) (State_Monad.bind (timer_axil_read Vtimer_eval a) F) Q"
  by (rule tb_okI, rule wp_bind_ok [OF tm_read_ok], assumption) (use assms in \<open>auto intro: tb_okD\<close>)

lemma tm_write_bind:
  assumes "fst (tm_written a v t c) = t'" and "snd (tm_written a v t c) = c'"
    and "tb_ok (tm_at t' c' n) (F ()) Q"
  shows "tb_ok (tm_at t c n) (State_Monad.bind (timer_axil_write Vtimer_eval a v) F) Q"
  by (rule tb_ok_bind [OF tm_write_ok]) (use assms in simp)

lemma tm_check_bind:
  assumes "got = want" and "n + 1 = n'" and "tb_ok (tm_at t c n') (F ()) Q"
  shows "tb_ok (tm_at t c n) (State_Monad.bind (tm_check line expr got want) F) Q"
  by (rule tb_okI)
    (use assms in \<open>auto simp: tm_check_def wp_check tm_at_def intro!: tb_okD\<close>)

lemma tm_check_irq_bind:
  assumes "want = (c \<le> t)" and "n + 1 = n'" and "tb_ok (tm_at t c n') (F ()) Q"
  shows "tb_ok (tm_at t c n) (State_Monad.bind (tm_check_irq line want) F) Q"
  by (rule tb_okI)
    (use assms in \<open>auto simp: tm_check_irq_def tm_check_def wp_assoc wp_peek wp_check tm_at_def intro!: tb_okD\<close>)

lemma tm_begin_bind:
  "n = n' \<Longrightarrow> t = t' \<Longrightarrow> tb_ok (tm_at t c n') (F ()) Q \<Longrightarrow> tb_ok (tm_at t c n) (State_Monad.bind (tb_begin s) F) Q"
  by (rule tb_okI) (auto simp: wp_begin intro: tb_okD)

lemma tm_wait_bind:
  "t \<le> c \<Longrightarrow> unat (c - t) \<le> n \<Longrightarrow> tb_ok (tm_at c c k) (F ()) Q \<Longrightarrow>
   tb_ok (tm_at t c k) (State_Monad.bind (timer_wait Vtimer_eval n) F) Q"
  by (rule tb_ok_bind [OF tm_wait_ok]) simp_all

lemma tm_read_mtime_bind:
  assumes "t + 6 = t'"
    and "push_bit 32 (ucast (timer_read REG_MTIME_HI \<lparr>tm_irq = False, tm_mtime = t + 4, tm_mtimecmp = c\<rparr>))
      OR ucast (timer_read REG_MTIME_LO \<lparr>tm_irq = False, tm_mtime = t + 1, tm_mtimecmp = c\<rparr>) = r"
    and "tb_ok (tm_at t' c n) (F r) Q"
  shows "tb_ok (tm_at t c n) (State_Monad.bind (read_mtime Vtimer_eval) F) Q"
  unfolding read_mtime_def State_Monad.bind_assoc
  by (rule tm_read_bind [OF refl refl], rule tm_read_bind [OF refl refl])
    (use assms in \<open>simp add: add.assoc\<close>)

lemma tm_ticks_bind:
  assumes "t + of_nat (nat n) = t'" and "0 \<le> n" and "tb_ok (tm_at t' c k) (F ()) Q"
  shows "tb_ok (tm_at t c k) (State_Monad.bind (for_range 0 n (\<lambda>i _. tb_tick Vtimer_eval) ()) F) Q"
proof -
  have "tb_ok (tm_at (t + of_nat (nat i)) c k) (tb_tick Vtimer_eval) (\<lambda>_. tm_at (t + of_nat (nat (i + 1))) c k)"
    if "0 \<le> i" for i
    using tm_tick_ok [of "t + of_nat (nat i)" c k] that by (simp add: nat_add_distrib algebra_simps)
  then have "tb_ok (tm_at (t + of_nat (nat 0)) c k) (for_range 0 n (\<lambda>i _. tb_tick Vtimer_eval) ())
      (\<lambda>_. tm_at (t + of_nat (nat n)) c k)"
    using assms(2) by (intro tb_ok_for [where I = "\<lambda>i _. tm_at (t + of_nat (nat i)) c k"]) auto
  then have "tb_ok (tm_at t c k) (for_range 0 n (\<lambda>i _. tb_tick Vtimer_eval) ()) (\<lambda>_. tm_at t' c k)"
    using assms(1) by simp
  then show ?thesis
    by (rule tb_ok_bind) (use assms(3) in simp)
qed

lemma tb_ok_bare: "tb_ok P (State_Monad.bind c State_Monad.return) Q \<Longrightarrow> tb_ok P c Q"
  by simp

lemma tm_end: "(t, c, n) = (t', c', n') \<Longrightarrow> True \<Longrightarrow> tb_ok (tm_at t c n) (State_Monad.return ()) (\<lambda>_. tm_at t' c' n')"
  by (rule tb_ok_return) simp

lemmas tm_binds = tm_begin_bind tm_read_bind tm_write_bind tm_check_bind tm_check_irq_bind
  tm_read_mtime_bind tm_ticks_bind tm_wait_bind

lemmas tm_eval = tb_data timer_read_def timer_rd_data_def tm_written_def timer_write_def timer_tick_def
  vbits_def vput_def mask_eq_exp_minus_1 word_order.extremum_unique Let_def

lemma timer_1_ok: "tb_ok (tm_at 0 (- 1) 0) (timer_test_1 Vtimer_eval) (\<lambda>_. tm_at 9 (- 1) 4)"
  unfolding timer_test_1_def Let_def
  by ((rule tm_end | rule tm_binds | (rule tb_ok_bare, rule tm_binds)), simp add: tm_eval, simp add: tm_eval)+

lemma timer_2_ok: "tb_ok (tm_at 9 (- 1) 4) (timer_test_2 Vtimer_eval) (\<lambda>_. tm_at 121 (- 1) 7)"
  unfolding timer_test_2_def Let_def
  by ((rule tm_end | rule tm_binds | (rule tb_ok_bare, rule tm_binds)), simp add: tm_eval, simp add: tm_eval)+

lemma timer_3_ok: "tb_ok (tm_at 121 (- 1) 7) (timer_test_3 Vtimer_eval) (\<lambda>_. tm_at 148 142 10)"
  unfolding timer_test_3_def Let_def
  by ((rule tm_end | rule tm_binds | (rule tb_ok_bare, rule tm_binds)), simp add: tm_eval, simp add: tm_eval)+

lemma timer_4_ok: "tb_ok (tm_at 148 142 10) (timer_test_4 Vtimer_eval) (\<lambda>_. tm_at 179 179 12)"
  unfolding timer_test_4_def Let_def
  by ((rule tm_end | rule tm_binds | (rule tb_ok_bare, rule tm_binds)), simp add: tm_eval, simp add: tm_eval)+

lemma timer_5_ok: "tb_ok (tm_at 179 179 12) (timer_test_5 Vtimer_eval) (\<lambda>_. tm_at 185 0 13)"
  unfolding timer_test_5_def Let_def
  by ((rule tm_end | rule tm_binds | (rule tb_ok_bare, rule tm_binds)), simp add: tm_eval, simp add: tm_eval)+

lemma timer_6_ok: "tb_ok (tm_at 185 0 13) (timer_test_6 Vtimer_eval) (\<lambda>_. tm_at 0x100000007 (- 1) 15)"
  unfolding timer_test_6_def Let_def
  by ((rule tm_end | rule tm_binds | (rule tb_ok_bare, rule tm_binds)), simp add: tm_eval, simp add: tm_eval)+

lemma timer_7_ok: "tb_ok (tm_at 0x100000007 (- 1) 15) (timer_test_7 Vtimer_eval) (\<lambda>_. tm_at 0x100000013 0x9ABCDEF012345678 17)"
  unfolding timer_test_7_def Let_def
  by ((rule tm_end | rule tm_binds | (rule tb_ok_bare, rule tm_binds)), simp add: tm_eval, simp add: tm_eval)+

section \<open>Properties\<close>

text \<open>
  C30. The timer's bench accepts the RTL with all of its 17 checks, from any initial state; in
  particular both of its loops that wait for the interrupt end before their guard does.
\<close>

theorem tb_timer_passes: "run_passes (timer_main Vtimer_eval argv d) 17"
proof -
  have "tb_ok (\<lambda>d k m. k = 0) (timer_body Vtimer_eval) (\<lambda>_. tm_at 0x100000013 0x9ABCDEF012345678 17)"
    unfolding timer_body_def
    by (rule tb_ok_bind [OF tm_start_ok] tb_ok_bind [OF timer_1_ok] tb_ok_bind [OF timer_2_ok]
        tb_ok_bind [OF timer_3_ok] tb_ok_bind [OF timer_4_ok] tb_ok_bind [OF timer_5_ok]
        tb_ok_bind [OF timer_6_ok] timer_7_ok)+
  then have "tb_ok (\<lambda>d k m. k = 0) (timer_body Vtimer_eval) (\<lambda>_ d k m. k = 17)"
    by (rule tb_ok_conseq) (simp_all add: tm_at_def)
  then show ?thesis
    unfolding timer_main_def by (rule tb_ok_run) simp
qed

text \<open>
  C20. The bench's \<open>read_mtime\<close>, which reads the low half and then the high half, returns the time of
  its first read unless the low half wraps within the three cycles between the two reads, and then
  a value that is 2^32 too large.
\<close>

theorem read_mtime_torn:
  "tb_ok (tm_at t c n) (read_mtime Vtimer_eval)
     (\<lambda>r d k m. r = (if drop_bit 32 (t + 1) = drop_bit 32 (t + 4) then t + 1 else t + 1 + 2 ^ 32)
        \<and> tm_at (t + 6) c n d k m)"
proof (rule tb_ok_bare, rule tm_read_mtime_bind [OF refl refl], rule tb_ok_return, rule conjI)
  have "(4 :: u64) = 1 + 3" by simp
  then have four: "t + 4 = t + 1 + 3" by (simp only: add.assoc)
  have sel: "(vbits 3 2 (0 :: u32) = (0 :: 2 word)) = True" "(vbits 3 2 (4 :: u32) = (0 :: 2 word)) = False"
    "(vbits 3 2 (4 :: u32) = (1 :: 2 word)) = True"
    by (simp_all add: vbits_def)
  show "push_bit 32 (ucast (timer_read REG_MTIME_HI \<lparr>tm_irq = False, tm_mtime = t + 4, tm_mtimecmp = c\<rparr>))
      OR ucast (timer_read REG_MTIME_LO \<lparr>tm_irq = False, tm_mtime = t + 1, tm_mtimecmp = c\<rparr>)
    = (if drop_bit 32 (t + 1) = drop_bit 32 (t + 4) then t + 1 else t + 1 + 2 ^ 32)"
    using torn_read [of 3 "t + 1"] unfolding four timer_read_def timer_rd_data_def tb_data Let_def
    by (simp only: sel axil_rd.simps timer.simps) simp
qed

lemma timer_edges:
  assumes "axil_idle d"
  shows "axil_idle ((axil_edge timer_user ^^ k) d)
    \<and> tm_mtime (ax_usr ((axil_edge timer_user ^^ k) d)) = tm_mtime (ax_usr d) + of_nat k
    \<and> tm_mtimecmp (ax_usr ((axil_edge timer_user ^^ k) d)) = tm_mtimecmp (ax_usr d)"
proof (induction k)
  case 0
  then show ?case using assms by simp
next
  case (Suc k)
  then show ?case
    using tm.axil_edge_idle [of "(axil_edge timer_user ^^ k) d"]
    by (simp add: timer_out_user timer_out_def timer_tick_def)
qed

text \<open>
  C17. The interrupt comes on time: with no bus traffic, from \<open>mtime < mtimecmp\<close> on, \<open>timer_irq\<close> is low
  for \<open>mtimecmp - mtime - 1\<close> cycles and high at the next one.
\<close>

theorem timer_fires_on_time:
  assumes "axil_idle d" and "tm_mtime (ax_usr d) < tm_mtimecmp (ax_usr d)"
    and "0 < k" and "k \<le> unat (tm_mtimecmp (ax_usr d) - tm_mtime (ax_usr d))"
  shows "tm_irq (ax_usr ((axil_edge timer_user ^^ k) d))
    = (k = unat (tm_mtimecmp (ax_usr d) - tm_mtime (ax_usr d)))"
proof -
  let ?t = "tm_mtime (ax_usr d)" and ?c = "tm_mtimecmp (ax_usr d)"
  obtain j where j: "k = Suc j" using assms(3) by (cases k) auto
  have "tm_irq (ax_usr ((axil_edge timer_user ^^ k) d)) = (?c \<le> ?t + of_nat k)"
    using timer_edges [OF assms(1), of j] tm.axil_edge_idle [of "(axil_edge timer_user ^^ j) d"]
    by (simp add: j timer_out_user timer_out_def timer_tick_def algebra_simps)
  also have "\<dots> = (unat ?c \<le> unat ?t + k)"
  proof -
    have d: "unat (?c - ?t) = unat ?c - unat ?t"
      using assms(2) by (simp add: unat_sub less_imp_le)
    have "unat ?c < 2 ^ 64" using unsigned_less [of ?c] by simp
    then have k: "unat ?t + k < 2 ^ 64"
      using assms(2,4) d by (simp add: word_less_nat_alt)
    then have "unat (?t + of_nat k) = unat ?t + k"
      by (simp add: unat_word_ariths unat_of_nat)
    then show ?thesis by (simp add: word_le_nat_alt)
  qed
  also have "\<dots> = (k = unat (?c - ?t))"
    using assms(2,4) by (simp add: unat_sub less_imp_le word_less_nat_alt) linarith
  finally show ?thesis .
qed

text \<open>A timer between transactions, three cycles before its interrupt.\<close>

definition timer_armed :: Vtimer where
  "timer_armed =
     \<lparr>v_clk = False, v_clk_prev = False, ax_rst_n = True,
      ax_awaddr = 0, ax_awprot = 0, ax_awvalid = False, ax_awready = True,
      ax_wdata = 0, ax_wstrb = 0, ax_wvalid = False, ax_wready = True,
      ax_bresp = 0, ax_bvalid = False, ax_bready = False,
      ax_araddr = 0, ax_arprot = 0, ax_arvalid = False, ax_arready = True,
      ax_rdata = 0, ax_rresp = 0, ax_rvalid = False, ax_rready = False,
      ax_wr = \<lparr>wr_timeout = 3, wr_awaddr = 0, wr_awvalid = False, wr_wdata = 0, wr_wstrb = 0,
        wr_wvalid = False, wr_bvalid = False, wr_en = False\<rparr>,
      ax_rd = \<lparr>rd_timeout = 3, rd_araddr = 0, rd_arvalid = False, rd_rdata = 0,
        rd_rvalid = False, rd_en = False\<rparr>,
      ax_usr = \<lparr>tm_irq = False, tm_mtime = 5, tm_mtimecmp = 8\<rparr>\<rparr>"

theorem timer_fires_on_time_witness:
  "\<not> tm_irq (ax_usr ((axil_edge timer_user ^^ 2) timer_armed))
   \<and> tm_irq (ax_usr ((axil_edge timer_user ^^ 3) timer_armed))"
proof -
  have "axil_idle timer_armed" "tm_mtime (ax_usr timer_armed) = 5" "tm_mtimecmp (ax_usr timer_armed) = 8"
    by (simp_all add: timer_armed_def axil_idle_def)
  then show ?thesis
    using timer_fires_on_time [of timer_armed 2] timer_fires_on_time [of timer_armed 3] by simp
qed

end
