(* ===== verification/Axil_Mem.thy ===== *)
theory Axil_Mem
  imports Axil Dmem
begin

text \<open>
  The memory on the bus: \<open>rtl/soc/axil_mem.v\<close>, which puts the data memory of \<open>dmem.v\<close> behind the
  AXI4-Lite register interface, and its test bench \<open>sim/verilator/tb_axil_mem.cpp\<close>.
\<close>

section \<open>axil_mem.v\<close>

text \<open>\<open>rd_pending\<close> and the registers of the instance \<open>u_dmem\<close>.\<close>

record amem =
  am_pending :: bool
  am_rdata :: u32
  am_mem :: "14 word \<Rightarrow> u32"

type_synonym Vaxil_mem = "amem axil"

text \<open>The instance \<open>u_dmem\<close> with its inputs connected.\<close>

definition amem_dmem :: "axil_wr \<Rightarrow> axil_rd \<Rightarrow> amem \<Rightarrow> Vdmem" where
  "amem_dmem w r u =
     \<lparr>v_clk = True, v_clk_prev = False, dm_en = rd_en r,
      dm_addr = (if rd_en r then rd_araddr r else wr_awaddr w),
      dm_wdata = wr_wdata w, dm_wstrb = (if wr_en w then wr_wstrb w else 0),
      dm_rdata = am_rdata u, dm_mem = am_mem u\<rparr>"

definition amem_step :: "bool \<Rightarrow> axil_wr \<Rightarrow> axil_rd \<Rightarrow> amem \<Rightarrow> amem" where
  "amem_step rst_n w r u =
     (let m = dmem_seq (amem_dmem w r u) in
      \<lparr>am_pending = (if \<not> rst_n then False else if rd_en r \<and> \<not> am_pending u then True else False),
       am_rdata = dm_rdata m, am_mem = dm_mem m\<rparr>)"

definition amem_user :: "amem axil_user" where
  "amem_user =
     \<lparr>au_wr_wait = \<lambda>w u. False, au_wr_ack = \<lambda>w u. wr_en w,
      au_rd_data = \<lambda>r u. am_rdata u,
      au_rd_wait = \<lambda>r u. rd_en r \<and> \<not> am_pending u, au_rd_ack = \<lambda>r u. rd_en r \<and> am_pending u,
      au_step = amem_step, au_out = id\<rparr>"

definition axil_mem_initial :: "(string \<Rightarrow> string option) \<Rightarrow> string list \<Rightarrow> Vaxil_mem \<Rightarrow> Vaxil_mem" where
  "axil_mem_initial files argv d =
     d\<lparr>ax_usr := (ax_usr d)\<lparr>am_mem := mem_initial ''+dmem='' '''' files argv (am_mem (ax_usr d))\<rparr>\<rparr>"

definition Vaxil_mem_eval :: "Vaxil_mem \<Rightarrow> Vaxil_mem" where
  "Vaxil_mem_eval = axil_eval amem_user"

text \<open>What one cycle of a transaction means to the memory.\<close>

definition amem_quiet :: "amem \<Rightarrow> amem" where
  "amem_quiet u = u\<lparr>am_pending := False\<rparr>"

definition amem_write :: "u32 \<Rightarrow> u32 \<Rightarrow> 4 word \<Rightarrow> amem \<Rightarrow> amem" where
  "amem_write a v strb u = (let i = (vbits 15 2 a :: 14 word) in
     u\<lparr>am_pending := False, am_mem := (am_mem u)(i := dmem_merge strb v (am_mem u i))\<rparr>)"

definition amem_fetch :: "bool \<Rightarrow> u32 \<Rightarrow> amem \<Rightarrow> amem" where
  "amem_fetch pending a u = u\<lparr>am_pending := pending, am_rdata := am_mem u (vbits 15 2 a)\<rparr>"

interpretation am: axil_fetching amem_user amem_quiet amem_write am_pending
  "amem_fetch True" "amem_fetch False" "\<lambda>a u. am_mem u (vbits 15 2 a)"
  by unfold_locales
    (simp_all add: amem_user_def amem_step_def amem_dmem_def dmem_seq_def dm_word_idx_def amem_quiet_def
      amem_write_def amem_fetch_def dmem_merge_none Let_def)

section \<open>tb_axil_mem.cpp\<close>

text \<open>The bench's copies of the bus master.\<close>

definition amem_axil_write :: "(Vaxil_mem \<Rightarrow> Vaxil_mem) \<Rightarrow> u32 \<Rightarrow> u32 \<Rightarrow> u8 \<Rightarrow> (Vaxil_mem tb, unit) state" where
  "amem_axil_write ev addr data strb = axil_write ev addr data strb"

definition amem_axil_read :: "(Vaxil_mem \<Rightarrow> Vaxil_mem) \<Rightarrow> u32 \<Rightarrow> (Vaxil_mem tb, u32) state" where
  "amem_axil_read ev addr = axil_read ev addr"

definition am_check :: "(Vaxil_mem \<Rightarrow> Vaxil_mem) \<Rightarrow> nat \<Rightarrow> string \<Rightarrow> u32 \<Rightarrow> u32 \<Rightarrow> (Vaxil_mem tb, unit) state" where
  "am_check ev line expr a want = do {
     r \<leftarrow> amem_axil_read ev a;
     tb_check ''tb_axil_mem.cpp'' line expr (ucast r) (ucast want) }"

definition amem_start :: "(Vaxil_mem \<Rightarrow> Vaxil_mem) \<Rightarrow> (Vaxil_mem tb, unit) state" where
  "amem_start ev = do {
     poke (\<lambda>d. d\<lparr>v_clk := False, ax_rst_n := False\<rparr>);
     axil_reset ev }"

definition amem_test_1 :: "(Vaxil_mem \<Rightarrow> Vaxil_mem) \<Rightarrow> (Vaxil_mem tb, unit) state" where
  "amem_test_1 ev = do {
     tb_begin ''1. word round-trip'';
     amem_axil_write ev (dmem_BASE + 0) 0xDEADBEEF 0xF;
     am_check ev 63 ''axil_read(tb, BASE + 0)'' (dmem_BASE + 0) 0xDEADBEEF;
     amem_axil_write ev (dmem_BASE + 4) 0x12345678 0xF;
     am_check ev 65 ''axil_read(tb, BASE + 4)'' (dmem_BASE + 4) 0x12345678;
     am_check ev 66 ''axil_read(tb, BASE + 0)'' (dmem_BASE + 0) 0xDEADBEEF }"

definition amem_test_2 :: "(Vaxil_mem \<Rightarrow> Vaxil_mem) \<Rightarrow> (Vaxil_mem tb, unit) state" where
  "amem_test_2 ev = do {
     tb_begin ''2. wstrb selects individual byte lanes'';
     amem_axil_write ev (dmem_BASE + 8) 0x00000000 0xF;
     amem_axil_write ev (dmem_BASE + 8) 0x000000AA 0x1;
     am_check ev 71 ''axil_read(tb, BASE + 8)'' (dmem_BASE + 8) 0x000000AA;
     amem_axil_write ev (dmem_BASE + 8) 0x0000BB00 0x2;
     am_check ev 73 ''axil_read(tb, BASE + 8)'' (dmem_BASE + 8) 0x0000BBAA;
     amem_axil_write ev (dmem_BASE + 8) 0x00CC0000 0x4;
     am_check ev 75 ''axil_read(tb, BASE + 8)'' (dmem_BASE + 8) 0x00CCBBAA;
     amem_axil_write ev (dmem_BASE + 8) 0xDD000000 0x8;
     am_check ev 77 ''axil_read(tb, BASE + 8)'' (dmem_BASE + 8) 0xDDCCBBAA }"

definition amem_test_3 :: "(Vaxil_mem \<Rightarrow> Vaxil_mem) \<Rightarrow> (Vaxil_mem tb, unit) state" where
  "amem_test_3 ev = do {
     tb_begin ''3. reads and writes to different addresses interleave cleanly'';
     amem_axil_write ev (dmem_BASE + 100) 0x11111111 0xF;
     amem_axil_write ev (dmem_BASE + 104) 0x22222222 0xF;
     am_check ev 82 ''axil_read(tb, BASE + 100)'' (dmem_BASE + 100) 0x11111111;
     am_check ev 83 ''axil_read(tb, BASE + 104)'' (dmem_BASE + 104) 0x22222222;
     amem_axil_write ev (dmem_BASE + 100) 0x33333333 0xF;
     am_check ev 85 ''axil_read(tb, BASE + 100)'' (dmem_BASE + 100) 0x33333333;
     am_check ev 86 ''axil_read(tb, BASE + 104)'' (dmem_BASE + 104) 0x22222222 }"

definition amem_test_4 :: "(Vaxil_mem \<Rightarrow> Vaxil_mem) \<Rightarrow> int \<Rightarrow> unit \<Rightarrow> (Vaxil_mem tb, unit) state" where
  "amem_test_4 ev i _ = do {
     let v = word_of_int i * 0x01010101;
     amem_axil_write ev (dmem_BASE + 200) v 0xF;
     am_check ev 92 ''axil_read(tb, BASE + 200)'' (dmem_BASE + 200) v }"

text \<open>Section 5: the byte array (8192 bytes, from the first word on), and the loops over it.\<close>

definition amem_resync :: "(Vaxil_mem \<Rightarrow> Vaxil_mem) \<Rightarrow> int \<Rightarrow> u8 list \<Rightarrow> (Vaxil_mem tb, u8 list) state" where
  "amem_resync ev w model = do {
     v \<leftarrow> amem_axil_read ev (dmem_BASE + word_of_int w * 4);
     State_Monad.return (model
       [nat w * 4 + 0 := ucast (v AND 0xFF),
        nat w * 4 + 1 := ucast (drop_bit 8 v AND 0xFF),
        nat w * 4 + 2 := ucast (drop_bit 16 v AND 0xFF),
        nat w * 4 + 3 := ucast (drop_bit 24 v AND 0xFF)]) }"

definition amem_random :: "(Vaxil_mem \<Rightarrow> Vaxil_mem) \<Rightarrow> int \<Rightarrow> u8 list \<Rightarrow> (Vaxil_mem tb, u8 list) state" where
  "amem_random ev i model = do {
     x \<leftarrow> tb_rnd_in 0 8191;
     let off = x AND NOT 3;
     v \<leftarrow> tb_rnd;
     s \<leftarrow> tb_rnd_in 1 15;
     let strb = (ucast s :: u8);
     amem_axil_write ev (dmem_BASE + off) v strb;
     let model' = model_store (unat off) v strb model;
     y \<leftarrow> tb_rnd_in 0 8191;
     let loff = y AND NOT 3;
     let want = model_load (unat loff) model';
     am_check ev 117 ''axil_read(tb, BASE + loff)'' (dmem_BASE + loff) want;
     State_Monad.return model' }"

definition axil_mem_body :: "(Vaxil_mem \<Rightarrow> Vaxil_mem) \<Rightarrow> (Vaxil_mem tb, unit) state" where
  "axil_mem_body ev = do {
     amem_start ev;
     amem_test_1 ev; amem_test_2 ev; amem_test_3 ev;
     tb_begin ''4. back-to-back transactions, no idle cycle between'';
     for_range 0 50 (amem_test_4 ev) ();
     tb_begin ''5. random against a byte-array shadow model'';
     model \<leftarrow> for_range 0 2048 (amem_resync ev) (replicate 8192 0);
     _ \<leftarrow> for_range 0 3000 (amem_random ev) model;
     State_Monad.return () }"

definition axil_mem_main ::
  "(Vaxil_mem \<Rightarrow> Vaxil_mem) \<Rightarrow> (string \<Rightarrow> string option) \<Rightarrow> string list \<Rightarrow> Vaxil_mem \<Rightarrow> int \<times> Vaxil_mem tb" where
  "axil_mem_main ev files argv d = tb_run (axil_mem_body ev) ''axil_mem'' argv (axil_mem_initial files argv d)"

section \<open>The bench on the RTL\<close>

text \<open>Between transactions, with memory \<open>M\<close> and \<open>c\<close> checks done.\<close>

definition am_at :: "(14 word \<Rightarrow> u32) \<Rightarrow> int \<Rightarrow> Vaxil_mem \<Rightarrow> int \<Rightarrow> unit \<Rightarrow> bool" where
  "am_at M c d k m \<longleftrightarrow> axil_idle d \<and> am_mem (ax_usr d) = M \<and> k = c"

lemma amem_out_user: "au_out amem_user = id"
  by (simp add: amem_user_def)

lemma am_write_ok:
  "tb_ok (am_at M c) (amem_axil_write Vaxil_mem_eval a v s)
     (\<lambda>_. am_at (M(vbits 15 2 a := dmem_merge (ucast s) v (M (vbits 15 2 a)))) c)"
  unfolding Vaxil_mem_eval_def amem_axil_write_def
  by (rule tb_ok_conseq [OF am.axil_write_ok [where P = "\<lambda>u k m.
      am_mem u = M(vbits 15 2 a := dmem_merge (ucast s) v (M (vbits 15 2 a))) \<and> k = c"]])
    (auto simp: am_at_def amem_out_user amem_quiet_def amem_write_def Let_def)

lemma am_read_ok:
  "tb_ok (am_at M c) (amem_axil_read Vaxil_mem_eval a) (\<lambda>x d k m. am_at M c d k m \<and> x = M (vbits 15 2 a))"
  unfolding Vaxil_mem_eval_def amem_axil_read_def
  by (rule tb_ok_conseq [OF am.axil_read_ok [where P = "\<lambda>x u k m.
      am_mem u = M \<and> x = M (vbits 15 2 a) \<and> k = c"]])
    (auto simp: am_at_def amem_out_user amem_quiet_def amem_fetch_def)

lemma am_begin_ok: "tb_ok (am_at M c) (tb_begin n) (\<lambda>_. am_at M c)"
  by (rule tb_okI) (simp add: wp_begin)

lemma am_check_ok:
  "M (vbits 15 2 a) = want \<Longrightarrow>
   tb_ok (am_at M c) (am_check Vaxil_mem_eval line expr a want) (\<lambda>_. am_at M (c + 1))"
  unfolding am_check_def
  by (rule tb_ok_bind [OF am_read_ok], rule tb_okI) (auto simp: wp_check am_at_def)

lemma am_start_ok:
  "tb_ok (\<lambda>d k m. k = c) (amem_start Vaxil_mem_eval) (\<lambda>_ d k m. \<exists>M. am_at M c d k m)"
  unfolding amem_start_def Vaxil_mem_eval_def
  by (rule tb_okI)
    (simp add: wp_poke am.wp_axil_reset [where F = State_Monad.return, simplified] wp_return
      am_at_def am.axil_was_reset_idle)

lemma am_lanes:
  "dmem_merge 1 0xAA 0 = 0xAA" "dmem_merge 2 0xBB00 0xAA = 0xBBAA"
  "dmem_merge 4 0xCC0000 0xBBAA = 0xCCBBAA" "dmem_merge 8 0xDD000000 0xCCBBAA = 0xDDCCBBAA"
  by (simp_all add: dmem_merge_def vput_def vbits_def mask_eq_exp_minus_1 push_bit_eq_mult)

lemmas am_calls = am_write_ok am_begin_ok
lemmas am_eval = dmem_merge_full am_lanes vbits_def dmem_BASE_def add.assoc

text \<open>The directed sections, from and to some memory.\<close>

lemma tb_ok_some:
  assumes "\<And>M. \<exists>M'. tb_ok (am_at M c) p (\<lambda>_. am_at M' c')"
  shows "tb_ok (\<lambda>d k m. \<exists>M. am_at M c d k m) p (\<lambda>_ d k m. \<exists>M. am_at M c' d k m)"
proof (rule tb_okI)
  fix d k f h m
  assume "\<exists>M. am_at M c d k m"
  then obtain M where M: "am_at M c d k m" by blast
  obtain M' where "tb_ok (am_at M c) p (\<lambda>_. am_at M' c')" using assms by blast
  from tb_okD [OF this M]
  show "wp p (\<lambda>_ s. (\<exists>M. am_at M c' (tb_dut s) (tb_checks s) (tb.more s)) \<and> tb_fails s = f) d k f h m"
    by (rule wp_mono) auto
qed

lemma am_post: "tb_ok P p (\<lambda>_. am_at M c) \<Longrightarrow> c = c' \<Longrightarrow> \<exists>M'. tb_ok P p (\<lambda>_. am_at M' c')"
  by blast

lemma amem_directed_ok:
  "tb_ok (\<lambda>d k m. \<exists>M. am_at M c d k m) (amem_test_1 Vaxil_mem_eval) (\<lambda>_ d k m. \<exists>M. am_at M (c + 3) d k m)"
  "tb_ok (\<lambda>d k m. \<exists>M. am_at M c d k m) (amem_test_2 Vaxil_mem_eval) (\<lambda>_ d k m. \<exists>M. am_at M (c + 4) d k m)"
  "tb_ok (\<lambda>d k m. \<exists>M. am_at M c d k m) (amem_test_3 Vaxil_mem_eval) (\<lambda>_ d k m. \<exists>M. am_at M (c + 4) d k m)"
  "tb_ok (\<lambda>d k m. \<exists>M. am_at M c d k m) (amem_test_4 Vaxil_mem_eval i u) (\<lambda>_ d k m. \<exists>M. am_at M (c + 1) d k m)"
  unfolding amem_test_1_def amem_test_2_def amem_test_3_def amem_test_4_def Let_def
  by (rule tb_ok_some, rule am_post,
      ((rule tb_ok_bind)?, (rule am_calls | (rule am_check_ok, simp add: am_eval)))+, simp)+

lemma amem_loop_ok:
  "tb_ok (\<lambda>d k m. \<exists>M. am_at M 11 d k m) (for_range 0 50 (amem_test_4 Vaxil_mem_eval) ())
    (\<lambda>_ d k m. \<exists>M. am_at M 61 d k m)"
proof -
  define I where "I i (u :: unit) = (\<lambda>d k m. \<exists>M. am_at M (11 + i) d k m)" for i u
  have "tb_ok (I i u) (amem_test_4 Vaxil_mem_eval i u) (\<lambda>u. I (i + 1) u)" for i u
    using amem_directed_ok(4) [of "11 + i"] by (simp add: I_def [abs_def] add.assoc)
  then have "tb_ok (I 0 ()) (for_range 0 50 (amem_test_4 Vaxil_mem_eval) ()) (\<lambda>u. I 50 u)"
    by (intro tb_ok_for) auto
  then show ?thesis by (simp add: I_def [abs_def])
qed

section \<open>The random section on the RTL\<close>

interpretation am_shadow: shadowed_memory am_at "amem_axil_write Vaxil_mem_eval" "amem_axil_read Vaxil_mem_eval"
  2048 8191
proof unfold_locales
  fix M c w v strb
  show "tb_ok (am_at M c) (amem_axil_write Vaxil_mem_eval (dmem_BASE + ucast w * 4) v strb)
     (\<lambda>_. am_at (M(w := dmem_merge (ucast strb) v (M w))) c)"
    using am_write_ok [of M c "dmem_BASE + ucast w * 4"] by (simp add: aligned_address(2))
qed (simp, simp, rule am_read_ok, simp add: am_at_def)

lemma amem_resync_ok:
  "0 \<le> i \<Longrightarrow> i < 2048 \<Longrightarrow>
   tb_ok (\<lambda>d k m. \<exists>M. am_at M c d k m \<and> dm_shadows 2048 model (nat i) M) (amem_resync Vaxil_mem_eval i model)
     (\<lambda>model' d k m. \<exists>M. am_at M c d k m \<and> dm_shadows 2048 model' (nat (i + 1)) M)"
  unfolding amem_resync_def by (rule am_shadow.resync_ok) simp_all

lemma amem_random_ok:
  "tb_ok (\<lambda>d k m. \<exists>M. am_at M c d k m \<and> dm_shadows 2048 model 2048 M) (amem_random Vaxil_mem_eval i model)
     (\<lambda>model' d k m. \<exists>M. am_at M (c + 1) d k m \<and> dm_shadows 2048 model' 2048 M)"
  unfolding amem_random_def am_check_def Let_def State_Monad.bind_assoc by (rule am_shadow.random_ok)

lemma axil_mem_body_ok: "tb_ok (\<lambda>d k m. k = 0) (axil_mem_body Vaxil_mem_eval) (\<lambda>_ d k m. k = 3061)"
proof -
  let ?ev = Vaxil_mem_eval
  have sect: "tb_ok (\<lambda>d k m. \<exists>M. am_at M c d k m) (tb_begin n) (\<lambda>_ d k m. \<exists>M. am_at M c d k m)" for c n
    by (rule tb_ok_some) (rule exI, rule am_begin_ok)
  have loops: "tb_ok (\<lambda>d k m. \<exists>M. am_at M 61 d k m) (do {
      model \<leftarrow> for_range 0 2048 (amem_resync ?ev) (replicate 8192 0);
      _ \<leftarrow> for_range 0 3000 (amem_random ?ev) model; State_Monad.return () }) (\<lambda>_ d k m. k = 3061)"
    by (rule tb_ok_conseq
        [OF am_shadow.loops_ok [OF amem_resync_ok amem_random_ok, where c = 61 and R = 3000, simplified]])
      (auto simp: am_at_def)
  have tests: "tb_ok (\<lambda>d k m. \<exists>M. am_at M 0 d k m) (amem_test_1 ?ev) (\<lambda>_ d k m. \<exists>M. am_at M 3 d k m)"
    "tb_ok (\<lambda>d k m. \<exists>M. am_at M 3 d k m) (amem_test_2 ?ev) (\<lambda>_ d k m. \<exists>M. am_at M 7 d k m)"
    "tb_ok (\<lambda>d k m. \<exists>M. am_at M 7 d k m) (amem_test_3 ?ev) (\<lambda>_ d k m. \<exists>M. am_at M 11 d k m)"
    using amem_directed_ok(1) [of 0] amem_directed_ok(2) [of 3] amem_directed_ok(3) [of 7] by simp_all
  from tb_ok_bind [OF am_start_ok tb_ok_bind [OF tests(1) tb_ok_bind [OF tests(2) tb_ok_bind [OF tests(3)
      tb_ok_bind [OF sect tb_ok_bind [OF amem_loop_ok tb_ok_bind [OF sect loops]]]]]]]
  show ?thesis unfolding axil_mem_body_def .
qed

text \<open>Two reads of a word around a write.\<close>

definition amem_rwr :: "u32 \<Rightarrow> u32 \<Rightarrow> u8 \<Rightarrow> u32 \<Rightarrow> (Vaxil_mem tb, u32 \<times> u32) state" where
  "amem_rwr a v strb b = do {
     amem_start Vaxil_mem_eval;
     x \<leftarrow> amem_axil_read Vaxil_mem_eval b;
     amem_axil_write Vaxil_mem_eval a v strb;
     y \<leftarrow> amem_axil_read Vaxil_mem_eval b;
     State_Monad.return (x, y) }"

lemma amem_rwr_ok:
  "tb_ok (\<lambda>d k m. k = c) (amem_rwr a v strb b) (\<lambda>(x, y) d k m. axil_idle d \<and> k = c \<and>
     y = (if vbits 15 2 a = (vbits 15 2 b :: 14 word) then dmem_merge (ucast strb) v x else x))"
  unfolding amem_rwr_def
proof (rule tb_ok_bind [OF am_start_ok], rule tb_okI)
  fix d k f h m
  assume "\<exists>M. am_at M c d k m"
  then obtain M where M: "am_at M c d k m" by blast
  let ?P = "\<lambda>(x, y) d k m. axil_idle d \<and> k = c \<and>
     y = (if vbits 15 2 a = (vbits 15 2 b :: 14 word) then dmem_merge (ucast strb) v x else x)"
  have "tb_ok (am_at M c) (do { x \<leftarrow> amem_axil_read Vaxil_mem_eval b;
     amem_axil_write Vaxil_mem_eval a v strb;
     y \<leftarrow> amem_axil_read Vaxil_mem_eval b; State_Monad.return (x, y) }) ?P"
    apply (rule tb_okI, rule wp_bind_ok [OF am_read_ok], assumption, erule conjE)
    apply (rule wp_bind_ok [OF am_write_ok], assumption)
    by (rule wp_bind_ok [OF am_read_ok], assumption) (auto simp: wp_return am_at_def)
  from tb_okD [OF this M]
  show "wp (do { x \<leftarrow> amem_axil_read Vaxil_mem_eval b; amem_axil_write Vaxil_mem_eval a v strb;
     y \<leftarrow> amem_axil_read Vaxil_mem_eval b; State_Monad.return (x, y) })
     (\<lambda>x s. ?P x (tb_dut s) (tb_checks s) (tb.more s) \<and> tb_fails s = f) d k f h m" .
qed

section \<open>Properties\<close>

text \<open>
  C31. The bus memory's bench accepts the RTL with all of its 3061 checks: every word written over
  AXI4-Lite reads back with its byte lanes merged, back to back and interleaved, and the 3000
  random reads agree with the byte array; whatever the initial memory, files and arguments.
\<close>

theorem tb_axil_mem_passes: "run_passes (axil_mem_main Vaxil_mem_eval files argv d) 3061"
  unfolding axil_mem_main_def by (rule tb_ok_run [OF axil_mem_body_ok]) simp

text \<open>
  C14. The bus memory keeps words apart: reset, then a read, a write and the same read again. The
  second answer is the first one with the strobed lanes replaced when the two addresses name the
  same word, and the first one unchanged otherwise; the bus is idle again afterwards, and the
  transactions themselves record no check and no failure.
\<close>

theorem axil_mem_read_write_read:
  "case run_state (amem_rwr a v strb b) s of ((x, y), s') \<Rightarrow>
     y = (if vbits 15 2 a = (vbits 15 2 b :: 14 word) then dmem_merge (ucast strb) v x else x)
     \<and> axil_idle (tb_dut s') \<and> tb_checks s' = tb_checks s \<and> tb_fails s' = tb_fails s"
  using tb_okD [OF amem_rwr_ok [where c = "tb_checks s"], where d = "tb_dut s" and k = "tb_checks s"
      and f = "tb_fails s" and h = "tb_rest s" and m = "tb.more s"]
  unfolding run_state_wp by (simp add: case_prod_beta split del: if_split)

end
