(* ===== verification/Axil_Master.thy ===== *)
theory Axil_Master
  imports Tb_Common
begin

text \<open>
  The AXI4-Lite master of the memory stage: \<open>rtl/soc/axil_master.v\<close>, which turns a load or store
  into one bus transaction, or two when it crosses a word boundary, and its test bench
  \<open>sim/verilator/tb_axil_master.cpp\<close> with the stub slave it is run against.
\<close>

section \<open>axil_master.v\<close>

definition ST_IDLE :: "2 word" where [tb_data]: "ST_IDLE = 0"
definition ST_WRITE :: "2 word" where [tb_data]: "ST_WRITE = 1"
definition ST_WRESP :: "2 word" where [tb_data]: "ST_WRESP = 2"
definition ST_READ :: "2 word" where [tb_data]: "ST_READ = 3"

text \<open>The registers, the five \<open>output reg\<close> pins among them.\<close>

record mx_regs =
  mx_state :: "2 word"
  mx_awvalid :: bool
  mx_wvalid :: bool
  mx_bready :: bool
  mx_arvalid :: bool
  mx_rready :: bool
  mx_aw_done :: bool
  mx_w_done :: bool
  mx_phase2 :: bool
  mx_word_lo :: u32

record Vaxil_master = vclk +
  mx_rst_n :: bool
  mx_mem_addr :: u32
  mx_mem_wdata :: u32
  mx_mem_funct3 :: "3 word"
  mx_mem_re :: bool
  mx_mem_we :: bool
  mx_mem_rdata :: u32
  mx_bus_stall :: bool
  mx_awaddr :: u32
  mx_awprot :: "3 word"
  mx_awready :: bool
  mx_wdata :: u32
  mx_wstrb :: "4 word"
  mx_wready :: bool
  mx_bresp :: "2 word"
  mx_bvalid :: bool
  mx_araddr :: u32
  mx_arprot :: "3 word"
  mx_arready :: bool
  mx_rdata :: u32
  mx_rresp :: "2 word"
  mx_rvalid :: bool
  mx_r :: mx_regs

text \<open>Byte lanes, and whether the access crosses into the next word.\<close>

definition mx_lane :: "u32 \<Rightarrow> nat" where
  "mx_lane addr = unat (vbits 1 0 addr :: 2 word)"

definition mx_crosses :: "u32 \<Rightarrow> 3 word \<Rightarrow> bool" where
  "mx_crosses addr funct3 =
     (let lane = (vbits 1 0 addr :: 2 word);
          is_half = ((vbits 1 0 funct3 :: 2 word) = 0b01);
          is_word = ((vbits 1 0 funct3 :: 2 word) = 0b10)
      in (is_word \<and> lane \<noteq> 0b00) \<or> (is_half \<and> lane = 0b11))"

definition mx_addr_lo :: "u32 \<Rightarrow> u32" where
  "mx_addr_lo addr = word_cat (vbits 31 2 addr :: 30 word) (0b00 :: 2 word)"

definition mx_addr_hi :: "u32 \<Rightarrow> u32" where
  "mx_addr_hi addr = mx_addr_lo addr + 4"

definition mx_byte_en :: "3 word \<Rightarrow> 4 word" where
  "mx_byte_en funct3 =
     (let size = (vbits 1 0 funct3 :: 2 word) in
      if size = 0b00 then 0b0001
      else if size = 0b01 then 0b0011
      else if size = 0b10 then 0b1111
      else 0b0000)"

definition mx_strb :: "bool \<Rightarrow> u32 \<Rightarrow> 3 word \<Rightarrow> 4 word" where
  "mx_strb hi addr funct3 =
     (let byte_en_shifted = push_bit (mx_lane addr) (word_cat (0 :: 4 word) (mx_byte_en funct3) :: 8 word)
      in if hi then vbits 7 4 byte_en_shifted else vbits 3 0 byte_en_shifted)"

definition mx_data :: "bool \<Rightarrow> u32 \<Rightarrow> u32 \<Rightarrow> u32" where
  "mx_data hi addr wdata =
     (let wdata_shifted = push_bit (8 * mx_lane addr) (word_cat (0 :: u32) wdata :: u64)
      in if hi then vbits 63 32 wdata_shifted else vbits 31 0 wdata_shifted)"

definition mx_addr :: "bool \<Rightarrow> u32 \<Rightarrow> u32" where
  "mx_addr hi addr = (if hi then mx_addr_hi addr else mx_addr_lo addr)"

text \<open>Read data: the two words combined, shifted down and extended.\<close>

definition mx_extend :: "3 word \<Rightarrow> u32 \<Rightarrow> u32" where
  "mx_extend funct3 shifted =
     (if funct3 = 0b000 then word_cat (vrep (bit shifted 7) :: 24 word) (vbits 7 0 shifted :: 8 word)
      else if funct3 = 0b001 then word_cat (vrep (bit shifted 15) :: 16 word) (vbits 15 0 shifted :: 16 word)
      else if funct3 = 0b010 then shifted
      else if funct3 = 0b100 then word_cat (0 :: 24 word) (vbits 7 0 shifted :: 8 word)
      else if funct3 = 0b101 then word_cat (0 :: 16 word) (vbits 15 0 shifted :: 16 word)
      else shifted)"

definition mx_read_data :: "u32 \<Rightarrow> 3 word \<Rightarrow> u32 \<Rightarrow> u32 \<Rightarrow> u32" where
  "mx_read_data addr funct3 word_lo rdata =
     (let combined = (if mx_crosses addr funct3 then word_cat rdata word_lo else word_cat (0 :: u32) rdata :: u64);
          shifted64 = drop_bit (8 * mx_lane addr) combined
      in mx_extend funct3 (vbits 31 0 shifted64))"

definition mx_xfer_done :: "Vaxil_master \<Rightarrow> bool" where
  "mx_xfer_done d =
     (let r = mx_r d;
          phase_done = ((mx_state r = ST_WRESP \<and> mx_bvalid d) \<or> (mx_state r = ST_READ \<and> mx_rvalid d))
      in phase_done \<and> (\<not> mx_crosses (mx_mem_addr d) (mx_mem_funct3 d) \<or> mx_phase2 r))"

text \<open>The \<open>always @(posedge clk)\<close> block.\<close>

definition mx_reset :: mx_regs where
  "mx_reset =
     \<lparr>mx_state = ST_IDLE, mx_awvalid = False, mx_wvalid = False, mx_bready = False, mx_arvalid = False,
      mx_rready = False, mx_aw_done = False, mx_w_done = False, mx_phase2 = False, mx_word_lo = 0\<rparr>"

definition mx_idle_next :: "bool \<Rightarrow> bool \<Rightarrow> mx_regs \<Rightarrow> mx_regs" where
  "mx_idle_next mem_re mem_we r =
     (let r1 = r\<lparr>mx_aw_done := False, mx_w_done := False, mx_phase2 := False\<rparr> in
      if mem_we then r1\<lparr>mx_awvalid := True, mx_wvalid := True, mx_state := ST_WRITE\<rparr>
      else if mem_re then r1\<lparr>mx_arvalid := True, mx_rready := True, mx_state := ST_READ\<rparr>
      else r1)"

definition mx_write_next :: "bool \<Rightarrow> bool \<Rightarrow> mx_regs \<Rightarrow> mx_regs" where
  "mx_write_next awready wready r =
     (let aw = (mx_awvalid r \<and> awready); w = (mx_wvalid r \<and> wready);
          r1 = (if aw then r\<lparr>mx_awvalid := False, mx_aw_done := True\<rparr> else r);
          r2 = (if w then r1\<lparr>mx_wvalid := False, mx_w_done := True\<rparr> else r1)
      in if (mx_aw_done r \<or> aw) \<and> (mx_w_done r \<or> w)
         then r2\<lparr>mx_bready := True, mx_state := ST_WRESP\<rparr> else r2)"

definition mx_wresp_next :: "bool \<Rightarrow> bool \<Rightarrow> mx_regs \<Rightarrow> mx_regs" where
  "mx_wresp_next crosses bvalid r =
     (if bvalid
      then if crosses \<and> \<not> mx_phase2 r
           then r\<lparr>mx_phase2 := True, mx_aw_done := False, mx_w_done := False, mx_bready := False,
                  mx_awvalid := True, mx_wvalid := True, mx_state := ST_WRITE\<rparr>
           else r\<lparr>mx_bready := False, mx_state := ST_IDLE\<rparr>
      else r)"

definition mx_read_next :: "bool \<Rightarrow> bool \<Rightarrow> bool \<Rightarrow> u32 \<Rightarrow> mx_regs \<Rightarrow> mx_regs" where
  "mx_read_next crosses arready rvalid rdata r =
     (let r1 = (if mx_arvalid r \<and> arready then r\<lparr>mx_arvalid := False\<rparr> else r) in
      if rvalid
      then if crosses \<and> \<not> mx_phase2 r
           then r1\<lparr>mx_word_lo := rdata, mx_phase2 := True, mx_arvalid := True\<rparr>
           else r1\<lparr>mx_rready := False, mx_state := ST_IDLE\<rparr>
      else r1)"

definition mx_next :: "Vaxil_master \<Rightarrow> mx_regs" where
  "mx_next d =
     (let r = mx_r d; crosses = mx_crosses (mx_mem_addr d) (mx_mem_funct3 d) in
      if \<not> mx_rst_n d then mx_reset
      else if mx_state r = ST_IDLE then mx_idle_next (mx_mem_re d) (mx_mem_we d) r
      else if mx_state r = ST_WRITE then mx_write_next (mx_awready d) (mx_wready d) r
      else if mx_state r = ST_WRESP then mx_wresp_next crosses (mx_bvalid d) r
      else mx_read_next crosses (mx_arready d) (mx_rvalid d) (mx_rdata d) r)"

definition mx_seq :: "Vaxil_master \<Rightarrow> Vaxil_master" where
  "mx_seq d = d\<lparr>mx_r := mx_next d\<rparr>"

definition mx_comb :: "Vaxil_master \<Rightarrow> Vaxil_master" where
  "mx_comb d =
     (let hi = mx_phase2 (mx_r d); addr = mx_mem_addr d; funct3 = mx_mem_funct3 d in
      d\<lparr>mx_mem_rdata := mx_read_data addr funct3 (mx_word_lo (mx_r d)) (mx_rdata d),
        mx_bus_stall := (mx_mem_re d \<or> mx_mem_we d) \<and> \<not> mx_xfer_done d,
        mx_awaddr := mx_addr hi addr, mx_awprot := 0,
        mx_wdata := mx_data hi addr (mx_mem_wdata d), mx_wstrb := mx_strb hi addr funct3,
        mx_araddr := mx_addr hi addr, mx_arprot := 0\<rparr>)"

definition Vaxil_master_eval :: "Vaxil_master \<Rightarrow> Vaxil_master" where
  "Vaxil_master_eval = veval mx_seq mx_comb"

lemma mx_next_inputs:
  "mx_next (d\<lparr>v_clk := b\<rparr>) = mx_next d" "mx_next (d\<lparr>v_clk_prev := b\<rparr>) = mx_next d"
  "mx_next (mx_comb d) = mx_next d"
  by (simp_all add: mx_next_def mx_comb_def Let_def cong del: if_weak_cong)

lemma mx_xfer_done_inputs:
  "mx_xfer_done (d\<lparr>v_clk := b\<rparr>) = mx_xfer_done d" "mx_xfer_done (d\<lparr>v_clk_prev := b\<rparr>) = mx_xfer_done d"
  "mx_xfer_done (mx_comb d) = mx_xfer_done d"
  "mx_xfer_done (mx_comb d\<lparr>mx_r := r\<rparr>) = mx_xfer_done (d\<lparr>mx_r := r\<rparr>)"
  by (simp_all add: mx_xfer_done_def mx_comb_def Let_def cong del: if_weak_cong)

interpretation mx: verilated_module mx_seq mx_comb
proof unfold_locales
  fix d b
  show "v_clk (mx_comb d) = v_clk d" "v_clk_prev (mx_comb d) = v_clk_prev d"
    by (simp_all add: mx_comb_def Let_def)
  show "mx_comb (d\<lparr>v_clk := b\<rparr>) = (mx_comb d)\<lparr>v_clk := b\<rparr>"
    "mx_comb (d\<lparr>v_clk_prev := b\<rparr>) = (mx_comb d)\<lparr>v_clk_prev := b\<rparr>"
    by (simp_all add: mx_comb_def mx_xfer_done_inputs Let_def)
  show "mx_comb (mx_comb d) = mx_comb d"
    unfolding mx_comb_def [of "mx_comb d"] mx_xfer_done_inputs by (simp add: mx_comb_def Let_def)
  show "v_clk (mx_seq d) = v_clk d"
    "mx_seq (d\<lparr>v_clk := b\<rparr>) = (mx_seq d)\<lparr>v_clk := b\<rparr>"
    "mx_seq (d\<lparr>v_clk_prev := b\<rparr>) = (mx_seq d)\<lparr>v_clk_prev := b\<rparr>"
    by (simp_all add: mx_seq_def mx_next_inputs)
  show "mx_comb (mx_seq (mx_comb d)) = mx_comb (mx_seq d)"
    unfolding mx_seq_def mx_next_inputs mx_comb_def [of "mx_comb d\<lparr>mx_r := mx_next d\<rparr>"] mx_xfer_done_inputs
    by (simp add: mx_comb_def Let_def)
qed

section \<open>tb_axil_master.cpp: the stub slave\<close>

definition F3_B :: u32 where [tb_data]: "F3_B = 0b000"
definition F3_H :: u32 where [tb_data]: "F3_H = 0b001"
definition F3_W :: u32 where [tb_data]: "F3_W = 0b010"
definition F3_BU :: u32 where [tb_data]: "F3_BU = 0b100"
definition F3_HU :: u32 where [tb_data]: "F3_HU = 0b101"

record DelayCounter =
  dc_delay :: int
  dc_ctr :: int

definition dc_ready :: "DelayCounter \<Rightarrow> bool \<Rightarrow> bool \<times> DelayCounter" where
  "dc_ready c valid =
     (if \<not> valid then (False, c\<lparr>dc_ctr := - 1\<rparr>)
      else (let c1 = (if dc_ctr c < 0 then c\<lparr>dc_ctr := dc_delay c\<rparr> else c) in (dc_ctr c1 = 0, c1)))"

definition dc_advance :: "DelayCounter \<Rightarrow> bool \<Rightarrow> bool \<Rightarrow> DelayCounter" where
  "dc_advance c valid rdy =
     (if \<not> valid then c
      else if rdy then c\<lparr>dc_ctr := - 1\<rparr>
      else c\<lparr>dc_ctr := dc_ctr c - 1\<rparr>)"

text \<open>
  The class \<open>AxilSlave\<close>. Its memory is a \<open>std::map\<close> read with \<open>operator[]\<close>, which inserts a 0 for
  a missing key: the function that is 0 where the map has no entry.
\<close>

record AxilSlave =
  sl_awc :: DelayCounter
  sl_wc :: DelayCounter
  sl_arc :: DelayCounter
  sl_aw_captured :: bool
  sl_w_captured :: bool
  sl_awaddr :: u32
  sl_wdata :: u32
  sl_wstrb :: u8
  sl_bvalid :: bool
  sl_rvalid :: bool
  sl_rdata :: u32
  sl_mem :: "u32 \<Rightarrow> u8"
  sl_aw_fire :: bool
  sl_w_fire :: bool
  sl_ar_fire :: bool
  sl_awaddr' :: u32
  sl_wdata' :: u32
  sl_araddr' :: u32
  sl_wstrb' :: u8
  sl_bready' :: bool
  sl_rready' :: bool

definition AxilSlave_init :: AxilSlave where
  "AxilSlave_init =
     \<lparr>sl_awc = \<lparr>dc_delay = 0, dc_ctr = - 1\<rparr>, sl_wc = \<lparr>dc_delay = 0, dc_ctr = - 1\<rparr>,
      sl_arc = \<lparr>dc_delay = 0, dc_ctr = - 1\<rparr>, sl_aw_captured = False, sl_w_captured = False,
      sl_awaddr = 0, sl_wdata = 0, sl_wstrb = 0, sl_bvalid = False, sl_rvalid = False, sl_rdata = 0,
      sl_mem = (\<lambda>_. 0), sl_aw_fire = False, sl_w_fire = False, sl_ar_fire = False,
      sl_awaddr' = 0, sl_wdata' = 0, sl_araddr' = 0, sl_wstrb' = 0, sl_bready' = False, sl_rready' = False\<rparr>"

definition rd_word :: "(u32 \<Rightarrow> u8) \<Rightarrow> u32 \<Rightarrow> u32" where
  "rd_word mem waddr = fold (\<lambda>i v. v OR push_bit (8 * i) (ucast (mem (waddr + of_nat i)))) [0, 1, 2, 3] 0"

definition wr_word :: "u32 \<Rightarrow> u32 \<Rightarrow> u8 \<Rightarrow> (u32 \<Rightarrow> u8) \<Rightarrow> u32 \<Rightarrow> u8" where
  "wr_word waddr data strb mem =
     fold (\<lambda>i m. if strb AND push_bit i 1 \<noteq> 0
                  then m(waddr + of_nat i := ucast (drop_bit (8 * i) data AND 0xFF)) else m) [0, 1, 2, 3] mem"

definition sl_drive :: "Vaxil_master \<Rightarrow> AxilSlave \<Rightarrow> Vaxil_master \<times> AxilSlave" where
  "sl_drive d s =
     (let r = mx_r d;
          (aw_ready, awc) = dc_ready (sl_awc s) (mx_awvalid r);
          (w_ready, wc) = dc_ready (sl_wc s) (mx_wvalid r);
          (ar_ready, arc) = dc_ready (sl_arc s) (mx_arvalid r);
          aw_fire = (mx_awvalid r \<and> aw_ready);
          w_fire = (mx_wvalid r \<and> w_ready);
          ar_fire = (mx_arvalid r \<and> ar_ready)
      in (d\<lparr>mx_awready := aw_ready, mx_wready := w_ready, mx_arready := ar_ready,
            mx_bvalid := sl_bvalid s, mx_bresp := 0,
            mx_rvalid := sl_rvalid s, mx_rdata := sl_rdata s, mx_rresp := 0\<rparr>,
          s\<lparr>sl_aw_fire := aw_fire, sl_w_fire := w_fire, sl_ar_fire := ar_fire,
            sl_awaddr' := (if aw_fire then mx_awaddr d else sl_awaddr' s),
            sl_wdata' := (if w_fire then mx_wdata d else sl_wdata' s),
            sl_wstrb' := (if w_fire then ucast (mx_wstrb d) else sl_wstrb' s),
            sl_araddr' := (if ar_fire then mx_araddr d else sl_araddr' s),
            sl_awc := dc_advance awc (mx_awvalid r) aw_ready,
            sl_wc := dc_advance wc (mx_wvalid r) w_ready,
            sl_arc := dc_advance arc (mx_arvalid r) ar_ready,
            sl_bready' := mx_bready r, sl_rready' := mx_rready r\<rparr>))"

definition sl_update_write :: "AxilSlave \<Rightarrow> AxilSlave" where
  "sl_update_write s =
     (let s1 = (if sl_aw_fire s then s\<lparr>sl_aw_captured := True, sl_awaddr := sl_awaddr' s\<rparr> else s);
          s2 = (if sl_w_fire s1
                then s1\<lparr>sl_w_captured := True, sl_wdata := sl_wdata' s1, sl_wstrb := sl_wstrb' s1\<rparr> else s1);
          s3 = (if sl_bvalid s2 \<and> sl_bready' s2 then s2\<lparr>sl_bvalid := False\<rparr> else s2)
      in if \<not> sl_bvalid s3 \<and> sl_aw_captured s3 \<and> sl_w_captured s3
         then s3\<lparr>sl_mem := wr_word (sl_awaddr s3) (sl_wdata s3) (sl_wstrb s3) (sl_mem s3),
                 sl_bvalid := True, sl_aw_captured := False, sl_w_captured := False\<rparr>
         else s3)"

definition sl_update_read :: "AxilSlave \<Rightarrow> AxilSlave" where
  "sl_update_read s =
     (let s1 = (if sl_rvalid s \<and> sl_rready' s then s\<lparr>sl_rvalid := False\<rparr> else s)
      in if \<not> sl_rvalid s1 \<and> sl_ar_fire s1
         then s1\<lparr>sl_rdata := rd_word (sl_mem s1) (sl_araddr' s1), sl_rvalid := True\<rparr> else s1)"

definition sl_update :: "AxilSlave \<Rightarrow> AxilSlave" where
  "sl_update s = sl_update_read (sl_update_write s)"

section \<open>tb_axil_master.cpp: loads and stores\<close>

text \<open>
  The bench's objects besides the device: the slave, and whether one of the loops
  \<open>do cycle(...) while (stall)\<close> was given up after the fuel of the model.
\<close>

record mx_locals =
  mx_slave :: AxilSlave
  mx_hung :: bool

type_synonym mx_tb = "(Vaxil_master, mx_locals) tb_scheme"

definition mx_cycle :: "(Vaxil_master \<Rightarrow> Vaxil_master) \<Rightarrow> (mx_tb, bool \<times> u32) state" where
  "mx_cycle ev = do {
     d \<leftarrow> peek id;
     s \<leftarrow> tb_locals mx_slave;
     poke (\<lambda>_. fst (sl_drive d s));
     tb_set_locals (\<lambda>l. l\<lparr>mx_slave := snd (sl_drive d s)\<rparr>);
     poke ev;
     stall \<leftarrow> peek mx_bus_stall;
     rdata \<leftarrow> peek mx_mem_rdata;
     tb_tick ev;
     tb_set_locals (\<lambda>l. l\<lparr>mx_slave := sl_update (mx_slave l)\<rparr>);
     State_Monad.return (stall, rdata) }"

text \<open>\<open>do { cycle(tb, slave, stall, rdata); n++; } while (stall);\<close> with the last \<open>rdata\<close> and \<open>n\<close>.\<close>

primrec mx_run :: "(Vaxil_master \<Rightarrow> Vaxil_master) \<Rightarrow> nat \<Rightarrow> int \<Rightarrow> (mx_tb, u32 \<times> int) state" where
  "mx_run ev 0 n = do { tb_set_locals (\<lambda>l. l\<lparr>mx_hung := True\<rparr>); State_Monad.return (0, n) }"
| "mx_run ev (Suc fuel) n = do {
     x \<leftarrow> mx_cycle ev;
     if fst x then mx_run ev fuel (n + 1) else State_Monad.return (snd x, n + 1) }"

definition mx_set_write_delays :: "int \<Rightarrow> int \<Rightarrow> (mx_tb, unit) state" where
  "mx_set_write_delays aw_delay w_delay = tb_set_locals (\<lambda>l. let s = mx_slave l in
     l\<lparr>mx_slave := s\<lparr>sl_awc := (sl_awc s)\<lparr>dc_delay := aw_delay\<rparr>, sl_wc := (sl_wc s)\<lparr>dc_delay := w_delay\<rparr>\<rparr>\<rparr>)"

definition mx_set_read_delay :: "int \<Rightarrow> (mx_tb, unit) state" where
  "mx_set_read_delay ar_delay = tb_set_locals (\<lambda>l. let s = mx_slave l in
     l\<lparr>mx_slave := s\<lparr>sl_arc := (sl_arc s)\<lparr>dc_delay := ar_delay\<rparr>\<rparr>\<rparr>)"

definition do_store ::
  "(Vaxil_master \<Rightarrow> Vaxil_master) \<Rightarrow> nat \<Rightarrow> u32 \<Rightarrow> u32 \<Rightarrow> u32 \<Rightarrow> int \<Rightarrow> int \<Rightarrow> (mx_tb, int) state" where
  "do_store ev fuel addr data f3 aw_delay w_delay = do {
     mx_set_write_delays aw_delay w_delay;
     poke (\<lambda>d. d\<lparr>mx_mem_addr := addr, mx_mem_wdata := data, mx_mem_funct3 := ucast f3,
                 mx_mem_we := True, mx_mem_re := False\<rparr>);
     x \<leftarrow> mx_run ev fuel 0;
     poke (\<lambda>d. d\<lparr>mx_mem_we := False\<rparr>);
     State_Monad.return (snd x) }"

definition do_load ::
  "(Vaxil_master \<Rightarrow> Vaxil_master) \<Rightarrow> nat \<Rightarrow> u32 \<Rightarrow> u32 \<Rightarrow> int \<Rightarrow> (mx_tb, u32) state" where
  "do_load ev fuel addr f3 ar_delay = do {
     mx_set_read_delay ar_delay;
     poke (\<lambda>d. d\<lparr>mx_mem_addr := addr, mx_mem_funct3 := ucast f3, mx_mem_re := True, mx_mem_we := False\<rparr>);
     x \<leftarrow> mx_run ev fuel 0;
     poke (\<lambda>d. d\<lparr>mx_mem_re := False\<rparr>);
     State_Monad.return (fst x) }"

end
