(* ===== verification/Bus_Access.thy ===== *)
theory Bus_Access
  imports Axil_Master Dmem
begin

text \<open>
  What one load or store of \<open>axil_master.v\<close> does when it is run against the stub slave of its bench:
  the states a transaction goes through cycle by cycle, the number of cycles it stalls, and its
  effect on the bytes of the memory, accesses across a word boundary included.
\<close>

section \<open>Transactions\<close>

abbreviation mx_edge :: "Vaxil_master \<Rightarrow> Vaxil_master" where
  "mx_edge \<equiv> vposedge mx_seq mx_comb"

definition mx_step :: "Vaxil_master \<Rightarrow> AxilSlave \<Rightarrow> Vaxil_master \<times> AxilSlave" where
  "mx_step d s = (mx_edge (fst (sl_drive d s)), sl_update (snd (sl_drive d s)))"

lemma mx_eval_out:
  assumes "\<not> v_clk d"
  shows "mx_bus_stall (Vaxil_master_eval d) = ((mx_mem_re d \<or> mx_mem_we d) \<and> \<not> mx_xfer_done d)"
    "mx_mem_rdata (Vaxil_master_eval d)
       = mx_read_data (mx_mem_addr d) (mx_mem_funct3 d) (mx_word_lo (mx_r d)) (mx_rdata d)"
    "\<not> v_clk (Vaxil_master_eval d)" "mx_edge (Vaxil_master_eval d) = mx_edge d"
  using assms mx.posedge_eval [of d]
  by (simp_all add: Vaxil_master_eval_def mx.eval_low mx_comb_def Let_def)

lemma sl_drive_clk: "v_clk (fst (sl_drive d s)) = v_clk d"
  by (simp add: sl_drive_def Let_def split: prod.splits)

lemma wp_mx_cycle:
  assumes "\<not> v_clk d"
  shows "wp (State_Monad.bind (mx_cycle Vaxil_master_eval) F) Q d k f h l =
    (let d1 = fst (sl_drive d (mx_slave l)) in
     wp (F ((mx_mem_re d1 \<or> mx_mem_we d1) \<and> \<not> mx_xfer_done d1,
            mx_read_data (mx_mem_addr d1) (mx_mem_funct3 d1) (mx_word_lo (mx_r d1)) (mx_rdata d1)))
       Q (fst (mx_step d (mx_slave l))) k f (tick_aux h) (l\<lparr>mx_slave := snd (mx_step d (mx_slave l))\<rparr>))"
  using assms unfolding mx_cycle_def Let_def mx_step_def
  by (simp add: wp_assoc wp_poke wp_peek wp_locals wp_set_locals wp_return_bind sl_drive_clk mx_eval_out
      mx.wp_tick [folded Vaxil_master_eval_def] cong: wp_cong)
    (simp add: mx_eval_out sl_drive_clk)

text \<open>A delay counter with \<open>Some n\<close>: \<open>n\<close> more cycles until the handshake; \<open>None\<close>: no request.\<close>

definition dc_at :: "DelayCounter \<Rightarrow> nat \<Rightarrow> nat option \<Rightarrow> bool" where
  "dc_at c delay j \<longleftrightarrow> dc_delay c = int delay \<and>
     (case j of None \<Rightarrow> dc_ctr c = - 1 | Some n \<Rightarrow> dc_ctr c = int n \<or> dc_ctr c = - 1 \<and> n = delay)"

fun dc_dec :: "nat option \<Rightarrow> nat option" where
  "dc_dec (Some (Suc n)) = Some n"
| "dc_dec j = None"

fun dc_pend :: "nat option \<Rightarrow> bool" where
  "dc_pend (Some n) = True"
| "dc_pend None = False"

lemma dc_at_ready:
  "dc_at c delay j \<Longrightarrow> fst (dc_ready c (dc_pend j)) = (j = Some 0)"
  "dc_at c delay j \<Longrightarrow>
    dc_at (dc_advance (snd (dc_ready c (dc_pend j))) (dc_pend j) (j = Some 0)) delay (dc_dec j)"
  by (cases j rule: dc_dec.cases; force simp: dc_at_def dc_ready_def dc_advance_def Let_def)+

lemma dc_at_start: "dc_at c delay None \<Longrightarrow> dc_at c delay (Some delay)"
  by (simp add: dc_at_def)

text \<open>One cycle, field by field.\<close>

lemma sl_drive_fst:
  "fst (sl_drive d s) = d\<lparr>mx_awready := fst (dc_ready (sl_awc s) (mx_awvalid (mx_r d))),
     mx_wready := fst (dc_ready (sl_wc s) (mx_wvalid (mx_r d))),
     mx_arready := fst (dc_ready (sl_arc s) (mx_arvalid (mx_r d))),
     mx_bvalid := sl_bvalid s, mx_bresp := 0, mx_rvalid := sl_rvalid s, mx_rdata := sl_rdata s, mx_rresp := 0\<rparr>"
  by (simp add: sl_drive_def Let_def case_prod_beta)

lemma sl_drive_snd:
  "sl_aw_fire (snd (sl_drive d s)) = (mx_awvalid (mx_r d) \<and> fst (dc_ready (sl_awc s) (mx_awvalid (mx_r d))))"
  "sl_w_fire (snd (sl_drive d s)) = (mx_wvalid (mx_r d) \<and> fst (dc_ready (sl_wc s) (mx_wvalid (mx_r d))))"
  "sl_ar_fire (snd (sl_drive d s)) = (mx_arvalid (mx_r d) \<and> fst (dc_ready (sl_arc s) (mx_arvalid (mx_r d))))"
  "sl_awaddr' (snd (sl_drive d s)) = (if sl_aw_fire (snd (sl_drive d s)) then mx_awaddr d else sl_awaddr' s)"
  "sl_wdata' (snd (sl_drive d s)) = (if sl_w_fire (snd (sl_drive d s)) then mx_wdata d else sl_wdata' s)"
  "sl_wstrb' (snd (sl_drive d s)) = (if sl_w_fire (snd (sl_drive d s)) then ucast (mx_wstrb d) else sl_wstrb' s)"
  "sl_araddr' (snd (sl_drive d s)) = (if sl_ar_fire (snd (sl_drive d s)) then mx_araddr d else sl_araddr' s)"
  "sl_awc (snd (sl_drive d s)) = dc_advance (snd (dc_ready (sl_awc s) (mx_awvalid (mx_r d))))
     (mx_awvalid (mx_r d)) (fst (dc_ready (sl_awc s) (mx_awvalid (mx_r d))))"
  "sl_wc (snd (sl_drive d s)) = dc_advance (snd (dc_ready (sl_wc s) (mx_wvalid (mx_r d))))
     (mx_wvalid (mx_r d)) (fst (dc_ready (sl_wc s) (mx_wvalid (mx_r d))))"
  "sl_arc (snd (sl_drive d s)) = dc_advance (snd (dc_ready (sl_arc s) (mx_arvalid (mx_r d))))
     (mx_arvalid (mx_r d)) (fst (dc_ready (sl_arc s) (mx_arvalid (mx_r d))))"
  "sl_bready' (snd (sl_drive d s)) = mx_bready (mx_r d)" "sl_rready' (snd (sl_drive d s)) = mx_rready (mx_r d)"
  "sl_aw_captured (snd (sl_drive d s)) = sl_aw_captured s" "sl_w_captured (snd (sl_drive d s)) = sl_w_captured s"
  "sl_awaddr (snd (sl_drive d s)) = sl_awaddr s" "sl_wdata (snd (sl_drive d s)) = sl_wdata s"
  "sl_wstrb (snd (sl_drive d s)) = sl_wstrb s" "sl_bvalid (snd (sl_drive d s)) = sl_bvalid s"
  "sl_rvalid (snd (sl_drive d s)) = sl_rvalid s" "sl_rdata (snd (sl_drive d s)) = sl_rdata s"
  "sl_mem (snd (sl_drive d s)) = sl_mem s"
  by (simp_all add: sl_drive_def Let_def case_prod_beta cong del: if_weak_cong)

lemma mx_edge_fields:
  "mx_r (mx_edge d) = mx_next d" "v_clk (mx_edge d) = False" "mx_rst_n (mx_edge d) = mx_rst_n d"
  "mx_mem_addr (mx_edge d) = mx_mem_addr d" "mx_mem_wdata (mx_edge d) = mx_mem_wdata d"
  "mx_mem_funct3 (mx_edge d) = mx_mem_funct3 d" "mx_mem_we (mx_edge d) = mx_mem_we d"
  "mx_mem_re (mx_edge d) = mx_mem_re d"
  "mx_awaddr (mx_edge d) = mx_addr (mx_phase2 (mx_next d)) (mx_mem_addr d)"
  "mx_araddr (mx_edge d) = mx_addr (mx_phase2 (mx_next d)) (mx_mem_addr d)"
  "mx_wdata (mx_edge d) = mx_data (mx_phase2 (mx_next d)) (mx_mem_addr d) (mx_mem_wdata d)"
  "mx_wstrb (mx_edge d) = mx_strb (mx_phase2 (mx_next d)) (mx_mem_addr d) (mx_mem_funct3 d)"
  by (simp_all add: vposedge_def mx_seq_def mx_comb_def Let_def)

text \<open>The states of a transaction: between transactions, in the write channels, in the responses.\<close>

definition mx_inputs :: "u32 \<Rightarrow> u32 \<Rightarrow> 3 word \<Rightarrow> bool \<Rightarrow> Vaxil_master \<Rightarrow> bool" where
  "mx_inputs A W f we d \<longleftrightarrow> \<not> v_clk d \<and> mx_rst_n d \<and> mx_mem_addr d = A \<and> mx_mem_wdata d = W
     \<and> mx_mem_funct3 d = f \<and> mx_mem_we d = we \<and> mx_mem_re d = (\<not> we)"

definition mx_cnt :: "nat \<Rightarrow> nat option \<Rightarrow> nat \<Rightarrow> nat option \<Rightarrow> nat \<Rightarrow> nat option \<Rightarrow> AxilSlave \<Rightarrow> bool" where
  "mx_cnt aw ja w jw ar jr s \<longleftrightarrow> dc_at (sl_awc s) aw ja \<and> dc_at (sl_wc s) w jw \<and> dc_at (sl_arc s) ar jr"

definition mx_idle :: "Vaxil_master \<Rightarrow> bool" where
  "mx_idle d \<longleftrightarrow> (let r = mx_r d in mx_state r = ST_IDLE \<and> \<not> mx_awvalid r \<and> \<not> mx_wvalid r \<and> \<not> mx_bready r
     \<and> \<not> mx_arvalid r \<and> \<not> mx_rready r)"

definition mx_sl_idle :: "AxilSlave \<Rightarrow> bool" where
  "mx_sl_idle s \<longleftrightarrow> \<not> sl_aw_captured s \<and> \<not> sl_w_captured s \<and> \<not> sl_bvalid s \<and> \<not> sl_rvalid s"

definition mx_writing :: "u32 \<Rightarrow> u32 \<Rightarrow> 3 word \<Rightarrow> bool \<Rightarrow> nat option \<Rightarrow> nat option \<Rightarrow> Vaxil_master \<Rightarrow> AxilSlave \<Rightarrow> bool" where
  "mx_writing A W f ph ja jw d s \<longleftrightarrow> mx_inputs A W f True d
     \<and> (let r = mx_r d in mx_state r = ST_WRITE \<and> mx_awvalid r = dc_pend ja \<and> mx_wvalid r = dc_pend jw
          \<and> \<not> mx_bready r \<and> \<not> mx_arvalid r \<and> \<not> mx_rready r
          \<and> mx_aw_done r = (ja = None) \<and> mx_w_done r = (jw = None) \<and> mx_phase2 r = ph)
     \<and> mx_awaddr d = mx_addr ph A \<and> mx_wdata d = mx_data ph A W \<and> mx_wstrb d = mx_strb ph A f
     \<and> sl_aw_captured s = (ja = None) \<and> (ja = None \<longrightarrow> sl_awaddr s = mx_addr ph A)
     \<and> sl_w_captured s = (jw = None) \<and> (jw = None \<longrightarrow> sl_wdata s = mx_data ph A W \<and> sl_wstrb s = ucast (mx_strb ph A f))
     \<and> \<not> sl_bvalid s \<and> \<not> sl_rvalid s"

definition mx_wresp :: "u32 \<Rightarrow> u32 \<Rightarrow> 3 word \<Rightarrow> bool \<Rightarrow> Vaxil_master \<Rightarrow> AxilSlave \<Rightarrow> bool" where
  "mx_wresp A W f ph d s \<longleftrightarrow> mx_inputs A W f True d
     \<and> (let r = mx_r d in mx_state r = ST_WRESP \<and> \<not> mx_awvalid r \<and> \<not> mx_wvalid r \<and> mx_bready r
          \<and> \<not> mx_arvalid r \<and> \<not> mx_rready r \<and> mx_phase2 r = ph)
     \<and> \<not> sl_aw_captured s \<and> \<not> sl_w_captured s \<and> sl_bvalid s \<and> \<not> sl_rvalid s"

definition mx_stalled :: "Vaxil_master \<Rightarrow> AxilSlave \<Rightarrow> bool" where
  "mx_stalled d s = (let d1 = fst (sl_drive d s) in (mx_mem_re d1 \<or> mx_mem_we d1) \<and> \<not> mx_xfer_done d1)"

lemma sl_update_counters:
  "sl_awc (sl_update s) = sl_awc s" "sl_wc (sl_update s) = sl_wc s" "sl_arc (sl_update s) = sl_arc s"
  by (simp_all add: sl_update_def sl_update_read_def sl_update_write_def Let_def)

lemma mx_cnt_step:
  assumes "mx_cnt aw ja w jw ar jr s" and "mx_awvalid (mx_r d) = dc_pend ja"
    "mx_wvalid (mx_r d) = dc_pend jw" "mx_arvalid (mx_r d) = dc_pend jr"
  shows "fst (dc_ready (sl_awc s) (dc_pend ja)) = (ja = Some 0)"
    "fst (dc_ready (sl_wc s) (dc_pend jw)) = (jw = Some 0)"
    "fst (dc_ready (sl_arc s) (dc_pend jr)) = (jr = Some 0)"
    "mx_cnt aw (dc_dec ja) w (dc_dec jw) ar (dc_dec jr) (snd (mx_step d s))"
proof -
  have c: "dc_at (sl_awc s) aw ja" "dc_at (sl_wc s) w jw" "dc_at (sl_arc s) ar jr"
    using assms(1) by (simp_all add: mx_cnt_def)
  note r = dc_at_ready(1) [OF c(1)] dc_at_ready(1) [OF c(2)] dc_at_ready(1) [OF c(3)]
  show "fst (dc_ready (sl_awc s) (dc_pend ja)) = (ja = Some 0)"
    "fst (dc_ready (sl_wc s) (dc_pend jw)) = (jw = Some 0)"
    "fst (dc_ready (sl_arc s) (dc_pend jr)) = (jr = Some 0)"
    by (rule r)+
  show "mx_cnt aw (dc_dec ja) w (dc_dec jw) ar (dc_dec jr) (snd (mx_step d s))"
    using dc_at_ready(2) [OF c(1)] dc_at_ready(2) [OF c(2)] dc_at_ready(2) [OF c(3)]
    by (simp add: mx_cnt_def mx_step_def sl_update_counters sl_drive_snd assms(2-4) r)
qed

lemmas mx_step_simps = mx_step_def mx_edge_fields sl_drive_fst sl_drive_snd mx_inputs_def
  mx_next_def mx_stalled_def mx_xfer_done_def tb_data

lemmas mx_update_simps = sl_update_def sl_update_write_def sl_update_read_def

lemma mx_start_write:
  assumes "mx_idle d" "mx_sl_idle s" "mx_inputs A W f True d" "mx_cnt aw None w None ar None s"
  shows "mx_stalled d s" "mx_writing A W f False (Some aw) (Some w) (fst (mx_step d s)) (snd (mx_step d s))"
    "mx_cnt aw (Some aw) w (Some w) ar None (snd (mx_step d s))" "sl_mem (snd (mx_step d s)) = sl_mem s"
proof -
  have v: "mx_awvalid (mx_r d) = dc_pend None" "mx_wvalid (mx_r d) = dc_pend None"
    "mx_arvalid (mx_r d) = dc_pend None"
    using assms(1) by (simp_all add: mx_idle_def Let_def)
  note c = mx_cnt_step [OF assms(4) v]
  show "mx_cnt aw (Some aw) w (Some w) ar None (snd (mx_step d s))"
    using c(4) by (simp add: mx_cnt_def dc_at_start)
  show "mx_stalled d s" "mx_writing A W f False (Some aw) (Some w) (fst (mx_step d s)) (snd (mx_step d s))"
    "sl_mem (snd (mx_step d s)) = sl_mem s"
    using assms(1-3) c(1-3) unfolding mx_idle_def mx_sl_idle_def Let_def
    by (simp_all add: mx_step_simps mx_writing_def mx_idle_next_def mx_update_simps Let_def)
qed

lemma mx_writing_step:
  assumes "mx_writing A W f ph ja jw d s" "mx_cnt aw ja w jw ar None s"
  shows "mx_stalled d s" "mx_cnt aw (dc_dec ja) w (dc_dec jw) ar None (snd (mx_step d s))"
    "\<not> (dc_dec ja = None \<and> dc_dec jw = None) \<Longrightarrow>
       mx_writing A W f ph (dc_dec ja) (dc_dec jw) (fst (mx_step d s)) (snd (mx_step d s))
       \<and> sl_mem (snd (mx_step d s)) = sl_mem s"
    "dc_dec ja = None \<Longrightarrow> dc_dec jw = None \<Longrightarrow> mx_wresp A W f ph (fst (mx_step d s)) (snd (mx_step d s))
       \<and> sl_mem (snd (mx_step d s)) = wr_word (mx_addr ph A) (mx_data ph A W) (ucast (mx_strb ph A f)) (sl_mem s)"
proof -
  have v: "mx_awvalid (mx_r d) = dc_pend ja" "mx_wvalid (mx_r d) = dc_pend jw"
    "mx_arvalid (mx_r d) = dc_pend None"
    using assms(1) by (simp_all add: mx_writing_def Let_def)
  note c = mx_cnt_step [OF assms(2) v]
  show "mx_cnt aw (dc_dec ja) w (dc_dec jw) ar None (snd (mx_step d s))"
    using c(4) by simp
  show "mx_stalled d s"
    using assms(1) unfolding mx_writing_def Let_def by (simp add: mx_step_simps Let_def)
  show "\<not> (dc_dec ja = None \<and> dc_dec jw = None) \<Longrightarrow>
       mx_writing A W f ph (dc_dec ja) (dc_dec jw) (fst (mx_step d s)) (snd (mx_step d s))
       \<and> sl_mem (snd (mx_step d s)) = sl_mem s"
    using assms(1) c(1-3) unfolding mx_writing_def Let_def
    by (cases ja rule: dc_dec.cases; cases jw rule: dc_dec.cases;
        simp add: mx_step_simps mx_write_next_def mx_update_simps Let_def)
  show "dc_dec ja = None \<Longrightarrow> dc_dec jw = None \<Longrightarrow> mx_wresp A W f ph (fst (mx_step d s)) (snd (mx_step d s))
       \<and> sl_mem (snd (mx_step d s)) = wr_word (mx_addr ph A) (mx_data ph A W) (ucast (mx_strb ph A f)) (sl_mem s)"
    using assms(1) c(1-3) unfolding mx_writing_def Let_def
    by (cases ja rule: dc_dec.cases; cases jw rule: dc_dec.cases;
        simp add: mx_step_simps mx_write_next_def mx_update_simps mx_wresp_def Let_def)
qed

lemma mx_wresp_step:
  assumes "mx_wresp A W f ph d s" "mx_cnt aw None w None ar None s"
  shows "mx_stalled d s = (mx_crosses A f \<and> \<not> ph)" "sl_mem (snd (mx_step d s)) = sl_mem s"
    "mx_crosses A f \<and> \<not> ph \<Longrightarrow>
       mx_writing A W f True (Some aw) (Some w) (fst (mx_step d s)) (snd (mx_step d s))
       \<and> mx_cnt aw (Some aw) w (Some w) ar None (snd (mx_step d s))"
    "\<not> (mx_crosses A f \<and> \<not> ph) \<Longrightarrow>
       mx_inputs A W f True (fst (mx_step d s)) \<and> mx_idle (fst (mx_step d s)) \<and> mx_sl_idle (snd (mx_step d s))
       \<and> mx_cnt aw None w None ar None (snd (mx_step d s))"
proof -
  have v: "mx_awvalid (mx_r d) = dc_pend None" "mx_wvalid (mx_r d) = dc_pend None"
    "mx_arvalid (mx_r d) = dc_pend None"
    using assms(1) by (simp_all add: mx_wresp_def Let_def)
  note c = mx_cnt_step [OF assms(2) v]
  have c4: "mx_cnt aw None w None ar None (snd (mx_step d s))" using c(4) by simp
  then have c5: "mx_cnt aw (Some aw) w (Some w) ar None (snd (mx_step d s))"
    by (simp add: mx_cnt_def dc_at_start)
  show "mx_stalled d s = (mx_crosses A f \<and> \<not> ph)" "sl_mem (snd (mx_step d s)) = sl_mem s"
    using assms(1) c(1-3) unfolding mx_wresp_def Let_def
    by (auto simp add: mx_step_simps mx_update_simps Let_def)
  show "mx_crosses A f \<and> \<not> ph \<Longrightarrow>
       mx_writing A W f True (Some aw) (Some w) (fst (mx_step d s)) (snd (mx_step d s))
       \<and> mx_cnt aw (Some aw) w (Some w) ar None (snd (mx_step d s))"
    using assms(1) c(1-3) c5 unfolding mx_wresp_def Let_def
    by (simp add: mx_step_simps mx_update_simps mx_writing_def mx_wresp_next_def Let_def)
  show "\<not> (mx_crosses A f \<and> \<not> ph) \<Longrightarrow>
       mx_inputs A W f True (fst (mx_step d s)) \<and> mx_idle (fst (mx_step d s)) \<and> mx_sl_idle (snd (mx_step d s))
       \<and> mx_cnt aw None w None ar None (snd (mx_step d s))"
    using assms(1) c(1-3) c4 unfolding mx_wresp_def Let_def
    by (simp add: mx_step_simps mx_update_simps mx_idle_def mx_sl_idle_def mx_wresp_next_def Let_def)
qed

text \<open>
  In the read channels: \<open>j\<close> counts down to the handshake on AR; after it (\<open>None\<close>) the slave presents
  the word.
\<close>

definition mx_reading ::
  "u32 \<Rightarrow> u32 \<Rightarrow> 3 word \<Rightarrow> bool \<Rightarrow> nat option \<Rightarrow> Vaxil_master \<Rightarrow> AxilSlave \<Rightarrow> bool" where
  "mx_reading A W f ph j d s \<longleftrightarrow> mx_inputs A W f False d
     \<and> (let r = mx_r d in mx_state r = ST_READ \<and> \<not> mx_awvalid r \<and> \<not> mx_wvalid r \<and> \<not> mx_bready r
          \<and> mx_arvalid r = dc_pend j \<and> mx_rready r \<and> mx_phase2 r = ph
          \<and> (ph \<longrightarrow> mx_word_lo r = rd_word (sl_mem s) (mx_addr_lo A)))
     \<and> mx_araddr d = mx_addr ph A
     \<and> \<not> sl_aw_captured s \<and> \<not> sl_w_captured s \<and> \<not> sl_bvalid s \<and> sl_rvalid s = (j = None)
     \<and> (j = None \<longrightarrow> sl_rdata s = rd_word (sl_mem s) (mx_addr ph A))"

definition mx_out :: "Vaxil_master \<Rightarrow> AxilSlave \<Rightarrow> u32" where
  "mx_out d s = (let d1 = fst (sl_drive d s) in
     mx_read_data (mx_mem_addr d1) (mx_mem_funct3 d1) (mx_word_lo (mx_r d1)) (mx_rdata d1))"

definition mx_loaded :: "u32 \<Rightarrow> 3 word \<Rightarrow> (u32 \<Rightarrow> u8) \<Rightarrow> u32" where
  "mx_loaded A f mem = mx_read_data A f (rd_word mem (mx_addr_lo A))
     (rd_word mem (mx_addr (mx_crosses A f) A))"

lemma mx_start_read:
  assumes "mx_idle d" "mx_sl_idle s" "mx_inputs A W f False d" "mx_cnt aw None w None ar None s"
  shows "mx_stalled d s" "mx_reading A W f False (Some ar) (fst (mx_step d s)) (snd (mx_step d s))"
    "mx_cnt aw None w None ar (Some ar) (snd (mx_step d s))" "sl_mem (snd (mx_step d s)) = sl_mem s"
proof -
  have v: "mx_awvalid (mx_r d) = dc_pend None" "mx_wvalid (mx_r d) = dc_pend None"
    "mx_arvalid (mx_r d) = dc_pend None"
    using assms(1) by (simp_all add: mx_idle_def Let_def)
  note c = mx_cnt_step [OF assms(4) v]
  show "mx_cnt aw None w None ar (Some ar) (snd (mx_step d s))"
    using c(4) by (simp add: mx_cnt_def dc_at_start)
  show "mx_stalled d s" "mx_reading A W f False (Some ar) (fst (mx_step d s)) (snd (mx_step d s))"
    "sl_mem (snd (mx_step d s)) = sl_mem s"
    using assms(1-3) c(1-3) unfolding mx_idle_def mx_sl_idle_def Let_def
    by (simp_all add: mx_step_simps mx_reading_def mx_idle_next_def mx_update_simps Let_def)
qed

lemma mx_reading_wait:
  assumes "mx_reading A W f ph (Some n) d s" "mx_cnt aw None w None ar (Some n) s"
  shows "mx_stalled d s" "mx_cnt aw None w None ar (dc_dec (Some n)) (snd (mx_step d s))"
    "mx_reading A W f ph (dc_dec (Some n)) (fst (mx_step d s)) (snd (mx_step d s))"
    "sl_mem (snd (mx_step d s)) = sl_mem s"
proof -
  have v: "mx_awvalid (mx_r d) = dc_pend None" "mx_wvalid (mx_r d) = dc_pend None"
    "mx_arvalid (mx_r d) = dc_pend (Some n)"
    using assms(1) by (simp_all add: mx_reading_def Let_def)
  note c = mx_cnt_step [OF assms(2) v]
  show "mx_cnt aw None w None ar (dc_dec (Some n)) (snd (mx_step d s))"
    using c(4) by simp
  show "mx_stalled d s" "mx_reading A W f ph (dc_dec (Some n)) (fst (mx_step d s)) (snd (mx_step d s))"
    "sl_mem (snd (mx_step d s)) = sl_mem s"
    using assms(1) c(1-3) unfolding mx_reading_def Let_def
    by (cases n; simp add: mx_step_simps mx_read_next_def mx_update_simps Let_def)+
qed

lemma mx_reading_done:
  assumes "mx_reading A W f ph None d s" "mx_cnt aw None w None ar None s"
  shows "mx_stalled d s = (mx_crosses A f \<and> \<not> ph)" "sl_mem (snd (mx_step d s)) = sl_mem s"
    "mx_crosses A f \<and> \<not> ph \<Longrightarrow>
       mx_reading A W f True (Some ar) (fst (mx_step d s)) (snd (mx_step d s))
       \<and> mx_cnt aw None w None ar (Some ar) (snd (mx_step d s))"
    "ph = mx_crosses A f \<Longrightarrow>
       mx_inputs A W f False (fst (mx_step d s)) \<and> mx_idle (fst (mx_step d s)) \<and> mx_sl_idle (snd (mx_step d s))
       \<and> mx_cnt aw None w None ar None (snd (mx_step d s)) \<and> mx_out d s = mx_loaded A f (sl_mem s)"
proof -
  have v: "mx_awvalid (mx_r d) = dc_pend None" "mx_wvalid (mx_r d) = dc_pend None"
    "mx_arvalid (mx_r d) = dc_pend None"
    using assms(1) by (simp_all add: mx_reading_def Let_def)
  note c = mx_cnt_step [OF assms(2) v]
  have c4: "mx_cnt aw None w None ar None (snd (mx_step d s))" using c(4) by simp
  then have c5: "mx_cnt aw None w None ar (Some ar) (snd (mx_step d s))"
    by (simp add: mx_cnt_def dc_at_start)
  show "mx_stalled d s = (mx_crosses A f \<and> \<not> ph)" "sl_mem (snd (mx_step d s)) = sl_mem s"
    using assms(1) c(1-3) unfolding mx_reading_def Let_def
    by (auto simp add: mx_step_simps mx_update_simps Let_def)
  show "mx_crosses A f \<and> \<not> ph \<Longrightarrow>
       mx_reading A W f True (Some ar) (fst (mx_step d s)) (snd (mx_step d s))
       \<and> mx_cnt aw None w None ar (Some ar) (snd (mx_step d s))"
    using assms(1) c(1-3) c5 unfolding mx_reading_def Let_def
    by (simp add: mx_step_simps mx_update_simps mx_read_next_def mx_addr_def Let_def)
  show "ph = mx_crosses A f \<Longrightarrow>
       mx_inputs A W f False (fst (mx_step d s)) \<and> mx_idle (fst (mx_step d s)) \<and> mx_sl_idle (snd (mx_step d s))
       \<and> mx_cnt aw None w None ar None (snd (mx_step d s)) \<and> mx_out d s = mx_loaded A f (sl_mem s)"
    using assms(1) c(1-3) c4 unfolding mx_reading_def Let_def
    by (cases "mx_crosses A f"; simp add: mx_step_simps mx_update_simps mx_idle_def mx_sl_idle_def mx_read_next_def
        mx_out_def mx_loaded_def mx_read_data_def Let_def)
qed

text \<open>\<open>n\<close> cycles with \<open>bus_stall\<close> high.\<close>

primrec mx_after :: "nat \<Rightarrow> Vaxil_master \<Rightarrow> AxilSlave \<Rightarrow> Vaxil_master \<Rightarrow> AxilSlave \<Rightarrow> bool" where
  "mx_after 0 d s d' s' \<longleftrightarrow> d' = d \<and> s' = s"
| "mx_after (Suc n) d s d' s' \<longleftrightarrow> mx_stalled d s \<and> mx_after n (fst (mx_step d s)) (snd (mx_step d s)) d' s'"

lemma mx_after_trans:
  "mx_after n d s d1 s1 \<Longrightarrow> mx_after m d1 s1 d' s' \<Longrightarrow> mx_after (n + m) d s d' s'"
  by (induction n arbitrary: d s) auto

lemma mx_step_clk: "\<not> v_clk (fst (mx_step d s))"
  by (simp add: mx_step_def mx_edge_fields)

lemma wp_mx_cycle_out:
  assumes "\<not> v_clk d"
  shows "wp (State_Monad.bind (mx_cycle Vaxil_master_eval) F) Q d k f h l =
    wp (F (mx_stalled d (mx_slave l), mx_out d (mx_slave l))) Q (fst (mx_step d (mx_slave l))) k f (tick_aux h)
       (l\<lparr>mx_slave := snd (mx_step d (mx_slave l))\<rparr>)"
  using wp_mx_cycle [OF assms] unfolding mx_stalled_def mx_out_def Let_def .

lemma wp_mx_run:
  assumes "\<not> v_clk d"
  shows "wp (State_Monad.bind (mx_run Vaxil_master_eval (Suc fuel) n) F) Q d k f h l =
    (let s = mx_slave l; d' = fst (mx_step d s); l' = l\<lparr>mx_slave := snd (mx_step d s)\<rparr> in
     if mx_stalled d s then wp (State_Monad.bind (mx_run Vaxil_master_eval fuel (n + 1)) F) Q d' k f (tick_aux h) l'
     else wp (F (mx_out d s, n + 1)) Q d' k f (tick_aux h) l')"
  using assms unfolding Let_def mx_run.simps
  by (simp add: wp_assoc wp_mx_cycle_out wp_return_bind wp_if_bind cong: wp_cong) simp

lemma wp_mx_run_after:
  assumes "mx_after N d (mx_slave l) d' s'" and "\<not> v_clk d" and "\<not> mx_stalled d' s'" and "N < fuel"
    and "\<And>h'. wp (F (mx_out d' s', n + int N + 1)) Q (fst (mx_step d' s')) k f h' (l\<lparr>mx_slave := snd (mx_step d' s')\<rparr>)"
  shows "wp (State_Monad.bind (mx_run Vaxil_master_eval fuel n) F) Q d k f h l"
  using assms
proof (induction N arbitrary: d l n h fuel)
  case 0
  then obtain g where "fuel = Suc g" by (cases fuel) auto
  then show ?case using 0 by (simp add: wp_mx_run del: mx_run.simps)
next
  case (Suc N)
  then obtain g where g: "fuel = Suc g" by (cases fuel) auto
  have "wp (State_Monad.bind (mx_run Vaxil_master_eval g (n + 1)) F) Q (fst (mx_step d (mx_slave l))) k f
      (tick_aux h) (l\<lparr>mx_slave := snd (mx_step d (mx_slave l))\<rparr>)"
    by (rule Suc.IH) (use Suc.prems g in \<open>auto simp: mx_step_clk add_ac\<close>)
  then show ?case using Suc.prems g by (simp add: wp_mx_run del: mx_run.simps)
qed

text \<open>The number of cycles that a request still waits.\<close>

fun dc_len :: "nat option \<Rightarrow> nat" where
  "dc_len None = 0"
| "dc_len (Some n) = Suc n"

lemma dc_len_dec: "dc_len (dc_dec j) = dc_len j - 1" "dc_len j = 0 \<longleftrightarrow> j = None"
  by (cases j rule: dc_dec.cases; simp)+

lemma mx_writing_after:
  assumes "mx_writing A W f ph ja jw d s" "mx_cnt aw ja w jw ar None s" "\<not> (ja = None \<and> jw = None)"
  shows "\<exists>d' s'. mx_after (max (dc_len ja) (dc_len jw)) d s d' s' \<and> mx_wresp A W f ph d' s'
    \<and> mx_cnt aw None w None ar None s'
    \<and> sl_mem s' = wr_word (mx_addr ph A) (mx_data ph A W) (ucast (mx_strb ph A f)) (sl_mem s)"
  using assms
proof (induction "max (dc_len ja) (dc_len jw)" arbitrary: ja jw d s)
  case 0
  then show ?case by (simp add: dc_len_dec)
next
  case (Suc n)
  let ?d = "fst (mx_step d s)" and ?s = "snd (mx_step d s)"
  note st = mx_writing_step [OF Suc.prems(1,2)]
  have n: "max (dc_len (dc_dec ja)) (dc_len (dc_dec jw)) = n"
    using Suc.hyps(2) by (simp add: dc_len_dec)
  show ?case
  proof (cases "dc_dec ja = None \<and> dc_dec jw = None")
    case True
    then have "n = 0" using n by simp
    then show ?thesis using st True Suc.hyps(2) [symmetric] by simp
  next
    case False
    from Suc.hyps(1) [OF n [symmetric] _ st(2) False] st(3) [OF False]
    show ?thesis using st(1) Suc.hyps(2) [symmetric] n by simp
  qed
qed

lemma mx_reading_after:
  assumes "mx_reading A W f ph (Some n) d s" "mx_cnt aw None w None ar (Some n) s"
  shows "\<exists>d' s'. mx_after (Suc n) d s d' s' \<and> mx_reading A W f ph None d' s'
    \<and> mx_cnt aw None w None ar None s' \<and> sl_mem s' = sl_mem s"
  using assms
proof (induction n arbitrary: d s)
  case 0
  then show ?case using mx_reading_wait [OF 0] by simp
next
  case (Suc n)
  note st = mx_reading_wait [OF Suc.prems]
  from Suc.IH [of "fst (mx_step d s)" "snd (mx_step d s)"] st show ?case by simp
qed

lemma mx_twice: "(n + 2) + (n + 2) = 4 + 2 * (n :: nat)"
  by simp

lemma mx_after_first:
  "mx_after (Suc n) (fst (mx_step d s)) (snd (mx_step d s)) d' s' \<Longrightarrow> mx_stalled d s \<Longrightarrow> mx_after (n + 2) d s d' s'"
  by simp

text \<open>
  Complete transactions: the number of cycles with \<open>bus_stall\<close> high, the effect on the slave's
  memory, and the data. A crossing access takes the response of its first half as a step more.
\<close>

definition mx_stored :: "u32 \<Rightarrow> u32 \<Rightarrow> 3 word \<Rightarrow> (u32 \<Rightarrow> u8) \<Rightarrow> u32 \<Rightarrow> u8" where
  "mx_stored A W f mem =
     (let m1 = wr_word (mx_addr False A) (mx_data False A W) (ucast (mx_strb False A f)) mem
      in if mx_crosses A f then wr_word (mx_addr True A) (mx_data True A W) (ucast (mx_strb True A f)) m1 else m1)"

definition mx_cycles :: "bool \<Rightarrow> nat \<Rightarrow> nat" where
  "mx_cycles crosses n = (if crosses then 2 * n + 5 else n + 3)"

lemma mx_store_after:
  assumes "mx_idle d" "mx_sl_idle s" "mx_inputs A W f True d" "mx_cnt aw None w None ar None s"
  shows "\<exists>d' s'. mx_after (mx_cycles (mx_crosses A f) (max aw w) - 1) d s d' s' \<and> \<not> mx_stalled d' s'
    \<and> mx_inputs A W f True (fst (mx_step d' s')) \<and> mx_idle (fst (mx_step d' s')) \<and> mx_sl_idle (snd (mx_step d' s'))
    \<and> mx_cnt aw None w None ar None (snd (mx_step d' s'))
    \<and> sl_mem (snd (mx_step d' s')) = mx_stored A W f (sl_mem s)"
proof -
  note st = mx_start_write [OF assms]
  obtain d1 s1 where w1: "mx_after (Suc (max aw w)) (fst (mx_step d s)) (snd (mx_step d s)) d1 s1"
    "mx_wresp A W f False d1 s1" "mx_cnt aw None w None ar None s1"
    "sl_mem s1 = wr_word (mx_addr False A) (mx_data False A W) (ucast (mx_strb False A f)) (sl_mem s)"
    using mx_writing_after [OF st(2,3)] st(4) by (auto simp del: mx_after.simps)
  have a1: "mx_after (max aw w + 2) d s d1 s1" using w1(1) st(1) by (rule mx_after_first)
  note r1 = mx_wresp_step [OF w1(2,3)]
  show ?thesis
  proof (cases "mx_crosses A f")
    case False
    then show ?thesis using a1 r1 w1(4) by (intro exI [of _ d1] exI [of _ s1]) (simp add: mx_cycles_def mx_stored_def del: mx_after.simps)
  next
    case True
    then have x: "mx_crosses A f \<and> \<not> False" by simp
    obtain d2 s2 where w2: "mx_after (Suc (max aw w)) (fst (mx_step d1 s1)) (snd (mx_step d1 s1)) d2 s2"
      "mx_wresp A W f True d2 s2" "mx_cnt aw None w None ar None s2"
      "sl_mem s2 = wr_word (mx_addr True A) (mx_data True A W) (ucast (mx_strb True A f)) (sl_mem s1)"
      using mx_writing_after [OF r1(3) [OF x, THEN conjunct1] r1(3) [OF x, THEN conjunct2]] r1(2) by (auto simp del: mx_after.simps)
    have "mx_after (max aw w + 2) d1 s1 d2 s2" by (rule mx_after_first [OF w2(1)]) (use r1(1) x in simp)
    from mx_after_trans [OF a1 this] have a2: "mx_after (4 + 2 * max aw w) d s d2 s2" by (simp only: mx_twice)
    then show ?thesis
      using mx_wresp_step [OF w2(2,3)] True w2(4) w1(4)
      by (intro exI [of _ d2] exI [of _ s2]) (simp add: mx_cycles_def mx_stored_def Let_def del: mx_after.simps)
  qed
qed

lemma mx_load_after:
  assumes "mx_idle d" "mx_sl_idle s" "mx_inputs A W f False d" "mx_cnt aw None w None ar None s"
  shows "\<exists>d' s'. mx_after (mx_cycles (mx_crosses A f) ar - 1) d s d' s' \<and> \<not> mx_stalled d' s'
    \<and> mx_inputs A W f False (fst (mx_step d' s')) \<and> mx_idle (fst (mx_step d' s')) \<and> mx_sl_idle (snd (mx_step d' s'))
    \<and> mx_cnt aw None w None ar None (snd (mx_step d' s'))
    \<and> sl_mem (snd (mx_step d' s')) = sl_mem s \<and> mx_out d' s' = mx_loaded A f (sl_mem s)"
proof -
  note st = mx_start_read [OF assms]
  obtain d1 s1 where w1: "mx_after (Suc ar) (fst (mx_step d s)) (snd (mx_step d s)) d1 s1"
    "mx_reading A W f False None d1 s1" "mx_cnt aw None w None ar None s1" "sl_mem s1 = sl_mem s"
    using mx_reading_after [OF st(2,3)] st(4) by (auto simp del: mx_after.simps)
  have a1: "mx_after (ar + 2) d s d1 s1" using w1(1) st(1) by (rule mx_after_first)
  note r1 = mx_reading_done [OF w1(2,3)]
  show ?thesis
  proof (cases "mx_crosses A f")
    case False
    then show ?thesis using a1 r1 w1(4) by (intro exI [of _ d1] exI [of _ s1]) (simp add: mx_cycles_def del: mx_after.simps)
  next
    case True
    then have x: "mx_crosses A f \<and> \<not> False" by simp
    obtain d2 s2 where w2: "mx_after (Suc ar) (fst (mx_step d1 s1)) (snd (mx_step d1 s1)) d2 s2"
      "mx_reading A W f True None d2 s2" "mx_cnt aw None w None ar None s2" "sl_mem s2 = sl_mem s1"
      using mx_reading_after [OF r1(3) [OF x, THEN conjunct1] r1(3) [OF x, THEN conjunct2]] r1(2) by (auto simp del: mx_after.simps)
    have "mx_after (ar + 2) d1 s1 d2 s2" by (rule mx_after_first [OF w2(1)]) (use r1(1) x in simp)
    from mx_after_trans [OF a1 this] have a2: "mx_after (4 + 2 * ar) d s d2 s2" by (simp only: mx_twice)
    then show ?thesis
      using mx_reading_done [OF w2(2,3)] True w2(4) w1(4)
      by (intro exI [of _ d2] exI [of _ s2]) (simp add: mx_cycles_def del: mx_after.simps)
  qed
qed

section \<open>What a transaction does to the bytes\<close>

text \<open>The number of bytes of an access, and the access as loops over single bytes.\<close>

definition mx_size :: "3 word \<Rightarrow> nat" where
  "mx_size f = (let size = (vbits 1 0 f :: 2 word) in if size = 0 then 1 else if size = 1 then 2 else if size = 2 then 4 else 0)"

definition store_bytes :: "u32 \<Rightarrow> nat \<Rightarrow> u32 \<Rightarrow> (u32 \<Rightarrow> u8) \<Rightarrow> u32 \<Rightarrow> u8" where
  "store_bytes A n W mem = fold (\<lambda>k m. m(A + of_nat k := ucast (drop_bit (8 * k) W))) [0..<n] mem"

lemma byte_and_FF: "(ucast (x AND 0xFF) :: u8) = ucast (x :: u32)"
  unfolding word_eq_iff_bits by (simp add: bit_simps all_less_numeral all_less_Suc_conv)

lemma mx_lane_cases:
  "mx_addr_lo A = A \<and> mx_lane A = 0 \<and> (vbits 1 0 A :: 2 word) = 0
   \<or> mx_addr_lo A + 1 = A \<and> mx_lane A = 1 \<and> (vbits 1 0 A :: 2 word) = 1
   \<or> mx_addr_lo A + 2 = A \<and> mx_lane A = 2 \<and> (vbits 1 0 A :: 2 word) = 2
   \<or> mx_addr_lo A + 3 = A \<and> mx_lane A = 3 \<and> (vbits 1 0 A :: 2 word) = 3"
proof -
  have "A = mx_addr_lo A OR ucast (vbits 1 0 A :: 2 word)"
    unfolding word_eq_iff_bits
    by (simp add: mx_addr_lo_def bit_simps all_less_numeral all_less_Suc_conv bit_word_cat_iff)
  also have "\<dots> = mx_addr_lo A + ucast (vbits 1 0 A :: 2 word)"
    by (rule disjunctive_add [symmetric]) (auto simp: mx_addr_lo_def bit_simps bit_word_cat_iff)
  finally have A: "mx_addr_lo A + ucast (vbits 1 0 A :: 2 word) = A" by simp
  have "(vbits 1 0 A :: 2 word) = 0 \<or> (vbits 1 0 A :: 2 word) = 1 \<or> (vbits 1 0 A :: 2 word) = 2
    \<or> (vbits 1 0 A :: 2 word) = 3" using word2_exhaust by blast
  then show ?thesis
    by (elim disjE) (use A in \<open>simp_all add: mx_lane_def\<close>)
qed

lemma word8_cat: "(word_cat (0 :: 4 word) (x :: 4 word) :: 8 word) = ucast x"
  by (rule bit_word_eqI) (auto simp: bit_simps bit_word_cat_iff)

lemma word64_cat: "(word_cat (0 :: u32) (x :: u32) :: u64) = ucast x"
  by (rule bit_word_eqI) (auto simp: bit_simps bit_word_cat_iff)

lemma mx_strobes:
  assumes "n < 4" "i < 4"
  shows "(ucast (vbits 3 0 (push_bit n (ucast (m :: 4 word) :: 8 word)) :: 4 word) AND push_bit i 1 \<noteq> (0 :: u8))
      = (n \<le> i \<and> bit m (i - n))"
    "(ucast (vbits 7 4 (push_bit n (ucast (m :: 4 word) :: 8 word)) :: 4 word) AND push_bit i 1 \<noteq> (0 :: u8))
      = bit m (4 + i - n)"
  using assms unfolding bit_iff_and_push_bit_not_eq_0 [symmetric] by (auto simp: bit_simps dest: bit_imp_le_length)

lemma mx_data_bytes:
  assumes "n < 4" "i < 4"
  shows "n \<le> i \<Longrightarrow> (ucast (drop_bit (8 * i) (vbits 31 0 (push_bit (8 * n) (ucast (W :: u32) :: u64)) :: u32)) :: u8)
      = ucast (drop_bit (8 * (i - n)) W)"
    "i < n \<Longrightarrow> (ucast (drop_bit (8 * i) (vbits 63 32 (push_bit (8 * n) (ucast (W :: u32) :: u64)) :: u32)) :: u8)
      = ucast (drop_bit (8 * (4 + i - n)) W)"
proof -
  assume ni: "n \<le> i"
  show "(ucast (drop_bit (8 * i) (vbits 31 0 (push_bit (8 * n) (ucast (W :: u32) :: u64)) :: u32)) :: u8)
      = ucast (drop_bit (8 * (i - n)) W)"
  proof (rule bit_word_eqI)
    fix j :: nat
    assume "j < LENGTH(8)"
    then have j: "8 * i + j < 32" "8 * n \<le> 8 * i + j" "8 * i + j - 8 * n = 8 * (i - n) + j"
      using assms ni by auto
    then show "bit (ucast (drop_bit (8 * i) (vbits 31 0 (push_bit (8 * n) (ucast W :: u64)) :: u32)) :: u8) j
        = bit (ucast (drop_bit (8 * (i - n)) W) :: u8) j"
      using \<open>j < LENGTH(8)\<close> bit_imp_le_length [of W "8 * (i - n) + j"] by (auto simp: bit_simps)
  qed
next
  assume ni: "i < n"
  show "(ucast (drop_bit (8 * i) (vbits 63 32 (push_bit (8 * n) (ucast (W :: u32) :: u64)) :: u32)) :: u8)
      = ucast (drop_bit (8 * (4 + i - n)) W)"
  proof (rule bit_word_eqI)
    fix j :: nat
    assume "j < LENGTH(8)"
    then have j: "8 * i + j < 32" "8 * n \<le> 32 + (8 * i + j)" "32 + (8 * i + j) - 8 * n = 8 * (4 + i - n) + j"
      "32 + (8 * i + j) < 64"
      using assms ni by auto
    then show "bit (ucast (drop_bit (8 * i) (vbits 63 32 (push_bit (8 * n) (ucast W :: u64)) :: u32)) :: u8) j
        = bit (ucast (drop_bit (8 * (4 + i - n)) W) :: u8) j"
      using \<open>j < LENGTH(8)\<close> bit_imp_le_length [of W "8 * (4 + i - n) + j"] by (auto simp: bit_simps)
  qed
qed

lemma strobe_bit: "(strb :: u8) AND push_bit i 1 \<noteq> 0 \<longleftrightarrow> bit strb i"
  by (simp only: bit_iff_and_push_bit_not_eq_0)

text \<open>The two word writes, byte by byte of the access: \<open>n\<close> is its lane, \<open>m\<close> its byte enables.\<close>

lemma wr_word_lo:
  assumes "n < 4"
  shows "wr_word B (vbits 31 0 (push_bit (8 * n) (ucast (W :: u32) :: u64)))
      (ucast (vbits 3 0 (push_bit n (ucast (m :: 4 word) :: 8 word)) :: 4 word)) mem
    = fold (\<lambda>i M. if n \<le> i \<and> bit m (i - n) then M(B + of_nat i := ucast (drop_bit (8 * (i - n)) W)) else M)
        [0, 1, 2, 3] mem"
  unfolding wr_word_def byte_and_FF
proof (rule fold_cong [OF refl refl])
  fix i :: nat
  assume "i \<in> set [0, 1, 2, 3]"
  then have i: "i < 4" by auto
  show "(\<lambda>M. if ucast (vbits 3 0 (push_bit n (ucast m :: 8 word)) :: 4 word) AND push_bit i 1 \<noteq> (0 :: u8)
      then M(B + of_nat i := ucast (drop_bit (8 * i) (vbits 31 0 (push_bit (8 * n) (ucast W :: u64)) :: u32)) :: u8) else M)
    = (\<lambda>M. if n \<le> i \<and> bit m (i - n) then M(B + of_nat i := ucast (drop_bit (8 * (i - n)) W)) else M)"
    unfolding mx_strobes(1) [OF assms i]
    by (cases "n \<le> i") (simp_all only: mx_data_bytes(1) [OF assms i] simp_thms if_False)
qed

lemma wr_word_hi:
  assumes "n < 4"
  shows "wr_word B (vbits 63 32 (push_bit (8 * n) (ucast (W :: u32) :: u64)))
      (ucast (vbits 7 4 (push_bit n (ucast (m :: 4 word) :: 8 word)) :: 4 word)) mem
    = fold (\<lambda>i M. if bit m (4 + i - n) then M(B + of_nat i := ucast (drop_bit (8 * (4 + i - n)) W)) else M)
        [0, 1, 2, 3] mem"
  unfolding wr_word_def byte_and_FF
proof (rule fold_cong [OF refl refl])
  fix i :: nat
  assume "i \<in> set [0, 1, 2, 3]"
  then have i: "i < 4" by auto
  have lt: "i < n" if "bit m (4 + i - n)"
    using bit_imp_le_length [OF that] by simp
  show "(\<lambda>M. if ucast (vbits 7 4 (push_bit n (ucast m :: 8 word)) :: 4 word) AND push_bit i 1 \<noteq> (0 :: u8)
      then M(B + of_nat i := ucast (drop_bit (8 * i) (vbits 63 32 (push_bit (8 * n) (ucast W :: u64)) :: u32)) :: u8) else M)
    = (\<lambda>M. if bit m (4 + i - n) then M(B + of_nat i := ucast (drop_bit (8 * (4 + i - n)) W)) else M)"
    unfolding mx_strobes(2) [OF assms i]
    by (cases "bit m (4 + i - n)") (simp_all only: mx_data_bytes(2) [OF assms i lt] simp_thms if_True if_False)
qed

lemma mx_stored_bytes: "mx_stored A W f mem = store_bytes A (mx_size f) W mem"
proof -
  have f: "(vbits 1 0 f :: 2 word) = 0 \<or> (vbits 1 0 f :: 2 word) = 1 \<or> (vbits 1 0 f :: 2 word) = 2
    \<or> (vbits 1 0 f :: 2 word) = 3" using word2_exhaust by blast
  have bits: "bit (1 :: 4 word) i = (i = 0)" "bit (3 :: 4 word) i = (i < 2)" "bit (15 :: 4 word) i = (i < 4)" for i
  proof -
    have m: "(3 :: 4 word) = mask 2" "(15 :: 4 word) = mask 4" by (simp_all add: mask_eq_exp_minus_1)
    show "bit (1 :: 4 word) i = (i = 0)" "bit (3 :: 4 word) i = (i < 2)" "bit (15 :: 4 word) i = (i < 4)"
      unfolding m bit_mask_iff by (auto simp: bit_1_iff)
  qed
  have upt: "[0..<0] = []" "[0..<1] = [0 :: nat]" "[0..<2] = [0, 1 :: nat]" "[0..<4] = [0, 1, 2, 3 :: nat]"
    by (simp_all add: upt_rec)
  obtain n B where n: "n < 4" "mx_lane A = n" "mx_addr_lo A = B" "A = B + of_nat n" "(vbits 1 0 A :: 2 word) = of_nat n"
    using mx_lane_cases [of A] by fastforce
  have main: "mx_stored A W f mem = store_bytes (B + of_nat n) (mx_size f) W mem"
    if "n = 0 \<or> n = 1 \<or> n = 2 \<or> n = 3"
    unfolding mx_stored_def mx_addr_def mx_addr_hi_def mx_data_def mx_strb_def mx_crosses_def n(2,3,5)
      mx_size_def store_bytes_def Let_def word8_cat word64_cat if_True if_False wr_word_lo [OF n(1)] wr_word_hi [OF n(1)]
      mx_byte_en_def
    using that f by (elim disjE) (simp_all add: bits upt add.commute [of B])
  show ?thesis using main [OF lanes [OF n(1)]] unfolding n(4) [symmetric] .
qed

text \<open>Loads: the byte of each of the two words, and the extension.\<close>

lemma bit_rd_word:
  assumes "i < 4" "j < 8"
  shows "bit (rd_word mem a) (8 * i + j) = bit (mem (a + of_nat i)) j"
  using lanes [OF assms(1)] assms(2)
  by (elim disjE) (auto simp: rd_word_def bit_simps)

lemma rd_word_byte:
  assumes "i < 4"
  shows "(ucast (drop_bit (8 * i) (rd_word mem a)) :: u8) = mem (a + of_nat i)"
proof (rule bit_word_eqI)
  fix n :: nat
  assume "n < LENGTH(8)"
  then have n: "n < 8" by simp
  then show "bit (ucast (drop_bit (8 * i) (rd_word mem a)) :: u8) n = bit (mem (a + of_nat i)) n"
    using assms bit_rd_word [OF assms n] by (simp add: bit_simps add.commute)
qed

lemma shifted_byte:
  fixes hi lo :: u32
  assumes "k < 4" "n < 4"
  shows "(ucast (drop_bit (8 * k) (vbits 31 0 (drop_bit (8 * n) (word_cat hi lo :: u64)) :: u32)) :: u8)
      = (if k + n < 4 then ucast (drop_bit (8 * (k + n)) lo) else ucast (drop_bit (8 * (k + n - 4)) hi))"
proof (rule bit_word_eqI)
  fix j :: nat
  assume "j < LENGTH(8)"
  then have j: "j < 8" by simp
  have lo: "8 * n + (8 * k + j) < 32 \<longleftrightarrow> k + n < 4" using j by linarith
  have hi: "8 * n + (8 * k + j) - 32 = 8 * (k + n - 4) + j" if "\<not> k + n < 4" using that by simp
  show "bit (ucast (drop_bit (8 * k) (vbits 31 0 (drop_bit (8 * n) (word_cat hi lo :: u64)) :: u32)) :: u8) j
      = bit (if k + n < 4 then ucast (drop_bit (8 * (k + n)) lo) else ucast (drop_bit (8 * (k + n - 4)) hi) :: u8) j"
  proof (cases "k + n < 4")
    case True
    then show ?thesis using assms j lo by (auto simp: bit_simps bit_word_cat_iff add_ac)
  next
    case False
    then show ?thesis using assms j lo hi by (simp add: bit_simps bit_word_cat_iff)
  qed
qed

lemma mx_size_le: "mx_size f \<le> 4"
  by (simp add: mx_size_def Let_def)

lemma funct3_size:
  "(vbits 1 0 (0 :: 3 word) :: 2 word) = 0" "(vbits 1 0 (1 :: 3 word) :: 2 word) = 1"
  "(vbits 1 0 (2 :: 3 word) :: 2 word) = 2" "(vbits 1 0 (3 :: 3 word) :: 2 word) = 3"
  "(vbits 1 0 (4 :: 3 word) :: 2 word) = 0" "(vbits 1 0 (5 :: 3 word) :: 2 word) = 1"
  "(vbits 1 0 (6 :: 3 word) :: 2 word) = 2" "(vbits 1 0 (7 :: 3 word) :: 2 word) = 3"
  by code_simp+

lemma mx_extend_low:
  assumes "mx_size f \<noteq> 0" and "\<And>k. k < mx_size f \<Longrightarrow> (ucast (drop_bit (8 * k) x) :: u8) = ucast (drop_bit (8 * k) y)"
  shows "mx_extend f x = mx_extend f y"
proof -
  have b: "bit x n = bit y n" if "n < 8 * mx_size f" for n
  proof -
    have k: "n div 8 < mx_size f" using that by (simp add: less_mult_imp_div_less mult.commute)
    have "bit (ucast (drop_bit (8 * (n div 8)) x) :: u8) (n mod 8) = bit (ucast (drop_bit (8 * (n div 8)) y) :: u8) (n mod 8)"
      using assms(2) [OF k] by simp
    then show ?thesis by (simp add: bit_simps)
  qed
  consider "(vbits 1 0 f :: 2 word) = 0" | "(vbits 1 0 f :: 2 word) = 1" | "(vbits 1 0 f :: 2 word) = 2"
    using assms(1) word2_exhaust [of "vbits 1 0 f"] by (cases "(vbits 1 0 f :: 2 word) = 3") (auto simp: mx_size_def Let_def)
  then show ?thesis
  proof cases
    case 1
    then have "f = 0 \<or> f = 4" using funct3_size by (cases f rule: word3_exhaust) simp_all
    moreover have "bit x n = bit y n" if "n < 8" for n using b that 1 by (simp add: mx_size_def)
    ultimately show ?thesis
      by (intro bit_word_eqI) (auto simp: mx_extend_def bit_simps bit_word_cat_iff)
  next
    case 2
    then have "f = 1 \<or> f = 5" using funct3_size by (cases f rule: word3_exhaust) simp_all
    moreover have "bit x n = bit y n" if "n < 16" for n using b that 2 by (simp add: mx_size_def)
    ultimately show ?thesis
      by (intro bit_word_eqI) (auto simp: mx_extend_def bit_simps bit_word_cat_iff)
  next
    case 3
    have "x = y" using b 3 by (intro bit_word_eqI) (simp add: mx_size_def)
    then show ?thesis by simp
  qed
qed

lemma mx_loaded_bytes:
  assumes "mx_size f \<noteq> 0"
  shows "mx_loaded A f mem = mx_extend f (rd_word mem A)"
  unfolding mx_loaded_def mx_read_data_def Let_def
proof (rule mx_extend_low [OF assms])
  fix k
  assume k: "k < mx_size f"
  then have k4: "k < 4" using mx_size_le [of f] by linarith
  obtain n B where n: "n < 4" "mx_lane A = n" "mx_addr_lo A = B" "A = B + of_nat n" "(vbits 1 0 A :: 2 word) = of_nat n"
    using mx_lane_cases [of A] by fastforce
  let ?x = "mx_crosses A f"
  let ?w = "rd_word mem (mx_addr ?x A)"
  have within: "k + n < 4" if "\<not> ?x"
    using that k n(1) lanes [OF n(1)] n(5)
    by (auto simp: mx_crosses_def mx_size_def Let_def split: if_splits)
  have "(ucast (drop_bit (8 * k) (vbits 31 0 (drop_bit (8 * n) (if ?x then word_cat ?w (rd_word mem B)
        else word_cat (0 :: u32) ?w :: u64)) :: u32)) :: u8)
      = mem (B + of_nat (k + n))"
  proof (cases ?x)
    case True
    then show ?thesis
      using k4 n(1,3) rd_word_byte [of "k + n" mem B] rd_word_byte [of "k + n - 4" mem "B + 4"]
      by (auto simp: shifted_byte mx_addr_def mx_addr_hi_def)
  next
    case False
    then show ?thesis
      using n(3) rd_word_byte [of "k + n" mem B] within [OF False]
      unfolding if_not_P [OF False] shifted_byte [OF k4 n(1)] by (simp add: mx_addr_def)
  qed
  also have "\<dots> = ucast (drop_bit (8 * k) (rd_word mem A))"
    unfolding rd_word_byte [OF k4] n(4) by (simp add: algebra_simps)
  finally show "(ucast (drop_bit (8 * k) (vbits 31 0 (drop_bit (8 * mx_lane A) (if ?x
        then word_cat ?w (rd_word mem (mx_addr_lo A)) else word_cat (0 :: u32) ?w :: u64)) :: u32)) :: u8)
    = ucast (drop_bit (8 * k) (rd_word mem A))"
    unfolding n(2,3) .
qed

section \<open>Loads and stores of the bench\<close>

text \<open>Between transactions, with memory \<open>mem\<close> and \<open>c\<close> checks done; no loop was given up.\<close>

definition mx_at :: "(u32 \<Rightarrow> u8) \<Rightarrow> int \<Rightarrow> Vaxil_master \<Rightarrow> int \<Rightarrow> mx_locals \<Rightarrow> bool" where
  "mx_at mem c d k l \<longleftrightarrow> \<not> v_clk d \<and> mx_rst_n d \<and> mx_idle d \<and> mx_sl_idle (mx_slave l)
     \<and> (\<exists>aw w ar. mx_cnt aw None w None ar None (mx_slave l)) \<and> sl_mem (mx_slave l) = mem \<and> \<not> mx_hung l \<and> k = c"

text \<open>The same with the request on the inputs and the delays set.\<close>

definition mx_set :: "u32 \<Rightarrow> u32 \<Rightarrow> 3 word \<Rightarrow> bool \<Rightarrow> nat \<Rightarrow> nat \<Rightarrow> nat \<Rightarrow> (u32 \<Rightarrow> u8) \<Rightarrow> int \<Rightarrow>
    Vaxil_master \<Rightarrow> int \<Rightarrow> mx_locals \<Rightarrow> bool" where
  "mx_set A W f we aw w ar mem c d k l \<longleftrightarrow> mx_at mem c d k l \<and> mx_inputs A W f we d
     \<and> mx_cnt aw None w None ar None (mx_slave l)"

lemma mx_run_store_ok:
  assumes "mx_cycles (mx_crosses A f) (max aw w) \<le> fuel"
  shows "tb_ok (mx_set A W f True aw w ar mem c) (mx_run Vaxil_master_eval fuel 0)
     (\<lambda>x d k l. snd x = int (mx_cycles (mx_crosses A f) (max aw w))
        \<and> mx_set A W f True aw w ar (store_bytes A (mx_size f) W mem) c d k l)"
proof (rule tb_okI)
  fix d k f' h l
  assume "mx_set A W f True aw w ar mem c d k l"
  then have s: "mx_idle d" "mx_sl_idle (mx_slave l)" "mx_inputs A W f True d" "mx_cnt aw None w None ar None (mx_slave l)"
    "sl_mem (mx_slave l) = mem" "\<not> mx_hung l" "k = c" "\<not> v_clk d"
    by (simp_all add: mx_set_def mx_at_def)
  obtain d' s' where r: "mx_after (mx_cycles (mx_crosses A f) (max aw w) - 1) d (mx_slave l) d' s'" "\<not> mx_stalled d' s'"
    "mx_inputs A W f True (fst (mx_step d' s'))" "mx_idle (fst (mx_step d' s'))" "mx_sl_idle (snd (mx_step d' s'))"
    "mx_cnt aw None w None ar None (snd (mx_step d' s'))"
    "sl_mem (snd (mx_step d' s')) = mx_stored A W f (sl_mem (mx_slave l))"
    using mx_store_after [OF s(1-4)] by blast
  have pos: "0 < mx_cycles (mx_crosses A f) (max aw w)" by (simp add: mx_cycles_def)
  show "wp (mx_run Vaxil_master_eval fuel 0) (\<lambda>x s. (snd x = int (mx_cycles (mx_crosses A f) (max aw w))
        \<and> mx_set A W f True aw w ar (store_bytes A (mx_size f) W mem) c (tb_dut s) (tb_checks s) (tb.more s))
        \<and> tb_fails s = f') d k f' h l"
    by (subst wp_bare, rule wp_mx_run_after [OF r(1) s(8) r(2)])
      (use assms pos r s in \<open>auto simp: wp_return mx_set_def mx_at_def mx_step_clk mx_stored_bytes mx_inputs_def\<close>)
qed

lemma mx_run_load_ok:
  assumes "mx_cycles (mx_crosses A f) ar \<le> fuel" and "mx_size f \<noteq> 0"
  shows "tb_ok (mx_set A W f False aw w ar mem c) (mx_run Vaxil_master_eval fuel 0)
     (\<lambda>x d k l. snd x = int (mx_cycles (mx_crosses A f) ar) \<and> fst x = mx_extend f (rd_word mem A)
        \<and> mx_set A W f False aw w ar mem c d k l)"
proof (rule tb_okI)
  fix d k f' h l
  assume "mx_set A W f False aw w ar mem c d k l"
  then have s: "mx_idle d" "mx_sl_idle (mx_slave l)" "mx_inputs A W f False d" "mx_cnt aw None w None ar None (mx_slave l)"
    "sl_mem (mx_slave l) = mem" "\<not> mx_hung l" "k = c" "\<not> v_clk d"
    by (simp_all add: mx_set_def mx_at_def)
  obtain d' s' where r: "mx_after (mx_cycles (mx_crosses A f) ar - 1) d (mx_slave l) d' s'" "\<not> mx_stalled d' s'"
    "mx_inputs A W f False (fst (mx_step d' s'))" "mx_idle (fst (mx_step d' s'))" "mx_sl_idle (snd (mx_step d' s'))"
    "mx_cnt aw None w None ar None (snd (mx_step d' s'))" "sl_mem (snd (mx_step d' s')) = sl_mem (mx_slave l)"
    "mx_out d' s' = mx_loaded A f (sl_mem (mx_slave l))"
    using mx_load_after [OF s(1-4)] by blast
  have pos: "0 < mx_cycles (mx_crosses A f) ar" by (simp add: mx_cycles_def)
  show "wp (mx_run Vaxil_master_eval fuel 0) (\<lambda>x s. (snd x = int (mx_cycles (mx_crosses A f) ar)
        \<and> fst x = mx_extend f (rd_word mem A)
        \<and> mx_set A W f False aw w ar mem c (tb_dut s) (tb_checks s) (tb.more s)) \<and> tb_fails s = f') d k f' h l"
    by (subst wp_bare, rule wp_mx_run_after [OF r(1) s(8) r(2)])
      (use assms pos r s in \<open>auto simp: wp_return mx_set_def mx_at_def mx_step_clk mx_loaded_bytes mx_inputs_def\<close>)
qed

lemma mx_cnt_set_delays:
  "mx_cnt aw None w None ar None s \<Longrightarrow>
     mx_cnt a None b None ar None (s\<lparr>sl_awc := (sl_awc s)\<lparr>dc_delay := int a\<rparr>, sl_wc := (sl_wc s)\<lparr>dc_delay := int b\<rparr>\<rparr>)"
  "mx_cnt aw None w None ar None s \<Longrightarrow> mx_cnt aw None w None b None (s\<lparr>sl_arc := (sl_arc s)\<lparr>dc_delay := int b\<rparr>\<rparr>)"
  by (simp_all add: mx_cnt_def dc_at_def)

text \<open>Putting a request on the inputs, with new delays.\<close>

lemma mx_set_write:
  assumes "mx_at mem c d k l" and "mx_inputs A W f True d'" and "mx_r d' = mx_r d"
  shows "\<exists>ar. mx_set A W f True aw w ar mem c d' k (let s = mx_slave l in
     l\<lparr>mx_slave := s\<lparr>sl_awc := (sl_awc s)\<lparr>dc_delay := int aw\<rparr>, sl_wc := (sl_wc s)\<lparr>dc_delay := int w\<rparr>\<rparr>\<rparr>)"
proof -
  obtain aw' w' ar where "mx_cnt aw' None w' None ar None (mx_slave l)" using assms(1) by (auto simp: mx_at_def)
  from mx_cnt_set_delays(1) [OF this, of aw w] show ?thesis
    using assms by (simp add: mx_set_def mx_at_def mx_inputs_def mx_idle_def mx_sl_idle_def Let_def) blast
qed

lemma mx_set_read:
  assumes "mx_at mem c d k l" and "mx_inputs A W f False d'" and "mx_r d' = mx_r d"
  shows "\<exists>aw w. mx_set A W f False aw w ar mem c d' k (let s = mx_slave l in
     l\<lparr>mx_slave := s\<lparr>sl_arc := (sl_arc s)\<lparr>dc_delay := int ar\<rparr>\<rparr>\<rparr>)"
proof -
  obtain aw w ar' where "mx_cnt aw None w None ar' None (mx_slave l)" using assms(1) by (auto simp: mx_at_def)
  from mx_cnt_set_delays(2) [OF this, of ar] show ?thesis
    using assms by (simp add: mx_set_def mx_at_def mx_inputs_def mx_idle_def mx_sl_idle_def Let_def) blast
qed

lemma mx_set_next:
  "mx_set A W f we aw w ar mem c d k l \<Longrightarrow> mx_inputs A' W' f' we' d' \<Longrightarrow> mx_r d' = mx_r d \<Longrightarrow>
     mx_set A' W' f' we' aw w ar mem c d' k l"
  "mx_set A W f we aw w ar mem c d k l \<Longrightarrow> mx_at mem c (d\<lparr>mx_mem_we := b\<rparr>) k l"
  "mx_set A W f we aw w ar mem c d k l \<Longrightarrow> mx_at mem c (d\<lparr>mx_mem_re := b\<rparr>) k l"
  by (auto simp: mx_set_def mx_at_def mx_inputs_def mx_idle_def)

lemma do_store_ok:
  assumes "mx_cycles (mx_crosses A (ucast f3)) (max aw w) \<le> fuel"
  shows "tb_ok (mx_at mem c) (do_store Vaxil_master_eval fuel A W f3 (int aw) (int w))
     (\<lambda>n d k l. n = int (mx_cycles (mx_crosses A (ucast f3)) (max aw w))
        \<and> mx_at (store_bytes A (mx_size (ucast f3)) W mem) c d k l)"
proof (rule tb_okI)
  fix d k f' h l
  assume at: "mx_at mem c d k l"
  let ?d = "d\<lparr>mx_mem_addr := A, mx_mem_wdata := W, mx_mem_funct3 := ucast f3, mx_mem_we := True, mx_mem_re := False\<rparr>"
  have "mx_inputs A W (ucast f3) True ?d" "mx_r ?d = mx_r d" using at by (simp_all add: mx_inputs_def mx_at_def)
  from mx_set_write [OF at this] obtain ar where set: "mx_set A W (ucast f3) True aw w ar mem c ?d k (let s = mx_slave l in
     l\<lparr>mx_slave := s\<lparr>sl_awc := (sl_awc s)\<lparr>dc_delay := int aw\<rparr>, sl_wc := (sl_wc s)\<lparr>dc_delay := int w\<rparr>\<rparr>\<rparr>)" by blast
  show "wp (do_store Vaxil_master_eval fuel A W f3 (int aw) (int w))
     (\<lambda>n s. (n = int (mx_cycles (mx_crosses A (ucast f3)) (max aw w))
        \<and> mx_at (store_bytes A (mx_size (ucast f3)) W mem) c (tb_dut s) (tb_checks s) (tb.more s)) \<and> tb_fails s = f') d k f' h l"
    unfolding do_store_def mx_set_write_delays_def wp_set_locals wp_poke
    by (rule wp_bind_ok [OF mx_run_store_ok [OF assms] set]) (auto simp: wp_poke wp_return mx_set_next)
qed

lemma do_load_ok:
  assumes "mx_cycles (mx_crosses A (ucast f3)) ar \<le> fuel" and "mx_size (ucast f3) \<noteq> 0"
  shows "tb_ok (mx_at mem c) (do_load Vaxil_master_eval fuel A f3 (int ar))
     (\<lambda>x d k l. x = mx_extend (ucast f3) (rd_word mem A) \<and> mx_at mem c d k l)"
proof (rule tb_okI)
  fix d k f' h l
  assume at: "mx_at mem c d k l"
  let ?d = "d\<lparr>mx_mem_addr := A, mx_mem_funct3 := ucast f3, mx_mem_re := True, mx_mem_we := False\<rparr>"
  have "mx_inputs A (mx_mem_wdata d) (ucast f3) False ?d" "mx_r ?d = mx_r d"
    using at by (simp_all add: mx_inputs_def mx_at_def)
  from mx_set_read [OF at this] obtain aw w where set: "mx_set A (mx_mem_wdata d) (ucast f3) False aw w ar mem c ?d k
      (let s = mx_slave l in l\<lparr>mx_slave := s\<lparr>sl_arc := (sl_arc s)\<lparr>dc_delay := int ar\<rparr>\<rparr>\<rparr>)" by blast
  show "wp (do_load Vaxil_master_eval fuel A f3 (int ar))
     (\<lambda>x s. (x = mx_extend (ucast f3) (rd_word mem A) \<and> mx_at mem c (tb_dut s) (tb_checks s) (tb.more s)) \<and> tb_fails s = f') d k f' h l"
    unfolding do_load_def mx_set_read_delay_def wp_set_locals wp_poke
    by (rule wp_bind_ok [OF mx_run_load_ok [OF assms] set]) (auto simp: wp_poke wp_return mx_set_next)
qed

end
