(* ===== verification/Tb_Axil_Master.thy ===== *)
theory Tb_Axil_Master
  imports Bus_Access
begin

text \<open>
  The test bench of the bus master, \<open>sim/verilator/tb_axil_master.cpp\<close>: its twelve sections over
  the loads and stores of \<open>Axil_Master\<close>. The order in which C++ evaluates the two random delays
  among a call's arguments is unspecified; it is a parameter of the definitions.
\<close>

section \<open>tb_axil_master.cpp: the sections\<close>

definition mx_BASE :: u32 where [tb_data]: "mx_BASE = 0x80000000"

definition mx_start :: "(Vaxil_master \<Rightarrow> Vaxil_master) \<Rightarrow> (mx_tb, unit) state" where
  "mx_start ev = do {
     poke (\<lambda>d. d\<lparr>v_clk := False, mx_rst_n := False, mx_mem_addr := 0, mx_mem_wdata := 0,
       mx_mem_funct3 := ucast F3_W, mx_mem_re := False, mx_mem_we := False, mx_awready := False,
       mx_wready := False, mx_arready := False, mx_bvalid := False, mx_bresp := 0,
       mx_rvalid := False, mx_rdata := 0, mx_rresp := 0\<rparr>);
     tb_tick ev; tb_tick ev;
     poke (\<lambda>d. d\<lparr>mx_rst_n := True\<rparr>) }"

text \<open>The bench's direct accesses to the slave's memory, and the checks on words and loads.\<close>

definition mx_wr_word :: "u32 \<Rightarrow> u32 \<Rightarrow> u8 \<Rightarrow> (mx_tb, unit) state" where
  "mx_wr_word waddr data strb = tb_set_locals (\<lambda>l. let s = mx_slave l in
     l\<lparr>mx_slave := s\<lparr>sl_mem := wr_word waddr data strb (sl_mem s)\<rparr>\<rparr>)"

definition mx_rd_word :: "u32 \<Rightarrow> (mx_tb, u32) state" where
  "mx_rd_word waddr = tb_locals (\<lambda>l. rd_word (sl_mem (mx_slave l)) waddr)"

definition mx_check :: "nat \<Rightarrow> string \<Rightarrow> u64 \<Rightarrow> u64 \<Rightarrow> (mx_tb, unit) state" where
  "mx_check line expr got want = tb_check ''tb_axil_master.cpp'' line expr got want"

definition mx_check_word :: "nat \<Rightarrow> string \<Rightarrow> u32 \<Rightarrow> u32 \<Rightarrow> (mx_tb, unit) state" where
  "mx_check_word line expr a want = do { v \<leftarrow> mx_rd_word a; mx_check line expr (ucast v) (ucast want) }"

definition mx_check_load ::
  "(Vaxil_master \<Rightarrow> Vaxil_master) \<Rightarrow> nat \<Rightarrow> nat \<Rightarrow> string \<Rightarrow> u32 \<Rightarrow> u32 \<Rightarrow> u32 \<Rightarrow> (mx_tb, unit) state" where
  "mx_check_load ev fuel line expr a f3 want = do {
     v \<leftarrow> do_load ev fuel a f3 0; mx_check line expr (ucast v) (ucast want) }"

definition mx_test_1 :: "(Vaxil_master \<Rightarrow> Vaxil_master) \<Rightarrow> nat \<Rightarrow> (mx_tb, unit) state" where
  "mx_test_1 ev fuel = do {
     tb_begin ''1. sw produces one AW, one W, one B; correct wstrb/wdata'';
     do_store ev fuel (mx_BASE + 0) 0xDEADBEEF F3_W 0 0;
     mx_check_word 178 ''slave.rd_word(BASE + 0)'' (mx_BASE + 0) 0xDEADBEEF }"

definition mx_test_2 :: "(Vaxil_master \<Rightarrow> Vaxil_master) \<Rightarrow> nat \<Rightarrow> (mx_tb, unit) state" where
  "mx_test_2 ev fuel = do {
     tb_begin ''2. sb/sh at every byte lane produce the right wstrb'';
     do_store ev fuel (mx_BASE + 16) 0 F3_W 0 0;
     do_store ev fuel (mx_BASE + 16) 0xAA F3_B 0 0;
     mx_check_word 184 ''slave.rd_word(BASE + 16)'' (mx_BASE + 16) 0x000000AA;
     do_store ev fuel (mx_BASE + 17) 0xBB F3_B 0 0;
     mx_check_word 186 ''slave.rd_word(BASE + 16)'' (mx_BASE + 16) 0x0000BBAA;
     do_store ev fuel (mx_BASE + 18) 0xCC F3_B 0 0;
     mx_check_word 188 ''slave.rd_word(BASE + 16)'' (mx_BASE + 16) 0x00CCBBAA;
     do_store ev fuel (mx_BASE + 19) 0xDD F3_B 0 0;
     mx_check_word 190 ''slave.rd_word(BASE + 16)'' (mx_BASE + 16) 0xDDCCBBAA;
     do_store ev fuel (mx_BASE + 24) 0 F3_W 0 0;
     do_store ev fuel (mx_BASE + 24) 0x1234 F3_H 0 0;
     mx_check_word 194 ''slave.rd_word(BASE + 24)'' (mx_BASE + 24) 0x00001234;
     do_store ev fuel (mx_BASE + 26) 0x5678 F3_H 0 0;
     mx_check_word 196 ''slave.rd_word(BASE + 24)'' (mx_BASE + 24) 0x56781234 }"

definition mx_test_3 :: "(Vaxil_master \<Rightarrow> Vaxil_master) \<Rightarrow> nat \<Rightarrow> (mx_tb, unit) state" where
  "mx_test_3 ev fuel = do {
     tb_begin ''3. lw produces one AR, one R; mem_rdata matches'';
     do_store ev fuel (mx_BASE + 32) 0x11223344 F3_W 0 0;
     mx_check_load ev fuel 201 ''do_load(BASE + 32, F3_W, 0)'' (mx_BASE + 32) F3_W 0x11223344 }"

definition mx_test_4 :: "(Vaxil_master \<Rightarrow> Vaxil_master) \<Rightarrow> nat \<Rightarrow> (mx_tb, unit) state" where
  "mx_test_4 ev fuel = do {
     tb_begin ''4. lb/lbu/lh/lhu sign/zero-extend at every lane'';
     do_store ev fuel (mx_BASE + 40) 0x80442211 F3_W 0 0;
     mx_check_load ev fuel 206 ''do_load(BASE + 40, F3_BU, 0)'' (mx_BASE + 40) F3_BU 0x00000011;
     mx_check_load ev fuel 207 ''do_load(BASE + 41, F3_BU, 0)'' (mx_BASE + 41) F3_BU 0x00000022;
     mx_check_load ev fuel 208 ''do_load(BASE + 42, F3_BU, 0)'' (mx_BASE + 42) F3_BU 0x00000044;
     mx_check_load ev fuel 209 ''do_load(BASE + 43, F3_BU, 0)'' (mx_BASE + 43) F3_BU 0x00000080;
     mx_check_load ev fuel 210 ''do_load(BASE + 40, F3_B, 0)'' (mx_BASE + 40) F3_B 0x00000011;
     mx_check_load ev fuel 211 ''do_load(BASE + 43, F3_B, 0)'' (mx_BASE + 43) F3_B 0xFFFFFF80;
     do_store ev fuel (mx_BASE + 44) 0x80007FFF F3_W 0 0;
     mx_check_load ev fuel 214 ''do_load(BASE + 44, F3_HU, 0)'' (mx_BASE + 44) F3_HU 0x00007FFF;
     mx_check_load ev fuel 215 ''do_load(BASE + 46, F3_HU, 0)'' (mx_BASE + 46) F3_HU 0x00008000;
     mx_check_load ev fuel 216 ''do_load(BASE + 44, F3_H, 0)'' (mx_BASE + 44) F3_H 0x00007FFF;
     mx_check_load ev fuel 217 ''do_load(BASE + 46, F3_H, 0)'' (mx_BASE + 46) F3_H 0xFFFF8000 }"

definition mx_test_5 :: "(Vaxil_master \<Rightarrow> Vaxil_master) \<Rightarrow> nat \<Rightarrow> (mx_tb, unit) state" where
  "mx_test_5 ev fuel = do {
     tb_begin ''5. bus_stall high for exactly the right cycles, drops on response with mem_rdata already valid'';
     mx_set_write_delays 3 1;
     poke (\<lambda>d. d\<lparr>mx_mem_addr := mx_BASE + 48, mx_mem_wdata := 0xCAFEF00D, mx_mem_funct3 := ucast F3_W,
                 mx_mem_we := True, mx_mem_re := False\<rparr>);
     x \<leftarrow> mx_run ev fuel 0;
     poke (\<lambda>d. d\<lparr>mx_mem_we := False\<rparr>);
     mx_check 232 ''n'' (word_of_int (snd x)) 6;
     mx_check_word 233 ''slave.rd_word(BASE + 48)'' (mx_BASE + 48) 0xCAFEF00D;
     mx_set_read_delay 4;
     poke (\<lambda>d. d\<lparr>mx_mem_addr := mx_BASE + 48, mx_mem_funct3 := ucast F3_W, mx_mem_re := True, mx_mem_we := False\<rparr>);
     y \<leftarrow> mx_run ev fuel 0;
     poke (\<lambda>d. d\<lparr>mx_mem_re := False\<rparr>);
     mx_check 241 ''n'' (word_of_int (snd y)) 7;
     mx_check 242 ''rdata'' (ucast (fst y)) 0xCAFEF00D }"

definition mx_test_6 :: "(Vaxil_master \<Rightarrow> Vaxil_master) \<Rightarrow> nat \<Rightarrow> (mx_tb, unit) state" where
  "mx_test_6 ev fuel = do {
     tb_begin ''6. AW before W, W before AW, both together -- all complete'';
     do_store ev fuel (mx_BASE + 52) 0xAAAAAAAA F3_W 0 3;
     mx_check_word 248 ''slave.rd_word(BASE + 52)'' (mx_BASE + 52) 0xAAAAAAAA;
     do_store ev fuel (mx_BASE + 56) 0xBBBBBBBB F3_W 3 0;
     mx_check_word 250 ''slave.rd_word(BASE + 56)'' (mx_BASE + 56) 0xBBBBBBBB;
     do_store ev fuel (mx_BASE + 60) 0xCCCCCCCC F3_W 0 0;
     mx_check_word 252 ''slave.rd_word(BASE + 60)'' (mx_BASE + 60) 0xCCCCCCCC }"

text \<open>Section 7 changes the request as soon as the stall drops, without an idle cycle.\<close>

definition mx_test_7 :: "(Vaxil_master \<Rightarrow> Vaxil_master) \<Rightarrow> nat \<Rightarrow> (mx_tb, unit) state" where
  "mx_test_7 ev fuel = do {
     tb_begin ''7. back-to-back transactions, no idle cycle between'';
     mx_set_write_delays 0 0;
     poke (\<lambda>d. d\<lparr>mx_mem_addr := mx_BASE + 64, mx_mem_wdata := 0x11111111, mx_mem_funct3 := ucast F3_W,
                 mx_mem_we := True, mx_mem_re := False\<rparr>);
     mx_run ev fuel 0;
     poke (\<lambda>d. d\<lparr>mx_mem_addr := mx_BASE + 68, mx_mem_wdata := 0x22222222\<rparr>);
     mx_run ev fuel 0;
     poke (\<lambda>d. d\<lparr>mx_mem_we := False\<rparr>);
     mx_check_word 266 ''slave.rd_word(BASE + 64)'' (mx_BASE + 64) 0x11111111;
     mx_check_word 267 ''slave.rd_word(BASE + 68)'' (mx_BASE + 68) 0x22222222;
     mx_set_read_delay 0;
     poke (\<lambda>d. d\<lparr>mx_mem_addr := mx_BASE + 64, mx_mem_funct3 := ucast F3_W, mx_mem_re := True\<rparr>);
     x \<leftarrow> mx_run ev fuel 0;
     mx_check 272 ''rdata'' (ucast (fst x)) 0x11111111;
     poke (\<lambda>d. d\<lparr>mx_mem_addr := mx_BASE + 68\<rparr>);
     y \<leftarrow> mx_run ev fuel 0;
     mx_check 275 ''rdata'' (ucast (fst y)) 0x22222222;
     poke (\<lambda>d. d\<lparr>mx_mem_re := False\<rparr>) }"

text \<open>
  Two arguments \<open>tb.rnd(0, hi), tb.rnd(0, hi)\<close> of one call: C++ does not say which is evaluated
  first; \<open>l2r\<close> is the compiler's choice. The bench reads the numbers as \<open>int\<close>.
\<close>

definition mx_rnd_delays :: "bool \<Rightarrow> u32 \<Rightarrow> (mx_tb, int \<times> int) state" where
  "mx_rnd_delays l2r hi = do {
     x \<leftarrow> tb_rnd_in 0 hi;
     y \<leftarrow> tb_rnd_in 0 hi;
     State_Monad.return (if l2r then (sint x, sint y) else (sint y, sint x)) }"

text \<open>The byte array of sections 8 and 12.\<close>

definition mx_f3_of :: "int \<Rightarrow> u32" where
  "mx_f3_of sz = (if sz = 0 then F3_B else if sz = 1 then F3_H else F3_W)"

definition mx_model_store :: "nat \<Rightarrow> u32 \<Rightarrow> nat \<Rightarrow> u8 list \<Rightarrow> u8 list" where
  "mx_model_store off v n model =
     fold (\<lambda>k m. m[off + k := ucast (drop_bit (8 * k) v AND 0xFF)]) [0..<n] model"

definition mx_model_load :: "nat \<Rightarrow> nat \<Rightarrow> u8 list \<Rightarrow> u32" where
  "mx_model_load loff n model =
     fold (\<lambda>k want. want OR push_bit (8 * k) (ucast (model ! (loff + k)))) [0..<n] 0"

definition mx_expected :: "int \<Rightarrow> bool \<Rightarrow> u32 \<Rightarrow> u32 \<times> u32" where
  "mx_expected lsz uns want =
     (if lsz = 2 then (F3_W, want)
      else if lsz = 0 then (if uns then F3_BU else F3_B,
        if \<not> uns \<and> want AND 0x80 \<noteq> 0 then want OR 0xFFFFFF00 else want)
      else (if uns then F3_HU else F3_H,
        if \<not> uns \<and> want AND 0x8000 \<noteq> 0 then want OR 0xFFFF0000 else want))"

text \<open>One iteration of the random sections; \<open>offset sz\<close> is how the section picks an offset.\<close>

definition mx_random ::
  "(Vaxil_master \<Rightarrow> Vaxil_master) \<Rightarrow> nat \<Rightarrow> bool \<Rightarrow> nat \<Rightarrow> (int \<Rightarrow> (mx_tb, u32) state) \<Rightarrow>
   int \<Rightarrow> u8 list \<Rightarrow> (mx_tb, u8 list) state" where
  "mx_random ev fuel l2r line offset i model = do {
     s \<leftarrow> tb_rnd_in 0 2;
     let sz = sint s;
     off \<leftarrow> offset sz;
     v \<leftarrow> tb_rnd;
     delays \<leftarrow> mx_rnd_delays l2r 3;
     do_store ev fuel (mx_BASE + off) v (mx_f3_of sz) (fst delays) (snd delays);
     let model' = mx_model_store (unat off) v (2 ^ nat sz) model;
     t \<leftarrow> tb_rnd_in 0 2;
     let lsz = sint t;
     loff \<leftarrow> offset lsz;
     u \<leftarrow> tb_rnd_in 0 1;
     let (lf3, want) = mx_expected lsz (u \<noteq> 0) (mx_model_load (unat loff) (2 ^ nat lsz) model');
     y \<leftarrow> tb_rnd_in 0 3;
     got \<leftarrow> do_load ev fuel (mx_BASE + loff) lf3 (sint y);
     mx_check line ''got'' (ucast got) (ucast want);
     State_Monad.return model' }"

definition mx_aligned_offset :: "int \<Rightarrow> (mx_tb, u32) state" where
  "mx_aligned_offset sz = do {
     x \<leftarrow> tb_rnd_in 0 8191;
     State_Monad.return (x AND NOT (push_bit (nat sz) 1 - 1)) }"

definition mx_test_8 :: "(Vaxil_master \<Rightarrow> Vaxil_master) \<Rightarrow> nat \<Rightarrow> bool \<Rightarrow> (mx_tb, u8 list) state" where
  "mx_test_8 ev fuel l2r = do {
     tb_begin ''8. random against byte-array shadow model, random delays'';
     for_range 0 2048 (\<lambda>w _. mx_wr_word (mx_BASE + word_of_int w * 4) 0 0xF) ();
     for_range 0 3000 (mx_random ev fuel l2r 310 mx_aligned_offset) (replicate 8192 0) }"

definition mx_test_9 :: "(Vaxil_master \<Rightarrow> Vaxil_master) \<Rightarrow> nat \<Rightarrow> bool \<Rightarrow> int \<Rightarrow> unit \<Rightarrow> (mx_tb, unit) state" where
  "mx_test_9 ev fuel l2r lane _ = do {
     let base = mx_BASE + 8300 + word_of_int lane * 16;
     do_store ev fuel base 0 F3_W 0 0;
     do_store ev fuel (base + 4) 0 F3_W 0 0;
     let v = 0xAABBCCDD;
     delays \<leftarrow> mx_rnd_delays l2r 2;
     do_store ev fuel (base + word_of_int lane) v F3_W (fst delays) (snd delays);
     hi \<leftarrow> mx_rd_word (base + 4);
     lo \<leftarrow> mx_rd_word base;
     let combined = (push_bit 32 (ucast hi) OR ucast lo :: u64);
     mx_check 322 ''(uint32_t)(combined >> (lane * 8))''
       (ucast (ucast (drop_bit (nat lane * 8) combined) :: u32)) (ucast (v :: u32)) }"

definition mx_test_10 :: "(Vaxil_master \<Rightarrow> Vaxil_master) \<Rightarrow> nat \<Rightarrow> int \<Rightarrow> unit \<Rightarrow> (mx_tb, unit) state" where
  "mx_test_10 ev fuel lane _ = do {
     let base = mx_BASE + 8400 + word_of_int lane * 16;
     mx_wr_word base 0x11223344 0xF;
     mx_wr_word (base + 4) 0x55667788 0xF;
     let combined = (push_bit 32 0x55667788 OR 0x11223344 :: u64);
     let want = (ucast (drop_bit (nat lane * 8) combined) :: u32);
     x \<leftarrow> tb_rnd_in 0 2;
     got \<leftarrow> do_load ev fuel (base + word_of_int lane) F3_W (sint x);
     mx_check 333 ''do_load(base + lane, F3_W, tb.rnd(0, 2))'' (ucast got) (ucast want) }"

definition mx_test_11 :: "(Vaxil_master \<Rightarrow> Vaxil_master) \<Rightarrow> nat \<Rightarrow> (mx_tb, unit) state" where
  "mx_test_11 ev fuel = do {
     tb_begin ''11. crossing half, lane 3 -- store, load, sign/zero extend'';
     let base = mx_BASE + 8500;
     do_store ev fuel base 0 F3_W 0 0;
     do_store ev fuel (base + 4) 0 F3_W 0 0;
     do_store ev fuel (base + 3) 0xBEEF F3_H 0 0;
     hi \<leftarrow> mx_rd_word (base + 4);
     lo \<leftarrow> mx_rd_word base;
     let combined = (push_bit 32 (ucast hi) OR ucast lo :: u64);
     mx_check 344 ''(uint32_t)((combined >> 24) & 0xFFFF)''
       (ucast (ucast (drop_bit 24 combined AND 0xFFFF) :: u32)) 0xBEEF;
     mx_wr_word base 0x00000000 0xF;
     mx_wr_word (base + 4) 0x000000FF 0xF;
     mx_check_load ev fuel 348 ''do_load(base + 3, F3_H, 0)'' (base + 3) F3_H 0xFFFFFF00;
     mx_check_load ev fuel 349 ''do_load(base + 3, F3_HU, 0)'' (base + 3) F3_HU 0x0000FF00 }"

text \<open>Section 12: any byte offset, no alignment mask.\<close>

definition mx_any_offset :: "int \<Rightarrow> (mx_tb, u32) state" where
  "mx_any_offset sz = tb_rnd_in 0 8187"

definition mx_test_12 ::
  "(Vaxil_master \<Rightarrow> Vaxil_master) \<Rightarrow> nat \<Rightarrow> bool \<Rightarrow> u8 list \<Rightarrow> (mx_tb, u8 list) state" where
  "mx_test_12 ev fuel l2r model = do {
     tb_begin ''12. random against shadow model, unaligned offsets -- exercises crossing lanes alongside non-crossing ones'';
     for_range 0 3000 (mx_random ev fuel l2r 381 mx_any_offset) model }"

definition axil_master_body :: "(Vaxil_master \<Rightarrow> Vaxil_master) \<Rightarrow> nat \<Rightarrow> bool \<Rightarrow> (mx_tb, unit) state" where
  "axil_master_body ev fuel l2r = do {
     mx_start ev;
     mx_test_1 ev fuel; mx_test_2 ev fuel; mx_test_3 ev fuel; mx_test_4 ev fuel; mx_test_5 ev fuel;
     mx_test_6 ev fuel; mx_test_7 ev fuel;
     model \<leftarrow> mx_test_8 ev fuel l2r;
     tb_begin ''9. crossing word store, every non-zero lane'';
     for_range 1 4 (mx_test_9 ev fuel l2r) ();
     tb_begin ''10. crossing word load, every non-zero lane'';
     for_range 1 4 (mx_test_10 ev fuel) ();
     mx_test_11 ev fuel;
     _ \<leftarrow> mx_test_12 ev fuel l2r model;
     State_Monad.return () }"

definition axil_master_main ::
  "(Vaxil_master \<Rightarrow> Vaxil_master) \<Rightarrow> nat \<Rightarrow> bool \<Rightarrow> string list \<Rightarrow> Vaxil_master \<Rightarrow> int \<times> mx_tb" where
  "axil_master_main ev fuel l2r argv d =
     tb_run_with \<lparr>mx_slave = AxilSlave_init, mx_hung = False\<rparr> (axil_master_body ev fuel l2r) ''axil_master'' argv d"


section \<open>Words and bytes of the slave's memory\<close>

lemma of_nat_u32_eq: "i < 2 ^ 32 \<Longrightarrow> j < 2 ^ 32 \<Longrightarrow> (of_nat i :: u32) = of_nat j \<longleftrightarrow> i = j"
  by (simp add: word_of_nat_eq_iff take_bit_nat_eq_self)

lemma store_bytes_at:
  assumes "off + n \<le> 2 ^ 32" and "j < 2 ^ 32"
  shows "store_bytes (B + of_nat off) n W mem (B + of_nat j)
    = (if off \<le> j \<and> j < off + n then ucast (drop_bit (8 * (j - off)) W) else mem (B + of_nat j))"
  using assms(1)
proof (induction n)
  case 0
  then show ?case by (auto simp: store_bytes_def)
next
  case (Suc n)
  have S: "store_bytes A (Suc n) W mem = (store_bytes A n W mem)(A + of_nat n := ucast (drop_bit (8 * n) W))" for A
    by (simp add: store_bytes_def)
  have eq: "B + of_nat j = B + of_nat off + of_nat n \<longleftrightarrow> j = off + n"
  proof
    assume "B + of_nat j = B + of_nat off + of_nat n"
    then have "(of_nat j :: u32) = of_nat (off + n)" by (simp add: add.assoc)
    then show "j = off + n" using of_nat_u32_eq [of j "off + n"] Suc.prems assms(2) by simp
  qed (auto simp: add.assoc)
  show ?case unfolding S fun_upd_apply eq using Suc by auto
qed

lemma wr_word_full: "wr_word A W 0xF mem = store_bytes A 4 W mem"
proof -
  have upt: "[0..<4] = [0, 1, 2, 3 :: nat]" by (simp add: upt_rec)
  show ?thesis by (simp add: wr_word_def store_bytes_def upt byte_and_FF)
qed

lemma mx_sizes:
  "mx_size (ucast F3_B) = 1" "mx_size (ucast F3_H) = 2" "mx_size (ucast F3_W) = 4"
  "mx_size (ucast F3_BU) = 1" "mx_size (ucast F3_HU) = 2"
  by code_simp+

lemma mx_extends:
  "mx_extend (ucast F3_W) x = x"
  "mx_extend (ucast F3_BU) x = x AND 0xFF" "mx_extend (ucast F3_HU) x = x AND 0xFFFF"
  "mx_extend (ucast F3_B) x = (if bit x 7 then (x AND 0xFF) OR 0xFFFFFF00 else x AND 0xFF)"
  "mx_extend (ucast F3_H) x = (if bit x 15 then (x AND 0xFFFF) OR 0xFFFF0000 else x AND 0xFFFF)"
  unfolding word_eq_iff_bits
  by (auto simp: mx_extend_def tb_data bit_simps bit_word_cat_iff all_less_numeral all_less_Suc_conv)

lemma rd_store_word: "rd_word (store_bytes A 4 W mem) A = W"
proof (rule bit_word_eqI)
  fix n :: nat
  assume "n < LENGTH(32)"
  then have n: "n div 4 < 8" "n div 8 < 4" "n mod 8 < 8" "8 * (n div 8) + n mod 8 = n" by auto
  have "store_bytes A 4 W mem (A + of_nat (n div 8)) = ucast (drop_bit (8 * (n div 8)) W)"
    using store_bytes_at [of 0 4 "n div 8" A W mem] n by simp
  then show "bit (rd_word (store_bytes A 4 W mem) A) n = bit W n"
    using bit_rd_word [OF n(2,3), of "store_bytes A 4 W mem" A] n by (simp add: bit_simps)
qed

section \<open>The bench on the RTL\<close>

lemma mx_begin_ok: "tb_ok (mx_at mem c) (tb_begin n) (\<lambda>_. mx_at mem c)"
  by (rule tb_okI) (simp add: wp_begin)

lemma mx_check_ok: "g = w \<Longrightarrow> tb_ok (mx_at mem c) (mx_check line expr g w) (\<lambda>_. mx_at mem (c + 1))"
  unfolding mx_check_def by (rule tb_okI) (simp add: wp_check mx_at_def)

lemma mx_rd_word_ok:
  "tb_ok (mx_at mem c) (F (rd_word mem a)) Q \<Longrightarrow> tb_ok (mx_at mem c) (State_Monad.bind (mx_rd_word a) F) Q"
proof (rule tb_okI)
  fix d k f h l
  assume at: "mx_at mem c d k l" and F: "tb_ok (mx_at mem c) (F (rd_word mem a)) Q"
  have "sl_mem (mx_slave l) = mem" using at by (simp add: mx_at_def)
  then show "wp (State_Monad.bind (mx_rd_word a) F) (\<lambda>x s. Q x (tb_dut s) (tb_checks s) (tb.more s) \<and> tb_fails s = f) d k f h l"
    using tb_okD [OF F at] by (simp add: mx_rd_word_def wp_locals)
qed

lemma mx_check_word_ok:
  "rd_word mem a = want \<Longrightarrow> tb_ok (mx_at mem c) (mx_check_word line expr a want) (\<lambda>_. mx_at mem (c + 1))"
  unfolding mx_check_word_def by (rule mx_rd_word_ok, rule mx_check_ok) simp

lemma mx_wr_word_ok:
  "tb_ok (mx_at mem c) (mx_wr_word a W 0xF) (\<lambda>_. mx_at (store_bytes a 4 W mem) c)"
  unfolding mx_wr_word_def
  by (rule tb_okI) (auto simp: wp_set_locals mx_at_def mx_sl_idle_def mx_cnt_def wr_word_full Let_def)

lemma mx_cycles_le: "n \<le> 4 \<Longrightarrow> mx_cycles b n \<le> 13"
  by (simp add: mx_cycles_def)

lemma mx_store_ok:
  assumes "0 \<le> aw" "aw \<le> 4" "0 \<le> w" "w \<le> 4"
  shows "tb_ok (mx_at mem c) (do_store Vaxil_master_eval (fuel + 13) A W f3 aw w)
     (\<lambda>_. mx_at (store_bytes A (mx_size (ucast f3)) W mem) c)"
proof -
  have "mx_cycles (mx_crosses A (ucast f3)) (max (nat aw) (nat w)) \<le> fuel + 13"
    using mx_cycles_le [of "max (nat aw) (nat w)"] assms by (simp add: trans_le_add2 nat_le_iff)
  from do_store_ok [OF this, where mem = mem and c = c and W = W] show ?thesis
    using assms by simp (erule tb_ok_conseq, simp_all)
qed

lemma mx_load_ok:
  assumes "0 \<le> ar" "ar \<le> 4" "mx_size (ucast f3) \<noteq> 0"
  shows "tb_ok (mx_at mem c) (do_load Vaxil_master_eval (fuel + 13) A f3 ar)
     (\<lambda>x d k l. x = mx_extend (ucast f3) (rd_word mem A) \<and> mx_at mem c d k l)"
proof -
  have "mx_cycles (mx_crosses A (ucast f3)) (nat ar) \<le> fuel + 13"
    using mx_cycles_le [of "nat ar"] assms by (simp add: trans_le_add2 nat_le_iff)
  from do_load_ok [OF this assms(3), where mem = mem and c = c] show ?thesis using assms by simp
qed

lemma mx_load_bind_ok:
  assumes "0 \<le> ar" "ar \<le> 4" "mx_size (ucast f3) \<noteq> 0"
    and "tb_ok (mx_at mem c) (F (mx_extend (ucast f3) (rd_word mem A))) Q"
  shows "tb_ok (mx_at mem c) (State_Monad.bind (do_load Vaxil_master_eval (fuel + 13) A f3 ar) F) Q"
  by (rule tb_okI, rule wp_bind_ok [OF mx_load_ok [OF assms(1-3)]], assumption)
    (use tb_okD [OF assms(4)] in auto)

lemma mx_check_load_ok:
  "mx_size (ucast f3) \<noteq> 0 \<Longrightarrow> mx_extend (ucast f3) (rd_word mem A) = want \<Longrightarrow>
   tb_ok (mx_at mem c) (mx_check_load Vaxil_master_eval (fuel + 13) line expr A f3 want) (\<lambda>_. mx_at mem (c + 1))"
  unfolding mx_check_load_def by (rule mx_load_bind_ok) (simp_all add: mx_check_ok)

text \<open>What a load of each kind returns, from the bytes in memory.\<close>

lemma mx_loads:
  "mx_extend (ucast F3_W) (rd_word mem A) = fold (\<lambda>i v. v OR push_bit (8 * i) (ucast (mem (A + of_nat i)))) [0, 1, 2, 3] 0"
  "mx_extend (ucast F3_BU) (rd_word mem A) = ucast (mem A)"
  "mx_extend (ucast F3_HU) (rd_word mem A) = ucast (mem A) OR push_bit 8 (ucast (mem (A + 1)))"
  "mx_extend (ucast F3_B) (rd_word mem A) = (if bit (mem A) 7 then ucast (mem A) OR 0xFFFFFF00 else ucast (mem A))"
  "mx_extend (ucast F3_H) (rd_word mem A)
    = (if bit (mem (A + 1)) 7 then ucast (mem A) OR push_bit 8 (ucast (mem (A + 1))) OR 0xFFFF0000
       else ucast (mem A) OR push_bit 8 (ucast (mem (A + 1))))"
  unfolding mx_extends rd_word_def word_eq_iff_bits
  by (auto simp: bit_simps all_less_numeral all_less_Suc_conv)

text \<open>The directed sections, from and to some memory.\<close>

lemma mx_ok_some:
  assumes "\<And>mem. \<exists>mem'. tb_ok (mx_at mem c) p (\<lambda>_. mx_at mem' c')"
  shows "tb_ok (\<lambda>d k l. \<exists>mem. mx_at mem c d k l) p (\<lambda>_ d k l. \<exists>mem. mx_at mem c' d k l)"
proof (rule tb_okI)
  fix d k f h l
  assume "\<exists>mem. mx_at mem c d k l"
  then obtain mem where mem: "mx_at mem c d k l" by blast
  obtain mem' where "tb_ok (mx_at mem c) p (\<lambda>_. mx_at mem' c')" using assms by blast
  from tb_okD [OF this mem]
  show "wp p (\<lambda>_ s. (\<exists>mem. mx_at mem c' (tb_dut s) (tb_checks s) (tb.more s)) \<and> tb_fails s = f) d k f h l"
    by (rule wp_mono) auto
qed

lemma mx_post: "tb_ok P p (\<lambda>_. mx_at mem c) \<Longrightarrow> c = c' \<Longrightarrow> \<exists>mem'. tb_ok P p (\<lambda>_. mx_at mem' c')"
  by blast

lemma fold_upt_4: "fold f [0..<4] x = f 3 (f 2 (f 1 (f (0 :: nat) x)))"
  "fold f [0..<2] x = f 1 (f 0 x)" "fold f [0..<1] x = f 0 x"
  by (simp_all add: upt_rec numeral_2_eq_2 numeral_3_eq_3)

lemmas mx_calls = mx_store_ok mx_begin_ok mx_wr_word_ok
lemmas mx_load_bytes = mx_sizes mx_loads rd_store_word store_bytes_def fold_upt_4 mx_BASE_def add.assoc
lemmas mx_bytes = mx_load_bytes rd_word_def

lemma mx_test_1_ok:
  "tb_ok (\<lambda>d k l. \<exists>mem. mx_at mem c d k l) (mx_test_1 Vaxil_master_eval (fuel + 13)) (\<lambda>_ d k l. \<exists>mem. mx_at mem (c + 1) d k l)"
  unfolding mx_test_1_def
  by (rule mx_ok_some, rule mx_post,
      ((rule tb_ok_bind)?, ((rule mx_calls; simp?) | (rule mx_check_word_ok, simp add: mx_bytes)
        | (rule mx_check_load_ok, simp add: mx_sizes, simp add: mx_load_bytes)))+, simp)

lemma mx_test_2_ok:
  "tb_ok (\<lambda>d k l. \<exists>mem. mx_at mem c d k l) (mx_test_2 Vaxil_master_eval (fuel + 13)) (\<lambda>_ d k l. \<exists>mem. mx_at mem (c + 6) d k l)"
  unfolding mx_test_2_def
  by (rule mx_ok_some, rule mx_post,
      ((rule tb_ok_bind)?, ((rule mx_calls; simp?) | (rule mx_check_word_ok, simp add: mx_bytes)
        | (rule mx_check_load_ok, simp add: mx_sizes, simp add: mx_load_bytes)))+, simp)

lemma mx_test_3_ok:
  "tb_ok (\<lambda>d k l. \<exists>mem. mx_at mem c d k l) (mx_test_3 Vaxil_master_eval (fuel + 13)) (\<lambda>_ d k l. \<exists>mem. mx_at mem (c + 1) d k l)"
  unfolding mx_test_3_def
  by (rule mx_ok_some, rule mx_post,
      ((rule tb_ok_bind)?, ((rule mx_calls; simp?) | (rule mx_check_word_ok, simp add: mx_bytes)
        | (rule mx_check_load_ok, simp add: mx_sizes, simp add: mx_load_bytes)))+, simp)

lemma mx_test_4_ok:
  "tb_ok (\<lambda>d k l. \<exists>mem. mx_at mem c d k l) (mx_test_4 Vaxil_master_eval (fuel + 13)) (\<lambda>_ d k l. \<exists>mem. mx_at mem (c + 10) d k l)"
  unfolding mx_test_4_def
  by (rule mx_ok_some, rule mx_post,
      ((rule tb_ok_bind)?, ((rule mx_calls; simp?) | (rule mx_check_word_ok, simp add: mx_bytes)
        | (rule mx_check_load_ok, simp add: mx_sizes, simp add: mx_load_bytes)))+, simp)

lemma mx_test_6_ok:
  "tb_ok (\<lambda>d k l. \<exists>mem. mx_at mem c d k l) (mx_test_6 Vaxil_master_eval (fuel + 13)) (\<lambda>_ d k l. \<exists>mem. mx_at mem (c + 3) d k l)"
  unfolding mx_test_6_def
  by (rule mx_ok_some, rule mx_post,
      ((rule tb_ok_bind)?, ((rule mx_calls; simp?) | (rule mx_check_word_ok, simp add: mx_bytes)
        | (rule mx_check_load_ok, simp add: mx_sizes, simp add: mx_load_bytes)))+, simp)


definition mx_fresh :: "(u32 \<Rightarrow> u8) \<Rightarrow> mx_locals" where
  "mx_fresh mem = \<lparr>mx_slave = AxilSlave_init\<lparr>sl_mem := mem\<rparr>, mx_hung = False\<rparr>"

lemma mx_start_ok:
  "tb_ok (\<lambda>d k l. k = c \<and> l = mx_fresh mem) (mx_start Vaxil_master_eval) (\<lambda>_. mx_at mem c)"
  unfolding mx_start_def Vaxil_master_eval_def
proof (rule tb_okI)
  fix d k f h l
  assume l: "k = c \<and> l = mx_fresh mem"
  have cnt: "mx_cnt 0 None 0 None 0 None (mx_slave (mx_fresh mem))" "mx_sl_idle (mx_slave (mx_fresh mem))"
    "sl_mem (mx_slave (mx_fresh mem)) = mem" "\<not> mx_hung (mx_fresh mem)"
    by (simp_all add: mx_cnt_def dc_at_def AxilSlave_init_def mx_sl_idle_def mx_fresh_def)
  have at: "mx_at mem c (mx_edge (mx_edge d)\<lparr>mx_rst_n := True\<rparr>) c (mx_fresh mem)" if "\<not> mx_rst_n d" for d
    using that cnt by (auto simp: mx_at_def mx_idle_def mx_edge_fields mx_next_def mx_reset_def Let_def)
  show "wp (do {
     poke (\<lambda>d. d\<lparr>v_clk := False, mx_rst_n := False, mx_mem_addr := 0, mx_mem_wdata := 0,
       mx_mem_funct3 := ucast F3_W, mx_mem_re := False, mx_mem_we := False, mx_awready := False,
       mx_wready := False, mx_arready := False, mx_bvalid := False, mx_bresp := 0,
       mx_rvalid := False, mx_rdata := 0, mx_rresp := 0\<rparr>);
     tb_tick (veval mx_seq mx_comb); tb_tick (veval mx_seq mx_comb);
     poke (\<lambda>d. d\<lparr>mx_rst_n := True\<rparr>) })
   (\<lambda>x s. mx_at mem c (tb_dut s) (tb_checks s) (tb.more s) \<and> tb_fails s = f) d k f h l"
    using l by (simp add: wp_poke mx.wp_tick mx_edge_fields cong: wp_cong) (rule at, simp)
qed

text \<open>Sections 5 and 7 drive the requests themselves.\<close>

lemma mx_write_request_ok:
  assumes "\<And>ar. tb_ok (mx_set A W f True (nat aw) (nat w) ar mem c) (F ()) Q" and "0 \<le> aw" "0 \<le> w"
  shows "tb_ok (mx_at mem c) (do { mx_set_write_delays aw w;
     u \<leftarrow> poke (\<lambda>d. d\<lparr>mx_mem_addr := A, mx_mem_wdata := W, mx_mem_funct3 := f, mx_mem_we := True, mx_mem_re := False\<rparr>);
     F u }) Q"
proof (rule tb_okI)
  fix d k f' h l
  assume at: "mx_at mem c d k l"
  let ?d = "d\<lparr>mx_mem_addr := A, mx_mem_wdata := W, mx_mem_funct3 := f, mx_mem_we := True, mx_mem_re := False\<rparr>"
  have "mx_inputs A W f True ?d" "mx_r ?d = mx_r d" using at by (simp_all add: mx_inputs_def mx_at_def)
  from mx_set_write [OF at this, of "nat aw" "nat w"] tb_okD [OF assms(1)] assms(2,3)
  show "wp (do { mx_set_write_delays aw w;
     u \<leftarrow> poke (\<lambda>d. d\<lparr>mx_mem_addr := A, mx_mem_wdata := W, mx_mem_funct3 := f, mx_mem_we := True, mx_mem_re := False\<rparr>);
     F u }) (\<lambda>x s. Q x (tb_dut s) (tb_checks s) (tb.more s) \<and> tb_fails s = f') d k f' h l"
    unfolding mx_set_write_delays_def wp_set_locals wp_poke by (auto simp: Let_def)
qed

lemma mx_read_request_ok:
  assumes "\<And>W aw w. tb_ok (mx_set A W f False aw w (nat ar) mem c) (F ()) Q" and "0 \<le> ar"
    and g: "\<And>d. P d \<Longrightarrow> mx_rst_n d \<Longrightarrow> \<not> v_clk d \<Longrightarrow> mx_inputs A (mx_mem_wdata d) f False (g d) \<and> mx_r (g d) = mx_r d"
  shows "tb_ok (\<lambda>d k l. mx_at mem c d k l \<and> P d) (do { mx_set_read_delay ar; u \<leftarrow> poke g; F u }) Q"
proof (rule tb_okI)
  fix d k f' h l
  assume at: "mx_at mem c d k l \<and> P d"
  then have "mx_inputs A (mx_mem_wdata d) f False (g d)" "mx_r (g d) = mx_r d" using g [of d] by (simp_all add: mx_at_def)
  from mx_set_read [OF conjunct1 [OF at] this, of "nat ar"] tb_okD [OF assms(1)] assms(2)
  show "wp (do { mx_set_read_delay ar; u \<leftarrow> poke g; F u })
      (\<lambda>x s. Q x (tb_dut s) (tb_checks s) (tb.more s) \<and> tb_fails s = f') d k f' h l"
    unfolding mx_set_read_delay_def wp_set_locals wp_poke by (auto simp: Let_def)
qed

lemma mx_run_store_bind_ok:
  assumes "\<And>r. tb_ok (mx_set A W f True aw w ar (store_bytes A (mx_size f) W mem) c)
      (F (r, int (mx_cycles (mx_crosses A f) (max aw w)))) Q" and "aw \<le> 4" "w \<le> 4"
  shows "tb_ok (mx_set A W f True aw w ar mem c) (State_Monad.bind (mx_run Vaxil_master_eval (fuel + 13) 0) F) Q"
proof (rule tb_ok_bind [OF mx_run_store_ok])
  show "mx_cycles (mx_crosses A f) (max aw w) \<le> fuel + 13"
    using mx_cycles_le [of "max aw w"] assms(2,3) by (simp add: trans_le_add2)
  show "tb_ok (\<lambda>d k l. snd x = int (mx_cycles (mx_crosses A f) (max aw w))
      \<and> mx_set A W f True aw w ar (store_bytes A (mx_size f) W mem) c d k l) (F x) Q" for x
    using tb_okD [OF assms(1)] by (cases x) (auto intro: tb_okI)
qed

lemma mx_run_load_bind_ok:
  assumes "tb_ok (mx_set A W f False aw w ar mem c)
      (F (mx_extend f (rd_word mem A), int (mx_cycles (mx_crosses A f) ar))) Q" and "ar \<le> 4" "mx_size f \<noteq> 0"
  shows "tb_ok (mx_set A W f False aw w ar mem c) (State_Monad.bind (mx_run Vaxil_master_eval (fuel + 13) 0) F) Q"
proof (rule tb_ok_bind [OF mx_run_load_ok [OF _ assms(3)]])
  show "mx_cycles (mx_crosses A f) ar \<le> fuel + 13"
    using mx_cycles_le [of ar] assms(2) by (simp add: trans_le_add2)
  show "tb_ok (\<lambda>d k l. snd x = int (mx_cycles (mx_crosses A f) ar) \<and> fst x = mx_extend f (rd_word mem A)
      \<and> mx_set A W f False aw w ar mem c d k l) (F x) Q" for x
    using tb_okD [OF assms(1)] by (cases x) (auto intro: tb_okI)
qed

lemma mx_poke_ok:
  "tb_ok (mx_set A' W' f' we' aw w ar mem c) (F ()) Q \<Longrightarrow>
    (\<And>d. mx_inputs A W f we d \<Longrightarrow> mx_inputs A' W' f' we' (g d) \<and> mx_r (g d) = mx_r d) \<Longrightarrow>
    tb_ok (mx_set A W f we aw w ar mem c) (State_Monad.bind (poke g) F) Q"
proof (rule tb_okI)
  fix d k n h l
  assume F: "tb_ok (mx_set A' W' f' we' aw w ar mem c) (F ()) Q" and set: "mx_set A W f we aw w ar mem c d k l"
    and g: "\<And>d. mx_inputs A W f we d \<Longrightarrow> mx_inputs A' W' f' we' (g d) \<and> mx_r (g d) = mx_r d"
  have "mx_inputs A W f we d" using set by (simp add: mx_set_def)
  from mx_set_next(1) [OF set conjunct1 [OF g [OF this]] conjunct2 [OF g [OF this]]]
  show "wp (State_Monad.bind (poke g) F) (\<lambda>x s. Q x (tb_dut s) (tb_checks s) (tb.more s) \<and> tb_fails s = n) d k n h l"
    unfolding wp_poke by (rule tb_okD [OF F])
qed

lemma mx_release_ok:
  "tb_ok (\<lambda>d k l. mx_at mem c d k l \<and> \<not> mx_mem_we d) (F ()) Q \<Longrightarrow>
    tb_ok (mx_set A W f we aw w ar mem c) (State_Monad.bind (poke (\<lambda>d. d\<lparr>mx_mem_we := False\<rparr>)) F) Q"
  "tb_ok (mx_set A W f we aw w ar mem c) (poke (\<lambda>d. d\<lparr>mx_mem_re := False\<rparr>)) (\<lambda>_. mx_at mem c)"
  "tb_ok (mx_at mem c) (F ()) Q \<Longrightarrow>
    tb_ok (mx_set A W f we aw w ar mem c) (State_Monad.bind (poke (\<lambda>d. d\<lparr>mx_mem_re := False\<rparr>)) F) Q"
  by (rule tb_okI; simp add: wp_poke mx_set_next tb_okD [where Q = Q])+

text \<open>Checks keep the request and the rest of the state.\<close>

lemma mx_check_keeps:
  "g = w \<Longrightarrow>
    tb_ok (\<lambda>d k l. mx_at mem c d k l \<and> P d) (mx_check line expr g w) (\<lambda>_ d k l. mx_at mem (c + 1) d k l \<and> P d)"
  "g = w \<Longrightarrow>
    tb_ok (mx_set A W f we aw wd ar mem c) (mx_check line expr g w) (\<lambda>_. mx_set A W f we aw wd ar mem (c + 1))"
  unfolding mx_check_def mx_set_def by (rule tb_okI; simp add: wp_check; simp add: mx_at_def)+

lemma mx_check_word_keeps:
  "rd_word mem a = want \<Longrightarrow>
    tb_ok (\<lambda>d k l. mx_at mem c d k l \<and> P d) (mx_check_word line expr a want) (\<lambda>_ d k l. mx_at mem (c + 1) d k l \<and> P d)"
  unfolding mx_check_word_def mx_rd_word_def mx_check_def
  by (rule tb_okI) (auto simp: wp_locals wp_check mx_at_def)

lemma mx_readdress_ok:
  "tb_ok (mx_set A' W f we aw w ar mem c) (F ()) Q \<Longrightarrow>
    tb_ok (mx_set A W f we aw w ar mem c) (State_Monad.bind (poke (\<lambda>d. d\<lparr>mx_mem_addr := A'\<rparr>)) F) Q"
  by (rule mx_poke_ok) (simp_all add: mx_inputs_def)

lemma mx_cycle_counts:
  "mx_cycles (mx_crosses (mx_BASE + 48) (ucast F3_W)) n = n + 3"
proof -
  have "\<not> mx_crosses (mx_BASE + 48) (ucast F3_W)" by code_simp
  then show ?thesis by (simp add: mx_cycles_def)
qed

lemma mx_test_5_ok:
  "tb_ok (\<lambda>d k l. \<exists>mem. mx_at mem c d k l) (mx_test_5 Vaxil_master_eval (fuel + 13)) (\<lambda>_ d k l. \<exists>mem. mx_at mem (c + 4) d k l)"
  unfolding mx_test_5_def
  apply (rule mx_ok_some, rule mx_post)
   apply (rule tb_ok_bind, rule mx_begin_ok)
   apply (rule mx_write_request_ok, rule mx_run_store_bind_ok, rule mx_release_ok(1))
       apply (rule tb_ok_bind, rule mx_check_keeps(1), simp add: mx_cycle_counts)
       apply (rule tb_ok_bind, rule mx_check_word_keeps, simp add: mx_sizes rd_store_word)
       apply (rule mx_read_request_ok [where A = "mx_BASE + 48" and f = "ucast F3_W"], rule mx_run_load_bind_ok, rule mx_release_ok(3))
           apply (rule tb_ok_bind, rule mx_check_ok, simp add: mx_cycle_counts)
           apply (rule mx_check_ok, simp add: mx_extends mx_sizes rd_store_word)
          apply (simp_all add: mx_inputs_def mx_sizes)
  done

lemma mx_test_7_ok:
  "tb_ok (\<lambda>d k l. \<exists>mem. mx_at mem c d k l) (mx_test_7 Vaxil_master_eval (fuel + 13)) (\<lambda>_ d k l. \<exists>mem. mx_at mem (c + 4) d k l)"
  unfolding mx_test_7_def
  apply (rule mx_ok_some, rule mx_post)
   apply (rule tb_ok_bind, rule mx_begin_ok)
   apply (rule mx_write_request_ok, rule mx_run_store_bind_ok)
       apply (rule mx_poke_ok [where A' = "mx_BASE + 68" and W' = "0x22222222" and f' = "ucast F3_W" and we' = True], rule mx_run_store_bind_ok, rule mx_release_ok(1))
          apply (rule tb_ok_bind, rule mx_check_word_keeps, simp add: mx_bytes)
          apply (rule tb_ok_bind, rule mx_check_word_keeps, simp add: mx_bytes)
          apply (rule mx_read_request_ok [where A = "mx_BASE + 64" and f = "ucast F3_W"], rule mx_run_load_bind_ok)
              apply (rule tb_ok_bind, rule mx_check_keeps(2), simp add: mx_load_bytes)
              apply (rule mx_readdress_ok, rule mx_run_load_bind_ok)
                 apply (rule tb_ok_bind, rule mx_check_keeps(2), simp add: mx_load_bytes)
                 apply (rule mx_release_ok(2))
                apply (auto simp add: mx_inputs_def mx_sizes)
  done

section \<open>The byte array against the slave's memory\<close>

definition mx_agrees :: "u8 list \<Rightarrow> (u32 \<Rightarrow> u8) \<Rightarrow> bool" where
  "mx_agrees model mem \<longleftrightarrow> length model = 8192 \<and> (\<forall>i < 8192. mem (mx_BASE + of_nat i) = model ! i)"

lemma mx_model_store_nth:
  "length (mx_model_store off v n model) = length model"
  "j < length model \<Longrightarrow> mx_model_store off v n model ! j
     = (if off \<le> j \<and> j < off + n then ucast (drop_bit (8 * (j - off)) v) else model ! j)"
  by (induction n) (auto simp: mx_model_store_def nth_list_update less_Suc_eq byte_and_FF)

lemma mx_agrees_store:
  assumes "mx_agrees model mem" and "off + n \<le> 8192"
  shows "mx_agrees (mx_model_store off v n model) (store_bytes (mx_BASE + of_nat off) n v mem)"
  using assms store_bytes_at [of off n _ mx_BASE v mem]
  by (simp add: mx_agrees_def mx_model_store_nth)

lemma mx_agrees_above:
  assumes "mx_agrees model mem" and "8192 \<le> unat (A - mx_BASE)" and "unat (A - mx_BASE) + n \<le> 2 ^ 32"
  shows "mx_agrees model (store_bytes A n W mem)"
  using assms store_bytes_at [of "unat (A - mx_BASE)" n _ mx_BASE W mem]
  by (simp add: mx_agrees_def)

text \<open>What the bench expects of a load is what the load returns.\<close>

lemma low_byte_set:
  "(ucast (b :: u8) :: u32) AND 0x80 \<noteq> 0 \<longleftrightarrow> bit b 7"
  "(ucast (a :: u8) OR push_bit 8 (ucast (b :: u8)) :: u32) AND 0x8000 \<noteq> 0 \<longleftrightarrow> bit b 7"
  unfolding word_eq_iff_bits by (simp_all add: bit_simps all_less_numeral all_less_Suc_conv)

lemma mx_expected_ok:
  assumes agrees: "mx_agrees model mem" and "off + 2 ^ nat sz \<le> 8192" and "sz = 0 \<or> sz = 1 \<or> sz = 2"
    and e: "mx_expected sz uns (mx_model_load off (2 ^ nat sz) model) = (f3, want)"
  shows "mx_size (ucast f3) \<noteq> 0" "mx_extend (ucast f3) (rd_word mem (mx_BASE + of_nat off)) = want"
proof -
  have b: "mem (mx_BASE + of_nat off + of_nat k) = model ! (off + k)" if "off + k < 8192" for k
    using agrees that unfolding mx_agrees_def by (metis add.assoc of_nat_add)
  note bytes = b [of 0] b [of 1] b [of 2] b [of 3]
  show "mx_size (ucast f3) \<noteq> 0"
    using e assms(3) by (auto simp: mx_expected_def mx_sizes split: if_splits)
  show "mx_extend (ucast f3) (rd_word mem (mx_BASE + of_nat off)) = want"
    using e assms(2,3) bytes
    by (elim disjE) (auto simp: mx_expected_def mx_loads mx_model_load_def fold_upt_4 low_byte_set or.assoc split: if_splits)
qed

section \<open>Random delays, sizes and offsets\<close>

lemma small_u32: "unat (x :: u32) \<le> 3 \<Longrightarrow> x = 0 \<or> x = 1 \<or> x = 2 \<or> x = 3"
proof -
  assume "unat x \<le> 3"
  then have "unat x = 0 \<or> unat x = 1 \<or> unat x = 2 \<or> unat x = 3" by linarith
  then show ?thesis by (simp add: word_unat_eq_iff)
qed

lemma rnd_int:
  "sint (rnd_scale 0 3 x) \<in> {0..3}" "sint (rnd_scale 0 2 x) \<in> {0, 1, 2}"
proof -
  show "sint (rnd_scale 0 3 x) \<in> {0..3}"
    using small_u32 [OF rnd_scale_0_less [of 3 x, simplified]] by auto
  have "unat (rnd_scale 0 2 x) \<le> 2" using rnd_scale_0_less [of 2 x] by simp
  then show "sint (rnd_scale 0 2 x) \<in> {0, 1, 2}"
    using small_u32 [of "rnd_scale 0 2 x"] by auto
qed

lemma mx_rnd_delays_ok:
  assumes "\<And>aw w. 0 \<le> aw \<Longrightarrow> aw \<le> 4 \<Longrightarrow> 0 \<le> w \<Longrightarrow> w \<le> 4 \<Longrightarrow> tb_ok P (F (aw, w)) Q" and "hi = 2 \<or> hi = 3"
  shows "tb_ok P (State_Monad.bind (mx_rnd_delays l2r hi) F) Q"
proof -
  have r: "0 \<le> sint (rnd_scale 0 hi x) \<and> sint (rnd_scale 0 hi x) \<le> 4" for x
    using rnd_int [of x] assms(2) by auto
  show ?thesis
    unfolding mx_rnd_delays_def State_Monad.bind_assoc
    by (rule tb_ok_rnd_in, rule tb_ok_rnd_in) (use r assms(1) in simp)
qed

text \<open>How a section picks an offset: an access of \<open>2 ^ sz\<close> bytes stays inside the array.\<close>

locale random_offset =
  fixes offset :: "int \<Rightarrow> (mx_tb, u32) state"
  assumes offset_ok: "sz \<in> {0, 1, 2} \<Longrightarrow>
    (\<And>off. unat off + 2 ^ nat sz \<le> 8192 \<Longrightarrow> tb_ok P (F off :: (mx_tb, u8 list) state) Q) \<Longrightarrow>
    tb_ok P (State_Monad.bind (offset sz) F) Q"

definition mx_shadow :: "u8 list \<Rightarrow> int \<Rightarrow> Vaxil_master \<Rightarrow> int \<Rightarrow> mx_locals \<Rightarrow> bool" where
  "mx_shadow model c d k l \<longleftrightarrow> (\<exists>mem. mx_at mem c d k l \<and> mx_agrees model mem)"

lemma mx_shadow_from:
  assumes "\<And>mem. mx_agrees model mem \<Longrightarrow> tb_ok (mx_at mem c) p Q"
  shows "tb_ok (mx_shadow model c) p Q"
proof (rule tb_okI)
  fix d k f h l
  assume "mx_shadow model c d k l"
  then obtain mem where "mx_at mem c d k l" "mx_agrees model mem" by (auto simp: mx_shadow_def)
  then show "wp p (\<lambda>x s. Q x (tb_dut s) (tb_checks s) (tb.more s) \<and> tb_fails s = f) d k f h l"
    using tb_okD [OF assms] by blast
qed

lemma mx_shadow_to:
  "tb_ok P p (\<lambda>_. mx_at mem c') \<Longrightarrow> mx_agrees model mem \<Longrightarrow> c' = c \<Longrightarrow> tb_ok P p (\<lambda>_. mx_shadow model c)"
  by (erule tb_ok_conseq) (auto simp: mx_shadow_def)

context random_offset
begin

lemma random_ok:
  "tb_ok (mx_shadow model c) (mx_random Vaxil_master_eval (fuel + 13) l2r line offset i model)
     (\<lambda>model'. mx_shadow model' (c + 1))"
  unfolding mx_random_def Let_def
proof (rule mx_shadow_from, rule tb_ok_rnd_in, rule offset_ok [OF rnd_int(2)], rule tb_ok_rnd,
    rule mx_rnd_delays_ok, unfold fst_conv snd_conv, rule tb_ok_bind, rule mx_store_ok, assumption+,
    rule tb_ok_rnd_in, rule offset_ok [OF rnd_int(2)], rule tb_ok_rnd_in, unfold split_beta)
  fix mem x and off :: u32 and v aw w xa and loff :: u32 and xb
  let ?sz = "sint (rnd_scale 0 2 x)" and ?lsz = "sint (rnd_scale 0 2 xa)"
  let ?model = "mx_model_store (unat off) v (2 ^ nat ?sz) model"
  let ?mem = "store_bytes (mx_BASE + off) (mx_size (ucast (mx_f3_of ?sz))) v mem"
  let ?e = "mx_expected ?lsz (rnd_scale 0 1 xb \<noteq> 0) (mx_model_load (unat loff) (2 ^ nat ?lsz) ?model)"
  assume agrees: "mx_agrees model mem" and off: "unat off + 2 ^ nat ?sz \<le> 8192" "unat loff + 2 ^ nat ?lsz \<le> 8192"
  have "mx_size (ucast (mx_f3_of ?sz)) = 2 ^ nat ?sz"
    using rnd_int(2) [of x] by (auto simp: mx_f3_of_def mx_sizes)
  then have agrees': "mx_agrees ?model ?mem" using mx_agrees_store [OF agrees off(1), of v] by simp
  have e: "mx_size (ucast (fst ?e)) \<noteq> 0" "mx_extend (ucast (fst ?e)) (rd_word ?mem (mx_BASE + loff)) = snd ?e"
    using mx_expected_ok [OF agrees' off(2) _ prod.collapse [symmetric]] rnd_int(2) [of xa] by auto
  show "tb_ok (mx_at ?mem c)
      (do { y \<leftarrow> tb_rnd_in 0 3;
        got \<leftarrow> do_load Vaxil_master_eval (fuel + 13) (mx_BASE + loff) (fst ?e) (sint y);
        mx_check line ''got'' (ucast got) (ucast (snd ?e)); State_Monad.return ?model })
      (\<lambda>model'. mx_shadow model' (c + 1))"
  proof (rule tb_ok_rnd_in, rule mx_load_bind_ok [OF _ _ e(1)], unfold e(2))
    fix y
    show "0 \<le> sint (rnd_scale 0 3 y)" "sint (rnd_scale 0 3 y) \<le> 4" using rnd_int(1) [of y] by auto
    show "tb_ok (mx_at ?mem c) (do { mx_check line ''got'' (ucast (snd ?e)) (ucast (snd ?e)); State_Monad.return ?model })
      (\<lambda>model'. mx_shadow model' (c + 1))"
      by (rule tb_ok_bind [OF mx_check_ok [OF refl]], rule tb_ok_return) (auto simp: mx_shadow_def agrees')
  qed
qed simp

lemma random_loop_ok:
  "tb_ok (mx_shadow model c) (for_range 0 3000 (mx_random Vaxil_master_eval (fuel + 13) l2r line offset) model)
     (\<lambda>model'. mx_shadow model' (c + 3000))"
proof -
  have "tb_ok (mx_shadow model (c + i)) (mx_random Vaxil_master_eval (fuel + 13) l2r line offset i model)
     (\<lambda>model'. mx_shadow model' (c + (i + 1)))" for i model
    using random_ok [of model "c + i"] by (simp add: add.assoc)
  from tb_ok_for [where I = "\<lambda>i model. mx_shadow model (c + i)" and lo = 0 and hi = 3000, OF _ this]
  show ?thesis by simp
qed

end

lemma unat_and_not_mask:
  assumes "unat (x :: u32) \<le> 8191" and "n \<le> 2"
  shows "unat (x AND NOT (mask n)) + 2 ^ n \<le> 8192"
proof -
  let ?y = "x AND NOT (mask n)"
  have "take_bit n ?y = 0" by (rule bit_word_eqI) (auto simp: bit_simps)
  then have "take_bit n (unat ?y) = 0" by (metis unsigned_take_bit_eq unsigned_0)
  then have y: "unat ?y mod 2 ^ n = 0" by (simp add: take_bit_eq_mod)
  have le: "unat ?y \<le> 8191"
    using assms(1) word_and_le2 [of x "NOT (mask n)"] by (simp add: word_le_nat_alt)
  have "m + 2 ^ n \<le> 8192" if "m mod 2 ^ n = 0" "m \<le> 8191" for m :: nat
  proof -
    have "n = 0 \<or> n = 1 \<or> n = 2" using assms(2) by linarith
    then show ?thesis using that by - (elim disjE; simp; presburger)
  qed
  from this [OF y le] show ?thesis .
qed

interpretation aligned: random_offset mx_aligned_offset
proof
  fix sz :: int and P and F :: "u32 \<Rightarrow> (mx_tb, u8 list) state" and Q
  assume sz: "sz \<in> {0, 1, 2}" and F: "\<And>off. unat off + 2 ^ nat sz \<le> 8192 \<Longrightarrow> tb_ok P (F off) Q"
  have m: "push_bit (nat sz) 1 - 1 = (mask (nat sz) :: u32)" by (simp add: mask_eq_decr_exp push_bit_eq_mult)
  have "nat sz \<le> 2" using sz by auto
  then have "unat (rnd_scale 0 8191 x AND NOT (mask (nat sz))) + 2 ^ nat sz \<le> 8192" for x
    using unat_and_not_mask rnd_scale_0_less [of 8191 x] by simp
  then show "tb_ok P (State_Monad.bind (mx_aligned_offset sz) F) Q"
    unfolding mx_aligned_offset_def State_Monad.bind_assoc m by (intro tb_ok_rnd_in) (simp add: F)
qed

interpretation any: random_offset mx_any_offset
proof
  fix sz :: int and P and F :: "u32 \<Rightarrow> (mx_tb, u8 list) state" and Q
  assume sz: "sz \<in> {0, 1, 2}" and F: "\<And>off. unat off + 2 ^ nat sz \<le> 8192 \<Longrightarrow> tb_ok P (F off) Q"
  have "unat (rnd_scale 0 8187 x) + 2 ^ nat sz \<le> 8192" for x
    using sz rnd_scale_0_less [of 8187 x] by auto
  then show "tb_ok P (State_Monad.bind (mx_any_offset sz) F) Q"
    unfolding mx_any_offset_def by (intro tb_ok_rnd_in) (simp add: F)
qed

section \<open>The remaining sections\<close>

lemma rnd_0_2: "0 \<le> sint (rnd_scale 0 2 x)" "sint (rnd_scale 0 2 x) \<le> 4"
  using rnd_int(2) [of x] by auto

lemma mx_zero_loop_ok:
  "tb_ok (\<lambda>d k l. \<exists>mem. mx_at mem c d k l) (for_range 0 2048 (\<lambda>w _. mx_wr_word (mx_BASE + word_of_int w * 4) 0 0xF) ())
     (\<lambda>_. mx_shadow (replicate 8192 0) c)"
proof -
  define I where "I w (u :: unit) = (\<lambda>d k l. \<exists>mem. mx_at mem c d k l \<and> (\<forall>i < 4 * nat w. mem (mx_BASE + of_nat i) = 0))" for w u
  have "tb_ok (I w u) (mx_wr_word (mx_BASE + word_of_int w * 4) 0 0xF) (\<lambda>u. I (w + 1) u)" if w: "0 \<le> w" "w < 2048" for w u
  proof (rule tb_okI)
    fix d k f h l
    assume "I w u d k l"
    then obtain mem where mem: "mx_at mem c d k l" "\<forall>i < 4 * nat w. mem (mx_BASE + of_nat i) = 0" by (auto simp: I_def)
    have a: "(word_of_int w * 4 :: u32) = of_nat (4 * nat w)" using w by (simp add: word_of_nat_eq_iff)
    have "\<forall>i < 4 * nat (w + 1). store_bytes (mx_BASE + word_of_int w * 4) 4 0 mem (mx_BASE + of_nat i) = 0"
      unfolding a using w mem(2) store_bytes_at [of "4 * nat w" 4 _ mx_BASE 0 mem] by auto
    then show "wp (mx_wr_word (mx_BASE + word_of_int w * 4) 0 0xF)
        (\<lambda>x s. I (w + 1) x (tb_dut s) (tb_checks s) (tb.more s) \<and> tb_fails s = f) d k f h l"
      by (intro wp_mono [OF tb_okD [OF mx_wr_word_ok mem(1)]]) (auto simp: I_def)
  qed
  then have "tb_ok (I 0 ()) (for_range 0 2048 (\<lambda>w _. mx_wr_word (mx_BASE + word_of_int w * 4) 0 0xF) ()) (\<lambda>u. I 2048 u)"
    by (intro tb_ok_for) auto
  then show ?thesis by (rule tb_ok_conseq) (auto simp: I_def mx_shadow_def mx_agrees_def)
qed

lemma mx_test_8_ok:
  "tb_ok (\<lambda>d k l. \<exists>mem. mx_at mem c d k l) (mx_test_8 Vaxil_master_eval (fuel + 13) l2r) (\<lambda>model. mx_shadow model (c + 3000))"
  unfolding mx_test_8_def
  by (rule tb_ok_bind [OF _ tb_ok_bind [OF mx_zero_loop_ok aligned.random_loop_ok]])
    (rule mx_ok_some, rule exI, rule mx_begin_ok)

lemma mx_test_12_ok:
  "tb_ok (mx_shadow model c) (mx_test_12 Vaxil_master_eval (fuel + 13) l2r model) (\<lambda>model'. mx_shadow model' (c + 3000))"
  unfolding mx_test_12_def
  by (rule tb_ok_bind [OF _ any.random_loop_ok], rule mx_shadow_from, rule mx_shadow_to [OF mx_begin_ok]) simp_all

lemma lanes_1_3: "1 \<le> (i :: int) \<Longrightarrow> i < 4 \<Longrightarrow> i = 1 \<or> i = 2 \<or> i = 3"
  by auto

lemma mx_test_9_lanes:
  "tb_ok (mx_shadow model c) (mx_test_9 Vaxil_master_eval (fuel + 13) l2r 1 u) (\<lambda>_. mx_shadow model (c + 1))"
  "tb_ok (mx_shadow model c) (mx_test_9 Vaxil_master_eval (fuel + 13) l2r 2 u) (\<lambda>_. mx_shadow model (c + 1))"
  "tb_ok (mx_shadow model c) (mx_test_9 Vaxil_master_eval (fuel + 13) l2r 3 u) (\<lambda>_. mx_shadow model (c + 1))"
  unfolding mx_test_9_def Let_def
  by (rule mx_shadow_from, rule mx_shadow_to, rule tb_ok_bind, (rule mx_store_ok; simp), rule tb_ok_bind,
      (rule mx_store_ok; simp), rule mx_rnd_delays_ok, unfold fst_conv snd_conv, rule tb_ok_bind,
      (rule mx_store_ok; assumption), rule mx_rd_word_ok, rule mx_rd_word_ok, rule mx_check_ok,
      simp add: mx_bytes, simp, simp add: mx_agrees_above mx_sizes mx_BASE_def, simp)+

lemma mx_test_10_lanes:
  "tb_ok (mx_shadow model c) (mx_test_10 Vaxil_master_eval (fuel + 13) 1 u) (\<lambda>_. mx_shadow model (c + 1))"
  "tb_ok (mx_shadow model c) (mx_test_10 Vaxil_master_eval (fuel + 13) 2 u) (\<lambda>_. mx_shadow model (c + 1))"
  "tb_ok (mx_shadow model c) (mx_test_10 Vaxil_master_eval (fuel + 13) 3 u) (\<lambda>_. mx_shadow model (c + 1))"
  unfolding mx_test_10_def Let_def
  by (rule mx_shadow_from, rule mx_shadow_to, rule tb_ok_bind, rule mx_wr_word_ok, rule tb_ok_bind,
      rule mx_wr_word_ok, rule tb_ok_rnd_in, rule mx_load_bind_ok, simp add: rnd_0_2, simp add: rnd_0_2, simp add: mx_sizes,
      rule mx_check_ok, simp add: mx_load_bytes, simp add: mx_agrees_above mx_BASE_def, simp)+

lemma mx_test_11_ok:
  "tb_ok (mx_shadow model c) (mx_test_11 Vaxil_master_eval (fuel + 13)) (\<lambda>_. mx_shadow model (c + 3))"
  unfolding mx_test_11_def Let_def
  by (rule mx_shadow_from, rule mx_shadow_to, rule tb_ok_bind, rule mx_begin_ok,
      (rule tb_ok_bind, (rule mx_store_ok; simp))+, rule mx_rd_word_ok, rule mx_rd_word_ok, rule tb_ok_bind,
      rule mx_check_ok, simp add: mx_bytes, rule tb_ok_bind, rule mx_wr_word_ok, rule tb_ok_bind, rule mx_wr_word_ok,
      rule tb_ok_bind, rule mx_check_load_ok, simp add: mx_sizes, simp add: mx_load_bytes,
      rule mx_check_load_ok, simp add: mx_sizes, simp add: mx_load_bytes,
      simp add: mx_agrees_above mx_sizes mx_BASE_def, simp)

lemma mx_lanes_ok:
  "tb_ok (mx_shadow model c) (for_range 1 4 (mx_test_9 Vaxil_master_eval (fuel + 13) l2r) ()) (\<lambda>_. mx_shadow model (c + 3))"
  "tb_ok (mx_shadow model c) (for_range 1 4 (mx_test_10 Vaxil_master_eval (fuel + 13)) ()) (\<lambda>_. mx_shadow model (c + 3))"
proof -
  define I where "I i (u :: unit) = mx_shadow model (c + (i - 1))" for i u
  have "tb_ok (I i u) (mx_test_9 Vaxil_master_eval (fuel + 13) l2r i u) (\<lambda>u. I (i + 1) u)" if "1 \<le> i" "i < 4" for i u
    using lanes_1_3 [OF that] mx_test_9_lanes [of model "c + (i - 1)" fuel l2r u] by (auto simp: I_def [abs_def] add.assoc)
  from tb_ok_for [where I = I and lo = 1 and hi = 4, OF _ this] show
    "tb_ok (mx_shadow model c) (for_range 1 4 (mx_test_9 Vaxil_master_eval (fuel + 13) l2r) ()) (\<lambda>_. mx_shadow model (c + 3))"
    by (simp add: I_def [abs_def])
  have "tb_ok (I i u) (mx_test_10 Vaxil_master_eval (fuel + 13) i u) (\<lambda>u. I (i + 1) u)" if "1 \<le> i" "i < 4" for i u
    using lanes_1_3 [OF that] mx_test_10_lanes [of model "c + (i - 1)" fuel u] by (auto simp: I_def [abs_def] add.assoc)
  from tb_ok_for [where I = I and lo = 1 and hi = 4, OF _ this] show
    "tb_ok (mx_shadow model c) (for_range 1 4 (mx_test_10 Vaxil_master_eval (fuel + 13)) ()) (\<lambda>_. mx_shadow model (c + 3))"
    by (simp add: I_def [abs_def])
qed

lemma axil_master_body_ok:
  "tb_ok (\<lambda>d k l. k = 0 \<and> l = mx_fresh (\<lambda>_. 0))
     (axil_master_body Vaxil_master_eval (fuel + 13) l2r) (\<lambda>_ d k l. k = 6038 \<and> \<not> mx_hung l)"
proof -
  let ?ev = Vaxil_master_eval
  have sect: "tb_ok (mx_shadow model c) (tb_begin n) (\<lambda>_. mx_shadow model c)" for model c n
    by (rule mx_shadow_from, rule mx_shadow_to [OF mx_begin_ok]) simp_all
  have crossing: "tb_ok (mx_shadow model 3029) (do {
     tb_begin n9; for_range 1 4 (mx_test_9 ?ev (fuel + 13) l2r) ();
     tb_begin n10; for_range 1 4 (mx_test_10 ?ev (fuel + 13)) ();
     mx_test_11 ?ev (fuel + 13);
     _ \<leftarrow> mx_test_12 ?ev (fuel + 13) l2r model;
     State_Monad.return () }) (\<lambda>_ d k l. k = 6038 \<and> \<not> mx_hung l)" for model n9 n10
    by (rule tb_ok_bind [OF sect], rule tb_ok_bind [OF mx_lanes_ok(1)], rule tb_ok_bind [OF sect],
        rule tb_ok_bind [OF mx_lanes_ok(2)], rule tb_ok_bind [OF mx_test_11_ok], rule tb_ok_bind [OF mx_test_12_ok],
        rule tb_ok_return) (auto simp: mx_shadow_def mx_at_def)
  have directed: "tb_ok (\<lambda>d k l. \<exists>mem. mx_at mem 0 d k l) (mx_test_1 ?ev (fuel + 13)) (\<lambda>_ d k l. \<exists>mem. mx_at mem 1 d k l)"
    "tb_ok (\<lambda>d k l. \<exists>mem. mx_at mem 1 d k l) (mx_test_2 ?ev (fuel + 13)) (\<lambda>_ d k l. \<exists>mem. mx_at mem 7 d k l)"
    "tb_ok (\<lambda>d k l. \<exists>mem. mx_at mem 7 d k l) (mx_test_3 ?ev (fuel + 13)) (\<lambda>_ d k l. \<exists>mem. mx_at mem 8 d k l)"
    "tb_ok (\<lambda>d k l. \<exists>mem. mx_at mem 8 d k l) (mx_test_4 ?ev (fuel + 13)) (\<lambda>_ d k l. \<exists>mem. mx_at mem 18 d k l)"
    "tb_ok (\<lambda>d k l. \<exists>mem. mx_at mem 18 d k l) (mx_test_5 ?ev (fuel + 13)) (\<lambda>_ d k l. \<exists>mem. mx_at mem 22 d k l)"
    "tb_ok (\<lambda>d k l. \<exists>mem. mx_at mem 22 d k l) (mx_test_6 ?ev (fuel + 13)) (\<lambda>_ d k l. \<exists>mem. mx_at mem 25 d k l)"
    "tb_ok (\<lambda>d k l. \<exists>mem. mx_at mem 25 d k l) (mx_test_7 ?ev (fuel + 13)) (\<lambda>_ d k l. \<exists>mem. mx_at mem 29 d k l)"
    using mx_test_1_ok [of 0 fuel] mx_test_2_ok [of 1 fuel] mx_test_3_ok [of 7 fuel] mx_test_4_ok [of 8 fuel]
      mx_test_5_ok [of 18 fuel] mx_test_6_ok [of 22 fuel] mx_test_7_ok [of 25 fuel] by simp_all
  have start: "tb_ok (\<lambda>d k l. k = 0 \<and> l = mx_fresh (\<lambda>_. 0)) (mx_start ?ev) (\<lambda>_ d k l. \<exists>mem. mx_at mem 0 d k l)"
    by (rule tb_ok_conseq [OF mx_start_ok [where c = 0 and mem = "\<lambda>_. 0"]]) auto
  have random: "tb_ok (\<lambda>d k l. \<exists>mem. mx_at mem 29 d k l) (mx_test_8 ?ev (fuel + 13) l2r) (\<lambda>model. mx_shadow model 3029)"
    using mx_test_8_ok [of 29] by simp
  show ?thesis
    unfolding axil_master_body_def
    by (rule tb_ok_bind [OF start], (rule tb_ok_bind, rule directed)+, rule tb_ok_bind [OF random], rule crossing)
qed

text \<open>One store, and one store followed by a load, from a reset, on a slave with memory \<open>mem\<close>.\<close>

definition mx_one_store :: "nat \<Rightarrow> u32 \<Rightarrow> u32 \<Rightarrow> u32 \<Rightarrow> nat \<Rightarrow> nat \<Rightarrow> (mx_tb, int) state" where
  "mx_one_store fuel A W f3 aw w = do {
     mx_start Vaxil_master_eval;
     do_store Vaxil_master_eval fuel A W f3 (int aw) (int w) }"

definition mx_store_load :: "nat \<Rightarrow> u32 \<Rightarrow> u32 \<Rightarrow> u32 \<Rightarrow> nat \<Rightarrow> nat \<Rightarrow> u32 \<Rightarrow> u32 \<Rightarrow> nat \<Rightarrow> (mx_tb, u32) state" where
  "mx_store_load fuel A W f3 aw w B g3 ar = do {
     mx_start Vaxil_master_eval;
     do_store Vaxil_master_eval fuel A W f3 (int aw) (int w);
     do_load Vaxil_master_eval fuel B g3 (int ar) }"

lemma unat_less_u32: "unat (x :: u32) < 2 ^ 32"
  using unsigned_less [of x] by simp

lemma store_bytes_eq:
  assumes "n \<le> 4"
  shows "store_bytes A n W mem a = (if unat (a - A) < n then ucast (drop_bit (8 * unat (a - A)) W) else mem a)"
  using store_bytes_at [of 0 n "unat (a - A)" A W mem] assms unat_less_u32 [of "a - A"] by auto

lemma mx_one_store_ok:
  assumes "mx_cycles (mx_crosses A (ucast f3)) (max aw w) \<le> fuel"
  shows "tb_ok (\<lambda>d k l. k = c \<and> l = mx_fresh mem) (mx_one_store fuel A W f3 aw w)
     (\<lambda>n d k l. n = int (mx_cycles (mx_crosses A (ucast f3)) (max aw w))
        \<and> mx_at (store_bytes A (mx_size (ucast f3)) W mem) c d k l)"
  unfolding mx_one_store_def by (rule tb_ok_bind [OF mx_start_ok do_store_ok [OF assms]])

text \<open>What a load of kind \<open>f3\<close> of the bytes at \<open>B\<close> means: little-endian, sign- or zero-extended.\<close>

definition mx_value :: "u32 \<Rightarrow> (u32 \<Rightarrow> u8) \<Rightarrow> u32 \<Rightarrow> u32" where
  "mx_value f3 byte B =
     (if f3 = F3_W then ucast (byte B) OR push_bit 8 (ucast (byte (B + 1))) OR push_bit 16 (ucast (byte (B + 2)))
        OR push_bit 24 (ucast (byte (B + 3)))
      else if f3 = F3_HU then ucast (byte B) OR push_bit 8 (ucast (byte (B + 1)))
      else if f3 = F3_BU then ucast (byte B)
      else if f3 = F3_H then ucast (byte B) OR push_bit 8 (scast (byte (B + 1)))
      else scast (byte B))"

lemma funct3_distinct:
  "F3_HU \<noteq> F3_W" "F3_BU \<noteq> F3_W" "F3_BU \<noteq> F3_HU" "F3_H \<noteq> F3_W" "F3_H \<noteq> F3_HU" "F3_H \<noteq> F3_BU"
  "F3_B \<noteq> F3_W" "F3_B \<noteq> F3_HU" "F3_B \<noteq> F3_BU" "F3_B \<noteq> F3_H"
  by (simp_all add: tb_data)

lemma sign_extended:
  "(if bit (b :: u8) 7 then ucast b OR 0xFFFFFF00 else ucast b :: u32) = scast b"
  "(if bit (b :: u8) 7 then ucast (a :: u8) OR (push_bit 8 (ucast b) OR 0xFFFF0000) else ucast a OR push_bit 8 (ucast b) :: u32)
    = ucast a OR push_bit 8 (scast b)"
  unfolding word_eq_iff_bits by (auto simp: bit_simps all_less_numeral all_less_Suc_conv)

lemma mx_value_loads:
  "g3 \<in> {F3_B, F3_H, F3_W, F3_BU, F3_HU} \<Longrightarrow> mx_extend (ucast g3) (rd_word mem B) = mx_value g3 mem B"
  by (elim insertE; simp only: mx_value_def mx_loads funct3_distinct if_True if_False refl sign_extended or.assoc)
    (simp_all add: or.assoc)

lemma mx_store_load_ok:
  assumes "mx_cycles (mx_crosses A (ucast f3)) (max aw w) \<le> fuel" and "mx_cycles (mx_crosses B (ucast g3)) ar \<le> fuel"
    and "mx_size (ucast g3) \<noteq> 0"
  shows "tb_ok (\<lambda>d k l. k = c \<and> l = mx_fresh mem) (mx_store_load fuel A W f3 aw w B g3 ar)
     (\<lambda>x d k l. x = mx_extend (ucast g3) (rd_word (store_bytes A (mx_size (ucast f3)) W mem) B)
        \<and> mx_at (store_bytes A (mx_size (ucast f3)) W mem) c d k l)"
  unfolding mx_store_load_def
  by (rule tb_ok_bind [OF mx_start_ok], rule tb_ok_bind [OF do_store_ok [OF assms(1)]],
      rule tb_ok_conseq [OF do_load_ok [OF assms(2,3)]]) auto

section \<open>Properties\<close>

text \<open>
  C32. The bus master's bench accepts the RTL with all of its 6038 checks and never hangs in one of
  its loops that wait for the stall to drop: any 13 cycles of patience are enough for every load
  and store it makes, whatever the seed, the arguments, the initial model and the order in which
  the compiler evaluates the random delays.
\<close>

theorem tb_axil_master_passes:
  "run_passes (axil_master_main Vaxil_master_eval (fuel + 13) l2r argv d) 6038
   \<and> \<not> mx_hung (tb.more (snd (axil_master_main Vaxil_master_eval (fuel + 13) l2r argv d)))"
  unfolding axil_master_main_def
  by (rule tb_ok_run_with [OF axil_master_body_ok]) (simp add: mx_fresh_def AxilSlave_init_def)
text \<open>
  C16. A store terminates after a number of cycles known in advance and writes exactly its bytes.
  From a reset, with the address and data channels of the slave ready after \<open>aw\<close> and \<open>w\<close> cycles,
  the stall drops in cycle \<open>max aw w + 3\<close>, or \<open>2 * max aw w + 5\<close> when the access crosses a word
  boundary; byte \<open>j\<close> of the data is then at address \<open>A + j\<close> for each of the 1, 2 or 4 bytes of the
  access, and every other byte of the 4 GiB is what it was.
\<close>

theorem axil_master_store_terminates:
  "let n = mx_cycles (mx_crosses A (ucast f3)) (max aw w) in
   case run_state (mx_one_store (n + fuel) A W f3 aw w)
       \<lparr>tb_dut = d, tb_checks = k, tb_fails = f, tb_rest = h, \<dots> = mx_fresh mem\<rparr> of
     (x, s) \<Rightarrow> x = int n \<and> \<not> mx_hung (tb.more s) \<and> tb_checks s = k \<and> tb_fails s = f \<and> mx_idle (tb_dut s)
       \<and> sl_mem (mx_slave (tb.more s)) a
           = (if unat (a - A) < mx_size (ucast f3) then ucast (drop_bit (8 * unat (a - A)) W) else mem a)"
proof -
  let ?n = "mx_cycles (mx_crosses A (ucast f3)) (max aw w)"
  have "wp (mx_one_store (?n + fuel) A W f3 aw w) (\<lambda>x s. (x = int ?n
      \<and> mx_at (store_bytes A (mx_size (ucast f3)) W mem) k (tb_dut s) (tb_checks s) (tb.more s)) \<and> tb_fails s = f)
      d k f h (mx_fresh mem)"
    by (rule tb_okD [OF mx_one_store_ok]) simp_all
  then show ?thesis
    unfolding wp_def Let_def by (auto simp: mx_at_def store_bytes_eq [OF mx_size_le])
qed

text \<open>
  C15. A load returns what was stored. From a reset, a store of \<open>W\<close> at \<open>A\<close> followed by a load at \<open>B\<close>
  with any of the five load widths, at any alignment and with any delays: the load terminates and
  returns the sign- or zero-extension of the bytes at \<open>B\<close>, where a byte is that of \<open>W\<close> if the store
  covered it and that of the old memory otherwise.
\<close>

theorem axil_master_store_load:
  assumes "g3 \<in> {F3_B, F3_H, F3_W, F3_BU, F3_HU}"
  shows "case run_state (mx_store_load (13 + 2 * (aw + w + ar)) A W f3 aw w B g3 ar)
       \<lparr>tb_dut = d, tb_checks = k, tb_fails = f, tb_rest = h, \<dots> = mx_fresh mem\<rparr> of
     (x, s) \<Rightarrow> \<not> mx_hung (tb.more s) \<and> tb_checks s = k \<and> tb_fails s = f
       \<and> x = mx_value g3 (\<lambda>a. if unat (a - A) < mx_size (ucast f3) then ucast (drop_bit (8 * unat (a - A)) W)
                              else mem a) B"
proof -
  have n: "mx_cycles b m \<le> 13 + 2 * (aw + w + ar)" if "m \<le> aw + w + ar" for b m
    using that by (simp add: mx_cycles_def)
  have size: "mx_size (ucast g3) \<noteq> 0" using assms by (auto simp: mx_sizes)
  let ?mem = "store_bytes A (mx_size (ucast f3)) W mem"
  have m: "?mem = (\<lambda>a. if unat (a - A) < mx_size (ucast f3) then ucast (drop_bit (8 * unat (a - A)) W) else mem a)"
    by (rule ext) (rule store_bytes_eq [OF mx_size_le])
  have "wp (mx_store_load (13 + 2 * (aw + w + ar)) A W f3 aw w B g3 ar)
      (\<lambda>x s. (x = mx_extend (ucast g3) (rd_word ?mem B) \<and> mx_at ?mem k (tb_dut s) (tb_checks s) (tb.more s)) \<and> tb_fails s = f)
      d k f h (mx_fresh mem)"
    by (rule tb_okD [OF mx_store_load_ok [OF n n size]]) simp_all
  then show ?thesis
    unfolding wp_def mx_value_loads [OF assms] m by (auto simp: mx_at_def)
qed

theorem axil_master_store_load_witness:
  "\<forall>d k f h mem. case run_state (mx_store_load 13 0x80000003 0xBEEF F3_H 0 0 0x80000003 F3_H 0)
       \<lparr>tb_dut = d, tb_checks = k, tb_fails = f, tb_rest = h, \<dots> = mx_fresh mem\<rparr> of
     (x, s) \<Rightarrow> x = 0xFFFFBEEF"
  using axil_master_store_load [where ?g3.0 = F3_H and ?f3.0 = F3_H and A = "0x80000003" and B = "0x80000003" and W = "0xBEEF"
      and aw = 0 and w = 0 and ar = 0]
  by (fastforce simp: mx_value_def mx_sizes funct3_distinct split: prod.splits)

end
