(* ===== verification/Selftest.thy ===== *)
theory Selftest
  imports Tb_Common
begin

text \<open>
  The module that validates the simulation flow itself, \<open>sim/verilator/selftest/selftest.v\<close>, an
  8-bit counter, and its test bench \<open>sim/verilator/tb_selftest.cpp\<close>.
\<close>

section \<open>selftest.v\<close>

record Vselftest = vclk +
  st_rst_n :: bool
  st_en :: bool
  st_count :: u8
  st_is_max :: bool

definition selftest_seq :: "Vselftest \<Rightarrow> Vselftest" where
  "selftest_seq d =
     (if \<not> st_rst_n d then d\<lparr>st_count := 0\<rparr>
      else if st_en d then d\<lparr>st_count := st_count d + 1\<rparr> else d)"

definition selftest_comb :: "Vselftest \<Rightarrow> Vselftest" where
  "selftest_comb d = d\<lparr>st_is_max := (st_count d = 0xFF)\<rparr>"

definition Vselftest_eval :: "Vselftest \<Rightarrow> Vselftest" where
  "Vselftest_eval = veval selftest_seq selftest_comb"

interpretation selftest: verilated_module selftest_seq selftest_comb
  by unfold_locales (simp_all add: selftest_seq_def selftest_comb_def)

section \<open>tb_selftest.cpp\<close>

definition selftest_check :: "nat \<Rightarrow> string \<Rightarrow> u64 \<Rightarrow> u64 \<Rightarrow> (Vselftest tb, unit) state" where
  "selftest_check line expr got want = tb_check ''tb_selftest.cpp'' line expr got want"

definition selftest_body :: "(Vselftest \<Rightarrow> Vselftest) \<Rightarrow> (Vselftest tb, unit) state" where
  "selftest_body ev = do {
     tb_begin ''reset clears counter'';
     poke (\<lambda>d. d\<lparr>st_rst_n := False, st_en := True, v_clk := False\<rparr>);
     tb_tick ev; tb_tick ev;
     c \<leftarrow> peek st_count; selftest_check 11 ''d.count'' (ucast c) 0;
     tb_begin ''counts while enabled'';
     poke (\<lambda>d. d\<lparr>st_rst_n := True\<rparr>);
     for_range 1 6 (\<lambda>i _. do {
       tb_tick ev; c \<leftarrow> peek st_count; selftest_check 15 ''d.count'' (ucast c) (word_of_int i) }) ();
     tb_begin ''holds while disabled'';
     poke (\<lambda>d. d\<lparr>st_en := False\<rparr>);
     tb_tick ev; tb_tick ev;
     c \<leftarrow> peek st_count; selftest_check 20 ''d.count'' (ucast c) 5;
     tb_begin ''combinational output tracks state'';
     m \<leftarrow> peek st_is_max; selftest_check 23 ''d.is_max'' (vbool m) 0 }"

definition selftest_main :: "(Vselftest \<Rightarrow> Vselftest) \<Rightarrow> string list \<Rightarrow> Vselftest \<Rightarrow> int \<times> Vselftest tb" where
  "selftest_main ev argv d = tb_run (selftest_body ev) ''selftest'' argv d"

section \<open>The bench on the RTL\<close>

lemma selftest_body_ok: "tb_ok (\<lambda>d k m. k = 0) (selftest_body Vselftest_eval) (\<lambda>_ d k m. k = 8)"
  unfolding selftest_body_def selftest_check_def Vselftest_eval_def
  by (rule tb_okI) (simp add: tb_wp wp_check selftest.wp_tick vposedge_def selftest_seq_def selftest_comb_def
    cong: wp_cong)

section \<open>Properties\<close>

text \<open>
  The counter's bench accepts the RTL with its 8 checks: the flow of clock, reset, enable and
  combinational outputs works as the harness expects, from any initial state and arguments.
\<close>

theorem tb_selftest_passes: "run_passes (selftest_main Vselftest_eval argv d) 8"
  unfolding selftest_main_def by (rule tb_ok_run [OF selftest_body_ok]) simp

end
