(* ===== verification/Tb_Soc.thy ===== *)
theory Tb_Soc
  imports Imem
begin

text \<open>
  The simulation driver of the whole system, \<open>sim/verilator/tb_soc.cpp\<close>: it runs a program on the
  SoC until it stores to \<open>tohost\<close>, writes the trace and turns the value into an exit code. The SoC
  is whatever function \<open>ev\<close> the driver is given: it is used through its ports only.
\<close>

section \<open>tb_soc.cpp\<close>

text \<open>The ports of \<open>soc.v\<close>; the rest of the model's state is the record's extension.\<close>

record Vsoc = vclk +
  so_rst_n :: bool
  so_led :: u16
  so_sw :: u16
  so_uart_txd :: bool
  so_uart_rxd :: bool
  so_trace_pc :: u32
  so_trace_instr :: u32
  so_trace_rd :: "5 word"
  so_trace_wdata :: u32
  so_trace_we :: bool
  so_trace_mem_addr :: u32
  so_trace_mem_wdata :: u32
  so_trace_mem_we :: bool
  so_trace_trap :: bool

definition TOHOST_ADDR0 :: u32 where "TOHOST_ADDR0 = 0x80001000"

definition MAX_CYCLES :: nat where "MAX_CYCLES = 200000"

text \<open>The arguments: the last \<open>+trace=\<close> and the last \<open>+tohost=\<close> win.\<close>

definition soc_arg :: "string \<Rightarrow> string \<times> u32 \<Rightarrow> string \<times> u32" where
  "soc_arg arg x =
     (let (csv_path, tohost_addr) = x;
          csv_path' = (if take 7 arg = ''+trace='' then drop 7 arg else csv_path);
          tohost_addr' = (if take 8 arg = ''+tohost='' then ucast (strtoul0 (drop 8 arg)) else tohost_addr)
      in (csv_path', tohost_addr'))"

definition soc_args :: "string list \<Rightarrow> string \<times> u32" where
  "soc_args argv = fold soc_arg (tl argv) (''soc_trace.csv'', TOHOST_ADDR0)"

text \<open>\<open>%d\<close> of a register number.\<close>

fun dec_text :: "nat \<Rightarrow> string" where
  "dec_text n = (if n < 10 then [hex_digit n] else dec_text (n div 10) @ [hex_digit (n mod 10)])"

definition soc_row :: "'m Vsoc_scheme \<Rightarrow> string" where
  "soc_row d =
     (if so_trace_trap d then ''''
      else if so_trace_we d
      then hex8 (so_trace_pc d) @ '','' @ hex8 (so_trace_instr d) @ '','' @ dec_text (unat (so_trace_rd d)) @ '',''
        @ hex8 (so_trace_wdata d) @ [CHR 0x0A]
      else hex8 (so_trace_pc d) @ '','' @ hex8 (so_trace_instr d) @ '',-,-'' @ [CHR 0x0A])"

definition soc_exit :: "u32 \<Rightarrow> 'm Vsoc_scheme \<Rightarrow> bool" where
  "soc_exit tohost_addr d \<longleftrightarrow>
     so_trace_mem_we d \<and> so_trace_mem_addr d = tohost_addr \<and> so_trace_mem_wdata d \<noteq> 0"

text \<open>
  \<open>while (cycles < MAX_CYCLES)\<close>, with \<open>n = MAX_CYCLES - cycles\<close> iterations left. The bench's local
  object is the text written to the CSV file. The results are \<open>cycles\<close>, \<open>tohost\<close> and \<open>finished\<close>.
\<close>

type_synonym 'm soc_tb = "('m Vsoc_scheme, string) tb_scheme"

primrec soc_loop ::
  "('m Vsoc_scheme \<Rightarrow> 'm Vsoc_scheme) \<Rightarrow> u32 \<Rightarrow> nat \<Rightarrow> int \<Rightarrow> ('m soc_tb, int \<times> u32 \<times> bool) state" where
  "soc_loop ev tohost_addr 0 cycles = State_Monad.return (cycles, 0, False)"
| "soc_loop ev tohost_addr (Suc n) cycles = do {
     d \<leftarrow> peek id;
     tb_set_locals (\<lambda>csv. csv @ soc_row d);
     if soc_exit tohost_addr d
     then do { tb_tick ev; State_Monad.return (cycles, so_trace_mem_wdata d, True) }
     else do { tb_tick ev; soc_loop ev tohost_addr n (cycles + 1) } }"

definition tb_printf :: "string \<Rightarrow> u64 list \<Rightarrow> (('d, 'm) tb_scheme, unit) state" where
  "tb_printf fmt args = tb_upd (\<lambda>h. h\<lparr>tb_out := TextLine fmt args # tb_out h\<rparr>)"

definition tb_fail :: "(('d, 'm) tb_scheme, unit) state" where
  "tb_fail = State (\<lambda>s. ((), s\<lparr>tb_fails := tb_fails s + 1\<rparr>))"

definition soc_report :: "string \<Rightarrow> int \<times> u32 \<times> bool \<Rightarrow> ('m soc_tb, unit) state" where
  "soc_report csv_path r =
     (let (cycles, tohost, finished) = r in
      if \<not> finished then do {
        pc \<leftarrow> peek so_trace_pc;
        tb_printf ''[tb] TIMEOUT after %d cycles, pc=%08x'' [word_of_int cycles, ucast pc];
        tb_printf (''[tb] trace written to '' @ csv_path) [];
        tb_fail }
      else if tohost = 1 then tb_printf ''[tb] PASS via tohost after %d instructions'' [word_of_int cycles]
      else do {
        tb_printf ''[tb] FAIL: tohost=0x%08x -> test case %u, after %d instructions''
          [ucast tohost, ucast (drop_bit 1 tohost), word_of_int cycles];
        tb_fail })"

definition soc_start :: "('m Vsoc_scheme \<Rightarrow> 'm Vsoc_scheme) \<Rightarrow> ('m soc_tb, unit) state" where
  "soc_start ev = do {
     poke (\<lambda>d. d\<lparr>v_clk := False, so_rst_n := False, so_sw := 0, so_uart_rxd := True\<rparr>);
     tb_tick ev; tb_tick ev;
     poke (\<lambda>d. d\<lparr>so_rst_n := True\<rparr>) }"

text \<open>\<open>can_open\<close> says which paths \<open>fopen\<close> can open for writing.\<close>

definition soc_main ::
  "('m Vsoc_scheme \<Rightarrow> 'm Vsoc_scheme) \<Rightarrow> (string \<Rightarrow> bool) \<Rightarrow> string list \<Rightarrow> 'm Vsoc_scheme \<Rightarrow> int \<times> 'm soc_tb" where
  "soc_main ev can_open argv d =
     (let (csv_path, tohost_addr) = soc_args argv in
      run_state (
        if \<not> can_open csv_path
        then do { tb_printf (''[tb] cannot open '' @ csv_path) []; State_Monad.return 2 }
        else do {
          soc_start ev;
          r \<leftarrow> soc_loop ev tohost_addr MAX_CYCLES 0;
          soc_report csv_path r;
          tb_finish })
        \<lparr>tb_dut = d, tb_checks = 0, tb_fails = 0, tb_rest = tb_new_aux ''soc'' argv, \<dots> = ''''\<rparr>)"

section \<open>What the driver computes\<close>

text \<open>One \<open>tick()\<close> on the device alone, and the device after \<open>k\<close> cycles of the program.\<close>

definition soc_tick :: "('m Vsoc_scheme \<Rightarrow> 'm Vsoc_scheme) \<Rightarrow> 'm Vsoc_scheme \<Rightarrow> 'm Vsoc_scheme" where
  "soc_tick ev d = ev ((ev ((ev d)\<lparr>v_clk := True\<rparr>))\<lparr>v_clk := False\<rparr>)"

definition soc_at :: "('m Vsoc_scheme \<Rightarrow> 'm Vsoc_scheme) \<Rightarrow> 'm Vsoc_scheme \<Rightarrow> nat \<Rightarrow> 'm Vsoc_scheme" where
  "soc_at ev d k =
     (soc_tick ev ^^ k) ((soc_tick ev (soc_tick ev
        (d\<lparr>v_clk := False, so_rst_n := False, so_sw := 0, so_uart_rxd := True\<rparr>)))\<lparr>so_rst_n := True\<rparr>)"

definition first_exit :: "('m Vsoc_scheme \<Rightarrow> 'm Vsoc_scheme) \<Rightarrow> u32 \<Rightarrow> 'm Vsoc_scheme \<Rightarrow> nat option" where
  "first_exit ev tohost_addr d = find (\<lambda>k. soc_exit tohost_addr (soc_at ev d k)) [0..<MAX_CYCLES]"

lemma wp_tick_any:
  "wp (State_Monad.bind (tb_tick ev) F) Q d k f h m = wp (F ()) Q (soc_tick ev d) k f (tick_aux h) m"
  by (simp add: tb_tick_def tb_dump_def wp_assoc wp_poke wp_upd tick_aux_def soc_tick_def)

lemma wp_fail: "wp (State_Monad.bind tb_fail F) Q d k f h m = wp (F ()) Q d k (f + 1) h m"
  by (simp add: wp_def tb_fail_def)

lemma wp_printf: "wp (State_Monad.bind (tb_printf fmt args) F) Q d k f h m
    = wp (F ()) Q d k f (h\<lparr>tb_out := TextLine fmt args # tb_out h\<rparr>) m"
  by (simp add: tb_printf_def wp_upd)

lemma find_upt_Suc:
  "find P [0..<Suc n] = (if P 0 then Some 0 else map_option Suc (find (\<lambda>k. P (Suc k)) [0..<n]))"
proof -
  have "find P (map Suc xs) = map_option Suc (find (\<lambda>k. P (Suc k)) xs)" for xs
    by (induction xs) auto
  then show ?thesis by (simp add: upt_conv_Cons map_Suc_upt [symmetric] del: upt_Suc)
qed

text \<open>The loop: the first exit store among the next \<open>n\<close> cycles, and the rows up to it.\<close>

lemma wp_soc_loop:
  "\<exists>h'. wp (State_Monad.bind (soc_loop ev th n c) F) Q d k f h csv =
     (case find (\<lambda>i. soc_exit th ((soc_tick ev ^^ i) d)) [0..<n] of
        None \<Rightarrow> wp (F (c + int n, 0, False)) Q ((soc_tick ev ^^ n) d) k f h'
          (csv @ concat (map (\<lambda>i. soc_row ((soc_tick ev ^^ i) d)) [0..<n]))
      | Some i \<Rightarrow> wp (F (c + int i, so_trace_mem_wdata ((soc_tick ev ^^ i) d), True)) Q ((soc_tick ev ^^ Suc i) d) k f h'
          (csv @ concat (map (\<lambda>i. soc_row ((soc_tick ev ^^ i) d)) [0..<Suc i])))"
proof (induction n arbitrary: c d h csv)
  case 0
  then show ?case by (auto simp: wp_return_bind)
next
  case (Suc n)
  have rows: "concat (map (\<lambda>i. soc_row ((soc_tick ev ^^ i) d)) [0..<Suc m])
      = soc_row d @ concat (map (\<lambda>i. soc_row ((soc_tick ev ^^ i) (soc_tick ev d))) [0..<m])" for m
    by (simp add: upt_conv_Cons map_Suc_upt [symmetric] funpow_swap1 comp_def del: upt_Suc)
  have run: "wp (State_Monad.bind (soc_loop ev th (Suc n) c) F) Q d k f h csv =
      (if soc_exit th d then wp (F (c, so_trace_mem_wdata d, True)) Q (soc_tick ev d) k f (tick_aux h) (csv @ soc_row d)
       else wp (State_Monad.bind (soc_loop ev th n (c + 1)) F) Q (soc_tick ev d) k f (tick_aux h) (csv @ soc_row d))"
    unfolding soc_loop.simps
    by (simp add: wp_assoc wp_peek wp_set_locals wp_if_bind wp_tick_any wp_return_bind cong: wp_cong) simp
  show ?case
  proof (cases "soc_exit th d")
    case True
    then show ?thesis unfolding run find_upt_Suc by auto
  next
    case False
    obtain h' where "wp (State_Monad.bind (soc_loop ev th n (c + 1)) F) Q (soc_tick ev d) k f (tick_aux h) (csv @ soc_row d) =
     (case find (\<lambda>i. soc_exit th ((soc_tick ev ^^ i) (soc_tick ev d))) [0..<n] of
        None \<Rightarrow> wp (F (c + 1 + int n, 0, False)) Q ((soc_tick ev ^^ n) (soc_tick ev d)) k f h'
          ((csv @ soc_row d) @ concat (map (\<lambda>i. soc_row ((soc_tick ev ^^ i) (soc_tick ev d))) [0..<n]))
      | Some i \<Rightarrow> wp (F (c + 1 + int i, so_trace_mem_wdata ((soc_tick ev ^^ i) (soc_tick ev d)), True)) Q
          ((soc_tick ev ^^ Suc i) (soc_tick ev d)) k f h'
          ((csv @ soc_row d) @ concat (map (\<lambda>i. soc_row ((soc_tick ev ^^ i) (soc_tick ev d))) [0..<Suc i])))"
      using Suc.IH by blast
    then show ?thesis
      unfolding run find_upt_Suc rows using False
      by (intro exI [of _ h']) (simp add: funpow_swap1 rows add_ac split: option.splits)
  qed
qed

lemma soc_main_run:
  assumes "soc_args argv = (csv_path, tohost_addr)" and "can_open csv_path"
  shows "case soc_main ev can_open argv d of (x, s) \<Rightarrow>
     x = (case first_exit ev tohost_addr d of None \<Rightarrow> 1
          | Some k \<Rightarrow> if so_trace_mem_wdata (soc_at ev d k) = 1 then 0 else 1)
     \<and> tb.more s = concat (map (\<lambda>k. soc_row (soc_at ev d k))
          [0..<(case first_exit ev tohost_addr d of None \<Rightarrow> MAX_CYCLES | Some k \<Rightarrow> Suc k)])"
proof -
  let ?d = "d\<lparr>v_clk := False, so_rst_n := False, so_sw := 0, so_uart_rxd := True\<rparr>"
  let ?d0 = "soc_tick ev (soc_tick ev ?d)\<lparr>so_rst_n := True\<rparr>"
  let ?Q = "\<lambda>x s. x = (case first_exit ev tohost_addr d of None \<Rightarrow> 1
          | Some k \<Rightarrow> if so_trace_mem_wdata (soc_at ev d k) = 1 then 0 else 1)
     \<and> tb.more s = concat (map (\<lambda>k. soc_row (soc_at ev d k))
          [0..<(case first_exit ev tohost_addr d of None \<Rightarrow> MAX_CYCLES | Some k \<Rightarrow> Suc k)])"
  let ?h = "tick_aux (tick_aux (tb_new_aux ''soc'' argv))"
  let ?F = "\<lambda>r. do { soc_report csv_path r; tb_finish }"
  have at: "soc_at ev d k = (soc_tick ev ^^ k) ?d0" for k by (simp add: soc_at_def)
  have first: "first_exit ev tohost_addr d = find (\<lambda>i. soc_exit tohost_addr ((soc_tick ev ^^ i) ?d0)) [0..<MAX_CYCLES]"
    by (simp add: first_exit_def at)
  obtain h' where loop: "wp (State_Monad.bind (soc_loop ev tohost_addr MAX_CYCLES 0) ?F) ?Q ?d0 0 0 ?h '''' =
     (case first_exit ev tohost_addr d of
        None \<Rightarrow> wp (?F (0 + int MAX_CYCLES, 0, False)) ?Q ((soc_tick ev ^^ MAX_CYCLES) ?d0) 0 0 h'
          ('''' @ concat (map (\<lambda>i. soc_row ((soc_tick ev ^^ i) ?d0)) [0..<MAX_CYCLES]))
      | Some i \<Rightarrow> wp (?F (0 + int i, so_trace_mem_wdata ((soc_tick ev ^^ i) ?d0), True)) ?Q ((soc_tick ev ^^ Suc i) ?d0) 0 0 h'
          ('''' @ concat (map (\<lambda>i. soc_row ((soc_tick ev ^^ i) ?d0)) [0..<Suc i])))"
    using wp_soc_loop [of ev tohost_addr MAX_CYCLES 0 ?F ?Q ?d0 0 0 ?h "''''", folded first] by blast
  have "wp (State_Monad.bind (soc_loop ev tohost_addr MAX_CYCLES 0) ?F) ?Q ?d0 0 0 ?h ''''"
    unfolding loop by (cases "first_exit ev tohost_addr d")
      (simp_all add: soc_report_def wp_assoc wp_peek wp_printf wp_fail wp_finish wp_if_bind at)
  then have "wp (do { soc_start ev; r \<leftarrow> soc_loop ev tohost_addr MAX_CYCLES 0; soc_report csv_path r; tb_finish })
      ?Q d 0 0 (tb_new_aux ''soc'' argv) ''''"
    by (simp add: soc_start_def wp_assoc wp_poke wp_tick_any)
  then show ?thesis
    using assms by (simp add: soc_main_def wp_def)
qed

section \<open>Properties\<close>


end
