(* ===== verification/Firmware.thy ===== *)
theory Firmware
  imports Timer Gpio Csr
begin

text \<open>
  The C programs of \<open>sw/examples\<close>. They run on a platform made of what the SoC's components mean to
  software: the register accesses of the timer and of the GPIO that \<open>Timer\<close> and \<open>Gpio\<close> prove of the
  RTL, the CSR registers, and the bytes handed to the UART. Any number of cycles may pass before
  each access.
\<close>

section \<open>The platform\<close>

record platform =
  pf_wait :: "nat list"  \<comment> \<open>the cycles that pass before each of the next accesses\<close>
  pf_timer :: timer
  pf_gpio :: gpio
  pf_uart :: "u8 list"  \<comment> \<open>the bytes handed to the transmitter, oldest first\<close>
  pf_csr :: csr_regs

definition pf_elapse :: "('g platform_scheme, unit) state" where
  "pf_elapse = State (\<lambda>s. ((), case pf_wait s of
      [] \<Rightarrow> s
    | n # ns \<Rightarrow> s\<lparr>pf_wait := ns, pf_timer := (timer_tick ^^ n) (pf_timer s)\<rparr>))"

text \<open>
  Loads and stores of words, by the windows of soc.v's interconnect. The programs load from no
  other window than the timer's and the GPIO's, and store to no other UART register than \<open>DATA\<close>,
  where the store waits until the transmitter takes the byte.
\<close>

definition mmio_load :: "u32 \<Rightarrow> ('g platform_scheme, u32) state" where
  "mmio_load a = do {
     pf_elapse;
     State (\<lambda>s. (
       if (vbits 31 12 a :: 20 word) = 0x10000 then gpio_read a (pf_gpio s)
       else if (vbits 31 12 a :: 20 word) = 0x10002 then timer_read a (pf_timer s)
       else 0, s)) }"

definition mmio_store :: "u32 \<Rightarrow> u32 \<Rightarrow> ('g platform_scheme, unit) state" where
  "mmio_store a v = do {
     pf_elapse;
     State (\<lambda>s. ((),
       if (vbits 31 12 a :: 20 word) = 0x10000 then s\<lparr>pf_gpio := gpio_out (gpio_write a v 0xF (pf_gpio s))\<rparr>
       else if (vbits 31 12 a :: 20 word) = 0x10001 then s\<lparr>pf_uart := pf_uart s @ [vbits 7 0 v]\<rparr>
       else if (vbits 31 12 a :: 20 word) = 0x10002 then s\<lparr>pf_timer := timer_write a v 0xF (pf_timer s)\<rparr>
       else s)) }"

definition pf_irq :: "'g platform_scheme \<Rightarrow> bool" where
  "pf_irq s = tm_irq (timer_out (pf_timer s))"

text \<open>The instructions \<open>csrw\<close> and \<open>csrs\<close>, trap entry and \<open>mret\<close>, on the registers of csr.v.\<close>

definition csrw :: "12 word \<Rightarrow> u32 \<Rightarrow> ('g platform_scheme, unit) state" where
  "csrw a v = State (\<lambda>s. ((), s\<lparr>pf_csr := csr_write a (csr_new 0b01 (fst (csr_read (pf_csr s) (pf_irq s) a True True)) v) (pf_csr s)\<rparr>))"

definition csrs :: "12 word \<Rightarrow> u32 \<Rightarrow> ('g platform_scheme, unit) state" where
  "csrs a v = State (\<lambda>s. ((), s\<lparr>pf_csr := csr_write a (csr_new 0b10 (fst (csr_read (pf_csr s) (pf_irq s) a True True)) v) (pf_csr s)\<rparr>))"

definition pf_interrupt_pending :: "'g platform_scheme \<Rightarrow> bool" where
  "pf_interrupt_pending s \<longleftrightarrow> mstatus_mie (pf_csr s) \<and> mie_mtie (pf_csr s) \<and> pf_irq s"

text \<open>
  An interrupt: trap entry with the cause of a machine timer interrupt, the handler (compiled with
  \<open>__attribute__((interrupt("machine")))\<close>, so that it ends with \<open>mret\<close>), and the return.
\<close>

definition interrupted :: "u32 \<Rightarrow> ('g platform_scheme, unit) state \<Rightarrow> ('g platform_scheme, unit) state" where
  "interrupted pc handler = do {
     State (\<lambda>s. ((), s\<lparr>pf_csr := csr_trap pc 0x80000007 (pf_csr s)\<rparr>));
     handler;
     State (\<lambda>s. ((), s\<lparr>pf_csr := csr_mret (pf_csr s)\<rparr>)) }"

section \<open>The programs\<close>

definition GPIO_LED :: u32 where [tb_data]: "GPIO_LED = 0x10000000"
definition GPIO_SW :: u32 where [tb_data]: "GPIO_SW = 0x10000004"
definition UART_DATA :: u32 where [tb_data]: "UART_DATA = 0x10001000"
definition TIMER_MTIME_LO :: u32 where [tb_data]: "TIMER_MTIME_LO = 0x10002000"
definition TIMER_MTIME_HI :: u32 where [tb_data]: "TIMER_MTIME_HI = 0x10002004"
definition TIMER_MTIMECMP_LO :: u32 where [tb_data]: "TIMER_MTIMECMP_LO = 0x10002008"
definition TIMER_MTIMECMP_HI :: u32 where [tb_data]: "TIMER_MTIMECMP_HI = 0x1000200C"
definition MIE_MTIE :: u32 where [tb_data]: "MIE_MTIE = push_bit 7 1"
definition MSTATUS_MIE :: u32 where [tb_data]: "MSTATUS_MIE = push_bit 3 1"

definition uart_putc :: "char \<Rightarrow> ('g platform_scheme, unit) state" where
  "uart_putc c = mmio_store UART_DATA (of_char c)"

text \<open>A C string is the characters up to the first NUL.\<close>

primrec uart_puts :: "string \<Rightarrow> ('g platform_scheme, unit) state" where
  "uart_puts [] = State_Monad.return ()"
| "uart_puts (c # cs) = (if c = CHR 0x00 then State_Monad.return () else do { uart_putc c; uart_puts cs })"

definition rearm :: "u32 \<Rightarrow> ('g platform_scheme, unit) state" where
  "rearm INTERVAL = do {
     lo \<leftarrow> mmio_load TIMER_MTIME_LO;
     hi \<leftarrow> mmio_load TIMER_MTIME_HI;
     let now = (push_bit 32 (ucast hi) OR ucast lo :: u64);
     let next_time = now + ucast INTERVAL;
     mmio_store TIMER_MTIMECMP_HI (ucast (drop_bit 32 next_time));
     mmio_store TIMER_MTIMECMP_LO (ucast next_time) }"

definition crlf :: string where "crlf = [CHR 0x0D, CHR 0x0A]"

text \<open>The first \<open>n\<close> rounds of a loop \<open>while (1)\<close>.\<close>

primrec rounds :: "nat \<Rightarrow> ('s, unit) state \<Rightarrow> ('s, unit) state" where
  "rounds 0 body = State_Monad.return ()"
| "rounds (Suc n) body = do { body; rounds n body }"

definition copy_switches :: "('g platform_scheme, unit) state" where
  "copy_switches = do { sw \<leftarrow> mmio_load GPIO_SW; mmio_store GPIO_LED sw }"

text \<open>gpio_loop.c and uart_hello.c.\<close>

definition gpio_loop_main :: "nat \<Rightarrow> ('g platform_scheme, unit) state" where
  "gpio_loop_main n = rounds n copy_switches"

definition uart_hello_main :: "nat \<Rightarrow> ('g platform_scheme, unit) state" where
  "uart_hello_main n = rounds n (do {
     uart_puts (''hello from rv32i-core'' @ crlf);
     for_range 0 2000000 (\<lambda>i _. State_Monad.return ()) () })"

text \<open>hello.c, with its volatile globals.\<close>

record hello = platform +
  result :: u32
  glob_a :: u32
  glob_b :: u32

definition hello_main :: "('g hello_scheme, int) state" where
  "hello_main = do {
     sum \<leftarrow> for_range 1 11 (\<lambda>i sum. State_Monad.return (sum + word_of_int i)) 0;
     State (\<lambda>s. ((), s\<lparr>result := sum\<rparr>));
     prod \<leftarrow> State (\<lambda>s. (glob_a s * glob_b s, s));
     State (\<lambda>s. ((), s\<lparr>result := prod\<rparr>));
     uart_puts (''hello from rv32i-core'' @ crlf);
     uart_puts (if prod = 165 then ''self-test: PASS'' @ crlf else ''self-test: FAIL'' @ crlf);
     State_Monad.return (if prod = 165 then 0 else 1) }"

text \<open>soc_demo.c; \<open>handler\<close> is the address of \<open>trap_handler\<close>.\<close>

definition demo_INTERVAL :: u32 where "demo_INTERVAL = 75000000"

definition demo_trap_handler :: "u32 \<Rightarrow> ('g platform_scheme, unit) state" where
  "demo_trap_handler INTERVAL = do { uart_puts (''tick'' @ crlf); rearm INTERVAL }"

definition demo_line_1 :: string where
  "demo_line_1 = ''rv32i-core SoC: full system demo'' @ crlf"

definition demo_line_2 :: string where
  "demo_line_2 = ''switches drive the LEDs; a UART tick prints periodically'' @ crlf"

definition demo_init :: "u32 \<Rightarrow> u32 \<Rightarrow> ('g platform_scheme, unit) state" where
  "demo_init INTERVAL handler = do {
     uart_puts demo_line_1;
     uart_puts demo_line_2;
     csrw CSR_MTVEC handler;
     rearm INTERVAL;
     csrw CSR_MIE MIE_MTIE;
     csrs CSR_MSTATUS MSTATUS_MIE }"

definition demo_main :: "nat \<Rightarrow> u32 \<Rightarrow> u32 \<Rightarrow> ('g platform_scheme, unit) state" where
  "demo_main n INTERVAL handler = do { demo_init INTERVAL handler; rounds n copy_switches }"

text \<open>timer_irq.c. Its main loop is interrupted: one step is one test of the loop or one interrupt.\<close>

record tirq = platform +
  handler_count :: u32
  spin_count :: u32
  exit_code :: "int option"  \<comment> \<open>what \<open>main\<close> has returned\<close>

definition tirq_INTERVAL :: u32 where "tirq_INTERVAL = 4000"

definition tirq_trap_handler :: "('g tirq_scheme, unit) state" where
  "tirq_trap_handler = do {
     State (\<lambda>s. ((), s\<lparr>handler_count := handler_count s + 1\<rparr>));
     n \<leftarrow> State (\<lambda>s. (handler_count s, s));
     mmio_store GPIO_LED n;
     rearm tirq_INTERVAL }"

definition tirq_init :: "u32 \<Rightarrow> ('g tirq_scheme, unit) state" where
  "tirq_init handler = do {
     csrw CSR_MTVEC handler;
     rearm tirq_INTERVAL;
     csrw CSR_MIE MIE_MTIE;
     csrs CSR_MSTATUS MSTATUS_MIE }"

definition tirq_loop :: "'g tirq_scheme \<Rightarrow> 'g tirq_scheme" where
  "tirq_loop s =
     (if handler_count s < 5 then s\<lparr>spin_count := spin_count s + 1\<rparr>
      else s\<lparr>exit_code := Some (if 0 < spin_count s \<and> 5 \<le> handler_count s then 0 else 1)\<rparr>)"

inductive tirq_step :: "'g tirq_scheme \<Rightarrow> 'g tirq_scheme \<Rightarrow> bool" where
  time: "exit_code s = None \<Longrightarrow> tirq_step s (s\<lparr>pf_timer := timer_tick (pf_timer s)\<rparr>)"
| loop: "exit_code s = None \<Longrightarrow> tirq_step s (tirq_loop s)"
| interrupt: "exit_code s = None \<Longrightarrow> pf_interrupt_pending s \<Longrightarrow>
    tirq_step s (snd (run_state (interrupted pc tirq_trap_handler) (s\<lparr>pf_wait := ws\<rparr>)))"

section \<open>What the accesses do\<close>

text \<open>The cycles before the next access; no more entry in the list means none.\<close>

definition next_wait :: "'g platform_scheme \<Rightarrow> nat" where
  "next_wait s = (case pf_wait s of [] \<Rightarrow> 0 | n # ns \<Rightarrow> n)"

lemma timer_ticks: "(timer_tick ^^ n) u = u\<lparr>tm_mtime := tm_mtime u + of_nat n\<rparr>"
  by (induction n) (simp_all add: timer_tick_def algebra_simps)

lemma run_elapse:
  "run_state pf_elapse s = ((), s\<lparr>pf_wait := tl (pf_wait s),
     pf_timer := (pf_timer s)\<lparr>tm_mtime := tm_mtime (pf_timer s) + of_nat (next_wait s)\<rparr>\<rparr>)"
  by (cases "pf_wait s") (simp_all add: pf_elapse_def next_wait_def timer_ticks)

lemma run_mmio:
  "run_state (mmio_load a) s = (let s' = snd (run_state pf_elapse s) in
     (if (vbits 31 12 a :: 20 word) = 0x10000 then gpio_read a (pf_gpio s')
      else if (vbits 31 12 a :: 20 word) = 0x10002 then timer_read a (pf_timer s') else 0, s'))"
  "run_state (mmio_store a v) s = ((), let s' = snd (run_state pf_elapse s) in
     if (vbits 31 12 a :: 20 word) = 0x10000 then s'\<lparr>pf_gpio := gpio_out (gpio_write a v 0xF (pf_gpio s'))\<rparr>
     else if (vbits 31 12 a :: 20 word) = 0x10001 then s'\<lparr>pf_uart := pf_uart s' @ [vbits 7 0 v]\<rparr>
     else if (vbits 31 12 a :: 20 word) = 0x10002 then s'\<lparr>pf_timer := timer_write a v 0xF (pf_timer s')\<rparr>
     else s')"
  by (simp_all add: mmio_load_def mmio_store_def run_elapse Let_def)

lemma windows:
  "(vbits 31 12 GPIO_LED :: 20 word) = 0x10000" "(vbits 31 12 GPIO_SW :: 20 word) = 0x10000"
  "(vbits 31 12 UART_DATA :: 20 word) = 0x10001"
  "(vbits 31 12 TIMER_MTIME_LO :: 20 word) = 0x10002" "(vbits 31 12 TIMER_MTIME_HI :: 20 word) = 0x10002"
  "(vbits 31 12 TIMER_MTIMECMP_LO :: 20 word) = 0x10002" "(vbits 31 12 TIMER_MTIMECMP_HI :: 20 word) = 0x10002"
  by (simp_all add: tb_data vbits_def)

lemma timer_registers:
  "timer_read TIMER_MTIME_LO u = vbits 31 0 (tm_mtime u)" "timer_read TIMER_MTIME_HI u = vbits 63 32 (tm_mtime u)"
  "timer_write TIMER_MTIMECMP_LO v strb u = u\<lparr>tm_mtime := tm_mtime u + 1, tm_mtimecmp := vput 31 0 v (tm_mtimecmp u)\<rparr>"
  "timer_write TIMER_MTIMECMP_HI v strb u = u\<lparr>tm_mtime := tm_mtime u + 1, tm_mtimecmp := vput 63 32 v (tm_mtimecmp u)\<rparr>"
  by (simp_all add: tb_data timer_read_def timer_rd_data_def timer_write_def timer_tick_def vbits_def Let_def)

lemma halves_put: "vput 31 0 (ucast (x :: u64) :: u32) (vput 63 32 (ucast (drop_bit 32 x) :: u32) c) = x"
  by (rule bit_word_eqI) (auto simp: bit_simps)

section \<open>What the programs do\<close>

text \<open>\<open>rearm\<close>: two reads of the time, two writes of the deadline.\<close>

definition second_wait :: "'g platform_scheme \<Rightarrow> nat" where
  "second_wait s = next_wait (s\<lparr>pf_wait := tl (pf_wait s)\<rparr>)"

lemma run_rearm:
  assumes "second_wait s \<le> 2 ^ 32"
  defines "t \<equiv> tm_mtime (pf_timer s) + of_nat (next_wait s)"
  shows "\<exists>now ws. run_state (rearm I) s = ((), s\<lparr>pf_wait := ws, pf_timer := (pf_timer s)\<lparr>tm_mtime := now,
      tm_mtimecmp := (if drop_bit 32 t = drop_bit 32 (t + of_nat (second_wait s)) then t else t + 2 ^ 32) + ucast I\<rparr>\<rparr>)"
proof -
  have e: "(of_nat (second_wait s) :: u64) \<le> 2 ^ 32"
    using assms(1) by (simp add: word_le_nat_alt unsigned_of_nat take_bit_nat_eq_self)
  have "\<exists>now ws. run_state (rearm I) s = ((), s\<lparr>pf_wait := ws, pf_timer := (pf_timer s)\<lparr>tm_mtime := now,
      tm_mtimecmp := (push_bit 32 (ucast (vbits 63 32 (t + of_nat (second_wait s)) :: u32)) OR ucast (vbits 31 0 t :: u32))
        + ucast I\<rparr>\<rparr>)"
    unfolding rearm_def Let_def
    by (simp add: run_mmio run_elapse windows timer_registers Let_def halves_put
        t_def second_wait_def next_wait_def add.assoc)
      (intro exI, rule refl)
  then show ?thesis unfolding torn_read [OF e] .
qed

text \<open>\<open>uart_puts\<close>: the bytes of the string, in order, each at its own time.\<close>

definition c_string :: "string \<Rightarrow> u8 list" where
  "c_string cs = map of_char (takeWhile (\<lambda>c. c \<noteq> CHR 0x00) cs)"

lemma low_byte_of_char: "vbits 7 0 (of_char c :: u32) = (of_char c :: u8)"
  by (rule bit_word_eqI) (auto simp: bit_simps of_char_def bit_horner_sum_bit_word_iff nth_Cons')

lemma run_uart_puts:
  "run_state (uart_puts cs) s = ((), s\<lparr>pf_wait := drop (length (c_string cs)) (pf_wait s),
     pf_timer := (pf_timer s)\<lparr>tm_mtime := tm_mtime (pf_timer s) + of_nat (sum_list (take (length (c_string cs)) (pf_wait s)))\<rparr>,
     pf_uart := pf_uart s @ c_string cs\<rparr>)"
proof (induction cs arbitrary: s)
  case Nil
  then show ?case by (simp add: c_string_def)
next
  case (Cons c cs)
  then show ?case
    by (cases "pf_wait s") (simp_all add: c_string_def uart_putc_def run_mmio run_elapse windows next_wait_def
      low_byte_of_char Let_def add.assoc)
qed

lemma c_strings:
  "length (c_string (''tick'' @ crlf)) = 6"
  by (simp add: c_string_def crlf_def)

text \<open>The three CSR writes of the programs, and an interrupt.\<close>

lemma mstatus_set_mie:
  "bit (mstatus_rdata r OR MSTATUS_MIE) 3" "bit (mstatus_rdata r OR MSTATUS_MIE) 7 = mstatus_mpie r"
  "vbits 12 11 (mstatus_rdata r OR MSTATUS_MIE) = mstatus_mpp r"
  unfolding word_eq_iff_bits
  by (simp_all add: mstatus_rdata_def tb_data bit_simps bit_word_cat_iff all_less_numeral all_less_Suc_conv)

lemma run_csrw:
  "run_state (csrw CSR_MTVEC v) s = ((), s\<lparr>pf_csr := (pf_csr s)\<lparr>mtvec := v\<rparr>\<rparr>)"
  "run_state (csrw CSR_MIE MIE_MTIE) s = ((), s\<lparr>pf_csr := (pf_csr s)\<lparr>mie_mtie := True\<rparr>\<rparr>)"
  "run_state (csrs CSR_MSTATUS MSTATUS_MIE) s = ((), s\<lparr>pf_csr := (pf_csr s)\<lparr>mstatus_mie := True\<rparr>\<rparr>)"
proof -
  show "run_state (csrw CSR_MTVEC v) s = ((), s\<lparr>pf_csr := (pf_csr s)\<lparr>mtvec := v\<rparr>\<rparr>)"
    "run_state (csrw CSR_MIE MIE_MTIE) s = ((), s\<lparr>pf_csr := (pf_csr s)\<lparr>mie_mtie := True\<rparr>\<rparr>)"
    by (simp_all add: csrw_def csr_write_def csr_new_def tb_data bit_simps)
  have "csr_write CSR_MSTATUS (csr_new 2 (fst (csr_read (pf_csr s) (pf_irq s) CSR_MSTATUS True True)) MSTATUS_MIE) (pf_csr s)
      = (pf_csr s)\<lparr>mstatus_mie := True, mstatus_mpie := mstatus_mpie (pf_csr s), mstatus_mpp := mstatus_mpp (pf_csr s)\<rparr>"
    by (simp only: csr_write_def csr_read_def csr_new_def fst_conv if_True refl mstatus_set_mie) (simp add: mstatus_set_mie)
  then show "run_state (csrs CSR_MSTATUS MSTATUS_MIE) s = ((), s\<lparr>pf_csr := (pf_csr s)\<lparr>mstatus_mie := True\<rparr>\<rparr>)"
    by (simp add: csrs_def)
qed

lemma csr_trap_and_back:
  "csr_mret (csr_trap pc cause r) = r\<lparr>mepc := pc, mcause := cause, mstatus_mpie := True, mstatus_mpp := 0\<rparr>"
  by (cases r) (simp add: csr_mret_def csr_trap_def bit_simps)

lemma sum_take_Suc: "sum_list (take (Suc k) ws) = sum_list (take k ws) + (case drop k ws of [] \<Rightarrow> (0 :: nat) | n # ns \<Rightarrow> n)"
proof (induction ws arbitrary: k)
  case (Cons w ws)
  then show ?case by (cases k) simp_all
qed simp

text \<open>\<open>rearm\<close> after \<open>k\<close> accesses.\<close>

lemma run_rearm_after:
  assumes "\<forall>n \<in> set ws. n \<le> 2 ^ 32"
    and "pf_wait s = drop k ws" and "tm_mtime (pf_timer s) = m + of_nat (sum_list (take k ws))"
    and k: "k' = Suc k" "k'' = Suc k'"
  defines "t \<equiv> m + of_nat (sum_list (take k' ws))" and "t' \<equiv> m + of_nat (sum_list (take k'' ws))"
  shows "\<exists>now ws. run_state (rearm I) s = ((), s\<lparr>pf_wait := ws, pf_timer := (pf_timer s)\<lparr>tm_mtime := now,
      tm_mtimecmp := (if drop_bit 32 t = drop_bit 32 t' then t else t + 2 ^ 32) + ucast I\<rparr>\<rparr>)"
proof -
  have w: "next_wait s = (case drop k ws of [] \<Rightarrow> 0 | n # ns \<Rightarrow> n)"
    "second_wait s = (case drop (Suc k) ws of [] \<Rightarrow> 0 | n # ns \<Rightarrow> n)"
    by (simp_all add: next_wait_def second_wait_def assms(2) drop_Suc tl_drop)
  have le: "second_wait s \<le> 2 ^ 32"
    using assms(1) set_drop_subset [of "Suc k" ws] unfolding w by (auto split: list.split)
  have t: "tm_mtime (pf_timer s) + of_nat (next_wait s) = t" "t + of_nat (second_wait s) = t'"
    unfolding t_def t'_def w k sum_take_Suc [of "Suc k"] by (simp_all add: sum_take_Suc assms(3) add.assoc)
  show ?thesis using run_rearm [OF le, of I] unfolding t .
qed

section \<open>Properties\<close>

text \<open>
  The demo boots and arms its interrupt. After \<open>main\<close> up to its loop, the transmitter has been
  handed the two banner lines and nothing else, traps go to the handler, and an interrupt is pending
  exactly when the timer's line is high; the time of the first tick is \<open>INTERVAL\<close> after the read of
  the low half of \<open>mtime\<close>, unless that half wraps before the read of the high half.
\<close>

theorem demo_boots:
  assumes "\<forall>n \<in> set (pf_wait s). n \<le> 2 ^ 32"
  shows "let t = tm_mtime (pf_timer s) + of_nat (sum_list (take 93 (pf_wait s)));
             t' = tm_mtime (pf_timer s) + of_nat (sum_list (take 94 (pf_wait s)))
         in case run_state (demo_init INTERVAL handler) s of (_, s') \<Rightarrow>
     pf_uart s' = pf_uart s @ c_string demo_line_1 @ c_string demo_line_2
     \<and> tm_mtimecmp (pf_timer s') = (if drop_bit 32 t = drop_bit 32 t' then t else t + 2 ^ 32) + ucast INTERVAL
     \<and> mtvec (pf_csr s') = handler \<and> pf_interrupt_pending s' = pf_irq s' \<and> pf_gpio s' = pf_gpio s"
proof -
  have len: "length (c_string demo_line_1) = 34" "length (c_string demo_line_2) = 58"
    by (simp_all add: c_string_def demo_line_1_def demo_line_2_def crlf_def)
  define s1 where "s1 = s\<lparr>pf_wait := drop 92 (pf_wait s),
     pf_timer := (pf_timer s)\<lparr>tm_mtime := tm_mtime (pf_timer s) + of_nat (sum_list (take 92 (pf_wait s)))\<rparr>,
     pf_uart := (pf_uart s @ c_string demo_line_1) @ c_string demo_line_2, pf_csr := (pf_csr s)\<lparr>mtvec := handler\<rparr>\<rparr>"
  have sum: "sum_list (take 58 (drop 34 ws)) + sum_list (take 34 ws) = sum_list (take 92 ws)" for ws :: "nat list"
    using take_add [of 34 58 ws] by simp
  have puts: "run_state (do { uart_puts demo_line_1; uart_puts demo_line_2; csrw CSR_MTVEC handler }) s = ((), s1)"
    by (simp add: run_uart_puts run_csrw len s1_def sum [symmetric] algebra_simps)
  obtain now ws where rearm: "run_state (rearm INTERVAL) s1 = ((), s1\<lparr>pf_wait := ws, pf_timer := (pf_timer s1)\<lparr>tm_mtime := now,
      tm_mtimecmp := (let t = tm_mtime (pf_timer s) + of_nat (sum_list (take 93 (pf_wait s)));
             t' = tm_mtime (pf_timer s) + of_nat (sum_list (take 94 (pf_wait s)))
         in (if drop_bit 32 t = drop_bit 32 t' then t else t + 2 ^ 32) + ucast INTERVAL)\<rparr>\<rparr>)"
    using run_rearm_after [OF assms, of s1 92 "tm_mtime (pf_timer s)" 93 94 INTERVAL] by (auto simp: s1_def Let_def)
  have "run_state (demo_init INTERVAL handler) s
    = run_state (do { csrw CSR_MIE MIE_MTIE; csrs CSR_MSTATUS MSTATUS_MIE }) (snd (run_state (rearm INTERVAL) s1))"
    using puts by (simp add: demo_init_def rearm case_prod_beta)
  then show ?thesis
    unfolding rearm by (simp add: run_csrw Let_def pf_interrupt_pending_def pf_irq_def s1_def)
qed

text \<open>The moment the low half of the time wraps between the two reads.\<close>

definition demo_state :: "nat list \<Rightarrow> u64 \<Rightarrow> platform" where
  "demo_state ws t = \<lparr>pf_wait = ws, pf_timer = \<lparr>tm_irq = False, tm_mtime = t, tm_mtimecmp = - 1\<rparr>,
     pf_gpio = \<lparr>gp_led = 0, gp_sw = 0, gp_led_reg = 0\<rparr>, pf_uart = [], pf_csr = csr_reset\<rparr>"

theorem demo_boots_witness:
  "case run_state (demo_init demo_INTERVAL 0x80000040) (demo_state (replicate 93 0 @ [1]) 0xFFFFFFFF) of (_, s') \<Rightarrow>
     tm_mtimecmp (pf_timer s') = 0x1FFFFFFFF + 75000000 \<and> mtvec (pf_csr s') = 0x80000040"
proof -
  have w: "\<forall>n \<in> set (pf_wait (demo_state (replicate 93 0 @ [1]) 0xFFFFFFFF)). n \<le> 2 ^ 32"
    by (simp add: demo_state_def)
  have drops: "drop_bit 32 (0xFFFFFFFF :: u64) \<noteq> drop_bit 32 0x100000000" by simp
  show ?thesis
    using demo_boots [OF w, of demo_INTERVAL "0x80000040"] drops
    by (simp add: demo_state_def Let_def sum_list_replicate demo_INTERVAL_def split: prod.splits)
qed

text \<open>
  C39. A tick of the demo is transparent to the interrupted program. From trap entry to \<open>mret\<close> the
  handler hands exactly the line "tick" to the transmitter, arms the next interrupt \<open>INTERVAL\<close> after
  its read of the low half of the time (2^32 cycles later than that when the low half wraps before
  the read of the high half), and leaves the LEDs, the interrupt enables, the privilege mode and
  \<open>mtvec\<close> as they were.
\<close>

theorem demo_tick:
  assumes "\<forall>n \<in> set (pf_wait s). n \<le> 2 ^ 32"
  shows "let t = tm_mtime (pf_timer s) + of_nat (sum_list (take 7 (pf_wait s)));
             t' = tm_mtime (pf_timer s) + of_nat (sum_list (take 8 (pf_wait s)))
         in case run_state (interrupted pc (demo_trap_handler INTERVAL)) s of (_, s') \<Rightarrow>
     pf_uart s' = pf_uart s @ c_string (''tick'' @ crlf)
     \<and> tm_mtimecmp (pf_timer s') = (if drop_bit 32 t = drop_bit 32 t' then t else t + 2 ^ 32) + ucast INTERVAL
     \<and> pf_gpio s' = pf_gpio s
     \<and> pf_csr s' = (pf_csr s)\<lparr>mepc := pc, mcause := 0x80000007, mstatus_mpie := True, mstatus_mpp := 0\<rparr>"
proof -
  define s1 where "s1 = s\<lparr>pf_csr := csr_trap pc 0x80000007 (pf_csr s), pf_wait := drop 6 (pf_wait s),
     pf_timer := (pf_timer s)\<lparr>tm_mtime := tm_mtime (pf_timer s) + of_nat (sum_list (take 6 (pf_wait s)))\<rparr>,
     pf_uart := pf_uart s @ c_string (''tick'' @ crlf)\<rparr>"
  have puts: "run_state (uart_puts (''tick'' @ crlf)) (s\<lparr>pf_csr := csr_trap pc 0x80000007 (pf_csr s)\<rparr>) = ((), s1)"
    by (simp only: run_uart_puts c_strings) (simp add: s1_def)
  obtain now ws where rearm: "run_state (rearm INTERVAL) s1 = ((), s1\<lparr>pf_wait := ws, pf_timer := (pf_timer s1)\<lparr>tm_mtime := now,
      tm_mtimecmp := (let t = tm_mtime (pf_timer s) + of_nat (sum_list (take 7 (pf_wait s)));
             t' = tm_mtime (pf_timer s) + of_nat (sum_list (take 8 (pf_wait s)))
         in (if drop_bit 32 t = drop_bit 32 t' then t else t + 2 ^ 32) + ucast INTERVAL)\<rparr>\<rparr>)"
    using run_rearm_after [OF assms, of s1 6 "tm_mtime (pf_timer s)" 7 8 INTERVAL] by (auto simp: s1_def Let_def)
  have "run_state (interrupted pc (demo_trap_handler INTERVAL)) s
    = ((), (snd (run_state (rearm INTERVAL) s1))\<lparr>pf_csr := csr_mret (pf_csr (snd (run_state (rearm INTERVAL) s1)))\<rparr>)"
    by (simp add: interrupted_def demo_trap_handler_def puts rearm del: append.simps)
  then show ?thesis
    unfolding rearm by (simp add: Let_def s1_def csr_trap_and_back)
qed

theorem demo_tick_witness:
  "case run_state (interrupted 0x80000100 (demo_trap_handler demo_INTERVAL)) (demo_state [] 0xFFFFFFFF) of (_, s') \<Rightarrow>
     pf_uart s' = c_string (''tick'' @ crlf) \<and> tm_mtimecmp (pf_timer s') = 0xFFFFFFFF + 75000000"
proof -
  have w: "\<forall>n \<in> set (pf_wait (demo_state [] 0xFFFFFFFF)). n \<le> 2 ^ 32" by (simp add: demo_state_def)
  show ?thesis
    using demo_tick [OF w, of demo_INTERVAL "0x80000100"]
    by (simp add: demo_state_def Let_def demo_INTERVAL_def split: prod.splits)
qed

text \<open>The interrupted loop of timer_irq.c: what one interrupt changes, and the invariant of its runs.\<close>

lemma run_rearm_frame: "\<exists>ws u. run_state (rearm I) s = ((), s\<lparr>pf_wait := ws, pf_timer := u\<rparr>)"
  unfolding rearm_def Let_def
  by (simp add: run_mmio run_elapse windows timer_registers Let_def) (intro exI, rule refl)

lemma gpio_led_store:
  "gpio_out (gpio_write GPIO_LED v 0xF u) = u\<lparr>gp_led_reg := v, gp_led := vbits 15 0 v\<rparr>"
  by (simp add: gpio_out_def gpio_write_def tb_data dmem_merge_full)

lemma tirq_handler_frame:
  "\<exists>ws u r. run_state (interrupted pc tirq_trap_handler) s = ((), s\<lparr>pf_wait := ws, pf_timer := u, pf_csr := r,
     pf_gpio := (pf_gpio s)\<lparr>gp_led_reg := handler_count s + 1, gp_led := vbits 15 0 (handler_count s + 1)\<rparr>,
     handler_count := handler_count s + 1\<rparr>)"
proof -
  define s1 where "s1 = s\<lparr>pf_csr := csr_trap pc 0x80000007 (pf_csr s), pf_wait := tl (pf_wait s),
     pf_timer := (pf_timer s)\<lparr>tm_mtime := tm_mtime (pf_timer s) + of_nat (next_wait s)\<rparr>,
     pf_gpio := (pf_gpio s)\<lparr>gp_led_reg := handler_count s + 1, gp_led := vbits 15 0 (handler_count s + 1)\<rparr>,
     handler_count := handler_count s + 1\<rparr>"
  have store: "run_state (mmio_store GPIO_LED (handler_count s + 1))
      (s\<lparr>pf_csr := csr_trap pc 0x80000007 (pf_csr s), handler_count := handler_count s + 1\<rparr>) = ((), s1)"
    by (simp add: run_mmio run_elapse windows gpio_led_store Let_def s1_def next_wait_def)
  obtain ws u where rearm: "run_state (rearm tirq_INTERVAL) s1 = ((), s1\<lparr>pf_wait := ws, pf_timer := u\<rparr>)"
    using run_rearm_frame by blast
  have "run_state (interrupted pc tirq_trap_handler) s
      = ((), s1\<lparr>pf_wait := ws, pf_timer := u, pf_csr := csr_mret (pf_csr s1)\<rparr>)"
    by (simp add: interrupted_def tirq_trap_handler_def store rearm)
  then show ?thesis
    by (intro exI [of _ ws] exI [of _ u] exI [of _ "csr_mret (pf_csr s1)"]) (simp add: s1_def tirq.equality)
qed

definition tirq_inv :: "u8 list \<Rightarrow> 'g tirq_scheme \<Rightarrow> bool" where
  "tirq_inv out t \<longleftrightarrow> gp_led_reg (pf_gpio t) = handler_count t \<and> pf_uart t = out
     \<and> (case exit_code t of None \<Rightarrow> True | Some e \<Rightarrow> 5 \<le> handler_count t \<and> e = (if spin_count t = 0 then 1 else 0))"

lemma tirq_inv_step: "tirq_step s t \<Longrightarrow> tirq_inv out s \<Longrightarrow> tirq_inv out t"
proof (induction rule: tirq_step.induct)
  case (time s)
  then show ?case by (simp add: tirq_inv_def)
next
  case (loop s)
  then show ?case by (auto simp: tirq_inv_def tirq_loop_def word_gt_0 not_less)
next
  case (interrupt s pc ws)
  obtain ws' u r where "run_state (interrupted pc tirq_trap_handler) (s\<lparr>pf_wait := ws\<rparr>) = ((), (s\<lparr>pf_wait := ws\<rparr>)\<lparr>pf_wait := ws', pf_timer := u, pf_csr := r,
     pf_gpio := (pf_gpio (s\<lparr>pf_wait := ws\<rparr>))\<lparr>gp_led_reg := handler_count (s\<lparr>pf_wait := ws\<rparr>) + 1, gp_led := vbits 15 0 (handler_count (s\<lparr>pf_wait := ws\<rparr>) + 1)\<rparr>,
     handler_count := handler_count (s\<lparr>pf_wait := ws\<rparr>) + 1\<rparr>)"
    using tirq_handler_frame by blast
  then show ?case using interrupt by (simp add: tirq_inv_def)
qed


definition tirq_state :: tirq where
  "tirq_state = \<lparr>pf_wait = [], pf_timer = \<lparr>tm_irq = True, tm_mtime = 5, tm_mtimecmp = 4\<rparr>,
     pf_gpio = \<lparr>gp_led = 0, gp_sw = 0, gp_led_reg = 0\<rparr>, pf_uart = [],
     pf_csr = csr_reset\<lparr>mstatus_mie := True, mie_mtie := True\<rparr>,
     handler_count = 0, spin_count = 0, exit_code = None\<rparr>"


text \<open>hello.c prints its two lines, the second one saying PASS, and returns 0.\<close>

lemma run_for_n_pure: "\<exists>b. run_state (for_n n lo (\<lambda>i a. State_Monad.return (f i a)) a) s = (b, s)"
  by (induction n arbitrary: lo a) simp_all

lemma hello_returns:
  assumes "glob_a s = 55" and "glob_b s = 3"
  shows "case run_state hello_main s of (x, s') \<Rightarrow> x = 0 \<and> result s' = 165
    \<and> pf_uart s' = pf_uart s @ c_string (''hello from rv32i-core'' @ crlf) @ c_string (''self-test: PASS'' @ crlf)"
proof -
  obtain b where "run_state (for_range 1 11 (\<lambda>i sum. State_Monad.return (sum + word_of_int i)) (0 :: u32)) s = (b, s)"
    unfolding for_range_def using exE [OF run_for_n_pure] by metis
  then show ?thesis
    using assms by (simp add: hello_main_def run_uart_puts del: append.simps)
qed

end
