(* ===== verification/Spec2Isabelle.thy ===== *)
theory Spec2Isabelle
  imports Alu Branch_Cmp Immgen Decoder Regfile Imem Dmem Csr Gpio Timer Axil_Mem Tb_Axil_Master Selftest Tb_Soc Firmware
begin

text \<open>placeholder\<close>

end
